(* ===== verification/Prelude.thy ===== *)
theory Prelude
  imports Main "HOL-Library.Word" "HOL-Library.Char_ord" "HOL-Library.List_Lexorder"
begin

text \<open>
  Shared types and lemmas of the development: the machine integers of the Rust sources, byte
  strings, the result types, and the pieces of the Rust standard library that the sources call
  (string slicing, decimal formatting and parsing, checked and saturating arithmetic).
  A Rust \<^verbatim>\<open>String\<close> is the list of its UTF-8 bytes, written as characters, so that lengths and
  comparisons count bytes as Rust does.
\<close>

section \<open>Machine integers and byte strings\<close>

type_synonym u8 = "8 word"
type_synonym u16 = "16 word"
type_synonym u32 = "32 word"
type_synonym u64 = "64 word"

text \<open>An \<^verbatim>\<open>i64\<close> is a 64-bit word read with \<^term>\<open>sint\<close>.\<close>

type_synonym i64 = "64 word"
type_synonym bytes = "u8 list"

named_theorems result_simps \<open>inversion of the result combinators\<close>
named_theorems arith_defs \<open>machine arithmetic in terms of nat and int\<close>

definition saturating_add :: "u64 \<Rightarrow> u64 \<Rightarrow> u64" where
  "saturating_add a b = (if unat a + unat b < 2 ^ 64 then a + b else - 1)"

lemma unat_u64_bound: "unat (x :: u64) < 2 ^ 64"
  using unsigned_less [of x, where 'a = nat] by simp

lemma uint_unat_less: "unat (x :: u64) < n \<longleftrightarrow> uint x < int n"
  by (metis of_nat_less_iff of_nat_unat)

lemma unat_saturating_add [arith_defs]:
  "unat (saturating_add a b) = min (unat a + unat b) (2 ^ 64 - 1)"
proof (cases "unat a + unat b < 2 ^ 64")
  case True
  then have "unat (a + b) = unat a + unat b"
    by (simp add: unat_word_ariths)
  with True show ?thesis by (simp add: saturating_add_def)
next
  case False
  have "unat (- 1 :: u64) = 2 ^ 64 - 1"
    by (simp add: unsigned_minus_1_eq_mask mask_eq_exp_minus_1)
  with False show ?thesis by (simp add: saturating_add_def)
qed

lemma saturating_add_ge: "a \<le> saturating_add a b"
  using unat_u64_bound [of a] by (simp add: word_le_nat_alt unat_saturating_add)

text \<open>\<^verbatim>\<open>i64::try_from(u64)\<close> and \<^verbatim>\<open>u64::try_from(i64)\<close>.\<close>

definition i64_try_from_u64 :: "u64 \<Rightarrow> i64 option" where
  "i64_try_from_u64 x = (if unat x < 2 ^ 63 then Some x else None)"

definition u64_try_from_i64 :: "i64 \<Rightarrow> u64 option" where
  "u64_try_from_i64 x = (if 0 \<le> sint x then Some x else None)"

definition i64_max :: i64 where
  "i64_max = 0x7FFFFFFFFFFFFFFF"

definition i64_checked_mul :: "i64 \<Rightarrow> i64 \<Rightarrow> i64 option" where
  "i64_checked_mul a b =
     (let p = sint a * sint b
      in if - (2 ^ 63) \<le> p \<and> p < 2 ^ 63 then Some (word_of_int p) else None)"

lemma sint_of_small_unat: "unat (x :: 64 word) < 2 ^ 63 \<Longrightarrow> sint x = int (unat x)"
proof -
  assume "unat x < 2 ^ 63"
  then have lt: "uint x < 2 ^ 63" by (simp add: uint_unat_less)
  have ge: "- (2 ^ 63) \<le> uint x"
    by (rule order_trans [of _ 0]) simp_all
  have "sint x = signed_take_bit 63 (uint x)" using sint_uint [of x] by simp
  also have "... = uint x" using ge lt by (rule signed_take_bit_int_eq_self)
  finally show ?thesis by simp
qed

lemma small_unat_of_sint:
  "0 \<le> sint (x :: 64 word) \<Longrightarrow> unat x < 2 ^ 63 \<and> int (unat x) = sint x"
proof -
  assume nonneg: "0 \<le> sint x"
  have lt: "sint x < 2 ^ 63" using sint_lt [of x] by simp
  have "uint x = uint (word_of_int (sint x) :: 64 word)" by simp
  also have "... = sint x mod 2 ^ 64" by (simp only: uint_word_of_int) simp
  also have "... = sint x" using nonneg lt by simp
  finally have "uint x = sint x" .
  then show ?thesis using lt by (simp add: uint_unat_less)
qed

lemma sint_word_of_int_small:
  "- (2 ^ 63) \<le> p \<Longrightarrow> p < 2 ^ 63 \<Longrightarrow> sint (word_of_int p :: 64 word) = p"
  by (simp add: sint_sbintrunc' signed_take_bit_int_eq_self)

lemma i64_checked_mul_Some:
  assumes "i64_checked_mul a b = Some c"
  shows "sint c = sint a * sint b"
proof -
  let ?p = "sint a * sint b"
  from assms have "- (2 ^ 63) \<le> ?p" "?p < 2 ^ 63" "c = word_of_int ?p"
    by (simp_all only: i64_checked_mul_def Let_def split: if_splits) simp_all
  then show ?thesis by (simp only: sint_word_of_int_small)
qed

lemma i64_max_values [simp]: "sint i64_max = 2 ^ 63 - 1" "unat i64_max = 2 ^ 63 - 1"
  by (simp_all add: i64_max_def)

section \<open>Results\<close>

text \<open>
  A Rust \<^verbatim>\<open>Result<T, E>\<close> is the sum \<open>'e + 'a\<close>. A handler, whose body can also panic (an
  \<^verbatim>\<open>expect\<close> that fails), returns an \<open>outcome\<close>.
\<close>

abbreviation Ok :: "'a \<Rightarrow> 'e + 'a" where
  "Ok \<equiv> Inr"

abbreviation Err :: "'e \<Rightarrow> 'e + 'a" where
  "Err \<equiv> Inl"

datatype ('e, 'a) outcome = Return 'a | Fail 'e | Panic string

text \<open>The \<^verbatim>\<open>?\<close> operator, \<^verbatim>\<open>map_err\<close>, \<^verbatim>\<open>ok_or\<close>, and an early \<^verbatim>\<open>return Err\<close> under a guard.\<close>

definition try_then :: "'e + 'a \<Rightarrow> ('a \<Rightarrow> 'e + 'b) \<Rightarrow> 'e + 'b" where
  "try_then r k = (case r of Inl e \<Rightarrow> Inl e | Inr x \<Rightarrow> k x)"

definition map_err :: "('e \<Rightarrow> 'f) \<Rightarrow> 'e + 'a \<Rightarrow> 'f + 'a" where
  "map_err f r = (case r of Inl e \<Rightarrow> Inl (f e) | Inr x \<Rightarrow> Inr x)"

definition ok_or :: "'a option \<Rightarrow> 'e \<Rightarrow> 'e + 'a" where
  "ok_or opt e = (case opt of None \<Rightarrow> Inl e | Some x \<Rightarrow> Inr x)"

definition reject_if :: "bool \<Rightarrow> 'e \<Rightarrow> 'e + unit" where
  "reject_if b e = (if b then Inl e else Inr ())"

definition outcome_then ::
  "('e, 'a) outcome \<Rightarrow> ('a \<Rightarrow> ('e, 'b) outcome) \<Rightarrow> ('e, 'b) outcome" where
  "outcome_then r k =
     (case r of Return x \<Rightarrow> k x | Fail e \<Rightarrow> Fail e | Panic msg \<Rightarrow> Panic msg)"

lemma outcome_then_simps [simp]:
  "outcome_then (Return x) k = k x" "outcome_then (Fail e) k = Fail e"
  "outcome_then (Panic msg) k = Panic msg"
  by (simp_all add: outcome_then_def)

lemma outcome_then_Return [result_simps]:
  "outcome_then r k = Return y \<longleftrightarrow> (\<exists>x. r = Return x \<and> k x = Return y)"
  by (cases r) auto

lemma try_then_simps [simp]: "try_then (Inl e) k = Inl e" "try_then (Inr x) k = k x"
  by (simp_all add: try_then_def)

lemma map_err_simps [simp]: "map_err f (Inl e) = Inl (f e)" "map_err f (Inr x) = Inr x"
  by (simp_all add: map_err_def)

lemma ok_or_simps [simp]: "ok_or None e = Inl e" "ok_or (Some x) e = Inr x"
  by (simp_all add: ok_or_def)

lemma reject_if_simps [simp]: "reject_if True e = Inl e" "reject_if False e = Inr ()"
  by (simp_all add: reject_if_def)

lemma try_then_Ok [result_simps]: "try_then r k = Inr y \<longleftrightarrow> (\<exists>x. r = Inr x \<and> k x = Inr y)"
  by (cases r) auto

lemma try_then_Err [result_simps]:
  "try_then r k = Inl e \<longleftrightarrow> r = Inl e \<or> (\<exists>x. r = Inr x \<and> k x = Inl e)"
  by (cases r) auto

lemma map_err_Ok [result_simps]: "map_err f r = Inr y \<longleftrightarrow> r = Inr y"
  by (cases r) auto

lemma map_err_Err [result_simps]: "map_err f r = Inl e \<longleftrightarrow> (\<exists>d. r = Inl d \<and> e = f d)"
  by (cases r) auto

lemma ok_or_Ok [result_simps]: "ok_or opt e = Inr y \<longleftrightarrow> opt = Some y"
  by (cases opt) auto

lemma ok_or_Err [result_simps]: "ok_or opt e = Inl d \<longleftrightarrow> opt = None \<and> d = e"
  by (cases opt) auto

lemma reject_if_Ok [result_simps]: "reject_if b e = Inr u \<longleftrightarrow> \<not> b"
  by (cases b) auto

lemma reject_if_Err [result_simps]: "reject_if b e = Inl d \<longleftrightarrow> b \<and> d = e"
  by (cases b) auto

section \<open>Strings\<close>

definition byte_of_char :: "char \<Rightarrow> u8" where
  "byte_of_char c = word_of_nat (of_char c)"

definition char_of_byte :: "u8 \<Rightarrow> char" where
  "char_of_byte b = char_of (unat b)"

definition as_bytes :: "string \<Rightarrow> bytes" where
  "as_bytes s = map byte_of_char s"

lemma char_of_byte_of_char [simp]: "char_of_byte (byte_of_char c) = c"
proof -
  have "of_char c < (256 :: nat)"
    by simp
  then have "unat (word_of_nat (of_char c) :: u8) = of_char c"
    by (simp add: unat_of_nat)
  then show ?thesis by (simp add: char_of_byte_def byte_of_char_def)
qed

lemma as_bytes_inj [simp]: "as_bytes s = as_bytes t \<longleftrightarrow> s = t"
proof -
  have "inj byte_of_char" by (rule inj_on_inverseI [of _ char_of_byte]) simp
  then show ?thesis by (simp add: as_bytes_def inj_map_eq_map)
qed

lemma length_as_bytes [simp]: "length (as_bytes s) = length s"
  by (simp add: as_bytes_def)

definition is_ascii :: "string \<Rightarrow> bool" where
  "is_ascii s \<longleftrightarrow> list_all (\<lambda>c. of_char c < (128 :: nat)) s"

lemma snoc_eq_split: "x \<notin> set xs \<Longrightarrow> xs @ [x] = ys @ x # zs \<Longrightarrow> ys = xs"
  by (induction xs arbitrary: ys) (auto simp: Cons_eq_append_conv)

lemma is_ascii_simps [simp]:
  "is_ascii []" "is_ascii (c # s) \<longleftrightarrow> of_char c < (128 :: nat) \<and> is_ascii s"
  "is_ascii (s @ t) \<longleftrightarrow> is_ascii s \<and> is_ascii t"
  by (simp_all add: is_ascii_def)

definition starts_with :: "string \<Rightarrow> string \<Rightarrow> bool" where
  "starts_with s p \<longleftrightarrow> take (length p) s = p"

definition strip_prefix :: "string \<Rightarrow> string \<Rightarrow> string option" where
  "strip_prefix s p = (if starts_with s p then Some (drop (length p) s) else None)"

fun split_once :: "string \<Rightarrow> char \<Rightarrow> (string \<times> string) option" where
  "split_once [] d = None"
| "split_once (c # s) d =
     (if c = d then Some ([], s)
      else case split_once s d of None \<Rightarrow> None | Some (l, r) \<Rightarrow> Some (c # l, r))"

definition trim_end_matches :: "string \<Rightarrow> char \<Rightarrow> string" where
  "trim_end_matches s d = rev (dropWhile (\<lambda>c. c = d) (rev s))"

definition trim_matches :: "string \<Rightarrow> char list \<Rightarrow> string" where
  "trim_matches s ds =
     rev (dropWhile (\<lambda>c. c \<in> set ds) (rev (dropWhile (\<lambda>c. c \<in> set ds) s)))"

fun join :: "string list \<Rightarrow> string \<Rightarrow> string" where
  "join [] sep = []"
| "join [s] sep = s"
| "join (s # t # ts) sep = s @ sep @ join (t # ts) sep"

lemma starts_with_append [simp]: "starts_with (p @ s) p"
  by (simp add: starts_with_def)

lemma starts_with_iff: "starts_with s p \<longleftrightarrow> (\<exists>r. s = p @ r)"
  by (metis append_take_drop_id starts_with_append starts_with_def)

lemma strip_prefix_append [simp]: "strip_prefix (p @ s) p = Some s"
  by (simp add: strip_prefix_def)

lemma strip_prefix_Some [result_simps]: "strip_prefix s p = Some r \<longleftrightarrow> s = p @ r"
  by (auto simp: strip_prefix_def starts_with_iff)

lemma strip_prefix_None [result_simps]: "strip_prefix s p = None \<longleftrightarrow> \<not> starts_with s p"
  by (simp add: strip_prefix_def)

lemma split_once_Some [result_simps]:
  "split_once s d = Some (l, r) \<longleftrightarrow> s = l @ d # r \<and> d \<notin> set l"
proof (induction s arbitrary: l)
  case Nil
  then show ?case by simp
next
  case (Cons c s)
  have "split_once (c # s) d = Some (l, r) \<longleftrightarrow>
      (if c = d then l = [] \<and> r = s else \<exists>l'. l = c # l' \<and> split_once s d = Some (l', r))"
    by (auto split: option.split)
  also have "\<dots> \<longleftrightarrow> c # s = l @ d # r \<and> d \<notin> set l"
    using Cons.IH by (cases l) auto
  finally show ?case .
qed

lemma split_once_None [result_simps]: "split_once s d = None \<longleftrightarrow> d \<notin> set s"
  by (induction s) (auto split: option.splits)

lemma split_once_append [simp]: "d \<notin> set l \<Longrightarrow> split_once (l @ d # r) d = Some (l, r)"
  by (simp add: split_once_Some)

lemma trim_end_matches_last: "trim_end_matches s d = [] \<or> last (trim_end_matches s d) \<noteq> d"
  using hd_dropWhile [of "\<lambda>c. c = d" "rev s"]
  by (auto simp: trim_end_matches_def last_rev)

lemma trim_end_matches_split: "\<exists>n. s = trim_end_matches s d @ replicate n d"
proof -
  have tail: "takeWhile (\<lambda>c. c = d) (rev s) = replicate (length (takeWhile (\<lambda>c. c = d) (rev s))) d"
    by (metis (full_types) replicate_length_same set_takeWhileD)
  have "rev s = takeWhile (\<lambda>c. c = d) (rev s) @ dropWhile (\<lambda>c. c = d) (rev s)"
    by simp
  then have "s = trim_end_matches s d @ rev (takeWhile (\<lambda>c. c = d) (rev s))"
    by (metis rev_append rev_rev_ident trim_end_matches_def)
  then show ?thesis by (metis rev_replicate tail)
qed

lemma trim_end_matches_idem [simp]:
  "trim_end_matches (trim_end_matches s d) d = trim_end_matches s d"
  by (simp add: trim_end_matches_def)

subsection \<open>Decimal numbers\<close>

definition digit_char :: "nat \<Rightarrow> char" where
  "digit_char d = char_of (48 + d)"

definition digit_value :: "char \<Rightarrow> nat option" where
  "digit_value c =
     (let n = of_char c in if 48 \<le> n \<and> n \<le> (57 :: nat) then Some (n - 48) else None)"

text \<open>A lower-case hexadecimal digit.\<close>

definition hex_digit :: "nat \<Rightarrow> char" where
  "hex_digit n = ''0123456789abcdef'' ! n"

text \<open>\<^verbatim>\<open>to_string\<close> of an unsigned and of a signed integer.\<close>

fun dec_string :: "nat \<Rightarrow> string" where
  "dec_string n =
     (if n < 10 then [digit_char n] else dec_string (n div 10) @ [digit_char (n mod 10)])"

declare dec_string.simps [simp del]

definition dec_int :: "int \<Rightarrow> string" where
  "dec_int i = (if i < 0 then CHR ''-'' # dec_string (nat (- i)) else dec_string (nat i))"

fun parse_digits :: "nat \<Rightarrow> string \<Rightarrow> nat option" where
  "parse_digits acc [] = Some acc"
| "parse_digits acc (c # s) =
     (case digit_value c of None \<Rightarrow> None | Some d \<Rightarrow> parse_digits (10 * acc + d) s)"

text \<open>
  \<^verbatim>\<open>str::parse\<close> for the unsigned types (the bound is \<open>2 ^ w\<close>) and for \<^verbatim>\<open>i64\<close>: an optional
  sign (\<^verbatim>\<open>-\<close> only for the signed type), at least one digit, no overflow.
\<close>

definition parse_unsigned :: "nat \<Rightarrow> string \<Rightarrow> nat option" where
  "parse_unsigned bound s =
     (let ds = (case s of [] \<Rightarrow> [] | c # r \<Rightarrow> if c = CHR ''+'' then r else s)
      in if ds = [] then None
         else case parse_digits 0 ds of
           None \<Rightarrow> None
         | Some n \<Rightarrow> if n < bound then Some n else None)"

definition parse_u64 :: "string \<Rightarrow> u64 option" where
  "parse_u64 s = map_option word_of_nat (parse_unsigned (2 ^ 64) s)"

definition parse_i64 :: "string \<Rightarrow> i64 option" where
  "parse_i64 s =
     (case s of
        [] \<Rightarrow> None
      | c # r \<Rightarrow>
          if c = CHR ''-''
          then if r = [] then None
               else case parse_digits 0 r of
                 None \<Rightarrow> None
               | Some n \<Rightarrow> if n \<le> 2 ^ 63 then Some (- word_of_nat n) else None
          else map_option word_of_nat (parse_unsigned (2 ^ 63) s))"

lemma digit_value_digit_char [simp]: "d < 10 \<Longrightarrow> digit_value (digit_char d) = Some d"
  by (simp add: digit_value_def digit_char_def Let_def)

lemma parse_digits_append:
  "parse_digits acc (s @ t) =
     (case parse_digits acc s of None \<Rightarrow> None | Some n \<Rightarrow> parse_digits n t)"
  by (induction acc s rule: parse_digits.induct) (auto split: option.splits)

lemma parse_digits_dec_string [simp]: "parse_digits 0 (dec_string n) = Some n"
proof (induction n rule: dec_string.induct)
  case (1 n)
  then show ?case
    by (subst dec_string.simps) (simp add: parse_digits_append)
qed

lemma dec_string_inject [simp]: "dec_string m = dec_string n \<longleftrightarrow> m = n"
  by (metis option.inject parse_digits_dec_string)

lemma dec_string_digits: "c \<in> set (dec_string n) \<Longrightarrow> \<exists>d < 10. c = digit_char d"
proof (induction n rule: dec_string.induct)
  case (1 n)
  then show ?case
    by (subst (asm) dec_string.simps) (auto split: if_splits intro: exI [of _ "n mod 10"])
qed

lemma dec_string_not_Nil [simp]: "dec_string n \<noteq> []"
  by (subst dec_string.simps) simp

lemma digit_value_sign [simp]: "digit_value (CHR ''+'') = None" "digit_value (CHR ''-'') = None"
  by (simp_all add: digit_value_def)

lemma digit_char_no_sign [simp]:
  assumes "d < 10"
  shows "digit_char d \<noteq> CHR ''+''" "digit_char d \<noteq> CHR ''-''"
  using digit_value_digit_char [OF assms] by auto

lemma parse_unsigned_dec_string:
  "n < bound \<Longrightarrow> parse_unsigned bound (dec_string n) = Some n"
proof -
  assume n: "n < bound"
  obtain c s where cs: "dec_string n = c # s"
    using dec_string_not_Nil [of n] by (cases "dec_string n") auto
  then have "c \<noteq> CHR ''+''"
    using dec_string_digits [of c n] by auto
  then show ?thesis
    using n parse_digits_dec_string [of n] by (simp add: parse_unsigned_def cs)
qed

end
