(* ===== verification/Crates.thy ===== *)
theory Crates
  imports Prelude
begin

text \<open>
  The code outside the repository that the sources call. A JSON document is the data type
  \<open>json\<close>; every library function whose source is not in the repository is a field of the
  record \<open>crates\<close>, which the definitions of the other theories take as their argument \<open>C\<close>.
  What the program relies on is stated as laws about \<open>C\<close>, which a theorem that needs one names
  in its hypotheses.
\<close>

section \<open>JSON values\<close>

text \<open>
  \<^verbatim>\<open>serde_json::Value\<close>. The members of an object are listed: in the order of the text for a
  parsed or a serialised document, and in ascending key order without duplicates for a
  \<^verbatim>\<open>serde_json::Map\<close>, which is a \<^verbatim>\<open>BTreeMap\<close>.
\<close>

datatype json =
    JNull
  | JBool bool
  | JInt int
  | JFloat "64 word"
  | JStr string
  | JArr "json list"
  | JObj "(string \<times> json) list"

type_synonym json_map = "(string \<times> json) list"

text \<open>Insertion into a \<^verbatim>\<open>serde_json::Map\<close>: a key that is present gets the new value.\<close>

fun obj_insert :: "string \<Rightarrow> 'a \<Rightarrow> (string \<times> 'a) list \<Rightarrow> (string \<times> 'a) list" where
  "obj_insert k v [] = [(k, v)]"
| "obj_insert k v ((l, w) # ms) =
     (if k = l then (k, v) # ms
      else if k < l then (k, v) # (l, w) # ms
      else (l, w) # obj_insert k v ms)"

fun obj_collect :: "(string \<times> 'a) list \<Rightarrow> (string \<times> 'a) list \<Rightarrow> (string \<times> 'a) list" where
  "obj_collect acc [] = acc"
| "obj_collect acc ((k, v) # ms) = obj_collect (obj_insert k v acc) ms"

abbreviation obj_of :: "(string \<times> 'a) list \<Rightarrow> (string \<times> 'a) list" where
  "obj_of ms \<equiv> obj_collect [] ms"

text \<open>The \<^verbatim>\<open>json!({ .. })\<close> macro.\<close>

abbreviation json_obj :: "(string \<times> json) list \<Rightarrow> json" where
  "json_obj ms \<equiv> JObj (obj_of ms)"

text \<open>A parsed document read as a \<^verbatim>\<open>Value\<close>: every object becomes a map.\<close>

fun to_value :: "json \<Rightarrow> json" where
  "to_value (JArr xs) = JArr (map to_value xs)"
| "to_value (JObj ms) = JObj (obj_of (map (\<lambda>m. (fst m, to_value (snd m))) ms))"
| "to_value j = j"

text \<open>Keys in strictly ascending order: the invariant of \<^verbatim>\<open>serde_json::Map\<close>.\<close>

definition obj_sorted :: "(string \<times> 'a) list \<Rightarrow> bool" where
  "obj_sorted ms \<longleftrightarrow> sorted_wrt (<) (map fst ms)"

lemma obj_insert_keys: "fst ` set (obj_insert k v ms) = insert k (fst ` set ms)"
  by (induction k v ms rule: obj_insert.induct) auto

lemma map_of_obj_insert [simp]: "map_of (obj_insert k v ms) = (map_of ms)(k \<mapsto> v)"
  by (induction k v ms rule: obj_insert.induct) auto

lemma obj_sorted_insert: "obj_sorted ms \<Longrightarrow> obj_sorted (obj_insert k v ms)"
proof (induction k v ms rule: obj_insert.induct)
  case (1 k v)
  then show ?case by (simp add: obj_sorted_def)
next
  case (2 k v l w ms)
  consider "k = l" | "k < l" | "k \<noteq> l" "l < k" by (rule linorder_cases [of k l]) auto
  then show ?case
  proof cases
    case 3
    with 2 have "obj_sorted (obj_insert k v ms)" by (auto simp: obj_sorted_def)
    moreover have "\<forall>x \<in> fst ` set (obj_insert k v ms). l < x"
      using 2 3 by (simp add: obj_insert_keys obj_sorted_def)
    ultimately show ?thesis using 3 by (auto simp: obj_sorted_def dest: order.asym)
  qed (use 2 in \<open>auto simp: obj_sorted_def dest: order.strict_trans\<close>)
qed

lemma obj_sorted_collect: "obj_sorted acc \<Longrightarrow> obj_sorted (obj_collect acc ms)"
  by (induction acc ms rule: obj_collect.induct) (auto simp: obj_sorted_insert)

lemma obj_sorted_of: "obj_sorted (obj_of ms)"
  by (rule obj_sorted_collect) (simp add: obj_sorted_def)

lemma map_of_obj_collect: "map_of (obj_collect acc ms) = map_of acc ++ map_of (rev ms)"
proof (induction acc ms rule: obj_collect.induct)
  case (1 acc)
  then show ?case by simp
next
  case (2 acc k v ms)
  then show ?case by (simp add: map_add_def fun_eq_iff split: option.split)
qed

lemma map_of_obj_of: "map_of (obj_of ms) = map_of (rev ms)"
  by (simp add: map_of_obj_collect)

lemma obj_insert_last: "\<forall>x \<in> fst ` set ms. x < k \<Longrightarrow> obj_insert k v ms = ms @ [(k, v)]"
  by (induction k v ms rule: obj_insert.induct) (auto dest: order.asym)

lemma obj_collect_sorted:
  "sorted_wrt (<) (map fst (acc @ ms)) \<Longrightarrow> obj_collect acc ms = acc @ ms"
proof (induction acc ms rule: obj_collect.induct)
  case (1 acc)
  then show ?case by simp
next
  case (2 acc k v ms)
  then have "obj_insert k v acc = acc @ [(k, v)]"
    by (intro obj_insert_last) (auto simp: sorted_wrt_append)
  with 2 show ?case by simp
qed

lemma obj_of_sorted [simp]: "obj_sorted ms \<Longrightarrow> obj_of ms = ms"
  using obj_collect_sorted [of "[]" ms] by (simp add: obj_sorted_def)

section \<open>HTTP headers\<close>

text \<open>
  \<^verbatim>\<open>http::HeaderMap\<close>: the field lines of a message in order, names in lower case. \<^verbatim>\<open>get\<close> is the
  first line of a name, \<^verbatim>\<open>get_all\<close> all of them.
\<close>

type_synonym header_map = "(string \<times> bytes) list"

definition header_get :: "header_map \<Rightarrow> string \<Rightarrow> bytes option" where
  "header_get hs name = map_of hs name"

definition header_get_all :: "header_map \<Rightarrow> string \<Rightarrow> bytes list" where
  "header_get_all hs name = map snd (filter (\<lambda>h. fst h = name) hs)"

section \<open>Lightning invoices and node keys\<close>

text \<open>
  A \<^verbatim>\<open>secp256k1::PublicKey\<close> is its 33-byte compressed serialisation. A parsed
  \<^verbatim>\<open>SignedRawBolt11Invoice\<close> is the values of the accessors that the sources call on it: the
  signature check, the known tagged fields, the raw amount and its value in pico-BTC, the
  explicit payee field, the key recovered from the signature, the currency, the timestamp and
  the explicit expiry.
\<close>

type_synonym pubkey = bytes

datatype currency = Bitcoin | BitcoinTestnet | Regtest | Simnet | SignetCurrency

datatype tagged_field =
    PaymentHash bytes
  | Description string
  | DescriptionHash bytes
  | OtherField

record signed_invoice =
  check_signature :: bool
  known_tagged_fields :: "tagged_field list"
  raw_amount :: "u64 option"
  amount_pico_btc :: "u64 option"
  payee_pub_key :: "pubkey option"
  recover_payee_pub_key :: "pubkey option"
  invoice_currency :: currency
  invoice_timestamp :: u64
  expiry_time :: "u64 option"

section \<open>The library functions\<close>

text \<open>
  \<^item> \<open>sha256\<close>, \<open>hmac_sha256\<close> (key, message): crates \<^verbatim>\<open>sha2\<close> and \<^verbatim>\<open>hmac\<close> (whose
    \<^verbatim>\<open>new_from_slice\<close> takes a key of any length);
  \<^item> \<open>hex_encode\<close>, \<open>hex_decode\<close>, \<open>b64_encode\<close>, \<open>b64_decode\<close>: crates \<^verbatim>\<open>hex\<close> and
    \<^verbatim>\<open>base64\<close> (standard alphabet); an error is its displayed text;
  \<^item> \<open>json_to_vec\<close>, \<open>json_parse\<close>: the JSON text of a document, and its parser, which keeps
    the members of an object in the order of the text; \<open>json_data_error\<close>: the message about a
    well-formed text that does not have the expected fields; \<open>jcs_to_vec\<close>: crate \<^verbatim>\<open>serde_jcs\<close>;
  \<^item> \<open>header_to_str\<close>: \<^verbatim>\<open>HeaderValue::to_str\<close>; \<open>header_from_str\<close>: \<^verbatim>\<open>HeaderValue::from_str\<close>;
  \<^item> \<open>bolt11_from_str\<close>: the parser of \<^verbatim>\<open>lightning-invoice\<close>; \<open>pubkey_to_string\<close>,
    \<open>pubkey_from_str\<close>: crate \<^verbatim>\<open>secp256k1\<close>;
  \<^item> \<open>uri_parse\<close>: \<^verbatim>\<open>http::Uri\<close>, as its scheme and authority.
\<close>

record crates =
  sha256 :: "bytes \<Rightarrow> bytes"
  hmac_sha256 :: "bytes \<Rightarrow> bytes \<Rightarrow> bytes"
  hex_encode :: "bytes \<Rightarrow> string"
  hex_decode :: "string \<Rightarrow> string + bytes"
  b64_encode :: "bytes \<Rightarrow> string"
  b64_decode :: "string \<Rightarrow> string + bytes"
  json_to_vec :: "json \<Rightarrow> string + bytes"
  json_parse :: "bytes \<Rightarrow> string + json"
  json_data_error :: "bytes \<Rightarrow> string"
  jcs_to_vec :: "json \<Rightarrow> string + bytes"
  header_to_str :: "bytes \<Rightarrow> string option"
  header_from_str :: "string \<Rightarrow> bytes option"
  bolt11_from_str :: "string \<Rightarrow> signed_invoice option"
  pubkey_to_string :: "pubkey \<Rightarrow> string"
  pubkey_from_str :: "string \<Rightarrow> pubkey option"
  uri_parse :: "string \<Rightarrow> string + (string option \<times> string option)"

text \<open>The documented laws that theorems name.\<close>

definition is_hex_lower :: "char \<Rightarrow> bool" where
  "is_hex_lower c \<longleftrightarrow> c \<in> set ''0123456789abcdef''"

definition hex_roundtrip :: "crates \<Rightarrow> bool" where
  "hex_roundtrip C \<longleftrightarrow> (\<forall>bs. hex_decode C (hex_encode C bs) = Ok bs)"

definition hex_lower :: "crates \<Rightarrow> bool" where
  "hex_lower C \<longleftrightarrow>
     (\<forall>bs. length (hex_encode C bs) = 2 * length bs \<and> list_all is_hex_lower (hex_encode C bs))"

definition hex_canonical :: "crates \<Rightarrow> bool" where
  "hex_canonical C \<longleftrightarrow>
     (\<forall>s. even (length s) \<and> list_all is_hex_lower s \<longrightarrow>
        (\<exists>bs. hex_decode C s = Ok bs \<and> hex_encode C bs = s))"

definition b64_roundtrip :: "crates \<Rightarrow> bool" where
  "b64_roundtrip C \<longleftrightarrow> (\<forall>bs. b64_decode C (b64_encode C bs) = Ok bs)"

definition hmac_length :: "crates \<Rightarrow> bool" where
  "hmac_length C \<longleftrightarrow> (\<forall>k m. length (hmac_sha256 C k m) = 32)"

definition sha256_length :: "crates \<Rightarrow> bool" where
  "sha256_length C \<longleftrightarrow> (\<forall>m. length (sha256 C m) = 32)"

text \<open>Base64 text has no colon, quote or control character.\<close>

definition is_base64_char :: "char \<Rightarrow> bool" where
  "is_base64_char c \<longleftrightarrow>
     c \<in> set ''ABCDEFGHIJKLMNOPQRSTUVWXYZabcdefghijklmnopqrstuvwxyz0123456789+/=''"

definition b64_alphabet :: "crates \<Rightarrow> bool" where
  "b64_alphabet C \<longleftrightarrow> (\<forall>bs. list_all is_base64_char (b64_encode C bs))"

text \<open>Visible ASCII text is a header value, and a header value of visible ASCII is text.\<close>

definition visible_ascii :: "string \<Rightarrow> bool" where
  "visible_ascii s \<longleftrightarrow> list_all (\<lambda>c. (32 :: nat) \<le> of_char c \<and> of_char c < (127 :: nat)) s"

definition ascii_headers :: "crates \<Rightarrow> bool" where
  "ascii_headers C \<longleftrightarrow>
     (\<forall>s. visible_ascii s \<longrightarrow>
        header_from_str C s = Some (as_bytes s) \<and> header_to_str C (as_bytes s) = Some s)"

text \<open>Serialising a document to JSON text succeeds.\<close>

definition json_writes :: "crates \<Rightarrow> bool" where
  "json_writes C \<longleftrightarrow> (\<forall>j. \<not> isl (json_to_vec C j))"

text \<open>Two different inputs that a function does not tell apart.\<close>

definition collides :: "('a \<Rightarrow> 'b) \<Rightarrow> 'a \<Rightarrow> 'a \<Rightarrow> bool" where
  "collides f x y \<longleftrightarrow> x \<noteq> y \<and> f x = f y"

lemma json_writes_Ok: "json_writes C \<Longrightarrow> \<exists>v. json_to_vec C j = Ok v"
  by (cases "json_to_vec C j") (auto simp: json_writes_def dest: spec [of _ j])

lemma hex_encode_inj: "hex_roundtrip C \<Longrightarrow> hex_encode C x = hex_encode C y \<longleftrightarrow> x = y"
  by (metis hex_roundtrip_def sum.inject(2))

lemma is_base64_char_no_colon: "is_base64_char c \<Longrightarrow> c \<noteq> CHR '':''"
  by (auto simp: is_base64_char_def)

lemma is_base64_char_no_quote: "is_base64_char c \<Longrightarrow> c \<noteq> CHR 0x22"
  by (auto simp: is_base64_char_def)

lemma b64_encode_no_quote: "b64_alphabet C \<Longrightarrow> CHR 0x22 \<notin> set (b64_encode C bs)"
  by (auto simp: b64_alphabet_def list_all_iff dest: is_base64_char_no_quote)

lemma b64_encode_no_colon: "b64_alphabet C \<Longrightarrow> CHR '':'' \<notin> set (b64_encode C bs)"
  by (auto simp: b64_alphabet_def list_all_iff dest: is_base64_char_no_colon)

lemma visible_ascii_append [simp]: "visible_ascii (s @ t) \<longleftrightarrow> visible_ascii s \<and> visible_ascii t"
  by (simp add: visible_ascii_def)

lemma visible_ascii_Cons [simp]:
  "visible_ascii (c # s) \<longleftrightarrow> (32 :: nat) \<le> of_char c \<and> of_char c < (127 :: nat) \<and> visible_ascii s"
  by (simp add: visible_ascii_def)

lemma visible_ascii_Nil [simp]: "visible_ascii []"
  by (simp add: visible_ascii_def)

lemma b64_encode_visible: "b64_alphabet C \<Longrightarrow> visible_ascii (b64_encode C bs)"
  by (fastforce simp: b64_alphabet_def visible_ascii_def is_base64_char_def list_all_iff)

lemma hex_encode_visible: "hex_lower C \<Longrightarrow> visible_ascii (hex_encode C bs)"
  by (fastforce simp: hex_lower_def visible_ascii_def is_hex_lower_def list_all_iff)

lemma ascii_header_value:
  assumes "ascii_headers C" "visible_ascii s"
  shows "header_from_str C s = Some (as_bytes s)" "header_to_str C (as_bytes s) = Some s"
  using assms by (simp_all add: ascii_headers_def)

lemma b64_header_value:
  "ascii_headers C \<Longrightarrow> b64_alphabet C \<Longrightarrow> header_from_str C (b64_encode C bs) \<noteq> None"
  using ascii_header_value b64_encode_visible by blast

section \<open>Codecs\<close>

text \<open>
  The interface of an encoder and its decoder. A codec on values that need the libraries is
  interpreted on pairs \<open>(C, x)\<close>, with the law it relies on as part of its domain.
\<close>

locale codec =
  fixes enc :: "'a \<Rightarrow> 'b" and dec :: "'b \<Rightarrow> 'e + 'a" and wf :: "'a \<Rightarrow> bool"
  assumes dec_enc: "wf x \<Longrightarrow> dec (enc x) = Ok x"
begin

lemma enc_inj: "wf x \<Longrightarrow> wf y \<Longrightarrow> enc x = enc y \<longleftrightarrow> x = y"
  by (metis dec_enc sum.inject(2))

lemma enc_not_rejected: "wf x \<Longrightarrow> dec (enc x) \<noteq> Err e"
  by (simp add: dec_enc)

end

text \<open>Decimal formatting and parsing of a \<^verbatim>\<open>u64\<close>.\<close>

lemma parse_u64_dec_string [simp]: "parse_u64 (dec_string (unat x)) = Some x"
  using unat_u64_bound [of x] by (simp add: parse_u64_def parse_unsigned_dec_string)

interpretation decimal: codec "\<lambda>x :: u64. dec_string (unat x)" "\<lambda>s. ok_or (parse_u64 s) ()" "\<lambda>_. True"
  by unfold_locales simp

end
