(* ===== verification/Reference_Crates.thy ===== *)
theory Reference_Crates
  imports Crates
begin

text \<open>
  Concrete library functions on which the hypotheses of the theorems are shown to hold
  together: hexadecimal and base64 as documented, a printer of JSON, and stand-ins for the
  cryptography (a digest that keeps the first 32 bytes). The texts that parse as JSON and as
  BOLT11 are given by tables. Nothing in the model of the program depends on this theory; only
  the examples do.
\<close>

section \<open>Hexadecimal\<close>

definition hex_value :: "char \<Rightarrow> nat option" where
  "hex_value c =
     (let n = (of_char c :: nat)
      in if 48 \<le> n \<and> n \<le> 57 then Some (n - 48)
         else if 97 \<le> n \<and> n \<le> 102 then Some (n - 87)
         else if 65 \<le> n \<and> n \<le> 70 then Some (n - 55)
         else None)"

fun ref_hex_encode :: "bytes \<Rightarrow> string" where
  "ref_hex_encode [] = []"
| "ref_hex_encode (b # bs) =
     hex_digit (unat b div 16) # hex_digit (unat b mod 16) # ref_hex_encode bs"

fun ref_hex_decode :: "string \<Rightarrow> string + bytes" where
  "ref_hex_decode [] = Ok []"
| "ref_hex_decode [c] = Err ''Odd number of digits''"
| "ref_hex_decode (c # d # s) =
     (case (hex_value c, hex_value d) of
        (Some h, Some l) \<Rightarrow>
          try_then (ref_hex_decode s) (\<lambda>bs. Ok (word_of_nat (16 * h + l) # bs))
      | _ \<Rightarrow> Err ''Invalid character'')"

lemma hex_table:
  "list_all (\<lambda>n. hex_value (hex_digit n) = Some n \<and> is_hex_lower (hex_digit n)) [0..<16]"
  by (simp add: hex_value_def hex_digit_def is_hex_lower_def upt_rec)

lemma hex_digits [simp]:
  assumes "n < 16"
  shows "hex_value (hex_digit n) = Some n" "is_hex_lower (hex_digit n)"
  using hex_table assms by (simp_all add: list_all_iff)

lemma unat_u8_bound: "unat (b :: u8) < 256"
  using unsigned_less [of b, where 'a = nat] by simp

lemma ref_hex_roundtrip: "ref_hex_decode (ref_hex_encode bs) = Ok bs"
proof (induction bs)
  case Nil
  then show ?case by simp
next
  case (Cons b bs)
  have "unat b div 16 < 16" using unat_u8_bound [of b] by (simp add: less_mult_imp_div_less)
  moreover have "16 * (unat b div 16) + unat b mod 16 = unat b" by simp
  ultimately show ?case using Cons by simp
qed

lemma ref_hex_lower:
  "length (ref_hex_encode bs) = 2 * length bs \<and> list_all is_hex_lower (ref_hex_encode bs)"
proof (induction bs)
  case Nil
  then show ?case by simp
next
  case (Cons b bs)
  have "unat b div 16 < 16" using unat_u8_bound [of b] by (simp add: less_mult_imp_div_less)
  with Cons show ?case by simp
qed

lemma hex_value_lower: "is_hex_lower c \<Longrightarrow> hex_value c \<noteq> None"
  by (auto simp: is_hex_lower_def hex_value_def)

lemma ref_hex_decode_lower:
  "even (length s) \<Longrightarrow> list_all is_hex_lower s \<Longrightarrow> \<exists>bs. ref_hex_decode s = Ok bs"
proof (induction s rule: ref_hex_decode.induct)
  case 1
  then show ?case by simp
next
  case (2 c)
  then show ?case by simp
next
  case (3 c d s)
  from 3(3) have "hex_value c \<noteq> None" "hex_value d \<noteq> None"
    by (auto dest: hex_value_lower)
  then obtain h l where hl: "hex_value c = Some h" "hex_value d = Some l" by auto
  from 3(2,3) have "even (length s)" "list_all is_hex_lower s" by simp_all
  with 3(1) [OF refl hl] obtain bs where "ref_hex_decode s = Ok bs" by blast
  with hl show ?case by simp
qed

lemma hex_value_canonical:
  "is_hex_lower c \<Longrightarrow> \<exists>n < 16. hex_value c = Some n \<and> hex_digit n = c"
  by (auto simp: is_hex_lower_def hex_value_def hex_digit_def)

lemma ref_hex_canonical:
  "even (length s) \<Longrightarrow> list_all is_hex_lower s \<Longrightarrow> \<exists>bs. ref_hex_decode s = Ok bs \<and> ref_hex_encode bs = s"
proof (induction s rule: ref_hex_decode.induct)
  case (3 c d s)
  then obtain h l where hl: "h < 16" "hex_value c = Some h" "hex_digit h = c"
    "l < 16" "hex_value d = Some l" "hex_digit l = d"
    using hex_value_canonical [of c] hex_value_canonical [of d] by auto
  obtain bs where bs: "ref_hex_decode s = Ok bs" "ref_hex_encode bs = s"
    using 3 hl(2,5) by auto
  have "16 * h + l < 256" using hl(1,4) by simp
  then have "unat (word_of_nat (16 * h + l) :: u8) = 16 * h + l"
    by (simp add: unat_of_nat del: of_nat_add of_nat_mult)
  then show ?case using hl bs by (simp add: div_mult_self4)
qed simp_all

section \<open>Base64\<close>

definition b64_letters :: string where
  "b64_letters = ''ABCDEFGHIJKLMNOPQRSTUVWXYZabcdefghijklmnopqrstuvwxyz0123456789+/''"

definition b64_char :: "nat \<Rightarrow> char" where
  "b64_char n = b64_letters ! n"

definition b64_value :: "char \<Rightarrow> nat option" where
  "b64_value c =
     (let n = (of_char c :: nat)
      in if 65 \<le> n \<and> n \<le> 90 then Some (n - 65)
         else if 97 \<le> n \<and> n \<le> 122 then Some (n - 71)
         else if 48 \<le> n \<and> n \<le> 57 then Some (n + 4)
         else if n = 43 then Some 62
         else if n = 47 then Some 63
         else None)"

fun b64_groups :: "nat list \<Rightarrow> string" where
  "b64_groups [] = []"
| "b64_groups [a] = [b64_char (a div 4), b64_char (a mod 4 * 16), CHR ''='', CHR ''='']"
| "b64_groups [a, b] =
     [b64_char (a div 4), b64_char (a mod 4 * 16 + b div 16), b64_char (b mod 16 * 4), CHR ''='']"
| "b64_groups (a # b # c # r) =
     b64_char (a div 4) # b64_char (a mod 4 * 16 + b div 16) #
     b64_char (b mod 16 * 4 + c div 64) # b64_char (c mod 64) # b64_groups r"

fun b64_ungroup :: "string \<Rightarrow> nat list option" where
  "b64_ungroup [] = Some []"
| "b64_ungroup (p # q # y # z # r) =
     (case (b64_value p, b64_value q) of
        (Some v, Some w) \<Rightarrow>
          if r = [] \<and> y = CHR ''='' \<and> z = CHR ''='' then Some [v * 4 + w div 16]
          else (case b64_value y of
                  None \<Rightarrow> None
                | Some x \<Rightarrow>
                    if r = [] \<and> z = CHR ''='' then Some [v * 4 + w div 16, w mod 16 * 16 + x div 4]
                    else (case b64_value z of
                            None \<Rightarrow> None
                          | Some u \<Rightarrow>
                              map_option (\<lambda>ns. (v * 4 + w div 16) # (w mod 16 * 16 + x div 4) #
                                                (x mod 4 * 64 + u) # ns) (b64_ungroup r)))
      | _ \<Rightarrow> None)"
| "b64_ungroup _ = None"

definition ref_b64_encode :: "bytes \<Rightarrow> string" where
  "ref_b64_encode bs = b64_groups (map unat bs)"

definition ref_b64_decode :: "string \<Rightarrow> string + bytes" where
  "ref_b64_decode s =
     (case b64_ungroup s of None \<Rightarrow> Err ''Invalid input'' | Some ns \<Rightarrow> Ok (map word_of_nat ns))"

lemma b64_table: "map b64_value b64_letters = map Some [0..<64]"
  by (simp add: b64_letters_def b64_value_def upt_rec)

lemma b64_letters_ok: "list_all (\<lambda>c. is_base64_char c \<and> c \<noteq> CHR ''='') b64_letters"
  by (simp add: b64_letters_def is_base64_char_def)

lemma b64_digit [simp]:
  assumes "n < 64"
  shows "b64_value (b64_char n) = Some n" "is_base64_char (b64_char n)" "b64_char n \<noteq> CHR ''=''"
proof -
  have len: "length b64_letters = 64" by (simp add: b64_letters_def)
  have "map b64_value b64_letters ! n = Some n" using assms b64_table by simp
  then show "b64_value (b64_char n) = Some n" using assms len by (simp add: b64_char_def)
  have "b64_char n \<in> set b64_letters" using assms len by (simp add: b64_char_def)
  then show "is_base64_char (b64_char n)" "b64_char n \<noteq> CHR ''=''"
    using b64_letters_ok by (auto simp: list_all_iff)
qed

lemma is_base64_pad [simp]: "is_base64_char CHR ''=''"
  by (simp add: is_base64_char_def)

lemma div4_less [simp]: "(n :: nat) < 256 \<Longrightarrow> n div 4 < 64"
  by simp

lemma sextet2_less [simp]: "(b :: nat) < 256 \<Longrightarrow> a mod 4 * 16 + b div 16 < 64"
proof -
  assume "b < 256"
  then have "b div 16 < 16" by (simp add: less_mult_imp_div_less)
  moreover have "a mod 4 \<le> 3" using mod_less_divisor [of 4 a] by simp
  ultimately show ?thesis by linarith
qed

lemma sextet3_less [simp]: "(c :: nat) < 256 \<Longrightarrow> b mod 16 * 4 + c div 64 < 64"
proof -
  assume "c < 256"
  then have "c div 64 < 4" by (simp add: less_mult_imp_div_less)
  moreover have "b mod 16 \<le> 15" using mod_less_divisor [of 16 b] by simp
  ultimately show ?thesis by linarith
qed

lemma octets_back:
  assumes "(b :: nat) < 256" "(c :: nat) < 256"
  shows "a div 4 * 4 + (a mod 4 * 16 + b div 16) div 16 = a"
    "(a mod 4 * 16 + b div 16) mod 16 * 16 + (b mod 16 * 4 + c div 64) div 4 = b"
    "(b mod 16 * 4 + c div 64) mod 4 * 64 + c mod 64 = c"
proof -
  have b: "b div 16 < 16" and c: "c div 64 < 4"
    using assms by (simp_all add: less_mult_imp_div_less)
  show "a div 4 * 4 + (a mod 4 * 16 + b div 16) div 16 = a" using b by simp
  show "(a mod 4 * 16 + b div 16) mod 16 * 16 + (b mod 16 * 4 + c div 64) div 4 = b"
    using b c by simp
  show "(b mod 16 * 4 + c div 64) mod 4 * 64 + c mod 64 = c" using c by simp
qed

lemma b64_ungroup_groups: "list_all (\<lambda>n. n < 256) ns \<Longrightarrow> b64_ungroup (b64_groups ns) = Some ns"
proof (induction ns rule: b64_groups.induct)
  case 1
  then show ?case by simp
next
  case (2 a)
  then show ?case using octets_back(1) [where a = a and b = 0] sextet2_less [of 0 a] by simp
next
  case (3 a b)
  then show ?case
    using octets_back(1,2) [where a = a and b = b and c = 0] sextet3_less [of 0 b] sextet2_less [of b a] by simp
next
  case (4 a b c r)
  then show ?case using octets_back(1,2) [where a = a and b = b and c = c] octets_back(3) [where b = b and c = c]
    by simp
qed

lemma ref_b64_roundtrip: "ref_b64_decode (ref_b64_encode bs) = Ok bs"
  by (simp add: ref_b64_decode_def ref_b64_encode_def b64_ungroup_groups list_all_iff
      unat_u8_bound o_def)

lemma b64_groups_chars: "list_all (\<lambda>n. n < 256) ns \<Longrightarrow> list_all is_base64_char (b64_groups ns)"
proof (induction ns rule: b64_groups.induct)
  case (2 a)
  then show ?case using sextet2_less [of 0 a] by simp
next
  case (3 a b)
  then show ?case using sextet3_less [of 0 b] by simp
qed simp_all

section \<open>JSON text\<close>

fun print_json :: "json \<Rightarrow> string" where
  "print_json JNull = ''null''"
| "print_json (JBool b) = (if b then ''true'' else ''false'')"
| "print_json (JInt i) = dec_int i"
| "print_json (JFloat w) = dec_string (unat w)"
| "print_json (JStr s) = CHR 0x22 # s @ [CHR 0x22]"
| "print_json (JArr js) = CHR ''['' # join (map print_json js) '','' @ '']''"
| "print_json (JObj ms) =
     CHR ''{'' # join (map (\<lambda>m. CHR 0x22 # fst m @ [CHR 0x22] @ '':'' @ print_json (snd m)) ms) '','' @ ''}''"

section \<open>The record\<close>

definition ref_digest :: "bytes \<Rightarrow> bytes" where
  "ref_digest m = take 32 (m @ replicate 32 0)"

definition visible :: "bytes \<Rightarrow> string option" where
  "visible v =
     (if list_all (\<lambda>b. 32 \<le> unat b \<and> unat b < 127 \<or> b = 9) v then Some (map char_of_byte v) else None)"

definition ref_crates :: "(bytes \<times> json) list \<Rightarrow> (string \<times> signed_invoice) list \<Rightarrow> crates" where
  "ref_crates docs invoices =
     \<lparr>sha256 = ref_digest,
      hmac_sha256 = (\<lambda>k m. ref_digest (rev m @ k)),
      hex_encode = ref_hex_encode,
      hex_decode = ref_hex_decode,
      b64_encode = ref_b64_encode,
      b64_decode = ref_b64_decode,
      json_to_vec = (\<lambda>j. Ok (as_bytes (print_json j))),
      json_parse = (\<lambda>bs. ok_or (map_of docs bs) ''expected value''),
      json_data_error = (\<lambda>_. ''invalid type''),
      jcs_to_vec = (\<lambda>j. Ok (as_bytes (print_json j))),
      header_to_str = visible,
      header_from_str = (\<lambda>s. Some (as_bytes s)),
      bolt11_from_str = map_of invoices,
      pubkey_to_string = ref_hex_encode,
      pubkey_from_str = (\<lambda>s. case ref_hex_decode s of Inl _ \<Rightarrow> None | Inr k \<Rightarrow> Some k),
      uri_parse = (\<lambda>s. case split_once s CHR '':'' of
                          Some (scheme, CHR 0x2F # CHR 0x2F # authority) \<Rightarrow> Ok (Some scheme, Some authority)
                        | _ \<Rightarrow> Err ''invalid uri'')\<rparr>"

lemma ref_crates_simps [simp]:
  "sha256 (ref_crates d i) = ref_digest"
  "hmac_sha256 (ref_crates d i) k m = ref_digest (rev m @ k)"
  "hex_encode (ref_crates d i) = ref_hex_encode"
  "hex_decode (ref_crates d i) = ref_hex_decode"
  "b64_encode (ref_crates d i) = ref_b64_encode"
  "b64_decode (ref_crates d i) = ref_b64_decode"
  "json_to_vec (ref_crates d i) j = Ok (as_bytes (print_json j))"
  "json_parse (ref_crates d i) bs = ok_or (map_of d bs) ''expected value''"
  "jcs_to_vec (ref_crates d i) j = Ok (as_bytes (print_json j))"
  "header_to_str (ref_crates d i) = visible"
  "header_from_str (ref_crates d i) s = Some (as_bytes s)"
  "bolt11_from_str (ref_crates d i) = map_of i"
  "pubkey_to_string (ref_crates d i) = ref_hex_encode"
  by (simp_all add: ref_crates_def)

lemma unat_byte_of_char: "unat (byte_of_char c) = of_char c"
  by (simp add: byte_of_char_def unat_of_nat)

lemma visible_as_bytes: "visible_ascii s \<Longrightarrow> visible (as_bytes s) = Some s"
  by (auto simp: visible_ascii_def visible_def as_bytes_def list_all_iff unat_byte_of_char o_def)

lemma length_ref_digest [simp]: "length (ref_digest m) = 32"
  by (simp add: ref_digest_def min_def)

lemma ref_laws [simp]:
  "hex_roundtrip (ref_crates d i)" "hex_lower (ref_crates d i)" "hex_canonical (ref_crates d i)"
  "b64_roundtrip (ref_crates d i)" "b64_alphabet (ref_crates d i)"
  "sha256_length (ref_crates d i)" "hmac_length (ref_crates d i)"
  "ascii_headers (ref_crates d i)" "json_writes (ref_crates d i)"
proof -
  have "list_all is_base64_char (ref_b64_encode bs)" for bs
    unfolding ref_b64_encode_def
    by (rule b64_groups_chars) (simp add: list_all_iff unat_u8_bound)
  then show "b64_alphabet (ref_crates d i)" by (simp add: b64_alphabet_def)
qed (simp_all add: hex_roundtrip_def ref_hex_roundtrip hex_lower_def ref_hex_lower hex_canonical_def
    ref_hex_canonical
    b64_roundtrip_def ref_b64_roundtrip sha256_length_def hmac_length_def json_writes_def
    ascii_headers_def visible_as_bytes)

text \<open>The preimage, the node and the invoice of the examples: one satoshi, for a given request hash.\<close>

definition ex_preimage :: bytes where
  "ex_preimage = replicate 32 7"

definition ex_node_key :: pubkey where
  "ex_node_key = replicate 33 2"

lemma length_ex_preimage [simp]: "length ex_preimage = 32"
  by (simp add: ex_preimage_def)

lemma ref_digest_32 [simp]: "length m = 32 \<Longrightarrow> ref_digest m = m"
  by (simp add: ref_digest_def)

definition ex_raw :: "bytes \<Rightarrow> signed_invoice" where
  "ex_raw h =
     \<lparr>check_signature = True, known_tagged_fields = [PaymentHash ex_preimage, DescriptionHash h, OtherField],
      raw_amount = Some 10, amount_pico_btc = Some 10000, payee_pub_key = None,
      recover_payee_pub_key = Some ex_node_key, invoice_currency = Bitcoin,
      invoice_timestamp = 1000, expiry_time = Some 300\<rparr>"

definition ex_crates :: "(bytes \<times> json) list \<Rightarrow> bytes \<Rightarrow> crates" where
  "ex_crates docs h = ref_crates docs [(''lnbc1'', ex_raw h)]"

lemma ex_crates_laws [simp]:
  "hex_roundtrip (ex_crates d h)" "hex_lower (ex_crates d h)"
  "b64_roundtrip (ex_crates d h)" "b64_alphabet (ex_crates d h)"
  "sha256_length (ex_crates d h)" "hmac_length (ex_crates d h)"
  "ascii_headers (ex_crates d h)" "json_writes (ex_crates d h)"
  by (simp_all add: ex_crates_def)

end
