(* ===== verification/Binding.thy ===== *)
theory Binding
  imports Reference_Crates
begin

text \<open>
  \<^verbatim>\<open>src/x402/binding.rs\<close>: the digest that binds an invoice to one request, and the syntax of
  the binding parameters a client echoes.
\<close>

definition HTTP_PROFILE :: string where
  "HTTP_PROFILE = ''http:1''"

definition BOUND_HEADERS :: "string list" where
  "BOUND_HEADERS = []"

definition http_params :: "string list \<Rightarrow> json" where
  "http_params bound_headers = json_obj [(''headers'', JArr (map JStr bound_headers))]"

definition is_lowercase_token :: "string \<Rightarrow> bool" where
  "is_lowercase_token name \<longleftrightarrow>
     name \<noteq> [] \<and>
     list_all (\<lambda>b. (CHR ''a'' \<le> b \<and> b \<le> CHR ''z'') \<or> (CHR ''0'' \<le> b \<and> b \<le> CHR ''9'')
                 \<or> b \<in> set ''!#$%&'*+-.^_`|~'') name"

text \<open>The loop over the array, with the name before as its variable.\<close>

fun valid_headers :: "string option \<Rightarrow> json list \<Rightarrow> bool" where
  "valid_headers previous [] = True"
| "valid_headers previous (h # hs) =
     (case h of
        JStr name \<Rightarrow>
          if \<not> is_lowercase_token name \<or> name = ''payment-signature'' then False
          else if (case previous of None \<Rightarrow> False | Some p \<Rightarrow> p \<ge> name) then False
          else valid_headers (Some name) hs
      | _ \<Rightarrow> False)"

definition is_valid_http_params :: "json \<Rightarrow> bool" where
  "is_valid_http_params params =
     (case params of
        JObj ps \<Rightarrow>
          (case map_of ps ''headers'' of
             Some (JArr hs) \<Rightarrow> if length ps \<noteq> 1 then False else valid_headers None hs
           | _ \<Rightarrow> False)
      | _ \<Rightarrow> False)"

text \<open>The trimmed text of each line of a field, or the error of the first that has none.\<close>

fun field_lines :: "crates \<Rightarrow> string \<Rightarrow> bytes list \<Rightarrow> string + string list" where
  "field_lines C name [] = Ok []"
| "field_lines C name (v # vs) =
     (case header_to_str C v of
        None \<Rightarrow> Err (''header '' @ name @ '' has an unsupported value'')
      | Some s \<Rightarrow>
          try_then (field_lines C name vs) (\<lambda>rest.
          Ok (trim_matches s [CHR '' '', CHR 0x09] # rest)))"

definition header_value_hash :: "crates \<Rightarrow> header_map \<Rightarrow> string \<Rightarrow> string + bytes" where
  "header_value_hash C headers name =
     (let lines = header_get_all headers name
      in if lines = [] then Ok (sha256 C [0x00])
         else try_then (field_lines C name lines) (\<lambda>values.
              Ok (sha256 C (0x01 # as_bytes (join values '', '')))))"

fun header_entries :: "crates \<Rightarrow> header_map \<Rightarrow> string list \<Rightarrow> string + json list" where
  "header_entries C headers [] = Ok []"
| "header_entries C headers (name # names) =
     try_then (header_value_hash C headers name) (\<lambda>value_hash.
     try_then (header_entries C headers names) (\<lambda>rest.
     Ok (json_obj [(''name'', JStr name), (''valueHash'', JStr (hex_encode C value_hash))] # rest)))"

definition request_document :: "crates \<Rightarrow> string \<Rightarrow> string \<Rightarrow> bytes \<Rightarrow> json list \<Rightarrow> json" where
  "request_document C request_method url request_body entries =
     json_obj
       [(''domain'', JStr (''x402:exact:lnbtc:bolt11:'' @ HTTP_PROFILE)),
        (''method'', JStr request_method),
        (''url'', JStr url),
        (''bodyHash'', JStr (hex_encode C (sha256 C request_body))),
        (''headers'', JArr entries)]"

definition http_request_hash ::
  "crates \<Rightarrow> string \<Rightarrow> string \<Rightarrow> bytes \<Rightarrow> string list \<Rightarrow> header_map \<Rightarrow> string + bytes" where
  "http_request_hash C request_method url request_body bound_headers headers =
     try_then (header_entries C headers bound_headers) (\<lambda>entries.
     try_then (jcs_to_vec C (request_document C request_method url request_body entries))
       (\<lambda>description. Ok (sha256 C description)))"

section \<open>The syntax of the parameters\<close>

definition allowed_header :: "string \<Rightarrow> bool" where
  "allowed_header name \<longleftrightarrow> is_lowercase_token name \<and> name \<noteq> ''payment-signature''"

lemma valid_headers_iff:
  "valid_headers previous hs \<longleftrightarrow>
     (\<exists>names. hs = map JStr names \<and> list_all allowed_header names \<and> sorted_wrt (<) names
        \<and> (\<forall>p. previous = Some p \<longrightarrow> (\<forall>n \<in> set names. p < n)))"
proof (induction previous hs rule: valid_headers.induct)
  case (1 previous)
  then show ?case by simp
next
  case (2 previous h hs)
  show ?case
  proof (cases h)
    case (JStr name)
    let ?ok = "allowed_header name \<and> (\<forall>p. previous = Some p \<longrightarrow> p < name)"
    have step: "valid_headers previous (h # hs) \<longleftrightarrow> ?ok \<and> valid_headers (Some name) hs"
      by (auto simp: JStr allowed_header_def split: option.split)
    have IH: "valid_headers (Some name) hs \<longleftrightarrow>
        (\<exists>names. hs = map JStr names \<and> list_all allowed_header names \<and> sorted_wrt (<) names
           \<and> (\<forall>n \<in> set names. name < n))" if ?ok
    proof -
      have "\<not> (\<not> is_lowercase_token name \<or> name = ''payment-signature'')"
        "\<not> (case previous of None \<Rightarrow> False | Some p \<Rightarrow> p \<ge> name)"
        using that by (auto simp: allowed_header_def split: option.split)
      from "2.IH" [OF JStr this] show ?thesis by simp
    qed
    show ?thesis
    proof
      assume "valid_headers previous (h # hs)"
      then have ok: ?ok and rest: "valid_headers (Some name) hs" using step by auto
      then obtain names where n: "hs = map JStr names" "list_all allowed_header names"
        "sorted_wrt (<) names" "\<forall>n \<in> set names. name < n"
        using IH by auto
      then show "\<exists>names. h # hs = map JStr names \<and> list_all allowed_header names
          \<and> sorted_wrt (<) names \<and> (\<forall>p. previous = Some p \<longrightarrow> (\<forall>n \<in> set names. p < n))"
        using ok JStr by (intro exI [of _ "name # names"]) (auto dest: order.strict_trans)
    next
      assume "\<exists>names. h # hs = map JStr names \<and> list_all allowed_header names
          \<and> sorted_wrt (<) names \<and> (\<forall>p. previous = Some p \<longrightarrow> (\<forall>n \<in> set names. p < n))"
      then obtain names where "hs = map JStr names" "list_all allowed_header (name # names)"
        "sorted_wrt (<) (name # names)" "\<forall>p. previous = Some p \<longrightarrow> p < name"
        using JStr by (auto simp: Cons_eq_map_conv)
      then show "valid_headers previous (h # hs)" using step IH by auto
    qed
  qed (auto simp: Cons_eq_map_conv)
qed

lemma http_params_object: "http_params names = JObj [(''headers'', JArr (map JStr names))]"
  by (simp add: http_params_def)

lemma is_valid_http_params_iff:
  "is_valid_http_params params \<longleftrightarrow>
     (\<exists>names. params = http_params names \<and> list_all allowed_header names \<and> sorted_wrt (<) names)"
proof
  assume valid: "is_valid_http_params params"
  then obtain ps where ps: "params = JObj ps"
    by (cases params) (simp_all add: is_valid_http_params_def)
  moreover obtain j where j: "map_of ps ''headers'' = Some j"
    using valid ps by (cases "map_of ps ''headers''") (simp_all add: is_valid_http_params_def)
  moreover obtain hs where "j = JArr hs"
    using valid ps j by (cases j) (simp_all add: is_valid_http_params_def)
  ultimately have p: "params = JObj ps" "map_of ps ''headers'' = Some (JArr hs)"
    "length ps = 1" "valid_headers None hs"
    using valid by (simp_all add: is_valid_http_params_def split: if_split_asm)
  then have "ps = [(''headers'', JArr hs)]"
    by (cases ps) (auto split: if_splits)
  then show "\<exists>names. params = http_params names \<and> list_all allowed_header names
      \<and> sorted_wrt (<) names"
    using p by (auto simp: valid_headers_iff http_params_object)
next
  assume "\<exists>names. params = http_params names \<and> list_all allowed_header names
      \<and> sorted_wrt (<) names"
  then show "is_valid_http_params params"
    by (auto simp: is_valid_http_params_def http_params_object valid_headers_iff)
qed

section \<open>What the digest commits to\<close>

text \<open>The bytes that a field contributes: \<open>00\<close> for an absent field, else \<open>01\<close> and its value.\<close>

definition field_preimage :: "crates \<Rightarrow> header_map \<Rightarrow> string \<Rightarrow> string + bytes" where
  "field_preimage C headers name =
     (if header_get_all headers name = [] then Ok [0x00]
      else try_then (field_lines C name (header_get_all headers name)) (\<lambda>values.
           Ok (0x01 # as_bytes (join values '', ''))))"

lemma header_value_hash_preimage:
  "header_value_hash C headers name =
     try_then (field_preimage C headers name) (\<lambda>p. Ok (sha256 C p))"
  by (cases "field_lines C name (header_get_all headers name)")
     (auto simp: header_value_hash_def field_preimage_def Let_def)

lemma field_preimage_absent [simp]:
  "header_get_all headers name = [] \<Longrightarrow> field_preimage C headers name = Ok [0x00]"
  by (simp add: field_preimage_def)

lemma field_preimage_present:
  "header_get_all headers name \<noteq> [] \<Longrightarrow> field_preimage C headers name = Ok p \<Longrightarrow> hd p = 0x01"
  by (auto simp: field_preimage_def result_simps)

lemma header_entries_Ok:
  "header_entries C headers names = Ok es \<Longrightarrow>
     es = map (\<lambda>n. JObj [(''name'', JStr n),
            (''valueHash'', JStr (hex_encode C (projr (header_value_hash C headers n))))]) names
     \<and> (\<forall>n \<in> set names. \<exists>h. header_value_hash C headers n = Ok h)"
  by (induction names arbitrary: es) (auto simp: result_simps)

lemma request_document_members:
  "request_document C m u b es =
     JObj [(''bodyHash'', JStr (hex_encode C (sha256 C b))),
           (''domain'', JStr (''x402:exact:lnbtc:bolt11:http:1'')),
           (''headers'', JArr es), (''method'', JStr m), (''url'', JStr u)]"
  by (simp add: request_document_def HTTP_PROFILE_def)

lemma request_document_inject:
  assumes "hex_roundtrip C"
  shows "request_document C m u b es = request_document C m' u' b' es' \<longleftrightarrow>
     m = m' \<and> u = u' \<and> sha256 C b = sha256 C b' \<and> es = es'"
  using assms by (auto simp: request_document_members hex_encode_inj)

text \<open>The digest of \<^verbatim>\<open>/x402\<close>, which binds no headers.\<close>

lemma http_request_hash_unbound:
  "http_request_hash C m u b [] hs =
     try_then (jcs_to_vec C (request_document C m u b [])) (\<lambda>d. Ok (sha256 C d))"
  by (simp add: http_request_hash_def)

type_synonym bound_request = "string \<times> string \<times> bytes \<times> string list \<times> header_map"

text \<open>Two requests that only a collision of the digest or of the JCS encoding would confuse.\<close>

definition binding_document :: "crates \<Rightarrow> bound_request \<Rightarrow> json" where
  "binding_document C r =
     (case r of (m, u, b, ns, hs) \<Rightarrow> request_document C m u b (projr (header_entries C hs ns)))"

definition binding_collision :: "crates \<Rightarrow> bound_request \<Rightarrow> bound_request \<Rightarrow> bool" where
  "binding_collision C r r' \<longleftrightarrow>
     collides (jcs_to_vec C) (binding_document C r) (binding_document C r')
     \<or> collides (sha256 C) (projr (jcs_to_vec C (binding_document C r)))
         (projr (jcs_to_vec C (binding_document C r')))
     \<or> (case (r, r') of ((_, _, b, ns, hs), (_, _, b', _, hs')) \<Rightarrow>
          collides (sha256 C) b b'
          \<or> list_ex (\<lambda>n. collides (sha256 C) (projr (field_preimage C hs n)) (projr (field_preimage C hs' n))) ns)"

lemma header_value_hash_Ok:
  "header_value_hash C hs n = Ok h \<longleftrightarrow> (\<exists>p. field_preimage C hs n = Ok p \<and> h = sha256 C p)"
  by (auto simp: header_value_hash_preimage result_simps)

lemma header_entries_same:
  assumes "hex_roundtrip C" "header_entries C hs ns = Ok es" "header_entries C hs' ns' = Ok es"
  shows "ns = ns' \<and> (\<forall>n \<in> set ns. \<exists>p p'. field_preimage C hs n = Ok p \<and> field_preimage C hs' n = Ok p'
     \<and> sha256 C p = sha256 C p')"
  using assms(2,3)
proof (induction ns arbitrary: es ns')
  case Nil
  then show ?case by (cases ns') (auto simp: result_simps)
next
  case (Cons n ns)
  then obtain n2 ns2 where ns': "ns' = n2 # ns2" by (cases ns') (auto simp: result_simps)
  with Cons assms(1) show ?case
    by (fastforce simp: result_simps header_value_hash_Ok hex_encode_inj)
qed

section \<open>Properties\<close>

text \<open>
  C11. The request hash commits to the request: two requests with the same hash have the same
  method, URL and body, bind the same headers in the same order, and agree on what each bound
  header contributes (absent or its joined value), or else they exhibit a collision of SHA-256 on
  two different inputs, or two documents with the same JCS text. So a proof paid for one request
  does not buy another.
\<close>

theorem request_hash_binds:
  assumes "hex_roundtrip C"
    and "http_request_hash C m u b ns hs = Ok h" "http_request_hash C m' u' b' ns' hs' = Ok h"
  shows "(m = m' \<and> u = u' \<and> b = b' \<and> ns = ns'
      \<and> list_all (\<lambda>n. field_preimage C hs n = field_preimage C hs' n) ns)
    \<or> binding_collision C (m, u, b, ns, hs) (m', u', b', ns', hs')"
proof (rule disjCI)
  assume no: "\<not> binding_collision C (m, u, b, ns, hs) (m', u', b', ns', hs')"
  obtain es d where 1: "header_entries C hs ns = Ok es" "jcs_to_vec C (request_document C m u b es) = Ok d"
      "h = sha256 C d"
    using assms(2) by (auto simp: http_request_hash_def result_simps)
  obtain es' d' where 2: "header_entries C hs' ns' = Ok es'"
      "jcs_to_vec C (request_document C m' u' b' es') = Ok d'" "h = sha256 C d'"
    using assms(3) by (auto simp: http_request_hash_def result_simps)
  have "d = d'" using no 1 2 by (auto simp: binding_collision_def binding_document_def collides_def)
  then have "request_document C m u b es = request_document C m' u' b' es'"
    using no 1 2 by (auto simp: binding_collision_def binding_document_def collides_def)
  then have eq: "m = m'" "u = u'" "sha256 C b = sha256 C b'" "es = es'"
    using request_document_inject [OF assms(1)] by auto
  have body: "b = b'" using no eq(3) by (auto simp: binding_collision_def collides_def)
  from header_entries_same [OF assms(1) 1(1)] 2(1) eq(4)
  have ns: "ns = ns'" and pre: "\<forall>n \<in> set ns. \<exists>p p'. field_preimage C hs n = Ok p
      \<and> field_preimage C hs' n = Ok p' \<and> sha256 C p = sha256 C p'"
    by auto
  have "field_preimage C hs n = field_preimage C hs' n" if n: "n \<in> set ns" for n
  proof -
    obtain p p' where p: "field_preimage C hs n = Ok p" "field_preimage C hs' n = Ok p'"
      "sha256 C p = sha256 C p'"
      using pre n by blast
    then have "p = p'" using no n by (auto simp: binding_collision_def collides_def list_ex_iff)
    with p show ?thesis by simp
  qed
  then show "m = m' \<and> u = u' \<and> b = b' \<and> ns = ns'
      \<and> list_all (\<lambda>n. field_preimage C hs n = field_preimage C hs' n) ns"
    using eq body ns by (simp add: list_all_iff)
qed

theorem request_hash_binds_witness:
  "\<exists>h. http_request_hash (ref_crates [] []) ''GET'' ''u'' [] [''a''] [(''a'', as_bytes ''1'')] = Ok h
     \<and> list_all (\<lambda>n. field_preimage (ref_crates [] []) [(''a'', as_bytes ''1'')] n
                      = field_preimage (ref_crates [] []) [(''b'', []), (''a'', as_bytes ''1'')] n) [''a'']"
proof -
  let ?C = "ref_crates [] []"
  have v: "visible (as_bytes ''1'') = Some ''1''" by (rule visible_as_bytes) simp
  have p: "field_preimage ?C [(''a'', as_bytes ''1'')] ''a'' = field_preimage ?C [(''b'', []), (''a'', as_bytes ''1'')] ''a''"
    by (simp add: field_preimage_def header_get_all_def)
  obtain h where h: "http_request_hash ?C ''GET'' ''u'' [] [''a''] [(''a'', as_bytes ''1'')] = Ok h"
    and h': "http_request_hash ?C ''GET'' ''u'' [] [''a''] [(''b'', []), (''a'', as_bytes ''1'')] = Ok h"
    by (simp add: http_request_hash_def header_value_hash_def header_get_all_def v)
  have "\<not> binding_collision ?C (''GET'', ''u'', [], [''a''], [(''a'', as_bytes ''1'')])
      (''GET'', ''u'', [], [''a''], [(''b'', []), (''a'', as_bytes ''1'')])"
    by (simp add: binding_collision_def binding_document_def collides_def header_value_hash_def
        header_get_all_def v field_preimage_def)
  with request_hash_binds [OF _ h h'] h show ?thesis by auto
qed

lemma field_lines_eq:
  "field_lines C name vs =
     (if list_all (\<lambda>v. header_to_str C v \<noteq> None) vs
      then Ok (map (\<lambda>v. trim_matches (the (header_to_str C v)) [CHR '' '', CHR 0x09]) vs)
      else Err (''header '' @ name @ '' has an unsupported value''))"
  by (induction vs) (auto split: option.split)

text \<open>
  The hash of a bound header: an absent field hashes the single byte 0; a field whose lines
  are all text hashes the byte 1 and the lines, trimmed of spaces and tabs and joined by a comma
  and a space, in order; and a field with any other line is an error that names it.
\<close>

lemma header_value_hash_spec:
  "header_value_hash C hs name =
     (let lines = header_get_all hs name in
      if lines = [] then Ok (sha256 C [0])
      else if list_all (\<lambda>v. header_to_str C v \<noteq> None) lines
      then Ok (sha256 C (1 # as_bytes
             (join (map (\<lambda>v. trim_matches (the (header_to_str C v)) [CHR '' '', CHR 0x09]) lines) '', '')))
      else Err (''header '' @ name @ '' has an unsupported value''))"
  by (simp add: header_value_hash_def field_lines_eq Let_def)

end
