(* ===== verification/App_Error.thy ===== *)
theory App_Error
  imports Crates
begin

text \<open>
  \<^verbatim>\<open>src/error.rs\<close>: the errors of the HTTP handlers, their text and the response they become;
  and the response type itself. A body is kept before its serialisation: an \<^verbatim>\<open>axum::Json\<close> body
  is the document, a page or a text is its string.
\<close>

datatype app_error =
    Lnd string
  | LndConnection string
  | L402 string
  | X402 string
  | Internal string

datatype body = JsonBody json | HtmlBody string | TextBody string

record response =
  status :: nat
  resp_headers :: "(string \<times> string) list"
  resp_body :: body

text \<open>The \<^verbatim>\<open>#[error(..)]\<close> texts.\<close>

fun app_error_to_string :: "app_error \<Rightarrow> string" where
  "app_error_to_string (Lnd e) = ''LND error: '' @ e"
| "app_error_to_string (LndConnection e) = ''LND connection error: '' @ e"
| "app_error_to_string (L402 e) = ''L402 auth error: '' @ e"
| "app_error_to_string (X402 e) = ''x402 payment error: '' @ e"
| "app_error_to_string (Internal e) = e"

definition UNAUTHORIZED :: nat where "UNAUTHORIZED = 401"
definition BAD_REQUEST :: nat where "BAD_REQUEST = 400"
definition PAYMENT_REQUIRED_STATUS :: nat where "PAYMENT_REQUIRED_STATUS = 402"
definition INTERNAL_SERVER_ERROR :: nat where "INTERNAL_SERVER_ERROR = 500"
definition OK_STATUS :: nat where "OK_STATUS = 200"

lemmas status_defs = UNAUTHORIZED_def BAD_REQUEST_def PAYMENT_REQUIRED_STATUS_def
  INTERNAL_SERVER_ERROR_def OK_STATUS_def

definition error_status :: "app_error \<Rightarrow> nat" where
  "error_status e =
     (case e of
        L402 _ \<Rightarrow> UNAUTHORIZED
      | X402 _ \<Rightarrow> BAD_REQUEST
      | _ \<Rightarrow> INTERNAL_SERVER_ERROR)"

definition into_response :: "app_error \<Rightarrow> response" where
  "into_response e =
     \<lparr>status = error_status e, resp_headers = [],
      resp_body = JsonBody (json_obj [(''error'', JStr (app_error_to_string e))])\<rparr>"

text \<open>
  A header of a response tuple: where the text is not a header value, \<^verbatim>\<open>axum\<close> answers 500 with
  the text of the error in place of the whole response.
\<close>

definition with_header :: "crates \<Rightarrow> string \<Rightarrow> string \<Rightarrow> response \<Rightarrow> response" where
  "with_header C name v r =
     (case header_from_str C v of
        Some _ \<Rightarrow> r\<lparr>resp_headers := resp_headers r @ [(name, v)]\<rparr>
      | None \<Rightarrow> \<lparr>status = INTERNAL_SERVER_ERROR, resp_headers = [],
                 resp_body = TextBody ''failed to parse header value''\<rparr>)"

text \<open>
  What the client of a handler gets: the response, or the rendered error. A panic drops the
  connection.
\<close>

definition deliver :: "(app_error, response) outcome \<Rightarrow> response option" where
  "deliver out =
     (case out of Return r \<Rightarrow> Some r | Fail e \<Rightarrow> Some (into_response e) | Panic _ \<Rightarrow> None)"

lemma with_header_ok [simp]:
  "header_from_str C v \<noteq> None \<Longrightarrow>
     with_header C name v r = r\<lparr>resp_headers := resp_headers r @ [(name, v)]\<rparr>"
  by (auto simp: with_header_def)

lemma with_header_status:
  "status (with_header C name v r) \<in> {status r, INTERNAL_SERVER_ERROR}"
  by (auto simp: with_header_def split: option.split)

lemma with_header_cases:
  "status (with_header C name v r) \<noteq> INTERNAL_SERVER_ERROR \<Longrightarrow>
     with_header C name v r = r\<lparr>resp_headers := resp_headers r @ [(name, v)]\<rparr>"
  by (auto simp: with_header_def split: option.splits)

lemma status_values [simp]:
  "OK_STATUS \<noteq> INTERNAL_SERVER_ERROR" "PAYMENT_REQUIRED_STATUS \<noteq> INTERNAL_SERVER_ERROR"
  "OK_STATUS \<noteq> PAYMENT_REQUIRED_STATUS" "PAYMENT_REQUIRED_STATUS \<noteq> OK_STATUS"
  "INTERNAL_SERVER_ERROR \<noteq> OK_STATUS" "INTERNAL_SERVER_ERROR \<noteq> PAYMENT_REQUIRED_STATUS"
  by (simp_all add: status_defs)

lemma error_status_not_ok [simp]:
  "error_status e \<noteq> OK_STATUS" "error_status e \<noteq> PAYMENT_REQUIRED_STATUS"
  by (cases e; simp add: error_status_def status_defs)+

lemma deliver_ok: "deliver out = Some r \<Longrightarrow> status r = OK_STATUS \<Longrightarrow> out = Return r"
  by (cases out) (auto simp: deliver_def into_response_def)

end
