(* ===== verification/X402_Types.thy ===== *)
theory X402_Types
  imports App_Error Reference_Crates
begin

text \<open>
  \<^verbatim>\<open>src/x402/types.rs\<close>: the wire types of x402 and their HTTP header encoding. The derived
  serialisers and deserialisers are written out from the declarations and their \<^verbatim>\<open>serde\<close>
  attributes (camel-case names, skipped \<^verbatim>\<open>None\<close> fields, the default of \<^verbatim>\<open>extra\<close>): a struct is
  read from an object, unknown members ignored and a known one given twice rejected, or from an
  array of its fields in order.
\<close>

definition X402_VERSION :: u32 where
  "X402_VERSION = 2"

definition PAYMENT_REQUIRED :: string where
  "PAYMENT_REQUIRED = ''payment-required''"

definition PAYMENT_SIGNATURE :: string where
  "PAYMENT_SIGNATURE = ''payment-signature''"

definition PAYMENT_RESPONSE :: string where
  "PAYMENT_RESPONSE = ''payment-response''"

record resource_info =
  ri_url :: string
  ri_description :: string
  ri_mime_type :: string

record payment_requirements =
  pr_scheme :: string
  pr_network :: string
  pr_amount :: string
  pr_asset :: string
  pr_pay_to :: string
  pr_max_timeout_seconds :: u64
  pr_extra :: json_map

record payment_required =
  pq_x402_version :: u32
  pq_error :: "string option"
  pq_resource :: resource_info
  pq_accepts :: "payment_requirements list"

record payment_payload =
  pp_x402_version :: u32
  pp_accepted :: payment_requirements
  pp_payload :: json_map

record settlement_response =
  sr_success :: bool
  sr_error_reason :: "string option"
  sr_transaction :: string
  sr_network :: string

section \<open>Serialisation\<close>

definition resource_info_to_json :: "resource_info \<Rightarrow> json" where
  "resource_info_to_json r =
     JObj [(''url'', JStr (ri_url r)), (''description'', JStr (ri_description r)),
           (''mimeType'', JStr (ri_mime_type r))]"

definition requirements_to_json :: "payment_requirements \<Rightarrow> json" where
  "requirements_to_json r =
     JObj [(''scheme'', JStr (pr_scheme r)), (''network'', JStr (pr_network r)),
           (''amount'', JStr (pr_amount r)), (''asset'', JStr (pr_asset r)),
           (''payTo'', JStr (pr_pay_to r)),
           (''maxTimeoutSeconds'', JInt (uint (pr_max_timeout_seconds r))),
           (''extra'', JObj (pr_extra r))]"

definition payment_required_to_json :: "payment_required \<Rightarrow> json" where
  "payment_required_to_json r =
     JObj ([(''x402Version'', JInt (uint (pq_x402_version r)))] @
           (case pq_error r of None \<Rightarrow> [] | Some e \<Rightarrow> [(''error'', JStr e)]) @
           [(''resource'', resource_info_to_json (pq_resource r)),
            (''accepts'', JArr (map requirements_to_json (pq_accepts r)))])"

definition settlement_to_json :: "settlement_response \<Rightarrow> json" where
  "settlement_to_json r =
     JObj ([(''success'', JBool (sr_success r))] @
           (case sr_error_reason r of None \<Rightarrow> [] | Some e \<Rightarrow> [(''errorReason'', JStr e)]) @
           [(''transaction'', JStr (sr_transaction r)), (''network'', JStr (sr_network r))])"

section \<open>Deserialisation\<close>

definition as_string :: "json \<Rightarrow> string option" where
  "as_string j = (case j of JStr s \<Rightarrow> Some s | _ \<Rightarrow> None)"

definition as_unsigned :: "nat \<Rightarrow> json \<Rightarrow> nat option" where
  "as_unsigned bound j =
     (case j of JInt i \<Rightarrow> if 0 \<le> i \<and> i < int bound then Some (nat i) else None | _ \<Rightarrow> None)"

definition as_map :: "json \<Rightarrow> json_map option" where
  "as_map j = (case to_value j of JObj ms \<Rightarrow> Some ms | _ \<Rightarrow> None)"

text \<open>A member that must be there once, and the optional \<^verbatim>\<open>extra\<close>.\<close>

definition member :: "(string \<times> json) list \<Rightarrow> string \<Rightarrow> json option" where
  "member ms k = (case filter (\<lambda>m. fst m = k) ms of [m] \<Rightarrow> Some (snd m) | _ \<Rightarrow> None)"

definition member_or_default :: "(string \<times> json) list \<Rightarrow> string \<Rightarrow> json option" where
  "member_or_default ms k =
     (case filter (\<lambda>m. fst m = k) ms of
        [] \<Rightarrow> Some (JObj [])
      | [m] \<Rightarrow> Some (snd m)
      | _ \<Rightarrow> None)"

definition requirements_of_fields ::
  "json option \<Rightarrow> json option \<Rightarrow> json option \<Rightarrow> json option \<Rightarrow> json option \<Rightarrow> json option
     \<Rightarrow> json option \<Rightarrow> payment_requirements option" where
  "requirements_of_fields scheme network amount asset pay_to max_timeout extra =
     Option.bind (Option.bind scheme as_string) (\<lambda>s.
     Option.bind (Option.bind network as_string) (\<lambda>n.
     Option.bind (Option.bind amount as_string) (\<lambda>a.
     Option.bind (Option.bind asset as_string) (\<lambda>t.
     Option.bind (Option.bind pay_to as_string) (\<lambda>p.
     Option.bind (Option.bind max_timeout (as_unsigned (2 ^ 64))) (\<lambda>m.
     Option.bind (Option.bind extra as_map) (\<lambda>e.
     Some \<lparr>pr_scheme = s, pr_network = n, pr_amount = a, pr_asset = t, pr_pay_to = p,
           pr_max_timeout_seconds = of_nat m, pr_extra = e\<rparr>)))))))"

definition requirements_of_json :: "json \<Rightarrow> payment_requirements option" where
  "requirements_of_json j =
     (case j of
        JObj ms \<Rightarrow>
          requirements_of_fields (member ms ''scheme'') (member ms ''network'')
            (member ms ''amount'') (member ms ''asset'') (member ms ''payTo'')
            (member ms ''maxTimeoutSeconds'') (member_or_default ms ''extra'')
      | JArr [s, n, a, t, p, m] \<Rightarrow>
          requirements_of_fields (Some s) (Some n) (Some a) (Some t) (Some p) (Some m)
            (Some (JObj []))
      | JArr [s, n, a, t, p, m, e] \<Rightarrow>
          requirements_of_fields (Some s) (Some n) (Some a) (Some t) (Some p) (Some m) (Some e)
      | _ \<Rightarrow> None)"

definition payload_of_fields ::
  "json option \<Rightarrow> json option \<Rightarrow> json option \<Rightarrow> payment_payload option" where
  "payload_of_fields version accepted payload =
     Option.bind (Option.bind version (as_unsigned (2 ^ 32))) (\<lambda>v.
     Option.bind (Option.bind accepted requirements_of_json) (\<lambda>a.
     Option.bind (Option.bind payload as_map) (\<lambda>p.
     Some \<lparr>pp_x402_version = of_nat v, pp_accepted = a, pp_payload = p\<rparr>)))"

definition payload_of_json :: "json \<Rightarrow> payment_payload option" where
  "payload_of_json j =
     (case j of
        JObj ms \<Rightarrow>
          payload_of_fields (member ms ''x402Version'') (member ms ''accepted'')
            (member ms ''payload'')
      | JArr [v, a, p] \<Rightarrow> payload_of_fields (Some v) (Some a) (Some p)
      | _ \<Rightarrow> None)"

section \<open>The header encoding\<close>

definition encode_header :: "crates \<Rightarrow> json \<Rightarrow> (app_error, string) outcome" where
  "encode_header C doc =
     (case json_to_vec C doc of
        Inl _ \<Rightarrow> Panic ''x402 types serialize''
      | Inr v \<Rightarrow> Return (b64_encode C v))"

definition decode_header :: "crates \<Rightarrow> (json \<Rightarrow> 'a option) \<Rightarrow> string \<Rightarrow> string + 'a" where
  "decode_header C of_json val =
     try_then (map_err (\<lambda>e. ''base64 decode error: '' @ e) (b64_decode C val)) (\<lambda>bs.
     map_err (\<lambda>e. ''invalid JSON: '' @ e)
       (try_then (json_parse C bs) (\<lambda>j. ok_or (of_json j) (json_data_error C bs))))"

section \<open>Properties\<close>

lemma as_string_simps [simp]: "as_string (JStr s) = Some s"
  by (simp add: as_string_def)

lemma as_unsigned_JInt [simp]:
  "0 \<le> i \<Longrightarrow> i < int bound \<Longrightarrow> as_unsigned bound (JInt i) = Some (nat i)"
  by (simp add: as_unsigned_def)

lemma as_unsigned_u64 [simp]:
  "as_unsigned 18446744073709551616 (JInt (uint (x :: u64))) = Some (unat x)"
  using as_unsigned_JInt [of "uint x" "2 ^ 64"] uint_lt2p [of x] by simp

text \<open>Maps that \<^verbatim>\<open>serde_json\<close> can hold: reading them back changes nothing.\<close>

definition map_wf :: "json_map \<Rightarrow> bool" where
  "map_wf ms \<longleftrightarrow> obj_sorted ms \<and> (\<forall>j \<in> snd ` set ms. to_value j = j)"

lemma as_map_wf [simp]: "map_wf ms \<Longrightarrow> as_map (JObj ms) = Some ms"
proof -
  assume wf: "map_wf ms"
  then have "map (\<lambda>m. (fst m, to_value (snd m))) ms = ms"
    by (intro map_idI) (auto simp: map_wf_def)
  with wf show ?thesis by (simp add: as_map_def map_wf_def)
qed

lemma requirements_json_roundtrip:
  "map_wf (pr_extra r) \<Longrightarrow> requirements_of_json (requirements_to_json r) = Some r"
  by (simp add: requirements_of_json_def requirements_to_json_def requirements_of_fields_def
      member_def member_or_default_def)

interpretation requirements_wire: codec
  requirements_to_json "\<lambda>j. ok_or (requirements_of_json j) ()" "\<lambda>r. map_wf (pr_extra r)"
  by unfold_locales (simp add: requirements_json_roundtrip)

text \<open>The payload a client builds around the requirements it accepts.\<close>

definition client_payload :: "(string \<times> json) list \<Rightarrow> payment_requirements \<Rightarrow> json_map \<Rightarrow> json" where
  "client_payload others r p =
     JObj ([(''x402Version'', JInt 2)] @ others @
           [(''accepted'', requirements_to_json r), (''payload'', JObj p)])"

lemma payload_of_client_payload:
  assumes "map_wf (pr_extra r)" "map_wf p"
    and "fst ` set others \<inter> {''x402Version'', ''accepted'', ''payload''} = {}"
  shows "payload_of_json (client_payload others r p) =
     Some \<lparr>pp_x402_version = 2, pp_accepted = r, pp_payload = p\<rparr>"
proof -
  have "filter (\<lambda>m. fst m = k) others = []" if "k \<in> {''x402Version'', ''accepted'', ''payload''}" for k
    using assms(3) that by (force simp: filter_empty_conv)
  then show ?thesis
    using assms(1,2)
    by (simp add: payload_of_json_def client_payload_def payload_of_fields_def member_def
        requirements_json_roundtrip)
qed

lemma decode_header_Ok [result_simps]:
  "decode_header C of_json v = Ok x \<longleftrightarrow>
     (\<exists>bs j. b64_decode C v = Ok bs \<and> json_parse C bs = Ok j \<and> of_json j = Some x)"
  by (auto simp: decode_header_def result_simps)

lemma encode_header_Return [result_simps]:
  "encode_header C doc = Return h \<longleftrightarrow> (\<exists>v. json_to_vec C doc = Ok v \<and> h = b64_encode C v)"
  by (auto simp: encode_header_def split: sum.splits)

lemma encode_header_not_Fail [simp]: "encode_header C doc \<noteq> Fail e"
  by (simp add: encode_header_def split: sum.splits)

text \<open>
  C28. A payment header is read back as the client built it: the base64 text of a JSON payload that
  echoes requirements and a scheme payload, among any other members, decodes to exactly those
  requirements and that payload, with the version 2; the other members change nothing.
\<close>

theorem payment_header_roundtrip:
  assumes "b64_roundtrip C" "json_parse C bs = Ok (client_payload others r p)"
    and "map_wf (pr_extra r)" "map_wf p"
    and "fst ` set others \<inter> {''x402Version'', ''accepted'', ''payload''} = {}"
  shows "decode_header C payload_of_json (b64_encode C bs) =
     Ok \<lparr>pp_x402_version = 2, pp_accepted = r, pp_payload = p\<rparr>"
  using payload_of_client_payload [OF assms(3-5)] assms(1,2)
  by (simp add: decode_header_Ok b64_roundtrip_def)

theorem payment_header_roundtrip_witness:
  "decode_header
     (ref_crates [([1], client_payload [(''resource'', JNull)]
        \<lparr>pr_scheme = ''exact'', pr_network = ''n'', pr_amount = ''1000'', pr_asset = ''BTC'', pr_pay_to = ''k'',
         pr_max_timeout_seconds = 300, pr_extra = [(''invoice'', JStr ''lnbc1'')]\<rparr> [(''preimage'', JStr ''00'')])] [])
     payload_of_json (ref_b64_encode [1])
   = Ok \<lparr>pp_x402_version = 2,
         pp_accepted = \<lparr>pr_scheme = ''exact'', pr_network = ''n'', pr_amount = ''1000'', pr_asset = ''BTC'',
           pr_pay_to = ''k'', pr_max_timeout_seconds = 300, pr_extra = [(''invoice'', JStr ''lnbc1'')]\<rparr>,
         pp_payload = [(''preimage'', JStr ''00'')]\<rparr>"
proof -
  let ?r = "\<lparr>pr_scheme = ''exact'', pr_network = ''n'', pr_amount = ''1000'', pr_asset = ''BTC'', pr_pay_to = ''k'',
         pr_max_timeout_seconds = 300, pr_extra = [(''invoice'', JStr ''lnbc1'')]\<rparr>"
  show ?thesis
    using payment_header_roundtrip [of "ref_crates [([1], client_payload [(''resource'', JNull)] ?r
        [(''preimage'', JStr ''00'')])] []" "[1]" "[(''resource'', JNull)]" ?r "[(''preimage'', JStr ''00'')]"]
    by (simp add: map_wf_def obj_sorted_def)
qed

end
