(* ===== verification/Lnbtc_Types.thy ===== *)
theory Lnbtc_Types
  imports Binding X402_Types
begin

text \<open>
  The data of \<^verbatim>\<open>src/x402/lnbtc.rs\<close>: the networks and their identifiers, the error vocabulary
  and the terms of one request. The errors are ordered as the checks of the specification are.
\<close>

definition SCHEME :: string where "SCHEME = ''exact''"
definition ASSET :: string where "ASSET = ''BTC''"
definition ASSET_TRANSFER_METHOD :: string where "ASSET_TRANSFER_METHOD = ''bolt11''"
definition PAYMENT_FLOW :: string where "PAYMENT_FLOW = ''upfront''"
definition DEFAULT_INVOICE_EXPIRY_SECS :: u64 where "DEFAULT_INVOICE_EXPIRY_SECS = 3600"
definition REPLAY_RETENTION_SECS :: u64 where "REPLAY_RETENTION_SECS = 3600"

lemmas lnbtc_consts = SCHEME_def ASSET_def ASSET_TRANSFER_METHOD_def PAYMENT_FLOW_def

section \<open>Networks\<close>

datatype network = Mainnet | Testnet | Signet

definition network_from_lnd :: "string \<Rightarrow> network option" where
  "network_from_lnd name =
     (if name = ''mainnet'' then Some Mainnet
      else if name = ''testnet'' then Some Testnet
      else if name = ''signet'' then Some Signet
      else None)"

fun caip2 :: "network \<Rightarrow> string" where
  "caip2 Mainnet = ''lnbtc:000000000019d6689c085ae165831e93''"
| "caip2 Testnet = ''lnbtc:000000000933ea01ad0ee984209779ba''"
| "caip2 Signet = ''lnbtc:00000008819873e925422c1ff0f99f7c''"

fun network_currency :: "network \<Rightarrow> currency" where
  "network_currency Mainnet = Bitcoin"
| "network_currency Testnet = BitcoinTestnet"
| "network_currency Signet = SignetCurrency"

lemma caip2_inject [simp]: "caip2 m = caip2 n \<longleftrightarrow> m = n"
  by (cases m; cases n) simp_all

lemma network_currency_inject [simp]: "network_currency m = network_currency n \<longleftrightarrow> m = n"
  by (cases m; cases n) simp_all

lemma length_caip2 [simp]: "length (caip2 n) = 38"
  by (cases n) simp_all

section \<open>Errors\<close>

datatype error_reason =
    UnsupportedScheme
  | NetworkMismatch
  | Asset
  | AmountMismatch
  | PayToMismatch
  | MaxTimeoutMismatch
  | RequestBinding
  | RequestMismatch
  | AssetTransferMethod
  | PaymentFlow
  | InvoiceMissing
  | InvoiceDecodeFailed
  | InvoiceDescription
  | InvoiceRequestMismatch
  | InvoicePayeeMismatch
  | InvoiceCurrencyMismatch
  | InvoiceAmountMismatch
  | InvoiceExpiryMismatch
  | InvoiceCreatedInFuture
  | DuplicateSettlement
  | PreimageMissing
  | PreimageMalformed
  | PreimageLength
  | PreimageHashMismatch
  | InvoiceExpired

fun reason_as_str :: "error_reason \<Rightarrow> string" where
  "reason_as_str UnsupportedScheme = ''unsupported_scheme''"
| "reason_as_str NetworkMismatch = ''network_mismatch''"
| "reason_as_str Asset = ''invalid_exact_lnbtc_asset''"
| "reason_as_str AmountMismatch = ''invalid_exact_lnbtc_amount_mismatch''"
| "reason_as_str PayToMismatch = ''invalid_exact_lnbtc_pay_to_mismatch''"
| "reason_as_str MaxTimeoutMismatch = ''invalid_exact_lnbtc_max_timeout_mismatch''"
| "reason_as_str RequestBinding = ''invalid_exact_lnbtc_request_binding''"
| "reason_as_str RequestMismatch = ''invalid_exact_lnbtc_request_mismatch''"
| "reason_as_str AssetTransferMethod = ''invalid_exact_lnbtc_asset_transfer_method''"
| "reason_as_str PaymentFlow = ''invalid_exact_lnbtc_payment_flow''"
| "reason_as_str InvoiceMissing = ''invalid_exact_lnbtc_invoice_missing''"
| "reason_as_str InvoiceDecodeFailed = ''invalid_exact_lnbtc_invoice_decode_failed''"
| "reason_as_str InvoiceDescription = ''invalid_exact_lnbtc_invoice_description''"
| "reason_as_str InvoiceRequestMismatch = ''invalid_exact_lnbtc_invoice_request_mismatch''"
| "reason_as_str InvoicePayeeMismatch = ''invalid_exact_lnbtc_invoice_payee_mismatch''"
| "reason_as_str InvoiceCurrencyMismatch = ''invalid_exact_lnbtc_invoice_currency_mismatch''"
| "reason_as_str InvoiceAmountMismatch = ''invalid_exact_lnbtc_invoice_amount_mismatch''"
| "reason_as_str InvoiceExpiryMismatch = ''invalid_exact_lnbtc_invoice_expiry_mismatch''"
| "reason_as_str InvoiceCreatedInFuture = ''invalid_exact_lnbtc_invoice_created_in_future''"
| "reason_as_str DuplicateSettlement = ''duplicate_settlement''"
| "reason_as_str PreimageMissing = ''invalid_exact_lnbtc_preimage_missing''"
| "reason_as_str PreimageMalformed = ''invalid_exact_lnbtc_preimage_malformed''"
| "reason_as_str PreimageLength = ''invalid_exact_lnbtc_preimage_length''"
| "reason_as_str PreimageHashMismatch = ''invalid_exact_lnbtc_preimage_hash_mismatch''"
| "reason_as_str InvoiceExpired = ''invalid_exact_lnbtc_invoice_expired''"

lemma reason_as_str_inject: "reason_as_str d = reason_as_str e \<longleftrightarrow> d = e"
  by (cases d; cases e; simp)

text \<open>The position of the check that gives a reason.\<close>

fun check_rank :: "error_reason \<Rightarrow> nat" where
  "check_rank UnsupportedScheme = 0"
| "check_rank NetworkMismatch = 1"
| "check_rank AmountMismatch = 2"
| "check_rank Asset = 3"
| "check_rank PayToMismatch = 4"
| "check_rank MaxTimeoutMismatch = 5"
| "check_rank AssetTransferMethod = 6"
| "check_rank PaymentFlow = 7"
| "check_rank RequestBinding = 8"
| "check_rank RequestMismatch = 9"
| "check_rank InvoiceMissing = 10"
| "check_rank InvoiceDecodeFailed = 11"
| "check_rank InvoiceDescription = 12"
| "check_rank InvoiceRequestMismatch = 13"
| "check_rank InvoicePayeeMismatch = 14"
| "check_rank InvoiceCurrencyMismatch = 15"
| "check_rank InvoiceAmountMismatch = 16"
| "check_rank InvoiceExpiryMismatch = 17"
| "check_rank InvoiceCreatedInFuture = 18"
| "check_rank PreimageMissing = 19"
| "check_rank PreimageMalformed = 20"
| "check_rank PreimageLength = 21"
| "check_rank PreimageHashMismatch = 22"
| "check_rank InvoiceExpired = 23"
| "check_rank DuplicateSettlement = 24"

lemma check_rank_inject [simp]: "check_rank d = check_rank e \<longleftrightarrow> d = e"
  by (cases d; cases e; simp)

instantiation error_reason :: linorder
begin

definition less_eq_error_reason :: "error_reason \<Rightarrow> error_reason \<Rightarrow> bool" where
  "less_eq_error_reason d e \<longleftrightarrow> check_rank d \<le> check_rank e"

definition less_error_reason :: "error_reason \<Rightarrow> error_reason \<Rightarrow> bool" where
  "less_error_reason d e \<longleftrightarrow> check_rank d < check_rank e"

instance
  by standard (auto simp: less_eq_error_reason_def less_error_reason_def)

end

section \<open>Terms and requirements\<close>

record terms =
  t_network :: network
  t_pay_to :: pubkey
  t_amount_msat :: u64
  t_max_timeout_secs :: u64
  t_request_hash :: bytes
  t_binding_params :: json
  t_clock_skew_secs :: u64

definition requirements :: "crates \<Rightarrow> terms \<Rightarrow> string \<Rightarrow> payment_requirements" where
  "requirements C t invoice =
     (let extra = obj_of
        [(''assetTransferMethod'', JStr ASSET_TRANSFER_METHOD),
         (''paymentFlow'', JStr PAYMENT_FLOW),
         (''requestHash'', JStr (hex_encode C (t_request_hash t))),
         (''requestBindingProfile'', JStr HTTP_PROFILE),
         (''requestBindingParams'', t_binding_params t),
         (''invoice'', JStr invoice)]
      in \<lparr>pr_scheme = SCHEME,
          pr_network = caip2 (t_network t),
          pr_amount = dec_string (unat (t_amount_msat t)),
          pr_asset = ASSET,
          pr_pay_to = pubkey_to_string C (t_pay_to t),
          pr_max_timeout_seconds = t_max_timeout_secs t,
          pr_extra = extra\<rparr>)"

lemma requirements_extra:
  "pr_extra (requirements C t invoice) =
     [(''assetTransferMethod'', JStr ASSET_TRANSFER_METHOD), (''invoice'', JStr invoice),
      (''paymentFlow'', JStr PAYMENT_FLOW), (''requestBindingParams'', t_binding_params t),
      (''requestBindingProfile'', JStr HTTP_PROFILE),
      (''requestHash'', JStr (hex_encode C (t_request_hash t)))]"
  by (simp add: requirements_def Let_def)

lemma requirements_wf:
  "t_binding_params t = http_params names \<Longrightarrow> map_wf (pr_extra (requirements C t invoice))"
  by (simp add: requirements_extra map_wf_def obj_sorted_def http_params_object)

section \<open>What a client reads\<close>

text \<open>
  A client of the scheme, written from its specification and not from this code: what it takes from a document by
  the names and the notation of the wire. It refuses a document of another scheme, asset, transfer method, flow
  or binding profile, and a network it does not know by the hash of its first block.
\<close>

record offer =
  of_network :: network
  of_pay_to :: pubkey
  of_amount_msat :: u64
  of_timeout_secs :: nat
  of_request_hash :: bytes
  of_bound_headers :: "string list"
  of_invoice :: string

definition text_at :: "json_map \<Rightarrow> string \<Rightarrow> string option" where
  "text_at ms k = Option.bind (map_of ms k) as_string"

definition texts_of :: "json list \<Rightarrow> string list option" where
  "texts_of js =
     (if list_all (\<lambda>j. as_string j \<noteq> None) js then Some (map (\<lambda>j. the (as_string j)) js) else None)"

definition chain_of :: "string \<Rightarrow> network option" where
  "chain_of s =
     (if s = ''lnbtc:000000000019d6689c085ae165831e93'' then Some Mainnet
      else if s = ''lnbtc:000000000933ea01ad0ee984209779ba'' then Some Testnet
      else if s = ''lnbtc:00000008819873e925422c1ff0f99f7c'' then Some Signet
      else None)"

definition bound_headers_of :: "json option \<Rightarrow> string list option" where
  "bound_headers_of params =
     (case params of Some (JObj [(k, JArr js)]) \<Rightarrow> if k = ''headers'' then texts_of js else None | _ \<Rightarrow> None)"

definition read_offer :: "crates \<Rightarrow> json \<Rightarrow> offer option" where
  "read_offer C doc =
     (case doc of
        JObj ms \<Rightarrow>
          (case map_of ms ''extra'' of
             Some (JObj ex) \<Rightarrow>
               if text_at ms ''scheme'' = Some ''exact'' \<and> text_at ms ''asset'' = Some ''BTC''
                 \<and> text_at ex ''assetTransferMethod'' = Some ''bolt11'' \<and> text_at ex ''paymentFlow'' = Some ''upfront''
                 \<and> text_at ex ''requestBindingProfile'' = Some ''http:1''
               then
                 Option.bind (Option.bind (text_at ms ''network'') chain_of) (\<lambda>n.
                 Option.bind (Option.bind (text_at ms ''payTo'') (pubkey_from_str C)) (\<lambda>k.
                 Option.bind (Option.bind (text_at ms ''amount'') parse_u64) (\<lambda>a.
                 Option.bind (Option.bind (map_of ms ''maxTimeoutSeconds'') (as_unsigned (2 ^ 64))) (\<lambda>m.
                 Option.bind (Option.bind (text_at ex ''requestHash'')
                   (\<lambda>h. case hex_decode C h of Inl _ \<Rightarrow> None | Inr bs \<Rightarrow> Some bs)) (\<lambda>h.
                 Option.bind (bound_headers_of (map_of ex ''requestBindingParams'')) (\<lambda>names.
                 Option.bind (text_at ex ''invoice'') (\<lambda>tx.
                 Some \<lparr>of_network = n, of_pay_to = k, of_amount_msat = a, of_timeout_secs = m, of_request_hash = h,
                       of_bound_headers = names, of_invoice = tx\<rparr>)))))))
               else None
           | _ \<Rightarrow> None)
      | _ \<Rightarrow> None)"

lemma texts_of_texts [simp]: "texts_of (map JStr names) = Some names"
  by (simp add: texts_of_def list_all_iff comp_def)

lemma chain_of_caip2 [simp]: "chain_of (caip2 n) = Some n"
  by (cases n) (simp_all add: chain_of_def)

section \<open>Properties\<close>

text \<open>
  C29. A client that knows only the specification reads off an offer exactly the terms it is for: under the
  names of the wire it finds the network by its first block, the node's key, the price in millisatoshis, the
  timeout in seconds, the hash of the request, the list of the bound headers and the invoice, each with the value
  of the terms. And the server reads the same document back as the requirements it offered, so what a client
  echoes is what was offered. The text of a public key is taken to be read back as the key.
\<close>

theorem client_reads_offer:
  assumes "hex_roundtrip C" "pubkey_from_str C (pubkey_to_string C (t_pay_to t)) = Some (t_pay_to t)"
    and "t_binding_params t = http_params names"
  shows "read_offer C (requirements_to_json (requirements C t txt)) =
      Some \<lparr>of_network = t_network t, of_pay_to = t_pay_to t, of_amount_msat = t_amount_msat t,
            of_timeout_secs = unat (t_max_timeout_secs t), of_request_hash = t_request_hash t,
            of_bound_headers = names, of_invoice = txt\<rparr>
    \<and> requirements_of_json (requirements_to_json (requirements C t txt)) = Some (requirements C t txt)"
proof -
  have "requirements_of_json (requirements_to_json (requirements C t txt)) = Some (requirements C t txt)"
    by (rule requirements_json_roundtrip) (rule requirements_wf [OF assms(3)])
  moreover have "hex_decode C (hex_encode C (t_request_hash t)) = Ok (t_request_hash t)"
    using assms(1) by (simp add: hex_roundtrip_def)
  ultimately show ?thesis
    using assms(2,3)
    by (simp add: read_offer_def requirements_to_json_def requirements_def Let_def text_at_def bound_headers_of_def
        lnbtc_consts HTTP_PROFILE_def http_params_object)
qed

theorem client_reads_offer_witness:
  "map_option of_amount_msat (read_offer (ref_crates [] []) (requirements_to_json (requirements (ref_crates [] [])
     \<lparr>t_network = Signet, t_pay_to = [2, 3], t_amount_msat = 21000, t_max_timeout_secs = 300,
      t_request_hash = [7, 8], t_binding_params = http_params [''accept''], t_clock_skew_secs = 60\<rparr> ''lntbs1'')))
   = Some 21000"
  using client_reads_offer [of "ref_crates [] []" "\<lparr>t_network = Signet, t_pay_to = [2, 3], t_amount_msat = 21000,
      t_max_timeout_secs = 300, t_request_hash = [7, 8], t_binding_params = http_params [''accept''],
      t_clock_skew_secs = 60\<rparr>" "[''accept'']" "''lntbs1''"]
    ref_laws [of "[]" "[]"] ref_hex_roundtrip
  by (simp add: ref_crates_def)

end
