(* ===== verification/Invoice.thy ===== *)
theory Invoice
  imports Lnbtc_Types
begin

text \<open>
  The invoice of \<^verbatim>\<open>src/x402/lnbtc.rs\<close>: its decoding from the parsed BOLT11 text and its checks
  against the terms of a request.
\<close>

record invoice =
  inv_currency :: currency
  inv_amount_msat :: "u64 option"
  inv_payment_hash :: bytes
  inv_description_hash :: "bytes option"
  inv_payee :: pubkey
  inv_created :: u64
  inv_expiry :: u64

text \<open>The loop over the tagged fields, with its three variables.\<close>

fun collect_fields ::
  "tagged_field list \<Rightarrow> bytes list \<Rightarrow> nat \<Rightarrow> bytes list \<Rightarrow> bytes list \<times> nat \<times> bytes list" where
  "collect_fields [] payment_hashes inline_descriptions description_hashes =
     (payment_hashes, inline_descriptions, description_hashes)"
| "collect_fields (f # fs) payment_hashes inline_descriptions description_hashes =
     (case f of
        PaymentHash h \<Rightarrow>
          collect_fields fs (payment_hashes @ [h]) inline_descriptions description_hashes
      | Description _ \<Rightarrow>
          collect_fields fs payment_hashes (inline_descriptions + 1) description_hashes
      | DescriptionHash h \<Rightarrow>
          collect_fields fs payment_hashes inline_descriptions (description_hashes @ [h])
      | OtherField \<Rightarrow>
          collect_fields fs payment_hashes inline_descriptions description_hashes)"

definition decode_amount :: "signed_invoice \<Rightarrow> error_reason + u64 option" where
  "decode_amount raw =
     (case raw_amount raw of
        None \<Rightarrow> Ok None
      | Some _ \<Rightarrow>
          (case amount_pico_btc raw of
             Some pico \<Rightarrow>
               if pico mod 10 = 0 then Ok (Some (pico div 10)) else Err InvoiceDecodeFailed
           | None \<Rightarrow> Err InvoiceDecodeFailed))"

definition decode_payee :: "signed_invoice \<Rightarrow> error_reason + pubkey" where
  "decode_payee raw =
     (case payee_pub_key raw of
        Some payee \<Rightarrow> Ok payee
      | None \<Rightarrow> ok_or (recover_payee_pub_key raw) InvoiceDecodeFailed)"

definition decode :: "crates \<Rightarrow> string \<Rightarrow> error_reason + invoice" where
  "decode C text =
     try_then (ok_or (bolt11_from_str C text) InvoiceDecodeFailed) (\<lambda>raw.
     if \<not> check_signature raw then Err InvoiceDecodeFailed
     else
       case collect_fields (known_tagged_fields raw) [] 0 [] of
         ([hash], inline_descriptions, description_hashes) \<Rightarrow>
           let description_hash =
                 (case description_hashes of
                    [h] \<Rightarrow> if inline_descriptions = 0 then Some h else None
                  | _ \<Rightarrow> None)
           in
           try_then (decode_amount raw) (\<lambda>amount_msat.
           try_then (decode_payee raw) (\<lambda>payee.
           Ok \<lparr>inv_currency = invoice_currency raw,
               inv_amount_msat = amount_msat,
               inv_payment_hash = hash,
               inv_description_hash = description_hash,
               inv_payee = payee,
               inv_created = invoice_timestamp raw,
               inv_expiry = (case expiry_time raw of None \<Rightarrow> DEFAULT_INVOICE_EXPIRY_SECS
                             | Some secs \<Rightarrow> secs)\<rparr>))
       | _ \<Rightarrow> Err InvoiceDecodeFailed)"

definition invoice_end :: "invoice \<Rightarrow> u64" where
  "invoice_end iv = saturating_add (inv_created iv) (inv_expiry iv)"

definition check :: "invoice \<Rightarrow> terms \<Rightarrow> u64 \<Rightarrow> error_reason + unit" where
  "check iv t now =
     try_then (ok_or (inv_description_hash iv) InvoiceDescription) (\<lambda>description_hash.
     if description_hash \<noteq> t_request_hash t then Err InvoiceRequestMismatch
     else if inv_payee iv \<noteq> t_pay_to t then Err InvoicePayeeMismatch
     else if inv_currency iv \<noteq> network_currency (t_network t) then Err InvoiceCurrencyMismatch
     else if inv_amount_msat iv \<noteq> Some (t_amount_msat t) then Err InvoiceAmountMismatch
     else if inv_expiry iv \<noteq> t_max_timeout_secs t then Err InvoiceExpiryMismatch
     else if inv_created iv > saturating_add now (t_clock_skew_secs t)
     then Err InvoiceCreatedInFuture
     else Ok ())"

definition check_issued_invoice ::
  "crates \<Rightarrow> string \<Rightarrow> terms \<Rightarrow> u64 \<Rightarrow> error_reason + unit" where
  "check_issued_invoice C text t now =
     try_then (decode C text) (\<lambda>iv.
     try_then (check iv t now) (\<lambda>_.
     if now > invoice_end iv then Err InvoiceExpired else Ok ()))"

section \<open>Properties\<close>

lemma collect_fields_eq:
  "collect_fields fs ps n ds =
     (ps @ List.map_filter (\<lambda>f. case f of PaymentHash h \<Rightarrow> Some h | _ \<Rightarrow> None) fs,
      n + length (filter (\<lambda>f. case f of Description _ \<Rightarrow> True | _ \<Rightarrow> False) fs),
      ds @ List.map_filter (\<lambda>f. case f of DescriptionHash h \<Rightarrow> Some h | _ \<Rightarrow> None) fs)"
  by (induction fs arbitrary: ps n ds) (simp_all add: List.map_filter_simps split: tagged_field.split)

text \<open>What a check passes.\<close>

lemma check_Ok [result_simps]:
  "check iv t now = Ok u \<longleftrightarrow>
     inv_description_hash iv = Some (t_request_hash t)
     \<and> inv_payee iv = t_pay_to t
     \<and> inv_currency iv = network_currency (t_network t)
     \<and> inv_amount_msat iv = Some (t_amount_msat t)
     \<and> inv_expiry iv = t_max_timeout_secs t
     \<and> inv_created iv \<le> saturating_add now (t_clock_skew_secs t)"
  by (auto simp: check_def result_simps split: if_splits)

lemma check_issued_invoice_Ok [result_simps]:
  "check_issued_invoice C text t now = Ok u \<longleftrightarrow>
     (\<exists>iv. decode C text = Ok iv \<and> check iv t now = Ok () \<and> now \<le> invoice_end iv)"
  by (cases "decode C text") (auto simp: check_issued_invoice_def result_simps not_less split: if_splits)

definition payment_hashes :: "signed_invoice \<Rightarrow> bytes list" where
  "payment_hashes raw =
     List.map_filter (\<lambda>f. case f of PaymentHash h \<Rightarrow> Some h | _ \<Rightarrow> None) (known_tagged_fields raw)"

definition description_hashes :: "signed_invoice \<Rightarrow> bytes list" where
  "description_hashes raw =
     List.map_filter (\<lambda>f. case f of DescriptionHash h \<Rightarrow> Some h | _ \<Rightarrow> None) (known_tagged_fields raw)"

definition inline_descriptions :: "signed_invoice \<Rightarrow> string list" where
  "inline_descriptions raw =
     List.map_filter (\<lambda>f. case f of Description d \<Rightarrow> Some d | _ \<Rightarrow> None) (known_tagged_fields raw)"

lemma collect_fields_lists:
  "collect_fields (known_tagged_fields raw) [] 0 [] =
     (payment_hashes raw, length (inline_descriptions raw), description_hashes raw)"
proof -
  have "length (filter (\<lambda>f. case f of Description _ \<Rightarrow> True | _ \<Rightarrow> False) fs) =
      length (List.map_filter (\<lambda>f. case f of Description d \<Rightarrow> Some d | _ \<Rightarrow> None) fs)" for fs
    by (induction fs) (simp_all add: List.map_filter_simps split: tagged_field.split)
  then show ?thesis
    by (simp add: collect_fields_eq payment_hashes_def description_hashes_def inline_descriptions_def)
qed

lemma decode_amount_Ok:
  "decode_amount raw = Ok a \<longleftrightarrow>
     (raw_amount raw = None \<and> a = None)
     \<or> (raw_amount raw \<noteq> None
        \<and> (\<exists>pico m. amount_pico_btc raw = Some pico \<and> a = Some m \<and> unat pico = 10 * unat m))"
proof -
  have "pico mod 10 = 0 \<and> m = pico div 10 \<longleftrightarrow> unat pico = 10 * unat m" for pico m :: u64
  proof
    assume "pico mod 10 = 0 \<and> m = pico div 10"
    then have "unat (pico mod 10) = 0" "unat m = unat pico div 10"
      by (simp_all only: unat_div unat_0) (simp_all add: unat_div)
    moreover have "n = 10 * (n div 10)" if "n mod 10 = 0" for n :: nat
      using that by presburger
    ultimately show "unat pico = 10 * unat m" by (simp add: unat_mod)
  next
    assume a: "unat pico = 10 * unat m"
    then have "unat (pico mod 10) = 0" "unat (pico div 10) = unat m"
      by (simp_all add: unat_mod unat_div)
    then show "pico mod 10 = 0 \<and> m = pico div 10"
      by (metis unat_eq_zero word_unat_eq_iff)
  qed
  then have "(if pico mod 10 = 0 then Ok (Some (pico div 10)) else Err InvoiceDecodeFailed) = Ok a \<longleftrightarrow>
      (\<exists>m. a = Some m \<and> unat pico = 10 * unat m)" for pico
    by (metis sum.distinct(1) sum.inject(2))
  then show ?thesis
    by (cases "raw_amount raw"; cases "amount_pico_btc raw")
       (simp_all add: decode_amount_def del: dvd_imp_mod_0 mod_eq_0_iff_dvd, auto)
qed

lemma decode_payee_Ok:
  "decode_payee raw = Ok k \<longleftrightarrow>
     payee_pub_key raw = Some k \<or> (payee_pub_key raw = None \<and> recover_payee_pub_key raw = Some k)"
  by (cases "payee_pub_key raw") (auto simp: decode_payee_def ok_or_Ok)

lemma single_description:
  "(case ds of [h] \<Rightarrow> if length n = 0 then Some h else None | _ \<Rightarrow> None) =
     (if n = [] \<and> length ds = 1 then Some (hd ds) else None)"
  by (auto split: list.split)

lemma decode_Ok:
  "(decode C txt = Ok iv) =
     (\<exists>raw. bolt11_from_str C txt = Some raw \<and> check_signature raw
        \<and> payment_hashes raw = [inv_payment_hash iv]
        \<and> inv_description_hash iv =
            (if inline_descriptions raw = [] \<and> length (description_hashes raw) = 1
             then Some (hd (description_hashes raw)) else None)
        \<and> (case inv_amount_msat iv of
             None \<Rightarrow> raw_amount raw = None
           | Some m \<Rightarrow> raw_amount raw \<noteq> None \<and> map_option unat (amount_pico_btc raw) = Some (10 * unat m))
        \<and> (payee_pub_key raw = Some (inv_payee iv)
           \<or> (payee_pub_key raw = None \<and> recover_payee_pub_key raw = Some (inv_payee iv)))
        \<and> inv_currency iv = invoice_currency raw
        \<and> inv_created iv = invoice_timestamp raw
        \<and> inv_expiry iv = (case expiry_time raw of None \<Rightarrow> 3600 | Some s \<Rightarrow> s))"
proof (cases "bolt11_from_str C txt")
  case None
  then show ?thesis by (simp add: decode_def)
next
  case (Some raw)
  show ?thesis
  proof (cases "check_signature raw \<and> (\<exists>h. payment_hashes raw = [h])")
    case False
    then have "decode C txt \<noteq> Ok iv"
      by (cases "payment_hashes raw" rule: remdups_adj.cases)
         (auto simp: decode_def Some collect_fields_lists)
    with False Some show ?thesis by auto
  next
    case True
    then obtain h where h: "check_signature raw" "payment_hashes raw = [h]" by blast
    have "(decode C txt = Ok iv) =
        (\<exists>a k. decode_amount raw = Ok a \<and> decode_payee raw = Ok k \<and>
          iv = \<lparr>inv_currency = invoice_currency raw, inv_amount_msat = a, inv_payment_hash = h,
                inv_description_hash =
                  (if inline_descriptions raw = [] \<and> length (description_hashes raw) = 1
                   then Some (hd (description_hashes raw)) else None),
                inv_payee = k, inv_created = invoice_timestamp raw,
                inv_expiry = (case expiry_time raw of None \<Rightarrow> 3600 | Some s \<Rightarrow> s)\<rparr>)"
      using h by (auto simp: decode_def Some collect_fields_lists try_then_Ok Let_def single_description
          DEFAULT_INVOICE_EXPIRY_SECS_def split: option.split)
    then show ?thesis
      using h Some
      by (cases iv) (auto simp: decode_amount_Ok decode_payee_Ok split: option.splits)
  qed
qed

lemma decode_parts:
  assumes "decode C txt = Ok iv"
  obtains raw where "bolt11_from_str C txt = Some raw" "check_signature raw"
    "decode_amount raw = Ok (inv_amount_msat iv)" "decode_payee raw = Ok (inv_payee iv)"
    "payment_hashes raw = [inv_payment_hash iv]"
    "inv_description_hash iv = (if inline_descriptions raw = [] \<and> length (description_hashes raw) = 1
       then Some (hd (description_hashes raw)) else None)"
    "inv_currency iv = invoice_currency raw" "inv_created iv = invoice_timestamp raw"
proof -
  obtain raw where "bolt11_from_str C txt = Some raw" "check_signature raw"
    and "payment_hashes raw = [inv_payment_hash iv]"
    and "inv_description_hash iv = (if inline_descriptions raw = [] \<and> length (description_hashes raw) = 1
       then Some (hd (description_hashes raw)) else None)"
    and a: "case inv_amount_msat iv of None \<Rightarrow> raw_amount raw = None
       | Some m \<Rightarrow> raw_amount raw \<noteq> None \<and> map_option unat (amount_pico_btc raw) = Some (10 * unat m)"
    and "payee_pub_key raw = Some (inv_payee iv)
       \<or> (payee_pub_key raw = None \<and> recover_payee_pub_key raw = Some (inv_payee iv))"
    and "inv_currency iv = invoice_currency raw" "inv_created iv = invoice_timestamp raw"
    using assms by (auto simp: decode_Ok)
  moreover have "decode_amount raw = Ok (inv_amount_msat iv)"
    using a by (auto simp: decode_amount_Ok split: option.split_asm)
  ultimately show thesis using that by (simp add: decode_payee_Ok)
qed

text \<open>
  C23. Strict decoding: an invoice is decoded iff its BOLT11 text parses, its signature checks, it has
  exactly one payment hash, its amount (if any) is a whole number of millisatoshis, and it names its
  payee or allows to recover it; the description hash is kept iff it is the only one and there is no
  inline description; the amount is exact (ten pico-BTC each) and a missing expiry is an hour.
\<close>

theorem decode_iff:
  "(decode C txt = Ok iv) =
     (\<exists>raw. bolt11_from_str C txt = Some raw \<and> check_signature raw
        \<and> payment_hashes raw = [inv_payment_hash iv]
        \<and> inv_description_hash iv =
            (if inline_descriptions raw = [] \<and> length (description_hashes raw) = 1
             then Some (hd (description_hashes raw)) else None)
        \<and> (case inv_amount_msat iv of
             None \<Rightarrow> raw_amount raw = None
           | Some m \<Rightarrow> raw_amount raw \<noteq> None \<and> map_option unat (amount_pico_btc raw) = Some (10 * unat m))
        \<and> (payee_pub_key raw = Some (inv_payee iv)
           \<or> (payee_pub_key raw = None \<and> recover_payee_pub_key raw = Some (inv_payee iv)))
        \<and> inv_currency iv = invoice_currency raw
        \<and> inv_created iv = invoice_timestamp raw
        \<and> inv_expiry iv = (case expiry_time raw of None \<Rightarrow> 3600 | Some s \<Rightarrow> s))"
  by (rule decode_Ok)

end
