(* ===== verification/Replay_Log.thy ===== *)
theory Replay_Log
  imports Crates
begin

text \<open>
  The interface of the replay store: what \<^verbatim>\<open>lnbtc::settle\<close> and the pruner rely on. A store
  remembers, for each consumed key, the time until which it keeps it. The locale states the
  laws of the two operations; the facts that clients use are proved from them once.
\<close>

text \<open>
  A statement of the database can fail (a full disk, a locked file); then it is the text of
  the error. An SQLite statement that fails changes no row.
\<close>

type_synonym db_fault = "string option"

text \<open>\<^verbatim>\<open>to_sql_time\<close>: SQLite integers are signed, so a time is clamped.\<close>

definition to_sql_time :: "u64 \<Rightarrow> i64" where
  "to_sql_time secs = (case i64_try_from_u64 secs of Some t \<Rightarrow> t | None \<Rightarrow> i64_max)"

lemma sint_to_sql_time [arith_defs]:
  "sint (to_sql_time t) = int (min (unat t) (2 ^ 63 - 1))"
proof (cases "unat t < 2 ^ 63")
  case True
  then show ?thesis
    by (simp add: to_sql_time_def i64_try_from_u64_def sint_of_small_unat)
next
  case False
  then show ?thesis
    by (simp add: to_sql_time_def i64_try_from_u64_def)
qed

lemma to_sql_time_mono: "a \<le> b \<Longrightarrow> sint (to_sql_time a) \<le> sint (to_sql_time b)"
  by (simp add: sint_to_sql_time word_le_nat_alt)

lemma to_sql_time_less: "sint (to_sql_time a) < sint (to_sql_time b) \<Longrightarrow> a < b"
  by (auto simp: sint_to_sql_time word_less_nat_alt min_def split: if_splits)

datatype log_op = Consume db_fault string u64 | Prune db_fault u64

locale replay_log =
  fixes consume :: "db_fault \<Rightarrow> string \<Rightarrow> u64 \<Rightarrow> 's \<Rightarrow> (string + bool) \<times> 's"
    and prune :: "db_fault \<Rightarrow> u64 \<Rightarrow> 's \<Rightarrow> (string + nat) \<times> 's"
    and retained :: "'s \<Rightarrow> string \<Rightarrow> i64 option"
    and invar :: "'s \<Rightarrow> bool"
  assumes consume_fault: "consume (Some e) k r s = (Err e, s)"
    and consume_fresh:
      "invar s \<Longrightarrow> retained s k = None \<Longrightarrow> \<exists>s'. consume None k r s = (Ok True, s') \<and> invar s'
         \<and> retained s' = (retained s)(k \<mapsto> to_sql_time r)"
    and consume_present:
      "invar s \<Longrightarrow> retained s k = Some t \<Longrightarrow> consume None k r s = (Ok False, s)"
    and prune_fault: "prune (Some e) now s = (Err e, s)"
    and prune_keeps:
      "invar s \<Longrightarrow> \<exists>n s'. prune None now s = (Ok n, s') \<and> invar s' \<and>
         retained s' =
           (\<lambda>k. case retained s k of
                  None \<Rightarrow> None
                | Some t \<Rightarrow> if sint t < sint (to_sql_time now) then None else Some t)"
begin

definition apply_op :: "log_op \<Rightarrow> 's \<Rightarrow> 's" where
  "apply_op a s =
     (case a of Consume f k r \<Rightarrow> snd (consume f k r s) | Prune f now \<Rightarrow> snd (prune f now s))"

lemma consume_Ok_True:
  "invar s \<Longrightarrow> consume f k r s = (Ok True, s') \<longleftrightarrow>
     f = None \<and> retained s k = None \<and> s' = snd (consume None k r s)"
  by (cases f; cases "retained s k")
     (use consume_fault consume_fresh [of s k r] consume_present [of s k _ r] in auto)

lemma consume_Ok_False:
  "invar s \<Longrightarrow> consume f k r s = (Ok False, s') \<longleftrightarrow> f = None \<and> retained s k \<noteq> None \<and> s' = s"
  by (cases f; cases "retained s k")
     (use consume_fault consume_fresh [of s k r] consume_present [of s k _ r] in auto)

lemma consume_records:
  "invar s \<Longrightarrow> consume f k r s = (Ok True, s') \<Longrightarrow>
     invar s' \<and> retained s' = (retained s)(k \<mapsto> to_sql_time r)"
  using consume_fresh [of s k r] consume_fault [of _ k r s] consume_present [of s k _ r]
  by (cases f; cases "retained s k") auto

lemma consume_unchanged:
  "invar s \<Longrightarrow> consume f k r s = (res, s') \<Longrightarrow> res \<noteq> Ok True \<Longrightarrow> s' = s"
  using consume_fresh [of s k r] consume_fault [of _ k r s] consume_present [of s k _ r]
  by (cases f; cases "retained s k") auto

lemma apply_op_inv: "invar s \<Longrightarrow> invar (apply_op a s)"
proof (cases a)
  case (Consume f k r)
  assume "invar s"
  then show ?thesis
    using Consume consume_fault [of _ k r s] consume_fresh [of s k r] consume_present [of s k _ r]
    by (cases f; cases "retained s k") (auto simp: apply_op_def)
next
  case (Prune f now)
  assume "invar s"
  then show ?thesis
    using Prune prune_fault [of _ now s] prune_keeps [of s now]
    by (cases f) (auto simp: apply_op_def)
qed

lemma apply_op_keeps:
  assumes "invar s" and "retained s k = Some t"
    and "\<forall>f now. a = Prune f now \<longrightarrow> sint (to_sql_time now) \<le> sint t"
  shows "retained (apply_op a s) k = Some t"
proof (cases a)
  case (Consume f l r)
  then show ?thesis
    using assms consume_fault [of _ l r s] consume_fresh [of s l r] consume_present [of s l _ r]
    by (cases f; cases "retained s l") (auto simp: apply_op_def)
next
  case (Prune f now)
  then show ?thesis
    using assms prune_fault [of _ now s] prune_keeps [of s now]
    by (cases f) (auto simp: apply_op_def)
qed

lemma kept_over_run:
  assumes "invar s" and "retained s k = Some t"
    and "\<forall>f now. Prune f now \<in> set as \<longrightarrow> sint (to_sql_time now) \<le> sint t"
  shows "invar (fold apply_op as s) \<and> retained (fold apply_op as s) k = Some t"
  using assms
proof (induction as arbitrary: s)
  case Nil
  then show ?case by simp
next
  case (Cons a as)
  then have "retained (apply_op a s) k = Some t" by (intro apply_op_keeps) auto
  with Cons show ?case by (simp add: apply_op_inv)
qed

lemma consumed_once:
  assumes "invar s" and "consume f k r s = (Ok True, s')"
    and "\<forall>f now. Prune f now \<in> set as \<longrightarrow> now \<le> r"
  shows "consume None k r' (fold apply_op as s') = (Ok False, fold apply_op as s')"
proof -
  have s': "invar s'" "retained s' k = Some (to_sql_time r)"
    using consume_records [OF assms(1,2)] by auto
  have "invar (fold apply_op as s')" "retained (fold apply_op as s') k = Some (to_sql_time r)"
    using kept_over_run [OF s', of as] assms(3) to_sql_time_mono by blast+
  then show ?thesis by (rule consume_present)
qed

end

end
