(* ===== verification/Replay.thy ===== *)
theory Replay
  imports Replay_Log
begin

text \<open>
  \<^verbatim>\<open>src/replay.rs\<close>: the replay store. Its SQLite table \<^verbatim>\<open>consumed\<close> is the list of its rows
  \<open>(key, retain_until)\<close>; the primary key is the invariant \<open>table_wf\<close>. The mutex around the
  connection makes each operation one step on the table.
\<close>

type_synonym table = "(string \<times> i64) list"

definition table_wf :: "table \<Rightarrow> bool" where
  "table_wf t \<longleftrightarrow> distinct (map fst t)"

text \<open>The two statements: the rows changed and the new table.\<close>

definition sql_insert_or_ignore :: "string \<Rightarrow> i64 \<Rightarrow> table \<Rightarrow> nat \<times> table" where
  "sql_insert_or_ignore key retain_until t =
     (if key \<in> fst ` set t then (0, t) else (1, t @ [(key, retain_until)]))"

definition sql_delete_before :: "i64 \<Rightarrow> table \<Rightarrow> nat \<times> table" where
  "sql_delete_before now t =
     (length (filter (\<lambda>row. sint (snd row) < sint now) t),
      filter (\<lambda>row. \<not> sint (snd row) < sint now) t)"

text \<open>
  Opening the store at a path: the table of the file there, or a new one. Each of its three
  steps (opening the file, setting the journal mode, creating the table) can fail.
\<close>

definition replay_open ::
  "db_fault \<Rightarrow> db_fault \<Rightarrow> db_fault \<Rightarrow> string \<Rightarrow> table option \<Rightarrow> string + table" where
  "replay_open open_fault pragma_fault create_fault path file =
     (case open_fault of
        Some _ \<Rightarrow> Err (''failed to open replay store '' @ path)
      | None \<Rightarrow>
          (case pragma_fault of
             Some e \<Rightarrow> Err e
           | None \<Rightarrow>
               (case create_fault of
                  Some e \<Rightarrow> Err e
                | None \<Rightarrow> Ok (case file of None \<Rightarrow> [] | Some t \<Rightarrow> t))))"

definition consume :: "db_fault \<Rightarrow> string \<Rightarrow> u64 \<Rightarrow> table \<Rightarrow> (string + bool) \<times> table" where
  "consume fault key retain_until t =
     (case fault of
        Some e \<Rightarrow> (Err e, t)
      | None \<Rightarrow>
          (case sql_insert_or_ignore key (to_sql_time retain_until) t of
             (inserted, t') \<Rightarrow> (Ok (inserted = 1), t')))"

definition prune :: "db_fault \<Rightarrow> u64 \<Rightarrow> table \<Rightarrow> (string + nat) \<times> table" where
  "prune fault now t =
     (case fault of
        Some e \<Rightarrow> (Err e, t)
      | None \<Rightarrow>
          (case sql_delete_before (to_sql_time now) t of (deleted, t') \<Rightarrow> (Ok deleted, t')))"

section \<open>The store implements the interface\<close>

lemma map_of_delete:
  "table_wf t \<Longrightarrow> map_of (filter (\<lambda>row. \<not> sint (snd row) < b) t) k =
     (case map_of t k of None \<Rightarrow> None | Some r \<Rightarrow> if sint r < b then None else Some r)"
proof (induction t)
  case Nil
  then show ?case by simp
next
  case (Cons row t)
  have "map_of t k = None" if "fst row = k"
    using Cons.prems that by (simp add: table_wf_def map_of_eq_None_iff)
  with Cons show ?case by (auto simp: table_wf_def split: option.splits)
qed

lemma map_of_snoc: "k \<notin> fst ` set t \<Longrightarrow> map_of (t @ [(k, v)]) = (map_of t)(k \<mapsto> v)"
  by (induction t) (auto simp: fun_eq_iff)

lemma table_wf_filter: "table_wf t \<Longrightarrow> table_wf (filter P t)"
  by (simp add: table_wf_def distinct_map_filter)

interpretation replay: replay_log consume prune map_of table_wf
proof
  fix e k r s
  show "consume (Some e) k r s = (Err e, s)" by (simp add: consume_def)
next
  fix s :: table and k r
  assume wf: "table_wf s" and "map_of s k = None"
  then have new: "k \<notin> fst ` set s" by (simp add: map_of_eq_None_iff)
  with wf show "\<exists>s'. consume None k r s = (Ok True, s') \<and> table_wf s'
      \<and> map_of s' = (map_of s)(k \<mapsto> to_sql_time r)"
    by (simp add: consume_def sql_insert_or_ignore_def table_wf_def map_of_snoc del: map_of_append)
next
  fix s :: table and k t r
  assume "table_wf s" "map_of s k = Some t"
  then show "consume None k r s = (Ok False, s)"
    by (force simp: consume_def sql_insert_or_ignore_def dest: map_of_SomeD)
next
  fix e now s
  show "prune (Some e) now s = (Err e, s)" by (simp add: prune_def)
next
  fix s :: table and now
  assume "table_wf s"
  then show "\<exists>n s'. prune None now s = (Ok n, s') \<and> table_wf s' \<and> map_of s' =
      (\<lambda>k. case map_of s k of None \<Rightarrow> None
             | Some t \<Rightarrow> if sint t < sint (to_sql_time now) then None else Some t)"
    by (auto simp: prune_def sql_delete_before_def table_wf_filter map_of_delete)
qed

section \<open>Runs of the store\<close>

text \<open>One operation of a run: a settlement's insertion or a tick of the pruner.\<close>

definition run_op :: "log_op \<Rightarrow> table \<Rightarrow> table" where
  "run_op a t =
     (case a of Consume f k r \<Rightarrow> snd (consume f k r t) | Prune f now \<Rightarrow> snd (prune f now t))"

lemma run_op_apply: "run_op a t = replay.apply_op a t"
  by (cases a) (simp_all add: run_op_def replay.apply_op_def)

lemma fold_run_op: "fold run_op as t = fold replay.apply_op as t"
  by (induction as arbitrary: t) (simp_all add: run_op_apply)

text \<open>
  C15. A consumed key stays consumed: once \<open>consume\<close> has answered that a key is new, it answers
  that the key was already consumed after any number of further insertions, failed statements
  and prunings, as long as no pruning runs at a time after the key's retention.
\<close>

theorem replay_consumes_once:
  assumes "table_wf t" and "consume f k r t = (Ok True, t')"
    and "\<forall>g now. Prune g now \<in> set ops \<longrightarrow> now \<le> r"
  shows "consume None k r' (fold run_op ops t') = (Ok False, fold run_op ops t')"
  unfolding fold_run_op using assms by (rule replay.consumed_once)

theorem replay_consumes_once_witness:
  "consume None ''a'' 9 (fold run_op [Prune None 5, Consume None ''b'' 6, Prune (Some ''full'') 5]
       [(''a'', 5)])
   = (Ok False, fold run_op [Prune None 5, Consume None ''b'' 6, Prune (Some ''full'') 5] [(''a'', 5)])"
  by (rule replay_consumes_once [of "[]" None "''a''" 5])
     (auto simp: table_wf_def consume_def sql_insert_or_ignore_def to_sql_time_def i64_try_from_u64_def)

text \<open>
  C16. Pruning removes exactly the keys whose retention has ended, and tells how many: a key just
  consumed with a retention time is still there after a pruning iff the pruning's time is not
  after it (both clamped to the largest signed integer of SQLite), every other key is kept or
  removed by the same rule, and the count is the number of rows that went.
\<close>

theorem prune_exact:
  assumes "table_wf t" and "consume None k r t = (Ok True, t1)" and "prune None now t1 = (Ok n, t2)"
  shows "(k \<in> dom (map_of t2)) = (min (unat now) (2 ^ 63 - 1) \<le> min (unat r) (2 ^ 63 - 1))
    \<and> (\<forall>l. l \<noteq> k \<longrightarrow> map_of t2 l =
          (case map_of t l of None \<Rightarrow> None
           | Some v \<Rightarrow> if sint v < int (min (unat now) (2 ^ 63 - 1)) then None else Some v))
    \<and> n + length t2 = length t1"
proof -
  have t1: "table_wf t1" "map_of t1 = (map_of t)(k \<mapsto> to_sql_time r)"
    using replay.consume_records [OF assms(1,2)] by auto
  have t2: "map_of t2 = (\<lambda>l. case map_of t1 l of None \<Rightarrow> None
      | Some v \<Rightarrow> if sint v < sint (to_sql_time now) then None else Some v)"
    using replay.prune_keeps [OF t1(1), of now] assms(3) by auto
  have "n + length t2 = length t1"
    using assms(3) sum_length_filter_compl [of "\<lambda>row. sint (snd row) < sint (to_sql_time now)" t1]
    by (auto simp: prune_def sql_delete_before_def)
  moreover have "(k \<in> dom (map_of t2)) = (sint (to_sql_time now) \<le> sint (to_sql_time r))"
    by (auto simp: t1(2) t2 split: if_splits)
  moreover have "map_of t2 l = (case map_of t l of None \<Rightarrow> None
      | Some v \<Rightarrow> if sint v < int (min (unat now) (2 ^ 63 - 1)) then None else Some v)" if "l \<noteq> k" for l
    using that by (simp only: t2 t1(2) sint_to_sql_time fun_upd_apply if_False)
  ultimately show ?thesis by (simp only: sint_to_sql_time of_nat_le_iff) blast
qed

theorem prune_exact_witness:
  "(''a'' \<in> dom (map_of [(''a'', 5)])) = (min (unat (5 :: u64)) (2 ^ 63 - 1) \<le> min (unat (5 :: u64)) (2 ^ 63 - 1))"
proof -
  have t: "to_sql_time 5 = 5" by (simp add: to_sql_time_def i64_try_from_u64_def)
  have "consume None ''a'' 5 [(''b'', 4)] = (Ok True, [(''b'', 4), (''a'', 5)])"
    by (simp add: consume_def sql_insert_or_ignore_def t)
  moreover have "prune None 5 [(''b'', 4), (''a'', 5)] = (Ok 1, [(''a'', 5)])"
    by (simp add: prune_def sql_delete_before_def t)
  ultimately show ?thesis
    using prune_exact [of "[(''b'', 4)]" "''a''" 5 _ 5 1 "[(''a'', 5)]"] by (simp add: table_wf_def)
qed

end
