(* ===== verification/Lnbtc.thy ===== *)
theory Lnbtc
  imports Invoice Replay
begin

text \<open>
  \<^verbatim>\<open>src/x402/lnbtc.rs\<close>: the facilitator's checks of a payment (\<open>verify\<close>) and the settlement
  that consumes it (\<open>settle\<close>). The order of the checks is the order of the errors; a
  verification that fails gives the first failing check.
\<close>

definition is_lower_hex_digit :: "char \<Rightarrow> bool" where
  "is_lower_hex_digit b \<longleftrightarrow>
     (CHR ''0'' \<le> b \<and> b \<le> CHR ''9'') \<or> (CHR ''a'' \<le> b \<and> b \<le> CHR ''f'')"

definition check_extra :: "crates \<Rightarrow> json_map \<Rightarrow> terms \<Rightarrow> error_reason + unit" where
  "check_extra C extra t =
     try_then (case map_of extra ''assetTransferMethod'' of
                 None \<Rightarrow> Ok ()
               | Some (JStr m) \<Rightarrow> reject_if (m \<noteq> ASSET_TRANSFER_METHOD) AssetTransferMethod
               | Some _ \<Rightarrow> Err AssetTransferMethod) (\<lambda>_.
     try_then (case map_of extra ''paymentFlow'' of
                 Some (JStr flow) \<Rightarrow> reject_if (flow \<noteq> PAYMENT_FLOW) PaymentFlow
               | _ \<Rightarrow> Err PaymentFlow) (\<lambda>_.
     try_then (case map_of extra ''requestHash'' of
                 Some (JStr h) \<Rightarrow>
                   if length h = 64 \<and> list_all is_lower_hex_digit h then Ok h
                   else Err RequestBinding
               | _ \<Rightarrow> Err RequestBinding) (\<lambda>request_hash.
     try_then (case map_of extra ''requestBindingProfile'' of
                 Some (JStr profile) \<Rightarrow> reject_if (profile \<noteq> HTTP_PROFILE) RequestBinding
               | _ \<Rightarrow> Err RequestBinding) (\<lambda>_.
     try_then (case map_of extra ''requestBindingParams'' of
                 None \<Rightarrow> Err RequestBinding
               | Some params \<Rightarrow>
                   if is_valid_http_params params then Ok params else Err RequestBinding) (\<lambda>params.
     if request_hash \<noteq> hex_encode C (t_request_hash t) \<or> params \<noteq> t_binding_params t
     then Err RequestMismatch
     else Ok ())))))"

record proof_of_payment =
  pf_payment_hash :: bytes
  pf_retain_until :: u64

text \<open>Steps 1 and 2: the core fields of the accepted requirements.\<close>

definition check_core :: "crates \<Rightarrow> payment_requirements \<Rightarrow> terms \<Rightarrow> error_reason + unit" where
  "check_core C accepted t =
     (if pr_scheme accepted \<noteq> SCHEME then Err UnsupportedScheme
      else if pr_network accepted \<noteq> caip2 (t_network t) then Err NetworkMismatch
      else if pr_amount accepted \<noteq> dec_string (unat (t_amount_msat t)) then Err AmountMismatch
      else if pr_asset accepted \<noteq> ASSET then Err Asset
      else if pr_pay_to accepted \<noteq> pubkey_to_string C (t_pay_to t) then Err PayToMismatch
      else if pr_max_timeout_seconds accepted \<noteq> t_max_timeout_secs t
      then Err MaxTimeoutMismatch
      else Ok ())"

text \<open>Step 6: the preimage against the invoice's payment hash.\<close>

definition check_preimage :: "crates \<Rightarrow> json_map \<Rightarrow> bytes \<Rightarrow> error_reason + unit" where
  "check_preimage C payload hash =
     try_then (case map_of payload ''preimage'' of
                 None \<Rightarrow> Err PreimageMissing
               | Some (JStr p) \<Rightarrow> Ok p
               | Some _ \<Rightarrow> Err PreimageMalformed) (\<lambda>p.
     if \<not> list_all is_lower_hex_digit p then Err PreimageMalformed
     else if length p \<noteq> 64 then Err PreimageLength
     else try_then (map_err (\<lambda>_. PreimageMalformed) (hex_decode C p)) (\<lambda>bs.
       if sha256 C bs \<noteq> hash then Err PreimageHashMismatch else Ok ()))"

definition last_valid :: "invoice \<Rightarrow> terms \<Rightarrow> u64" where
  "last_valid iv t = saturating_add (invoice_end iv) (t_clock_skew_secs t)"

definition verify ::
  "crates \<Rightarrow> payment_payload \<Rightarrow> terms \<Rightarrow> u64 \<Rightarrow> error_reason + proof_of_payment" where
  "verify C p t now =
     (let accepted = pp_accepted p in
      try_then (check_core C accepted t) (\<lambda>_.
      try_then (check_extra C (pr_extra accepted) t) (\<lambda>_.
      try_then (case map_of (pr_extra accepted) ''invoice'' of
                  Some (JStr s) \<Rightarrow> if s \<noteq> [] then Ok s else Err InvoiceMissing
                | _ \<Rightarrow> Err InvoiceMissing) (\<lambda>text.
      try_then (decode C text) (\<lambda>iv.
      try_then (check iv t now) (\<lambda>_.
      try_then (check_preimage C (pp_payload p) (inv_payment_hash iv)) (\<lambda>_.
      if now > last_valid iv t then Err InvoiceExpired
      else Ok \<lparr>pf_payment_hash = inv_payment_hash iv,
               pf_retain_until = saturating_add (last_valid iv t) REPLAY_RETENTION_SECS\<rparr>)))))))"

datatype settle_error = Rejected error_reason | Store string

record settlement =
  transaction :: string

definition replay_key :: "crates \<Rightarrow> network \<Rightarrow> bytes \<Rightarrow> string" where
  "replay_key C n hash = caip2 n @ '':'' @ hex_encode C hash"

definition settle ::
  "crates \<Rightarrow> db_fault \<Rightarrow> payment_payload \<Rightarrow> terms \<Rightarrow> u64 \<Rightarrow> table
     \<Rightarrow> (settle_error + settlement) \<times> table" where
  "settle C fault p t now store =
     (case map_err Rejected (verify C p t now) of
        Inl e \<Rightarrow> (Err e, store)
      | Inr pf \<Rightarrow>
          let hash = hex_encode C (pf_payment_hash pf);
              key = caip2 (t_network t) @ '':'' @ hash
          in (case consume fault key (pf_retain_until pf) store of
                (Inl e, store') \<Rightarrow> (Err (Store e), store')
              | (Inr fresh, store') \<Rightarrow>
                  (if fresh then Ok \<lparr>transaction = hash\<rparr>
                   else Err (Rejected DuplicateSettlement), store')))"

section \<open>The checks one by one\<close>

lemma check_core_Ok [result_simps]:
  "check_core C a t = Ok u \<longleftrightarrow>
     pr_scheme a = SCHEME \<and> pr_network a = caip2 (t_network t)
     \<and> pr_amount a = dec_string (unat (t_amount_msat t)) \<and> pr_asset a = ASSET
     \<and> pr_pay_to a = pubkey_to_string C (t_pay_to t)
     \<and> pr_max_timeout_seconds a = t_max_timeout_secs t"
  by (simp add: check_core_def)

lemma transfer_method_Ok:
  "(case m of None \<Rightarrow> Ok () | Some (JStr s) \<Rightarrow> reject_if (s \<noteq> ASSET_TRANSFER_METHOD) e
     | Some _ \<Rightarrow> Err e) = Ok u \<longleftrightarrow> m = None \<or> m = Some (JStr ASSET_TRANSFER_METHOD)"
  by (auto simp: result_simps split: option.split json.split)

lemma string_member_Ok:
  "(case m of Some (JStr s) \<Rightarrow> reject_if (s \<noteq> x) e | _ \<Rightarrow> Err e) = Ok u \<longleftrightarrow> m = Some (JStr x)"
  by (auto simp: result_simps split: option.split json.split)

lemma guarded_string_Ok:
  "(case m of Some (JStr s) \<Rightarrow> if P s then Ok s else Err e | _ \<Rightarrow> Err e) = Ok x \<longleftrightarrow>
     m = Some (JStr x) \<and> P x"
  by (auto split: option.split json.split)

lemma guarded_value_Ok:
  "(case m of None \<Rightarrow> Err e | Some v \<Rightarrow> if P v then Ok v else Err e) = Ok x \<longleftrightarrow> m = Some x \<and> P x"
  by (auto split: option.split)

lemma any_string_Ok:
  "(case m of None \<Rightarrow> Err d | Some (JStr s) \<Rightarrow> Ok s | Some _ \<Rightarrow> Err e) = Ok x \<longleftrightarrow> m = Some (JStr x)"
  by (auto split: option.split json.split)

lemmas member_Ok = transfer_method_Ok string_member_Ok guarded_string_Ok guarded_value_Ok any_string_Ok

lemma check_extra_Ok [result_simps]:
  "check_extra C ex t = Ok u \<longleftrightarrow>
     map_of ex ''assetTransferMethod'' \<in> {None, Some (JStr ASSET_TRANSFER_METHOD)}
     \<and> map_of ex ''paymentFlow'' = Some (JStr PAYMENT_FLOW)
     \<and> map_of ex ''requestBindingProfile'' = Some (JStr HTTP_PROFILE)
     \<and> map_of ex ''requestHash'' = Some (JStr (hex_encode C (t_request_hash t)))
     \<and> length (hex_encode C (t_request_hash t)) = 64
     \<and> list_all is_lower_hex_digit (hex_encode C (t_request_hash t))
     \<and> map_of ex ''requestBindingParams'' = Some (t_binding_params t)
     \<and> is_valid_http_params (t_binding_params t)"
  unfolding check_extra_def by (auto simp: try_then_Ok member_Ok split: if_splits)

lemma check_preimage_Ok [result_simps]:
  "check_preimage C pl hash = Ok u \<longleftrightarrow>
     (\<exists>s bs. map_of pl ''preimage'' = Some (JStr s) \<and> list_all is_lower_hex_digit s
        \<and> length s = 64 \<and> hex_decode C s = Ok bs \<and> sha256 C bs = hash)"
  unfolding check_preimage_def
  by (auto simp: try_then_Ok member_Ok map_err_Ok split: if_splits)

lemma verify_Ok:
  "verify C p t now = Ok pf \<longleftrightarrow>
     check_core C (pp_accepted p) t = Ok () \<and> check_extra C (pr_extra (pp_accepted p)) t = Ok ()
     \<and> (\<exists>text iv. map_of (pr_extra (pp_accepted p)) ''invoice'' = Some (JStr text) \<and> text \<noteq> []
          \<and> decode C text = Ok iv \<and> check iv t now = Ok ()
          \<and> check_preimage C (pp_payload p) (inv_payment_hash iv) = Ok ()
          \<and> now \<le> last_valid iv t
          \<and> pf = \<lparr>pf_payment_hash = inv_payment_hash iv,
                  pf_retain_until = saturating_add (last_valid iv t) REPLAY_RETENTION_SECS\<rparr>)"
  unfolding verify_def Let_def
  by (auto simp: try_then_Ok member_Ok not_less split: if_splits)

lemma is_lower_hex_digit_eq: "is_lower_hex_digit c \<longleftrightarrow> is_hex_lower c"
proof
  assume "is_hex_lower c"
  then show "is_lower_hex_digit c" by (auto simp: is_hex_lower_def is_lower_hex_digit_def)
next
  assume "is_lower_hex_digit c"
  then have "(of_char c :: nat) \<in> {48..<58} \<union> {97..<103}"
    by (auto simp: is_lower_hex_digit_def less_eq_char_def)
  then have "(of_char c :: nat) \<in> set ([48..<58] @ [97..<103])"
    by (simp only: set_append set_upt)
  also have "\<dots> = of_char ` set ''0123456789abcdef''" by (simp add: upt_rec)
  finally have "c \<in> set ''0123456789abcdef''" by (auto simp del: list.set)
  then show "is_hex_lower c" by (simp only: is_hex_lower_def)
qed

lemma hex_encode_digits:
  "hex_lower C \<Longrightarrow> list_all is_lower_hex_digit (hex_encode C bs) \<and> length (hex_encode C bs) = 2 * length bs"
  by (simp add: hex_lower_def is_lower_hex_digit_eq list_all_iff)

lemma replay_key_inject:
  "hex_roundtrip C \<Longrightarrow> replay_key C m h = replay_key C n k \<longleftrightarrow> m = n \<and> h = k"
proof
  assume C: "hex_roundtrip C" and eq: "replay_key C m h = replay_key C n k"
  have len: "length (caip2 m) = length (caip2 n)" by simp
  with eq have "caip2 m = caip2 n" "hex_encode C h = hex_encode C k"
    by (auto simp: replay_key_def)
  then show "m = n \<and> h = k" using C by (simp add: hex_encode_inj)
qed simp

text \<open>The payload of a client that paid: it echoes the offered requirements and adds the preimage.\<close>

definition paid_payload :: "crates \<Rightarrow> terms \<Rightarrow> string \<Rightarrow> bytes \<Rightarrow> payment_payload" where
  "paid_payload C t tx p =
     \<lparr>pp_x402_version = 2, pp_accepted = requirements C t tx,
      pp_payload = [(''preimage'', JStr (hex_encode C p))]\<rparr>"

lemma verify_paid:
  assumes laws: "hex_lower C" "hex_roundtrip C"
    and terms: "length (t_request_hash t) = 32" "is_valid_http_params (t_binding_params t)"
    and iv: "tx \<noteq> []" "decode C tx = Ok iv" "check iv t now = Ok ()"
    and pre: "sha256 C p = inv_payment_hash iv" "length p = 32" and time: "now \<le> last_valid iv t"
  shows "verify C (paid_payload C t tx p) t now =
     Ok \<lparr>pf_payment_hash = inv_payment_hash iv,
         pf_retain_until = saturating_add (last_valid iv t) REPLAY_RETENTION_SECS\<rparr>"
proof -
  have core: "check_core C (requirements C t tx) t = Ok ()"
    by (simp add: check_core_Ok requirements_def Let_def)
  have extra: "check_extra C (pr_extra (requirements C t tx)) t = Ok ()"
    using hex_encode_digits [OF laws(1)] terms by (simp add: check_extra_Ok requirements_extra)
  have hex: "hex_decode C (hex_encode C p) = Ok p" using laws(2) by (simp add: hex_roundtrip_def)
  have "check_preimage C [(''preimage'', JStr (hex_encode C p))] (inv_payment_hash iv) = Ok ()"
    using hex hex_encode_digits [OF laws(1)] pre by (simp add: check_preimage_Ok)
  moreover have "map_of (pr_extra (requirements C t tx)) ''invoice'' = Some (JStr tx)"
    by (simp add: requirements_extra)
  ultimately show ?thesis
    using core extra iv time by (auto simp: verify_Ok paid_payload_def)
qed

lemma check_later:
  "check iv t now = Ok () \<Longrightarrow> now \<le> later \<Longrightarrow> check iv t later = Ok ()"
  by (auto simp: check_Ok word_le_nat_alt unat_saturating_add)

lemma unat_last_valid:
  "unat (last_valid iv t) =
     min (unat (inv_created iv) + unat (inv_expiry iv) + unat (t_clock_skew_secs t)) (2 ^ 64 - 1)"
  by (simp add: last_valid_def invoice_end_def unat_saturating_add)

lemma verify_expired:
  assumes "verify C p t now = Ok pf" and "pf_retain_until pf < later"
  shows "verify C p t later = Err InvoiceExpired"
proof -
  obtain tx iv where v: "check_core C (pp_accepted p) t = Ok ()"
    "check_extra C (pr_extra (pp_accepted p)) t = Ok ()"
    "map_of (pr_extra (pp_accepted p)) ''invoice'' = Some (JStr tx)" "tx \<noteq> []"
    "decode C tx = Ok iv" "check iv t now = Ok ()"
    "check_preimage C (pp_payload p) (inv_payment_hash iv) = Ok ()" "now \<le> last_valid iv t"
    and eq: "pf_retain_until pf = saturating_add (last_valid iv t) REPLAY_RETENTION_SECS"
    using assms(1) by (auto simp: verify_Ok)
  have late: "last_valid iv t < later"
    using assms(2) saturating_add_ge [of "last_valid iv t" REPLAY_RETENTION_SECS] by (simp add: eq)
  with v(8) have "now \<le> later" by simp
  then have "check iv t later = Ok ()" using v(6) check_later by blast
  then show ?thesis using v late by (simp add: verify_def)
qed

section \<open>An example\<close>

definition ex_terms :: "bytes \<Rightarrow> terms" where
  "ex_terms h =
     \<lparr>t_network = Mainnet, t_pay_to = ex_node_key, t_amount_msat = 1000, t_max_timeout_secs = 300,
      t_request_hash = h, t_binding_params = http_params [], t_clock_skew_secs = 60\<rparr>"

lemma ex_terms_simps [simp]:
  "t_network (ex_terms h) = Mainnet" "t_pay_to (ex_terms h) = ex_node_key"
  "t_amount_msat (ex_terms h) = 1000" "t_max_timeout_secs (ex_terms h) = 300"
  "t_request_hash (ex_terms h) = h" "t_binding_params (ex_terms h) = http_params []"
  "t_clock_skew_secs (ex_terms h) = 60"
  by (simp_all add: ex_terms_def)

definition ex_invoice :: "bytes \<Rightarrow> invoice" where
  "ex_invoice h =
     \<lparr>inv_currency = Bitcoin, inv_amount_msat = Some 1000, inv_payment_hash = ex_preimage,
      inv_description_hash = Some h, inv_payee = ex_node_key, inv_created = 1000, inv_expiry = 300\<rparr>"

lemma sha256_ex_crates [simp]: "sha256 (ex_crates d h) = ref_digest"
  by (simp add: ex_crates_def)

lemma bolt11_ex_crates [simp]:
  "bolt11_from_str (ex_crates d h) s = (if s = ''lnbc1'' then Some (ex_raw h) else None)"
  by (simp add: ex_crates_def)

lemma decode_ex [simp]: "decode (ex_crates d h) ''lnbc1'' = Ok (ex_invoice h)"
  by (simp add: decode_def ex_raw_def ex_invoice_def decode_amount_def decode_payee_def Let_def)

lemma decode_ex_only: "decode (ex_crates d h) s = Ok i \<Longrightarrow> i = ex_invoice h"
  using decode_ex [of d h] by (cases "s = ''lnbc1''") (simp, simp add: decode_def)

lemma check_ex [simp]: "1000 \<le> now \<Longrightarrow> check (ex_invoice h) (ex_terms h) now = Ok ()"
proof (rule check_later [of _ _ 1000])
  show "check (ex_invoice h) (ex_terms h) 1000 = Ok ()"
    by (simp add: check_Ok ex_invoice_def ex_terms_def saturating_add_ge)
qed

lemma last_valid_ex: "last_valid (ex_invoice h) (ex_terms h) = 1360"
  by (simp add: last_valid_def invoice_end_def saturating_add_def ex_invoice_def ex_terms_def)

lemma inv_payment_hash_ex: "inv_payment_hash (ex_invoice h) = ex_preimage"
  by (simp add: ex_invoice_def)

lemma verify_ex:
  assumes "length h = 32" "1000 \<le> now" "now \<le> 1360"
  shows "verify (ex_crates d h) (paid_payload (ex_crates d h) (ex_terms h) ''lnbc1'' ex_preimage)
      (ex_terms h) now = Ok \<lparr>pf_payment_hash = ex_preimage, pf_retain_until = 4960\<rparr>"
proof -
  have v: "is_valid_http_params (http_params [])"
    by (simp add: is_valid_http_params_def http_params_object)
  have r: "saturating_add 1360 REPLAY_RETENTION_SECS = 4960"
    by (simp add: saturating_add_def REPLAY_RETENTION_SECS_def)
  show ?thesis
    using verify_paid [of "ex_crates d h" "ex_terms h" "''lnbc1''" "ex_invoice h" now ex_preimage]
      assms v r last_valid_ex [of h] check_ex [of now h]
    by (simp add: inv_payment_hash_ex)
qed

lemma settle_Ok:
  "settle C f p t now store = (Ok s, store') \<longleftrightarrow>
     (\<exists>pf. verify C p t now = Ok pf
        \<and> consume f (replay_key C (t_network t) (pf_payment_hash pf)) (pf_retain_until pf) store
            = (Ok True, store')
        \<and> transaction s = hex_encode C (pf_payment_hash pf))"
  by (cases s) (auto simp: settle_def replay_key_def Let_def map_err_Ok map_err_Err
      split: sum.split prod.split if_split)

section \<open>Properties\<close>

text \<open>
  C4. An accepted payment is a payment: whatever the client sends, \<open>verify\<close> accepts it only with
  an invoice whose signature checks, that the server's own node signed, on the right chain, for
  exactly the price (ten pico-BTC per millisatoshi), whose only payment hash is the SHA-256 of the
  revealed preimage, that commits to this request by its only description hash, that was not created
  in the future and has not expired, each with the clock skew allowed for; and the proof keeps the
  payment hash for an hour after that, with all sums saturating at the largest time.
\<close>

theorem verify_sound:
  assumes "verify C p t now = Ok pf"
  shows "\<exists>tx raw pico s bs.
    map_of (pr_extra (pp_accepted p)) ''invoice'' = Some (JStr tx)
    \<and> bolt11_from_str C tx = Some raw \<and> check_signature raw
    \<and> (payee_pub_key raw = Some (t_pay_to t)
       \<or> payee_pub_key raw = None \<and> recover_payee_pub_key raw = Some (t_pay_to t))
    \<and> invoice_currency raw = network_currency (t_network t)
    \<and> amount_pico_btc raw = Some pico \<and> unat pico = 10 * unat (t_amount_msat t)
    \<and> payment_hashes raw = [pf_payment_hash pf]
    \<and> map_of (pp_payload p) ''preimage'' = Some (JStr s) \<and> hex_decode C s = Ok bs
    \<and> sha256 C bs = pf_payment_hash pf
    \<and> description_hashes raw = [t_request_hash t] \<and> inline_descriptions raw = []
    \<and> unat (invoice_timestamp raw) \<le> unat now + unat (t_clock_skew_secs t)
    \<and> unat now \<le> unat (invoice_timestamp raw) + unat (t_max_timeout_secs t) + unat (t_clock_skew_secs t)
    \<and> unat (pf_retain_until pf) =
        min (unat (invoice_timestamp raw) + unat (t_max_timeout_secs t) + unat (t_clock_skew_secs t) + 3600)
          (2 ^ 64 - 1)"
proof -
  obtain tx iv where v: "map_of (pr_extra (pp_accepted p)) ''invoice'' = Some (JStr tx)"
    "decode C tx = Ok iv" "check iv t now = Ok ()"
    "check_preimage C (pp_payload p) (inv_payment_hash iv) = Ok ()" "now \<le> last_valid iv t"
    and eq: "pf = \<lparr>pf_payment_hash = inv_payment_hash iv,
        pf_retain_until = saturating_add (last_valid iv t) REPLAY_RETENTION_SECS\<rparr>"
    using assms by (auto simp: verify_Ok)
  obtain raw where raw: "bolt11_from_str C tx = Some raw" "check_signature raw"
    "decode_amount raw = Ok (inv_amount_msat iv)" "decode_payee raw = Ok (inv_payee iv)"
    "payment_hashes raw = [inv_payment_hash iv]"
    "inv_description_hash iv = (if inline_descriptions raw = [] \<and> length (description_hashes raw) = 1
       then Some (hd (description_hashes raw)) else None)"
    "inv_currency iv = invoice_currency raw" "inv_created iv = invoice_timestamp raw"
    using v(2) by (rule decode_parts)
  obtain s bs where pre: "map_of (pp_payload p) ''preimage'' = Some (JStr s)" "hex_decode C s = Ok bs"
    "sha256 C bs = inv_payment_hash iv"
    using v(4) by (auto simp: check_preimage_Ok)
  have terms: "inv_payee iv = t_pay_to t" "inv_currency iv = network_currency (t_network t)"
    "inv_amount_msat iv = Some (t_amount_msat t)" "inv_expiry iv = t_max_timeout_secs t"
    "inv_description_hash iv = Some (t_request_hash t)"
    "inv_created iv \<le> saturating_add now (t_clock_skew_secs t)"
    using v(3) by (simp_all add: check_Ok)
  obtain pico where pico: "amount_pico_btc raw = Some pico" "unat pico = 10 * unat (t_amount_msat t)"
    using raw(3) terms(3) by (auto simp: decode_amount_Ok)
  have "inline_descriptions raw = [] \<and> description_hashes raw = [t_request_hash t]"
    using raw(6) terms(5) by (cases "description_hashes raw") (auto split: if_splits)
  moreover have "unat (invoice_timestamp raw) \<le> unat now + unat (t_clock_skew_secs t)"
    using terms(6) raw(8) by (simp add: word_le_nat_alt unat_saturating_add)
  moreover have "unat now \<le> unat (invoice_timestamp raw) + unat (t_max_timeout_secs t) + unat (t_clock_skew_secs t)"
    using v(5) terms(4) raw(8) by (simp add: word_le_nat_alt unat_last_valid)
  moreover have "unat (pf_retain_until pf) =
        min (unat (invoice_timestamp raw) + unat (t_max_timeout_secs t) + unat (t_clock_skew_secs t) + 3600)
          (2 ^ 64 - 1)"
    using terms(4) raw(8)
    by (simp add: eq unat_saturating_add unat_last_valid REPLAY_RETENTION_SECS_def min_def)
  ultimately show ?thesis
    using v(1) raw(1,2,4,5,7) pico pre terms(1,2)
    by (intro exI [of _ tx] exI [of _ raw] exI [of _ pico] exI [of _ s] exI [of _ bs])
       (simp add: eq decode_payee_Ok)
qed

theorem verify_sound_witness:
  "\<exists>raw pico. bolt11_from_str (ex_crates [] ex_preimage) ''lnbc1'' = Some raw
     \<and> amount_pico_btc raw = Some pico \<and> unat pico = 10 * unat (1000 :: u64)
     \<and> payment_hashes raw = [ex_preimage]"
  using verify_sound [OF verify_ex [of ex_preimage 1100 "[]"]]
  by (auto simp: paid_payload_def requirements_extra)

text \<open>
  C12. Pruning is safe while the settings stay: if a payment settled and a later run of the pruner, at any time, has
  removed its key, then the same payment for the same terms is refused as expired, and for no other reason, from
  the time of that pruning on, and no store changes by it. So removing the key does not let it be used again. The
  property on the clock skew in \<open>Settlement\<close> shows that a change of the settings in between can.
\<close>

theorem pruned_payment_expired:
  assumes "table_wf store" "settle C None p t now store = (Ok st, store1)"
    and "prune None pruned store1 = (res, store2)" "verify C p t now = Ok pf"
    and "map_of store2 (replay_key C (t_network t) (pf_payment_hash pf)) = None" "pruned \<le> later"
  shows "settle C fault p t later other = (Err (Rejected InvoiceExpired), other)"
proof -
  let ?key = "replay_key C (t_network t) (pf_payment_hash pf)"
  have "consume None ?key (pf_retain_until pf) store = (Ok True, store1)"
    using assms(2,4) by (auto simp: settle_Ok)
  then have store1: "table_wf store1" "map_of store1 ?key = Some (to_sql_time (pf_retain_until pf))"
    using replay.consume_records [OF assms(1)] by auto
  have "sint (to_sql_time (pf_retain_until pf)) < sint (to_sql_time pruned)"
    using replay.prune_keeps [OF store1(1), of pruned] store1(2) assms(3,5) by (auto split: if_splits)
  then have "pf_retain_until pf < pruned" using to_sql_time_less by blast
  then have "pf_retain_until pf < later" using assms(6) by (rule less_le_trans)
  with assms(4) have "verify C p t later = Err InvoiceExpired" by (rule verify_expired)
  then show ?thesis by (simp add: settle_def)
qed

theorem pruned_payment_expired_witness:
  "settle (ex_crates [] ex_preimage) None
     (paid_payload (ex_crates [] ex_preimage) (ex_terms ex_preimage) ''lnbc1'' ex_preimage)
     (ex_terms ex_preimage) 5000 [] = (Err (Rejected InvoiceExpired), [])"
proof -
  let ?C = "ex_crates [] ex_preimage"
  let ?key = "replay_key ?C Mainnet ex_preimage"
  note v = verify_ex [of ex_preimage 1100 "[]"]
  have s: "settle ?C None (paid_payload ?C (ex_terms ex_preimage) ''lnbc1'' ex_preimage) (ex_terms ex_preimage) 1100 [] =
      (Ok \<lparr>transaction = hex_encode ?C ex_preimage\<rparr>, [(?key, to_sql_time 4960)])"
    using v by (simp add: settle_Ok consume_def sql_insert_or_ignore_def)
  have p: "prune None 4961 [(?key, to_sql_time 4960)] = (Ok 1, [])"
    by (simp add: prune_def sql_delete_before_def sint_to_sql_time)
  show ?thesis
    by (rule pruned_payment_expired [OF _ s p]) (use v in \<open>simp_all add: table_wf_def\<close>)
qed

text \<open>
  C14. An invoice that the server hands out can be settled: if an issued invoice passed the checks of
  the challenge, then from that time until its end, and for the clock skew after it, the
  payload that echoes the offered requirements with the preimage of its payment hash is
  verified. The checks at issuing and at settling never disagree about it.
\<close>

theorem issued_invoice_settles:
  assumes "hex_lower C" "hex_roundtrip C" "tx \<noteq> []"
    and "check_issued_invoice C tx t issued = Ok ()" "decode C tx = Ok iv"
    and "length (t_request_hash t) = 32" "t_binding_params t = http_params names"
      "list_all allowed_header names" "sorted_wrt (<) names"
    and "sha256 C p = inv_payment_hash iv" "length p = 32"
    and "issued \<le> now"
      "unat now \<le> unat (inv_created iv) + unat (inv_expiry iv) + unat (t_clock_skew_secs t)"
  shows "\<exists>pf. verify C (paid_payload C t tx p) t now = Ok pf \<and> pf_payment_hash pf = sha256 C p"
proof -
  have "check iv t issued = Ok ()" using assms(4,5) by (auto simp: check_issued_invoice_Ok)
  then have "check iv t now = Ok ()" using assms(12) by (rule check_later)
  moreover have "now \<le> last_valid iv t"
    using assms(13) unat_u64_bound [of now] by (simp add: word_le_nat_alt unat_last_valid)
  moreover have "is_valid_http_params (t_binding_params t)"
    using assms(7-9) by (auto simp: is_valid_http_params_iff)
  ultimately show ?thesis
    using verify_paid [OF assms(1,2,6) _ assms(3,5) _ assms(10,11)] assms(10) by simp
qed

theorem issued_invoice_settles_witness:
  "\<exists>pf. verify (ex_crates [] ex_preimage)
     (paid_payload (ex_crates [] ex_preimage) (ex_terms ex_preimage) ''lnbc1'' ex_preimage)
     (ex_terms ex_preimage) 1360 = Ok pf \<and> pf_payment_hash pf = sha256 (ex_crates [] ex_preimage) ex_preimage"
proof (rule issued_invoice_settles [where issued = 1000 and iv = "ex_invoice ex_preimage" and names = "[]"])
  show "check_issued_invoice (ex_crates [] ex_preimage) ''lnbc1'' (ex_terms ex_preimage) 1000 = Ok ()"
    by (simp add: check_issued_invoice_Ok invoice_end_def saturating_add_def ex_invoice_def [of ex_preimage]
        del: One_nat_def) (simp add: check_ex [unfolded ex_invoice_def])
qed (simp_all add: ex_invoice_def)

text \<open>
  Payments never share a replay key by accident: the keys of two payments are the same string iff
  they are the same payment hash on the same network.
\<close>

lemma replay_key_injective:
  assumes "hex_roundtrip C"
  shows "(replay_key C m h = replay_key C n k) = (m = n \<and> h = k)"
  using replay_key_inject [OF assms] by blast

lemma replay_key_injective_example:
  "replay_key (ref_crates [] []) Mainnet [1] \<noteq> replay_key (ref_crates [] []) Signet [1]"
  using replay_key_injective [of "ref_crates [] []" Mainnet "[1]" Signet "[1]"] by simp

end
