(* ===== verification/Lnbtc_Order.thy ===== *)
theory Lnbtc_Order
  imports Lnbtc
begin

text \<open>
  The abstract specification of the settlement checks: a table that says for each error what
  makes its check fail, and the order in which the specification asks for the checks.
  \<open>verify\<close> refines it: it reports the first failing check, and accepts when none fails.
\<close>

definition invoice_text :: "json_map \<Rightarrow> string" where
  "invoice_text ex = (case map_of ex ''invoice'' of Some (JStr s) \<Rightarrow> s | _ \<Rightarrow> [])"

definition preimage_text :: "json_map \<Rightarrow> string" where
  "preimage_text pl = (case map_of pl ''preimage'' of Some (JStr s) \<Rightarrow> s | _ \<Rightarrow> [])"

definition failing :: "crates \<Rightarrow> payment_payload \<Rightarrow> terms \<Rightarrow> u64 \<Rightarrow> error_reason \<Rightarrow> bool" where
  "failing C p t now e =
     (let a = pp_accepted p;
          ex = pr_extra a;
          iv = projr (decode C (invoice_text ex));
          pre = preimage_text (pp_payload p)
      in case e of
           UnsupportedScheme \<Rightarrow> pr_scheme a \<noteq> SCHEME
         | NetworkMismatch \<Rightarrow> pr_network a \<noteq> caip2 (t_network t)
         | AmountMismatch \<Rightarrow> pr_amount a \<noteq> dec_string (unat (t_amount_msat t))
         | Asset \<Rightarrow> pr_asset a \<noteq> ASSET
         | PayToMismatch \<Rightarrow> pr_pay_to a \<noteq> pubkey_to_string C (t_pay_to t)
         | MaxTimeoutMismatch \<Rightarrow> pr_max_timeout_seconds a \<noteq> t_max_timeout_secs t
         | AssetTransferMethod \<Rightarrow>
             map_of ex ''assetTransferMethod'' \<noteq> None \<and>
             map_of ex ''assetTransferMethod'' \<noteq> Some (JStr ASSET_TRANSFER_METHOD)
         | PaymentFlow \<Rightarrow> map_of ex ''paymentFlow'' \<noteq> Some (JStr PAYMENT_FLOW)
         | RequestBinding \<Rightarrow>
             \<not> (case map_of ex ''requestHash'' of
                  Some (JStr h) \<Rightarrow> length h = 64 \<and> list_all is_lower_hex_digit h | _ \<Rightarrow> False)
             \<or> map_of ex ''requestBindingProfile'' \<noteq> Some (JStr HTTP_PROFILE)
             \<or> \<not> (case map_of ex ''requestBindingParams'' of
                    Some v \<Rightarrow> is_valid_http_params v | None \<Rightarrow> False)
         | RequestMismatch \<Rightarrow>
             map_of ex ''requestHash'' \<noteq> Some (JStr (hex_encode C (t_request_hash t)))
             \<or> map_of ex ''requestBindingParams'' \<noteq> Some (t_binding_params t)
         | InvoiceMissing \<Rightarrow> invoice_text ex = []
         | InvoiceDecodeFailed \<Rightarrow> isl (decode C (invoice_text ex))
         | InvoiceDescription \<Rightarrow> inv_description_hash iv = None
         | InvoiceRequestMismatch \<Rightarrow> inv_description_hash iv \<noteq> Some (t_request_hash t)
         | InvoicePayeeMismatch \<Rightarrow> inv_payee iv \<noteq> t_pay_to t
         | InvoiceCurrencyMismatch \<Rightarrow> inv_currency iv \<noteq> network_currency (t_network t)
         | InvoiceAmountMismatch \<Rightarrow> inv_amount_msat iv \<noteq> Some (t_amount_msat t)
         | InvoiceExpiryMismatch \<Rightarrow> inv_expiry iv \<noteq> t_max_timeout_secs t
         | InvoiceCreatedInFuture \<Rightarrow>
             inv_created iv > saturating_add now (t_clock_skew_secs t)
         | PreimageMissing \<Rightarrow> map_of (pp_payload p) ''preimage'' = None
         | PreimageMalformed \<Rightarrow>
             map_of (pp_payload p) ''preimage'' \<noteq> Some (JStr pre)
             \<or> \<not> list_all is_lower_hex_digit pre
         | PreimageLength \<Rightarrow> length pre \<noteq> 64
         | PreimageHashMismatch \<Rightarrow> sha256 C (projr (hex_decode C pre)) \<noteq> inv_payment_hash iv
         | InvoiceExpired \<Rightarrow> now > last_valid iv t
         | DuplicateSettlement \<Rightarrow> False)"

definition core_checks :: "error_reason list" where
  "core_checks =
     [UnsupportedScheme, NetworkMismatch, AmountMismatch, Asset, PayToMismatch, MaxTimeoutMismatch]"

definition extra_checks :: "error_reason list" where
  "extra_checks = [AssetTransferMethod, PaymentFlow, RequestBinding, RequestMismatch]"

definition invoice_checks :: "error_reason list" where
  "invoice_checks =
     [InvoiceDescription, InvoiceRequestMismatch, InvoicePayeeMismatch, InvoiceCurrencyMismatch,
      InvoiceAmountMismatch, InvoiceExpiryMismatch, InvoiceCreatedInFuture]"

definition preimage_checks :: "error_reason list" where
  "preimage_checks = [PreimageMissing, PreimageMalformed, PreimageLength, PreimageHashMismatch]"

definition settle_checks :: "error_reason list" where
  "settle_checks =
     core_checks @ extra_checks @ [InvoiceMissing] @ [InvoiceDecodeFailed] @ invoice_checks
       @ preimage_checks @ [InvoiceExpired]"

lemmas checks_defs = core_checks_def extra_checks_def invoice_checks_def preimage_checks_def

text \<open>The first failing check of a list.\<close>

definition first_failure :: "('e \<Rightarrow> bool) \<Rightarrow> 'e list \<Rightarrow> 'e + unit" where
  "first_failure P es = (case List.find P es of None \<Rightarrow> Ok () | Some e \<Rightarrow> Err e)"

lemma first_failure_simps [simp]:
  "first_failure P [] = Ok ()"
  "first_failure P (e # es) = (if P e then Err e else first_failure P es)"
  by (simp_all add: first_failure_def)

lemma first_failure_append:
  "first_failure P (ds @ es) = try_then (first_failure P ds) (\<lambda>_. first_failure P es)"
  by (induction ds) auto

lemma first_failure_Ok: "first_failure P es = Ok u \<longleftrightarrow> (\<forall>e \<in> set es. \<not> P e)"
  by (induction es) auto

lemma first_failure_Err_sorted:
  fixes es :: "'e :: linorder list"
  shows "sorted_wrt (<) es \<Longrightarrow> first_failure P es = Err e \<longleftrightarrow>
     e \<in> set es \<and> P e \<and> (\<forall>d \<in> set es. d < e \<longrightarrow> \<not> P d)"
proof (induction es)
  case Nil
  then show ?case by simp
next
  case (Cons x es)
  then have "\<forall>y \<in> set es. x < y" by simp
  with Cons show ?case by (auto dest: order.asym)
qed

lemma settle_checks_sorted: "sorted_wrt (<) settle_checks"
  by (simp add: settle_checks_def checks_defs less_error_reason_def)

lemma set_settle_checks: "set settle_checks = - {DuplicateSettlement}"
proof -
  have "e \<in> set settle_checks \<longleftrightarrow> e \<noteq> DuplicateSettlement" for e
    by (cases e) (simp_all add: settle_checks_def checks_defs)
  then show ?thesis by auto
qed

section \<open>Each stage reports its first failure\<close>

lemma check_core_first:
  "check_core C (pp_accepted p) t = first_failure (failing C p t now) core_checks"
  by (simp add: check_core_def checks_defs failing_def)

lemma check_extra_first:
  "check_extra C (pr_extra (pp_accepted p)) t = first_failure (failing C p t now) extra_checks"
proof -
  let ?m = "\<lambda>k. map_of (pr_extra (pp_accepted p)) k"
  have 1: "(case ?m ''assetTransferMethod'' of None \<Rightarrow> Ok ()
      | Some (JStr m) \<Rightarrow> reject_if (m \<noteq> ASSET_TRANSFER_METHOD) AssetTransferMethod
      | Some _ \<Rightarrow> Err AssetTransferMethod)
      = (if failing C p t now AssetTransferMethod then Err AssetTransferMethod else Ok ())"
    by (simp add: failing_def split: option.split json.split)
  have 2: "(case ?m ''paymentFlow'' of
        Some (JStr flow) \<Rightarrow> reject_if (flow \<noteq> PAYMENT_FLOW) PaymentFlow | _ \<Rightarrow> Err PaymentFlow)
      = (if failing C p t now PaymentFlow then Err PaymentFlow else Ok ())"
    by (simp add: failing_def split: option.split json.split)
  let ?B1 = "\<not> (case ?m ''requestHash'' of
      Some (JStr h) \<Rightarrow> length h = 64 \<and> list_all is_lower_hex_digit h | _ \<Rightarrow> False)"
  let ?B2 = "?m ''requestBindingProfile'' \<noteq> Some (JStr HTTP_PROFILE)"
  let ?B3 = "\<not> (case ?m ''requestBindingParams'' of
      Some v \<Rightarrow> is_valid_http_params v | None \<Rightarrow> False)"
  let ?h = "case ?m ''requestHash'' of Some (JStr h) \<Rightarrow> h | _ \<Rightarrow> []"
  have 3: "(case ?m ''requestHash'' of
        Some (JStr h) \<Rightarrow>
          if length h = 64 \<and> list_all is_lower_hex_digit h then Ok h else Err RequestBinding
      | _ \<Rightarrow> Err RequestBinding) = (if ?B1 then Err RequestBinding else Ok ?h)"
    by (simp split: option.split json.split)
  have 4: "(case ?m ''requestBindingProfile'' of
        Some (JStr profile) \<Rightarrow> reject_if (profile \<noteq> HTTP_PROFILE) RequestBinding
      | _ \<Rightarrow> Err RequestBinding) = (if ?B2 then Err RequestBinding else Ok ())"
    by (simp split: option.split json.split)
  have 5: "(case ?m ''requestBindingParams'' of
        None \<Rightarrow> Err RequestBinding
      | Some v \<Rightarrow> if is_valid_http_params v then Ok v else Err RequestBinding)
      = (if ?B3 then Err RequestBinding else Ok (the (?m ''requestBindingParams'')))"
    by (simp split: option.split)
  have binding: "failing C p t now RequestBinding \<longleftrightarrow> ?B1 \<or> ?B2 \<or> ?B3"
    by (simp add: failing_def Let_def)
  have mismatch: "failing C p t now RequestMismatch \<longleftrightarrow>
      ?h \<noteq> hex_encode C (t_request_hash t) \<or> the (?m ''requestBindingParams'') \<noteq> t_binding_params t"
    if wf: "\<not> ?B1" "\<not> ?B3"
  proof -
    obtain h v where "?m ''requestHash'' = Some (JStr h)" "?m ''requestBindingParams'' = Some v"
      using wf by (simp split: option.split_asm json.split_asm)
    then show ?thesis by (simp add: failing_def Let_def)
  qed
  show ?thesis
    unfolding check_extra_def 1 2 3 4 5 extra_checks_def
    using binding mismatch by (simp only: first_failure_simps try_then_simps split: if_split) blast
qed

lemma decode_Err: "decode C text = Err e \<Longrightarrow> e = InvoiceDecodeFailed"
  by (auto simp: decode_def decode_amount_def decode_payee_def result_simps Let_def
      split: if_split_asm option.split_asm prod.split_asm list.split_asm)

lemma check_first:
  "decode C (invoice_text (pr_extra (pp_accepted p))) = Ok iv \<Longrightarrow>
     check iv t now = first_failure (failing C p t now) invoice_checks"
  by (cases "inv_description_hash iv") (simp_all add: check_def checks_defs failing_def)

text \<open>The law of \<^verbatim>\<open>hex::decode\<close> that makes its error branch in \<open>check_preimage\<close> dead.\<close>

definition hex_decodes_lower :: "crates \<Rightarrow> bool" where
  "hex_decodes_lower C \<longleftrightarrow>
     (\<forall>s. even (length s) \<and> list_all is_lower_hex_digit s \<longrightarrow> \<not> isl (hex_decode C s))"

lemma check_preimage_first:
  assumes "hex_decodes_lower C"
    and "decode C (invoice_text (pr_extra (pp_accepted p))) = Ok iv"
  shows "check_preimage C (pp_payload p) (inv_payment_hash iv) =
     first_failure (failing C p t now) preimage_checks"
proof -
  have dec: "\<exists>bs. hex_decode C s = Ok bs" if "list_all is_lower_hex_digit s" "length s = 64" for s
    using assms(1) that by (cases "hex_decode C s") (force simp: hex_decodes_lower_def)+
  show ?thesis
    using assms(2) dec
    by (fastforce simp: check_preimage_def checks_defs failing_def preimage_text_def
        split: option.split json.split)
qed

lemma invoice_member_first:
  "(case map_of (pr_extra (pp_accepted p)) ''invoice'' of
      Some (JStr s) \<Rightarrow> if s \<noteq> [] then Ok s else Err InvoiceMissing | _ \<Rightarrow> Err InvoiceMissing)
   = try_then (first_failure (failing C p t now) [InvoiceMissing])
       (\<lambda>_. Ok (invoice_text (pr_extra (pp_accepted p))))"
  by (simp add: failing_def invoice_text_def split: option.split json.split)

text \<open>The proof of payment of an accepted payload.\<close>

definition accepted_proof :: "crates \<Rightarrow> payment_payload \<Rightarrow> terms \<Rightarrow> proof_of_payment" where
  "accepted_proof C p t =
     (let iv = projr (decode C (invoice_text (pr_extra (pp_accepted p))))
      in \<lparr>pf_payment_hash = inv_payment_hash iv,
          pf_retain_until = saturating_add (last_valid iv t) REPLAY_RETENTION_SECS\<rparr>)"

lemma verify_first:
  assumes "hex_decodes_lower C"
  shows "verify C p t now =
     try_then (first_failure (failing C p t now) settle_checks) (\<lambda>_. Ok (accepted_proof C p t))"
proof (cases "decode C (invoice_text (pr_extra (pp_accepted p)))")
  case (Inl e)
  then have "e = InvoiceDecodeFailed" by (rule decode_Err)
  with Inl show ?thesis
    unfolding verify_def Let_def settle_checks_def first_failure_append
      check_core_first [of C p t now] check_extra_first [of C p t now]
      invoice_member_first [of p C t now]
    by (simp add: try_then_def failing_def split: sum.split)
next
  case (Inr iv)
  have expired: "failing C p t now InvoiceExpired \<longleftrightarrow> now > last_valid iv t"
    "\<not> failing C p t now InvoiceDecodeFailed"
    using Inr by (simp_all add: failing_def)
  show ?thesis
    unfolding verify_def Let_def settle_checks_def first_failure_append
      check_core_first [of C p t now] check_extra_first [of C p t now]
      invoice_member_first [of p C t now]
    using Inr expired check_first [OF Inr, of t now] check_preimage_first [OF assms Inr, of t now]
    by (simp add: try_then_def accepted_proof_def split: sum.split)
qed

lemma hex_decodes_lower_ex [simp]: "hex_decodes_lower (ex_crates d h)"
  using ref_hex_decode_lower
  by (fastforce simp: hex_decodes_lower_def ex_crates_def is_lower_hex_digit_eq list_all_iff)

section \<open>Properties\<close>

text \<open>
  C8. Rejections name the first failing check: \<open>verify\<close> rejects a payment with a reason iff that
  reason's check fails and every check before it in the specification's order passes, where each
  check is described on its own by \<open>failing\<close>; and it accepts iff no check fails, with the proof of
  the accepted invoice. A duplicate is never its verdict.
\<close>

theorem verify_refines_order:
  assumes "hex_decodes_lower C"
  shows "(verify C p t now = Err e) = (failing C p t now e \<and> (\<forall>d < e. \<not> failing C p t now d))
    \<and> ((\<exists>pf. verify C p t now = Ok pf) = (\<forall>d. \<not> failing C p t now d))
    \<and> (\<forall>pf. verify C p t now = Ok pf \<longrightarrow> pf = accepted_proof C p t)"
proof -
  have dup: "\<not> failing C p t now DuplicateSettlement" by (simp add: failing_def Let_def)
  have all: "(\<forall>d \<in> set settle_checks. Q d) = (\<forall>d. d \<noteq> DuplicateSettlement \<longrightarrow> Q d)" for Q
    by (auto simp: set_settle_checks)
  have first: "first_failure (failing C p t now) settle_checks = Err e \<longleftrightarrow>
      failing C p t now e \<and> (\<forall>d < e. \<not> failing C p t now d)"
    using dup by (auto simp: first_failure_Err_sorted [OF settle_checks_sorted] all set_settle_checks)
  have none: "first_failure (failing C p t now) settle_checks = Ok u \<longleftrightarrow> (\<forall>d. \<not> failing C p t now d)" for u
    using dup by (simp only: first_failure_Ok all) metis
  show ?thesis
    unfolding verify_first [OF assms] by (auto simp: try_then_Err try_then_Ok first none)
qed

theorem verify_refines_order_witness:
  "\<not> failing (ex_crates [] ex_preimage)
       (paid_payload (ex_crates [] ex_preimage) (ex_terms ex_preimage) ''lnbc1'' ex_preimage)
       (ex_terms ex_preimage) 1100 PreimageHashMismatch
   \<and> failing (ex_crates [] ex_preimage)
       (paid_payload (ex_crates [] ex_preimage) (ex_terms ex_preimage) ''lnbc1'' ex_preimage)
       (ex_terms ex_preimage) 5000 InvoiceExpired"
proof -
  let ?C = "ex_crates [] ex_preimage" and ?t = "ex_terms ex_preimage"
  let ?p = "paid_payload ?C ?t ''lnbc1'' ex_preimage"
  have ok: "verify ?C ?p ?t 1100 = Ok \<lparr>pf_payment_hash = ex_preimage, pf_retain_until = 4960\<rparr>"
    by (rule verify_ex) simp_all
  have "verify ?C ?p ?t 5000 = Err InvoiceExpired"
  proof -
    have "check_core ?C (pp_accepted ?p) ?t = Ok ()" "check_extra ?C (pr_extra (pp_accepted ?p)) ?t = Ok ()"
      "check_preimage ?C (pp_payload ?p) ex_preimage = Ok ()"
      using ok by (auto simp: verify_Ok paid_payload_def requirements_extra inv_payment_hash_ex)
    then show ?thesis
      using last_valid_ex [of ex_preimage]
      by (simp add: verify_def Let_def paid_payload_def requirements_extra inv_payment_hash_ex)
  qed
  then show ?thesis
    using verify_refines_order [of ?C ?p ?t 1100 InvoiceExpired]
      verify_refines_order [of ?C ?p ?t 5000 InvoiceExpired] ok
    by auto
qed

end
