(* ===== verification/Net_Addr.thy ===== *)
theory Net_Addr
  imports Prelude
begin

text \<open>
  The standard library's socket addresses, as \<^verbatim>\<open>src/config.rs\<close> and \<^verbatim>\<open>src/main.rs\<close> use them:
  the type, its parser (the recursive-descent parser of \<^verbatim>\<open>std::net\<close>), the test for a wildcard
  address and the loopback addresses.
\<close>

datatype ip_addr = V4 "u8 list" | V6 "u16 list"

record socket_addr =
  ip :: ip_addr
  port :: u16
  scope_id :: u32

definition is_unspecified :: "ip_addr \<Rightarrow> bool" where
  "is_unspecified a =
     (case a of V4 bs \<Rightarrow> bs = [0, 0, 0, 0] | V6 gs \<Rightarrow> gs = [0, 0, 0, 0, 0, 0, 0, 0])"

definition ipv4_localhost :: ip_addr where
  "ipv4_localhost = V4 [127, 0, 0, 1]"

definition ipv6_localhost :: ip_addr where
  "ipv6_localhost = V6 [0, 0, 0, 0, 0, 0, 0, 1]"

section \<open>The parser\<close>

definition radix_digit :: "nat \<Rightarrow> char \<Rightarrow> nat option" where
  "radix_digit radix c =
     (let n = (of_char c :: nat);
          v = (if 48 \<le> n \<and> n \<le> 57 then n - 48
               else if 97 \<le> n \<and> n \<le> 122 then n - 87
               else if 65 \<le> n \<and> n \<le> 90 then n - 55
               else radix)
      in if v < radix then Some v else None)"

text \<open>
  A number: the maximal run of digits, not empty, at most \<open>max_digits\<close> long when that is
  given, below the bound of its type, and without a leading zero unless that is allowed.
\<close>

definition read_number ::
  "nat \<Rightarrow> nat option \<Rightarrow> bool \<Rightarrow> nat \<Rightarrow> string \<Rightarrow> (nat \<times> string) option" where
  "read_number radix max_digits allow_zero_prefix bound s =
     (let ds = takeWhile (\<lambda>c. radix_digit radix c \<noteq> None) s;
          n = foldl (\<lambda>a c. a * radix + the (radix_digit radix c)) 0 ds
      in if ds = []
            \<or> (case max_digits of None \<Rightarrow> False | Some m \<Rightarrow> m < length ds)
            \<or> (\<not> allow_zero_prefix \<and> hd ds = CHR ''0'' \<and> 1 < length ds)
            \<or> bound \<le> n
         then None
         else Some (n, drop (length ds) s))"

fun read_char :: "char \<Rightarrow> string \<Rightarrow> string option" where
  "read_char d [] = None"
| "read_char d (c # s) = (if c = d then Some s else None)"

text \<open>An item of a separated list: the separator comes before every item but the first.\<close>

definition read_separator ::
  "char \<Rightarrow> bool \<Rightarrow> (string \<Rightarrow> ('a \<times> string) option) \<Rightarrow> string \<Rightarrow> ('a \<times> string) option" where
  "read_separator sep is_first p s =
     (if is_first then p s
      else case read_char sep s of None \<Rightarrow> None | Some r \<Rightarrow> p r)"

definition read_octet :: "string \<Rightarrow> (nat \<times> string) option" where
  "read_octet = read_number 10 (Some 3) False 256"

fun read_octets :: "nat \<Rightarrow> bool \<Rightarrow> string \<Rightarrow> (nat list \<times> string) option" where
  "read_octets 0 is_first s = Some ([], s)"
| "read_octets (Suc k) is_first s =
     (case read_separator CHR ''.'' is_first read_octet s of
        None \<Rightarrow> None
      | Some (b, r) \<Rightarrow>
          (case read_octets k False r of None \<Rightarrow> None | Some (bs, t) \<Rightarrow> Some (b # bs, t)))"

definition read_ipv4_addr :: "string \<Rightarrow> (nat list \<times> string) option" where
  "read_ipv4_addr = read_octets 4 True"

text \<open>
  Up to \<open>k\<close> groups of an IPv6 address: the groups read, whether they end in an embedded IPv4
  address (which needs room for two groups), and the rest of the text.
\<close>

fun read_groups :: "nat \<Rightarrow> bool \<Rightarrow> string \<Rightarrow> nat list \<times> bool \<times> string" where
  "read_groups 0 is_first s = ([], False, s)"
| "read_groups (Suc k) is_first s =
     (case (if 0 < k then read_separator CHR '':'' is_first read_ipv4_addr s else None) of
        Some (bs, r) \<Rightarrow> ([bs ! 0 * 256 + bs ! 1, bs ! 2 * 256 + bs ! 3], True, r)
      | None \<Rightarrow>
          (case read_separator CHR '':'' is_first (read_number 16 (Some 4) True 65536) s of
             None \<Rightarrow> ([], False, s)
           | Some (g, r) \<Rightarrow>
               (case read_groups k False r of (gs, v4, t) \<Rightarrow> (g # gs, v4, t))))"

definition read_ipv6_addr :: "string \<Rightarrow> (nat list \<times> string) option" where
  "read_ipv6_addr s =
     (case read_groups 8 True s of (head, head_ipv4, r) \<Rightarrow>
        if length head = 8 then Some (head, r)
        else if head_ipv4 then None
        else case read_char CHR '':'' r of None \<Rightarrow> None | Some r1 \<Rightarrow>
          case read_char CHR '':'' r1 of None \<Rightarrow> None | Some r2 \<Rightarrow>
            (case read_groups (8 - (length head + 1)) True r2 of (tail, _, t) \<Rightarrow>
               Some (head @ replicate (8 - length head - length tail) 0 @ tail, t)))"

definition read_port :: "string \<Rightarrow> (nat \<times> string) option" where
  "read_port s =
     (case read_char CHR '':'' s of None \<Rightarrow> None | Some r \<Rightarrow> read_number 10 None True 65536 r)"

definition read_socket_addr_v4 :: "string \<Rightarrow> (socket_addr \<times> string) option" where
  "read_socket_addr_v4 s =
     (case read_ipv4_addr s of None \<Rightarrow> None | Some (bs, r) \<Rightarrow>
        (case read_port r of None \<Rightarrow> None | Some (p, t) \<Rightarrow>
           Some (\<lparr>ip = V4 (map of_nat bs), port = of_nat p, scope_id = 0\<rparr>, t)))"

definition read_scope :: "string \<Rightarrow> nat \<times> string" where
  "read_scope s =
     (case read_char CHR ''%'' s of None \<Rightarrow> (0, s) | Some r \<Rightarrow>
        (case read_number 10 None True (2 ^ 32) r of None \<Rightarrow> (0, s) | Some (n, t) \<Rightarrow> (n, t)))"

definition read_socket_addr_v6 :: "string \<Rightarrow> (socket_addr \<times> string) option" where
  "read_socket_addr_v6 s =
     (case read_char CHR ''['' s of None \<Rightarrow> None | Some r0 \<Rightarrow>
        (case read_ipv6_addr r0 of None \<Rightarrow> None | Some (gs, r1) \<Rightarrow>
           (case read_scope r1 of (sc, r2) \<Rightarrow>
              (case read_char CHR '']'' r2 of None \<Rightarrow> None | Some r3 \<Rightarrow>
                 (case read_port r3 of None \<Rightarrow> None | Some (p, t) \<Rightarrow>
                    Some (\<lparr>ip = V6 (map of_nat gs), port = of_nat p, scope_id = of_nat sc\<rparr>, t))))))"

text \<open>\<^verbatim>\<open>SocketAddr::from_str\<close>: either form, and nothing after it.\<close>

definition parse_socket_addr :: "string \<Rightarrow> socket_addr option" where
  "parse_socket_addr s =
     (case (case read_socket_addr_v4 s of None \<Rightarrow> read_socket_addr_v6 s | r \<Rightarrow> r) of
        Some (a, []) \<Rightarrow> Some a
      | _ \<Rightarrow> None)"

text \<open>Evaluation at a numeral number of groups.\<close>

lemmas read_octets_numeral = read_octets.simps(2) [of "pred_numeral n" for n, folded numeral_eq_Suc]
lemmas read_groups_numeral = read_groups.simps(2) [of "pred_numeral n" for n, folded numeral_eq_Suc]

lemmas socket_addr_parser =
  parse_socket_addr_def read_socket_addr_v4_def read_socket_addr_v6_def read_scope_def
  read_port_def read_ipv6_addr_def read_ipv4_addr_def read_octet_def read_separator_def
  read_number_def radix_digit_def read_octets_numeral read_groups_numeral

lemma parse_default_listen_addr:
  "parse_socket_addr ''0.0.0.0:3402'' = Some \<lparr>ip = V4 [0, 0, 0, 0], port = 3402, scope_id = 0\<rparr>"
  by (simp add: socket_addr_parser)

lemma parse_v6_listen_addr:
  "parse_socket_addr ''[::]:80'' =
     Some \<lparr>ip = V6 [0, 0, 0, 0, 0, 0, 0, 0], port = 80, scope_id = 0\<rparr>"
  by (simp add: socket_addr_parser; simp add: numeral_eq_Suc)

end
