(* ===== verification/Config.thy ===== *)
theory Config
  imports Reference_Crates Net_Addr
begin

text \<open>
  \<^verbatim>\<open>src/config.rs\<close>: the server's configuration, read from the environment. The environment is
  a map from variable names to values (\<^verbatim>\<open>None\<close> where \<^verbatim>\<open>std::env::var\<close> fails); the random root
  key of an unset \<^verbatim>\<open>L402_ROOT_KEY\<close> is the argument \<open>random_key\<close>. An \<^verbatim>\<open>anyhow\<close> error is its
  displayed text, the outermost context.
\<close>

record x402_config =
  public_url :: string
  replay_db_path :: string
  clock_skew_secs :: u64

record config =
  lnd_address :: string
  lnd_cert_path :: string
  lnd_macaroon_path :: string
  listen_addr :: socket_addr
  invoice_amount_sats :: i64
  invoice_memo :: string
  invoice_expiry_secs :: i64
  root_key :: bytes
  x402 :: "x402_config option"

type_synonym env = "string \<Rightarrow> string option"

definition var_or :: "env \<Rightarrow> string \<Rightarrow> string \<Rightarrow> string" where
  "var_or env name default_value =
     (case env name of None \<Rightarrow> default_value | Some v \<Rightarrow> v)"

definition listen_addr_from_env :: "env \<Rightarrow> string + socket_addr" where
  "listen_addr_from_env env =
     ok_or (parse_socket_addr (var_or env ''LISTEN_ADDR'' ''0.0.0.0:3402'')) ''invalid LISTEN_ADDR''"

definition parse_public_url :: "crates \<Rightarrow> string \<Rightarrow> string + string" where
  "parse_public_url C url =
     (if \<not> is_ascii url then Err ''must be ASCII''
      else if CHR ''?'' \<in> set url \<or> CHR ''#'' \<in> set url
      then Err ''must not have a query or fragment''
      else try_then (uri_parse C url) (\<lambda>(scheme, uri_authority).
        if scheme \<noteq> Some ''http'' \<and> scheme \<noteq> Some ''https''
        then Err ''must be an absolute http or https URL''
        else try_then (ok_or uri_authority ''must have a host'') (\<lambda>authority.
          if CHR ''@'' \<in> set authority
          then Err ''must not contain user info''
          else Ok (trim_end_matches url CHR ''/''))))"

definition root_key_from_env :: "crates \<Rightarrow> bytes \<Rightarrow> env \<Rightarrow> string + bytes" where
  "root_key_from_env C random_key env =
     (case env ''L402_ROOT_KEY'' of
        Some hex_str \<Rightarrow>
          try_then (map_err (\<lambda>_. ''L402_ROOT_KEY must be valid hex'') (hex_decode C hex_str)) (\<lambda>key.
          if length key \<noteq> 32
          then Err ''L402_ROOT_KEY must be 32 bytes (64 hex chars)''
          else Ok key)
      | None \<Rightarrow> Ok random_key)"

definition x402_from_env :: "crates \<Rightarrow> env \<Rightarrow> string + x402_config option" where
  "x402_from_env C env =
     (case env ''PUBLIC_URL'' of
        Some url \<Rightarrow>
          try_then (map_err (\<lambda>_. ''invalid PUBLIC_URL'') (parse_public_url C url)) (\<lambda>u.
          try_then (ok_or (parse_u64 (var_or env ''X402_CLOCK_SKEW_SECS'' ''60''))
                      ''invalid X402_CLOCK_SKEW_SECS'') (\<lambda>skew.
          Ok (Some \<lparr>public_url = u,
                    replay_db_path = var_or env ''REPLAY_DB_PATH'' ''fortune-402.db'',
                    clock_skew_secs = skew\<rparr>)))
      | None \<Rightarrow> Ok None)"

definition from_env :: "crates \<Rightarrow> bytes \<Rightarrow> env \<Rightarrow> string + config" where
  "from_env C random_key env =
     (let address = var_or env ''LND_ADDRESS'' ''https://127.0.0.1:10009'' in
      try_then (ok_or (env ''LND_CERT_PATH'') ''LND_CERT_PATH must be set'') (\<lambda>cert.
      try_then (ok_or (env ''LND_MACAROON_PATH'') ''LND_MACAROON_PATH must be set'') (\<lambda>macaroon.
      try_then (listen_addr_from_env env) (\<lambda>addr.
      try_then (ok_or (parse_i64 (var_or env ''INVOICE_AMOUNT_SATS'' ''1''))
                  ''invalid INVOICE_AMOUNT_SATS'') (\<lambda>sats.
      let memo = var_or env ''INVOICE_MEMO'' ''Fortune cookie'' in
      try_then (ok_or (parse_i64 (var_or env ''INVOICE_EXPIRY_SECS'' ''300''))
                  ''invalid INVOICE_EXPIRY_SECS'') (\<lambda>expiry.
      try_then (root_key_from_env C random_key env) (\<lambda>key.
      try_then (x402_from_env C env) (\<lambda>x.
      Ok \<lparr>lnd_address = address, lnd_cert_path = cert, lnd_macaroon_path = macaroon,
          listen_addr = addr, invoice_amount_sats = sats, invoice_memo = memo,
          invoice_expiry_secs = expiry, root_key = key, x402 = x\<rparr>))))))))"

section \<open>Properties\<close>

lemma parse_public_url_Ok:
  "parse_public_url C url = Ok u \<longleftrightarrow>
     is_ascii url \<and> CHR ''?'' \<notin> set url \<and> CHR ''#'' \<notin> set url \<and> u = trim_end_matches url CHR ''/''
     \<and> (\<exists>scheme authority. uri_parse C url = Ok (Some scheme, Some authority)
          \<and> scheme \<in> {''http'', ''https''} \<and> CHR ''@'' \<notin> set authority)"
  by (auto simp: parse_public_url_def result_simps split: if_splits prod.splits)

lemma root_key_from_env_Ok:
  "root_key_from_env C r env = Ok k \<Longrightarrow> length r = 32 \<Longrightarrow> length k = 32"
  by (auto simp: root_key_from_env_def result_simps split: option.splits if_splits)

lemma from_env_Ok:
  "from_env C r env = Ok cfg \<longleftrightarrow>
     env ''LND_CERT_PATH'' = Some (lnd_cert_path cfg)
     \<and> env ''LND_MACAROON_PATH'' = Some (lnd_macaroon_path cfg)
     \<and> listen_addr_from_env env = Ok (listen_addr cfg)
     \<and> parse_i64 (var_or env ''INVOICE_AMOUNT_SATS'' ''1'') = Some (invoice_amount_sats cfg)
     \<and> parse_i64 (var_or env ''INVOICE_EXPIRY_SECS'' ''300'') = Some (invoice_expiry_secs cfg)
     \<and> root_key_from_env C r env = Ok (root_key cfg)
     \<and> x402_from_env C env = Ok (x402 cfg)
     \<and> lnd_address cfg = var_or env ''LND_ADDRESS'' ''https://127.0.0.1:10009''
     \<and> invoice_memo cfg = var_or env ''INVOICE_MEMO'' ''Fortune cookie''"
  by (cases cfg) (auto simp: from_env_def result_simps Let_def)

lemma x402_from_env_Some:
  "x402_from_env C env = Ok (Some xc) \<Longrightarrow>
     \<exists>url. env ''PUBLIC_URL'' = Some url \<and> parse_public_url C url = Ok (public_url xc)"
  by (auto simp: x402_from_env_def result_simps split: option.split_asm)

lemma x402_from_env_None: "x402_from_env C env = Ok None \<longleftrightarrow> env ''PUBLIC_URL'' = None"
  by (auto simp: x402_from_env_def result_simps split: option.split)

text \<open>
  C31. What a loaded configuration guarantees: the root key has 32 bytes whether it is given or
  random; \<^verbatim>\<open>/x402\<close> is configured exactly when \<^verbatim>\<open>PUBLIC_URL\<close> is set; and its public URL is the
  given one less all trailing slashes, ASCII and without query or fragment, so that appending
  the path of a request to it never doubles a slash or puts the path into a query.
\<close>

theorem config_guarantees:
  assumes "from_env C random_key env = Ok cfg" "length random_key = 32"
  shows "length (root_key cfg) = 32 \<and>
    (case x402 cfg of
       None \<Rightarrow> env ''PUBLIC_URL'' = None
     | Some xc \<Rightarrow> \<exists>url n. env ''PUBLIC_URL'' = Some url \<and> url = public_url xc @ replicate n CHR ''/''
         \<and> (public_url xc = [] \<or> last (public_url xc) \<noteq> CHR ''/'')
         \<and> is_ascii (public_url xc) \<and> CHR ''?'' \<notin> set (public_url xc) \<and> CHR ''#'' \<notin> set (public_url xc))"
proof -
  have key: "length (root_key cfg) = 32"
    using assms root_key_from_env_Ok by (auto simp: from_env_Ok)
  have x: "x402_from_env C env = Ok (x402 cfg)" using assms(1) by (simp add: from_env_Ok)
  show ?thesis
  proof (cases "x402 cfg")
    case None
    then show ?thesis using key x by (simp add: x402_from_env_None)
  next
    case (Some xc)
    then obtain url where url: "env ''PUBLIC_URL'' = Some url" "parse_public_url C url = Ok (public_url xc)"
      using x x402_from_env_Some by fastforce
    then have u: "public_url xc = trim_end_matches url CHR ''/''"
      and clean: "is_ascii url" "CHR ''?'' \<notin> set url" "CHR ''#'' \<notin> set url"
      by (simp_all add: parse_public_url_Ok)
    obtain n where n: "url = public_url xc @ replicate n CHR ''/''"
      using trim_end_matches_split u by metis
    then have "is_ascii (public_url xc)" "CHR ''?'' \<notin> set (public_url xc)" "CHR ''#'' \<notin> set (public_url xc)"
      using clean by (auto simp: is_ascii_def)
    moreover have "public_url xc = [] \<or> last (public_url xc) \<noteq> CHR ''/''"
      unfolding u by (rule trim_end_matches_last)
    ultimately show ?thesis
      unfolding Some option.case using key url(1) n by blast
  qed
qed

theorem config_guarantees_witness:
  "\<exists>cfg. from_env (ref_crates [] []) (replicate 32 1)
      [''LND_CERT_PATH'' \<mapsto> ''c'', ''LND_MACAROON_PATH'' \<mapsto> ''m'', ''PUBLIC_URL'' \<mapsto> ''http://a//''] = Ok cfg
    \<and> length (root_key cfg) = 32 \<and> x402 cfg \<noteq> None"
proof -
  let ?env = "[''LND_CERT_PATH'' \<mapsto> ''c'', ''LND_MACAROON_PATH'' \<mapsto> ''m'', ''PUBLIC_URL'' \<mapsto> ''http://a//'']"
  have url: "parse_public_url (ref_crates [] []) ''http://a//'' = Ok ''http://a''"
    by (simp add: parse_public_url_def is_ascii_def ref_crates_def trim_end_matches_def)
  have "\<exists>cfg. from_env (ref_crates [] []) (replicate 32 1) ?env = Ok cfg"
    by (simp add: from_env_def listen_addr_from_env_def var_or_def parse_default_listen_addr
        parse_i64_def parse_unsigned_def digit_value_def root_key_from_env_def x402_from_env_def url
        parse_u64_def)
  then obtain cfg where cfg: "from_env (ref_crates [] []) (replicate 32 1) ?env = Ok cfg" by blast
  from config_guarantees [OF cfg] have "length (root_key cfg) = 32" "x402 cfg \<noteq> None"
    by (simp_all split: option.split_asm)
  with cfg show ?thesis by blast
qed

definition default_settings :: "string \<Rightarrow> string \<Rightarrow> bytes \<Rightarrow> config" where
  "default_settings cert macaroon key =
     \<lparr>lnd_address = ''https://127.0.0.1:10009'', lnd_cert_path = cert,
      lnd_macaroon_path = macaroon,
      listen_addr = \<lparr>ip = V4 [0, 0, 0, 0], port = 3402, scope_id = 0\<rparr>,
      invoice_amount_sats = 1, invoice_memo = ''Fortune cookie'', invoice_expiry_secs = 300,
      root_key = key, x402 = None\<rparr>"

lemma from_env_default:
  "from_env C random_key [''LND_CERT_PATH'' \<mapsto> cert, ''LND_MACAROON_PATH'' \<mapsto> macaroon] =
     Ok (default_settings cert macaroon random_key)"
  by (simp add: from_env_def listen_addr_from_env_def var_or_def parse_default_listen_addr
      parse_i64_def parse_unsigned_def digit_value_def root_key_from_env_def x402_from_env_def default_settings_def)

text \<open>
  The documented defaults: with only the two required variables set, the configuration is
  the one of the \<^verbatim>\<open>README\<close>: the local node, all interfaces at port 3402, one satoshi, an expiry of
  300 seconds, the given random key, and no x402.
\<close>

lemma default_config:
  "from_env C random_key [''LND_CERT_PATH'' \<mapsto> cert, ''LND_MACAROON_PATH'' \<mapsto> macaroon] =
     Ok \<lparr>lnd_address = ''https://127.0.0.1:10009'', lnd_cert_path = cert,
         lnd_macaroon_path = macaroon,
         listen_addr = \<lparr>ip = V4 [0, 0, 0, 0], port = 3402, scope_id = 0\<rparr>,
         invoice_amount_sats = 1, invoice_memo = ''Fortune cookie'', invoice_expiry_secs = 300,
         root_key = random_key, x402 = None\<rparr>"
  by (simp add: from_env_default default_settings_def)

text \<open>
  A blank root key stops the server: \<^verbatim>\<open>L402_ROOT_KEY=\<close> with an empty value, as in
  \<^verbatim>\<open>.env.example\<close>, is a set variable, and no configuration is loaded; it does not fall back to
  a random key as an unset variable does.
\<close>

lemma blank_root_key_rejected:
  assumes "hex_decode C [] = Ok []" "env ''L402_ROOT_KEY'' = Some []"
  shows "root_key_from_env C random_key env = Err ''L402_ROOT_KEY must be 32 bytes (64 hex chars)''
    \<and> (\<nexists>cfg. from_env C random_key env = Ok cfg)"
proof -
  have "root_key_from_env C random_key env = Err ''L402_ROOT_KEY must be 32 bytes (64 hex chars)''"
    using assms by (simp add: root_key_from_env_def)
  then show ?thesis by (simp add: from_env_Ok)
qed

lemma blank_root_key_rejected_example:
  "\<nexists>cfg. from_env (ref_crates [] []) (replicate 32 1)
      [''LND_CERT_PATH'' \<mapsto> ''c'', ''LND_MACAROON_PATH'' \<mapsto> ''m'', ''L402_ROOT_KEY'' \<mapsto> ''''] = Ok cfg"
  using blank_root_key_rejected [of "ref_crates [] []"
      "[''LND_CERT_PATH'' \<mapsto> ''c'', ''LND_MACAROON_PATH'' \<mapsto> ''m'', ''L402_ROOT_KEY'' \<mapsto> '''']" "replicate 32 1"]
  by simp

end
