(* ===== verification/Lnd_Client.thy ===== *)
theory Lnd_Client
  imports App_Error Config
begin

text \<open>
  \<^verbatim>\<open>src/lnd.rs\<close>: the client of the Lightning node. The node is outside the repository: its two
  RPCs are the record \<open>lnd_rpc\<close>, functions of the request and of the node's state \<open>'w\<close>. The
  mutex around the client makes each call one step on that state. A failed RPC is the text of
  its gRPC status.
\<close>

record lnrpc_invoice =
  ln_value :: i64
  ln_memo :: string
  ln_expiry :: i64
  ln_value_msat :: i64
  ln_description_hash :: bytes

definition lnrpc_default :: lnrpc_invoice where
  "lnrpc_default =
     \<lparr>ln_value = 0, ln_memo = '''', ln_expiry = 0, ln_value_msat = 0, ln_description_hash = []\<rparr>"

record add_invoice_response =
  r_hash :: bytes
  payment_request :: string

record get_info_response =
  identity_pubkey :: string
  chains :: "string list"

record 'w lnd_rpc =
  add_invoice :: "lnrpc_invoice \<Rightarrow> 'w \<Rightarrow> (string + add_invoice_response) \<times> 'w"
  rpc_get_info :: "'w \<Rightarrow> (string + get_info_response) \<times> 'w"

record node_info =
  ni_pubkey :: string
  ni_network :: string

definition connect :: "(string \<Rightarrow> string \<Rightarrow> string \<Rightarrow> string + 'c) \<Rightarrow> config \<Rightarrow> app_error + 'c" where
  "connect dial cfg =
     map_err LndConnection (dial (lnd_address cfg) (lnd_cert_path cfg) (lnd_macaroon_path cfg))"

definition create_invoice ::
  "'w lnd_rpc \<Rightarrow> i64 \<Rightarrow> string \<Rightarrow> i64 \<Rightarrow> 'w \<Rightarrow> (app_error + bytes \<times> string) \<times> 'w" where
  "create_invoice rpc amount_sats memo expiry w =
     (case add_invoice rpc
             (lnrpc_default\<lparr>ln_value := amount_sats, ln_memo := memo, ln_expiry := expiry\<rparr>) w of
        (Inl e, w') \<Rightarrow> (Err (Lnd e), w')
      | (Inr res, w') \<Rightarrow> (Ok (r_hash res, payment_request res), w'))"

definition get_info :: "'w lnd_rpc \<Rightarrow> 'w \<Rightarrow> (app_error + node_info) \<times> 'w" where
  "get_info rpc w =
     (case rpc_get_info rpc w of
        (Inl e, w') \<Rightarrow> (Err (Lnd e), w')
      | (Inr info, w') \<Rightarrow>
          (case chains info of
             [] \<Rightarrow> (Err (Internal ''LND reported no chains''), w')
           | n # _ \<Rightarrow> (Ok \<lparr>ni_pubkey = identity_pubkey info, ni_network = n\<rparr>, w')))"

definition create_invoice_with_description_hash ::
  "'w lnd_rpc \<Rightarrow> i64 \<Rightarrow> bytes \<Rightarrow> i64 \<Rightarrow> 'w \<Rightarrow> (app_error + string) \<times> 'w" where
  "create_invoice_with_description_hash rpc amount_msat hash expiry w =
     (case add_invoice rpc
             (lnrpc_default\<lparr>ln_value_msat := amount_msat, ln_description_hash := hash,
                             ln_expiry := expiry\<rparr>) w of
        (Inl e, w') \<Rightarrow> (Err (Lnd e), w')
      | (Inr res, w') \<Rightarrow> (Ok (payment_request res), w'))"

text \<open>A node for the examples: it counts its invoices and pays each with the same preimage.\<close>

definition ex_rpc :: "nat lnd_rpc" where
  "ex_rpc =
     \<lparr>add_invoice = (\<lambda>i n. (Ok \<lparr>r_hash = ref_digest ex_preimage, payment_request = ''lnbc1''\<rparr>, Suc n)),
      rpc_get_info = (\<lambda>n. (Ok \<lparr>identity_pubkey = ref_hex_encode ex_node_key,
                                 chains = [''mainnet'']\<rparr>, n))\<rparr>"

definition ex_config :: config where
  "ex_config =
     \<lparr>lnd_address = ''https://127.0.0.1:10009'', lnd_cert_path = ''tls.cert'',
      lnd_macaroon_path = ''admin.macaroon'',
      listen_addr = \<lparr>ip = V4 [0, 0, 0, 0], port = 3402, scope_id = 0\<rparr>,
      invoice_amount_sats = 1, invoice_memo = ''Fortune cookie'', invoice_expiry_secs = 300,
      root_key = replicate 32 1, x402 = None\<rparr>"

end
