(* ===== verification/Paywall.thy ===== *)
theory Paywall
  imports App_Error
begin

text \<open>
  The interface of a paid route: a handler of requests with a state, an invariant of the state, and
  what counts as a payment. The two routes of the server, \<^verbatim>\<open>/fortune\<close> and \<^verbatim>\<open>/x402\<close>, provide it;
  the facts about runs of requests are proved once here.
\<close>

locale paywall =
  fixes handle :: "'q \<Rightarrow> 's \<Rightarrow> (app_error, response) outcome \<times> 's"
    and invar :: "'s \<Rightarrow> bool"
    and paid :: "'q \<Rightarrow> 's \<Rightarrow> bool"
  assumes keeps: "invar s \<Longrightarrow> invar (snd (handle q s))"
    and served_paid: "invar s \<Longrightarrow> handle q s = (Return r, s') \<Longrightarrow> status r = OK_STATUS \<Longrightarrow> paid q s"
    and statuses: "handle q s = (Return r, s') \<Longrightarrow>
      status r \<in> {OK_STATUS, PAYMENT_REQUIRED_STATUS, INTERNAL_SERVER_ERROR}"
begin

lemma answer_paid:
  assumes "invar s" "handle q s = (out, s')" "deliver out = Some r" "status r = OK_STATUS"
  shows "paid q s"
  using served_paid [OF assms(1)] assms(2) deliver_ok [OF assms(3,4)] assms(4) by simp

lemma answer_status:
  assumes "handle q s = (out, s')" "deliver out = Some r"
  shows "status r \<in> {200, 400, 401, 402, 500}"
proof (cases out)
  case (Return x)
  then show ?thesis using statuses [of q s r s'] assms by (auto simp: deliver_def status_defs)
next
  case (Fail e)
  then show ?thesis
    using assms(2) by (cases e) (auto simp: deliver_def into_response_def error_status_def status_defs)
next
  case (Panic msg)
  then show ?thesis using assms(2) by (simp add: deliver_def)
qed

lemma run_keeps: "invar s \<Longrightarrow> invar (fold (\<lambda>q s. snd (handle q s)) qs s)"
  by (induction qs arbitrary: s) (simp_all add: keeps)

lemma unpaid_not_served:
  assumes "invar s" "handle q (fold (\<lambda>q s. snd (handle q s)) qs s) = (out, s')"
    and "\<not> paid q (fold (\<lambda>q s. snd (handle q s)) qs s)" "deliver out = Some r"
  shows "status r \<noteq> 200"
  using answer_paid [OF run_keeps [OF assms(1)] assms(2,4)] assms(3) by (auto simp: OK_STATUS_def)

end

end
