(* ===== verification/X402_Handler.thy ===== *)
theory X402_Handler
  imports Lnbtc Lnd_Client Fortunes Paywall
begin

text \<open>
  \<^verbatim>\<open>src/x402/handler.rs\<close>: the route \<^verbatim>\<open>/x402\<close>. The issuer of invoices is a function on the
  node's state (the trait \<^verbatim>\<open>InvoiceIssuer\<close>), with the implementation on LND; the handler's
  state is the node's and the table of the replay store. The clock readings, the random
  generator and a failure of the database are its environment.
\<close>

definition REPLAY_PRUNE_INTERVAL :: nat where
  "REPLAY_PRUNE_INTERVAL = 600"

type_synonym 'w issuer = "u64 \<Rightarrow> bytes \<Rightarrow> u64 \<Rightarrow> 'w \<Rightarrow> (app_error + string) \<times> 'w"

definition app_issue :: "'w lnd_rpc \<Rightarrow> 'w issuer" where
  "app_issue rpc amount_msat hash expiry_secs w =
     (case ok_or (i64_try_from_u64 amount_msat) (Internal ''invoice amount too large'') of
        Inl e \<Rightarrow> (Err e, w)
      | Inr a \<Rightarrow>
          (case ok_or (i64_try_from_u64 expiry_secs) (Internal ''invoice expiry too large'') of
             Inl e \<Rightarrow> (Err e, w)
           | Inr x \<Rightarrow> create_invoice_with_description_hash rpc a hash x w))"

text \<open>
  The state of the route. Of the fields of \<^verbatim>\<open>X402State\<close>, the issuer and the replay store change from request to
  request, so they are not in the record: the issuer is an argument of the handler with the node's state, and the
  store is the table that the handler takes and returns.
\<close>

record x402_state =
  x_network :: network
  x_pay_to :: pubkey
  x_amount_msat :: u64
  x_max_timeout_secs :: u64
  x_clock_skew_secs :: u64
  x_public_url :: string

text \<open>\<^verbatim>\<open>x402_from_app\<close>: the state of the route from the configuration, or that it is disabled.\<close>

definition price_msat :: "config \<Rightarrow> u64 option" where
  "price_msat cfg =
     Option.bind (i64_checked_mul (invoice_amount_sats cfg) 1000) (\<lambda>msat.
     Option.bind (u64_try_from_i64 msat) (\<lambda>m. if m > 0 then Some m else None))"

definition timeout_secs :: "config \<Rightarrow> u64 option" where
  "timeout_secs cfg =
     Option.bind (u64_try_from_i64 (invoice_expiry_secs cfg)) (\<lambda>s. if s > 0 then Some s else None)"

definition x402_from_app ::
  "crates \<Rightarrow> 'w lnd_rpc \<Rightarrow> config \<Rightarrow> (string \<Rightarrow> string + table) \<Rightarrow> 'w
     \<Rightarrow> (string + (x402_state \<times> table) option) \<times> 'w" where
  "x402_from_app C rpc cfg open_store w =
     (case x402 cfg of
        None \<Rightarrow> (Ok None, w)
      | Some xc \<Rightarrow>
          (case get_info rpc w of
             (Inl e, w') \<Rightarrow> (Err (app_error_to_string e), w')
           | (Inr info, w') \<Rightarrow>
               (case network_from_lnd (ni_network info) of
                  None \<Rightarrow> (Ok None, w')
                | Some net \<Rightarrow>
                    (try_then (ok_or (pubkey_from_str C (ni_pubkey info))
                        ''LND returned an invalid node pubkey'') (\<lambda>pay_to.
                     try_then (ok_or (price_msat cfg)
                        ''INVOICE_AMOUNT_SATS must be positive for x402'') (\<lambda>amount_msat.
                     try_then (ok_or (timeout_secs cfg)
                        ''INVOICE_EXPIRY_SECS must be positive for x402'') (\<lambda>max_timeout_secs.
                     try_then (open_store (replay_db_path xc)) (\<lambda>store.
                     Ok (Some (\<lparr>x_network = net, x_pay_to = pay_to, x_amount_msat = amount_msat,
                                x_max_timeout_secs = max_timeout_secs,
                                x_clock_skew_secs = clock_skew_secs xc,
                                x_public_url = public_url xc\<rparr>, store)))))), w'))))"

text \<open>\<^verbatim>\<open>unix_now\<close>: the system time is in nanoseconds from 1970, negative before.\<close>

definition unix_now :: "int \<Rightarrow> (app_error, u64) outcome" where
  "unix_now nanos =
     (if nanos < 0 then Panic ''system clock is after 1970''
      else Return (word_of_int (nanos div 1000000000)))"

text \<open>One tick of the pruning task. An error is logged, and the task goes on.\<close>

definition pruner_tick :: "db_fault \<Rightarrow> int \<Rightarrow> table \<Rightarrow> (app_error, unit) outcome \<times> table" where
  "pruner_tick fault nanos store =
     (case unix_now nanos of
        Return now \<Rightarrow> (Return (), snd (prune fault now store))
      | Fail e \<Rightarrow> (Fail e, store)
      | Panic msg \<Rightarrow> (Panic msg, store))"

text \<open>The task: a tick at once and then every \<open>REPLAY_PRUNE_INTERVAL\<close>, each with its clock and fault.\<close>

definition pruner_tick_secs :: "nat \<Rightarrow> nat" where
  "pruner_tick_secs k = k * REPLAY_PRUNE_INTERVAL"

fun run_pruner :: "(db_fault \<times> int) list \<Rightarrow> table \<Rightarrow> (app_error, unit) outcome \<times> table" where
  "run_pruner [] store = (Return (), store)"
| "run_pruner ((fault, nanos) # ticks) store =
     (case pruner_tick fault nanos store of
        (Return _, store') \<Rightarrow> run_pruner ticks store'
      | (Fail e, store') \<Rightarrow> (Fail e, store')
      | (Panic msg, store') \<Rightarrow> (Panic msg, store'))"

definition x402_terms :: "x402_state \<Rightarrow> bytes \<Rightarrow> terms" where
  "x402_terms x hash =
     \<lparr>t_network = x_network x, t_pay_to = x_pay_to x, t_amount_msat = x_amount_msat x,
      t_max_timeout_secs = x_max_timeout_secs x, t_request_hash = hash,
      t_binding_params = http_params BOUND_HEADERS, t_clock_skew_secs = x_clock_skew_secs x\<rparr>"

definition challenge_body :: "crates \<Rightarrow> terms \<Rightarrow> string \<Rightarrow> string \<Rightarrow> string \<Rightarrow> payment_required" where
  "challenge_body C t url error_text invoice =
     \<lparr>pq_x402_version = X402_VERSION, pq_error = Some error_text,
      pq_resource = \<lparr>ri_url = url, ri_description = ''A fortune cookie'',
                     ri_mime_type = ''application/json''\<rparr>,
      pq_accepts = [requirements C t invoice]\<rparr>"

definition insert_header :: "string \<Rightarrow> string \<Rightarrow> response \<Rightarrow> response" where
  "insert_header name v r =
     r\<lparr>resp_headers := filter (\<lambda>h. fst h \<noteq> name) (resp_headers r) @ [(name, v)]\<rparr>"

text \<open>The response to an issued invoice.\<close>

definition challenge_response ::
  "crates \<Rightarrow> terms \<Rightarrow> string \<Rightarrow> string \<Rightarrow> settlement_response option \<Rightarrow> string
     \<Rightarrow> (app_error, response) outcome" where
  "challenge_response C t url error_text failure invoice =
     (let required = payment_required_to_json (challenge_body C t url error_text invoice) in
      outcome_then (encode_header C required) (\<lambda>h.
      let res = with_header C PAYMENT_REQUIRED h
                  \<lparr>status = PAYMENT_REQUIRED_STATUS, resp_headers = [],
                   resp_body = JsonBody required\<rparr> in
      case failure of
        None \<Rightarrow> Return res
      | Some f \<Rightarrow>
          outcome_then (encode_header C (settlement_to_json f)) (\<lambda>v.
          case header_from_str C v of
            None \<Rightarrow> Panic ''base64 is a valid header value''
          | Some _ \<Rightarrow> Return (insert_header PAYMENT_RESPONSE v res))))"

definition challenge ::
  "crates \<Rightarrow> 'w issuer \<Rightarrow> int \<Rightarrow> terms \<Rightarrow> string \<Rightarrow> string \<Rightarrow> settlement_response option \<Rightarrow> 'w
     \<Rightarrow> (app_error, response) outcome \<times> 'w" where
  "challenge C issue nanos t url error_text failure w =
     (case issue (t_amount_msat t) (t_request_hash t) (t_max_timeout_secs t) w of
        (Inl e, w') \<Rightarrow> (Fail e, w')
      | (Inr invoice, w') \<Rightarrow>
          (outcome_then (unix_now nanos) (\<lambda>now.
           case check_issued_invoice C invoice t now of
             Inl reason \<Rightarrow>
               Fail (Internal
                 (''LND issued an invoice that fails x402 checks: '' @ reason_as_str reason))
           | Inr _ \<Rightarrow> challenge_response C t url error_text failure invoice), w'))"

record request =
  rq_method :: string
  rq_path :: string
  rq_path_and_query :: "string option"
  rq_headers :: header_map
  rq_body :: bytes

record x402_env =
  e_settle_clock :: int
  e_challenge_clock :: int
  e_random :: "nat \<Rightarrow> nat"
  e_db_fault :: db_fault

definition request_url :: "x402_state \<Rightarrow> request \<Rightarrow> string" where
  "request_url x rq =
     x_public_url x @ (case rq_path_and_query rq of None \<Rightarrow> rq_path rq | Some p \<Rightarrow> p)"

definition request_digest :: "crates \<Rightarrow> x402_state \<Rightarrow> request \<Rightarrow> string + bytes" where
  "request_digest C x rq =
     http_request_hash C (rq_method rq) (request_url x rq) (rq_body rq) BOUND_HEADERS (rq_headers rq)"

definition parse_signature :: "crates \<Rightarrow> bytes \<Rightarrow> app_error + payment_payload" where
  "parse_signature C sig =
     try_then
       (map_err (\<lambda>e. X402 (''malformed PAYMENT-SIGNATURE header: '' @ e))
         (try_then (ok_or (header_to_str C sig) ''invalid header encoding'')
           (decode_header C payload_of_json))) (\<lambda>p.
     if pp_x402_version p \<noteq> X402_VERSION
     then Err (X402 (''unsupported x402Version '' @ dec_string (unat (pp_x402_version p)) @
                     '', expected '' @ dec_string (unat X402_VERSION)))
     else Ok p)"

text \<open>The response to a settled payment.\<close>

definition settled_response ::
  "crates \<Rightarrow> x402_state \<Rightarrow> (nat \<Rightarrow> nat) \<Rightarrow> settlement \<Rightarrow> (app_error, response) outcome" where
  "settled_response C x rng s =
     outcome_then (random_fortune rng) (\<lambda>fortune.
     outcome_then
       (encode_header C (settlement_to_json
          \<lparr>sr_success = True, sr_error_reason = None, sr_transaction = transaction s,
           sr_network = caip2 (x_network x)\<rparr>)) (\<lambda>h.
     Return (with_header C PAYMENT_RESPONSE h
       \<lparr>status = OK_STATUS, resp_headers = [],
        resp_body = JsonBody (json_obj [(''fortune'', JStr fortune)])\<rparr>)))"

definition x402_get_fortune ::
  "crates \<Rightarrow> 'w issuer \<Rightarrow> x402_state \<Rightarrow> x402_env \<Rightarrow> request \<Rightarrow> 'w \<times> table
     \<Rightarrow> (app_error, response) outcome \<times> 'w \<times> table" where
  "x402_get_fortune C issue x env rq st =
     (case st of (w, store) \<Rightarrow>
      case map_err X402 (request_digest C x rq) of
        Inl e \<Rightarrow> (Fail e, w, store)
      | Inr hash \<Rightarrow>
          let t = x402_terms x hash; url = request_url x rq in
          (case header_get (rq_headers rq) PAYMENT_SIGNATURE of
             None \<Rightarrow>
               (case challenge C issue (e_challenge_clock env) t url
                       ''PAYMENT-SIGNATURE header is required'' None w of
                  (out, w') \<Rightarrow> (out, w', store))
           | Some sig \<Rightarrow>
               (case parse_signature C sig of
                  Inl e \<Rightarrow> (Fail e, w, store)
                | Inr p \<Rightarrow>
                    (case unix_now (e_settle_clock env) of
                       Fail e \<Rightarrow> (Fail e, w, store)
                     | Panic msg \<Rightarrow> (Panic msg, w, store)
                     | Return now \<Rightarrow>
                         (case settle C (e_db_fault env) p t now store of
                            (Inr s, store') \<Rightarrow> (settled_response C x (e_random env) s, w, store')
                          | (Inl (Rejected reason), store') \<Rightarrow>
                              (case challenge C issue (e_challenge_clock env) t url
                                      (reason_as_str reason)
                                      (Some \<lparr>sr_success = False,
                                             sr_error_reason = Some (reason_as_str reason),
                                             sr_transaction = '''',
                                             sr_network = caip2 (x_network x)\<rparr>) w of
                                 (out, w') \<Rightarrow> (out, w', store'))
                          | (Inl (Store e), store') \<Rightarrow> (Fail (Internal e), w, store'))))))"

text \<open>The cross-origin policy of the route: what a page in a browser may send and read.\<close>

record cors_layer =
  allow_any_origin :: bool
  allow_methods :: "string list"
  allow_headers :: "string list"
  expose_headers :: "string list"

definition x402_router :: "string \<times> cors_layer" where
  "x402_router =
     (''/x402'',
      \<lparr>allow_any_origin = True, allow_methods = [''GET''], allow_headers = [PAYMENT_SIGNATURE],
       expose_headers = [PAYMENT_REQUIRED, PAYMENT_RESPONSE]\<rparr>)"

section \<open>Properties\<close>

lemma x402_terms_simps [simp]:
  "t_network (x402_terms x h) = x_network x" "t_pay_to (x402_terms x h) = x_pay_to x"
  "t_amount_msat (x402_terms x h) = x_amount_msat x"
  "t_max_timeout_secs (x402_terms x h) = x_max_timeout_secs x"
  "t_request_hash (x402_terms x h) = h"
  "t_binding_params (x402_terms x h) = http_params []"
  "t_clock_skew_secs (x402_terms x h) = x_clock_skew_secs x"
  by (simp_all add: x402_terms_def BOUND_HEADERS_def)

lemma settle_Rejected:
  "settle C f p t now store = (Err (Rejected e), store') \<Longrightarrow> table_wf store \<Longrightarrow>
     store' = store
     \<and> (verify C p t now = Err e
        \<or> (\<exists>pf. verify C p t now = Ok pf \<and> e = DuplicateSettlement
             \<and> map_of store (replay_key C (t_network t) (pf_payment_hash pf)) \<noteq> None))"
  by (auto simp: settle_def replay_key_def Let_def map_err_Ok map_err_Err replay.consume_Ok_False
      dest: replay.consume_unchanged split: sum.split_asm prod.split_asm if_split_asm)

lemma settle_Store:
  "settle C f p t now store = (Err (Store e), store') \<Longrightarrow> f = Some e \<and> store' = store"
  by (cases f)
     (auto simp: settle_def consume_def Let_def map_err_Ok map_err_Err split: sum.split_asm prod.split_asm if_split_asm)

lemma challenge_response_Return:
  assumes "challenge_response C t url msg failure invoice = Return r"
    and laws: "ascii_headers C" "b64_alphabet C"
  defines "doc \<equiv> payment_required_to_json (challenge_body C t url msg invoice)"
  obtains h where "encode_header C doc = Return h"
    "status r = PAYMENT_REQUIRED_STATUS" "resp_body r = JsonBody doc"
    "failure = None \<Longrightarrow> resp_headers r = [(PAYMENT_REQUIRED, h)]"
    "\<And>f. failure = Some f \<Longrightarrow> \<exists>v. encode_header C (settlement_to_json f) = Return v
       \<and> resp_headers r = [(PAYMENT_REQUIRED, h), (PAYMENT_RESPONSE, v)]"
proof -
  have header: "header_from_str C h \<noteq> None" if "encode_header C d = Return h" for d h
    using that laws b64_header_value by (auto simp: encode_header_Return)
  show thesis
  proof (cases failure)
    case None
    with assms(1) that header show thesis
      by (auto simp: challenge_response_def Let_def outcome_then_Return doc_def)
  next
    case (Some f)
    with assms(1) that header show thesis
      by (auto simp: challenge_response_def Let_def outcome_then_Return doc_def insert_header_def
          PAYMENT_REQUIRED_def PAYMENT_RESPONSE_def split: option.split_asm)
  qed
qed

lemma challenge_response_headers:
  "challenge_response C t url msg failure invoice = Return r \<Longrightarrow>
     list_all (\<lambda>h. fst h \<in> {PAYMENT_REQUIRED, PAYMENT_RESPONSE}) (resp_headers r)"
  by (auto simp: challenge_response_def Let_def outcome_then_Return insert_header_def with_header_def
      split: option.split_asm)

lemma challenge_response_not_ok:
  "challenge_response C t url msg failure invoice = Return r \<Longrightarrow> status r \<noteq> OK_STATUS"
  by (auto simp: challenge_response_def Let_def outcome_then_Return insert_header_def with_header_def
      split: option.split_asm)

lemma challenge_Return:
  assumes "challenge C issue nanos t url msg failure w = (Return r, w')"
  obtains invoice now where
    "issue (t_amount_msat t) (t_request_hash t) (t_max_timeout_secs t) w = (Ok invoice, w')"
    "unix_now nanos = Return now" "check_issued_invoice C invoice t now = Ok ()"
    "challenge_response C t url msg failure invoice = Return r"
proof -
  obtain res w1 where issued:
    "issue (t_amount_msat t) (t_request_hash t) (t_max_timeout_secs t) w = (res, w1)"
    by (cases "issue (t_amount_msat t) (t_request_hash t) (t_max_timeout_secs t) w")
  with assms obtain invoice where inv: "res = Ok invoice" "w1 = w'"
    by (cases res) (simp_all add: challenge_def)
  with assms issued obtain now where "unix_now nanos = Return now"
    and checked: "(case check_issued_invoice C invoice t now of
        Inl reason \<Rightarrow> Fail (Internal
          (''LND issued an invoice that fails x402 checks: '' @ reason_as_str reason))
      | Inr _ \<Rightarrow> challenge_response C t url msg failure invoice) = Return r"
    by (auto simp: challenge_def outcome_then_Return)
  moreover have "check_issued_invoice C invoice t now = Ok ()"
    using checked by (cases "check_issued_invoice C invoice t now") auto
  ultimately show thesis using that issued inv by simp
qed

lemma settled_response_outcome:
  assumes "settled_response C x rng st = out" "ascii_headers C" "b64_alphabet C"
  shows "(\<exists>f h. random_fortune rng = Return f
       \<and> encode_header C (settlement_to_json
            \<lparr>sr_success = True, sr_error_reason = None, sr_transaction = transaction st,
             sr_network = caip2 (x_network x)\<rparr>) = Return h
       \<and> out = Return \<lparr>status = OK_STATUS, resp_headers = [(PAYMENT_RESPONSE, h)],
               resp_body = JsonBody (JObj [(''fortune'', JStr f)])\<rparr>)
     \<or> (\<exists>msg. out = Panic msg)"
proof (cases "json_to_vec C (settlement_to_json
    \<lparr>sr_success = True, sr_error_reason = None, sr_transaction = transaction st,
     sr_network = caip2 (x_network x)\<rparr>)")
  case (Inl e)
  then show ?thesis
    using assms(1) by (auto simp: settled_response_def encode_header_def random_fortune_def Let_def split: if_splits)
next
  case (Inr v)
  then show ?thesis
    using assms(1) b64_header_value [OF assms(2,3), of v]
    by (auto simp: settled_response_def encode_header_def random_fortune_def Let_def split: if_splits)
qed

lemma settled_response_Return:
  "settled_response C x rng s = Return r \<Longrightarrow> status r = OK_STATUS \<Longrightarrow>
     \<exists>f h. random_fortune rng = Return f
       \<and> encode_header C (settlement_to_json
            \<lparr>sr_success = True, sr_error_reason = None, sr_transaction = transaction s,
             sr_network = caip2 (x_network x)\<rparr>) = Return h
       \<and> r = \<lparr>status = OK_STATUS, resp_headers = [(PAYMENT_RESPONSE, h)],
               resp_body = JsonBody (JObj [(''fortune'', JStr f)])\<rparr>"
  by (auto simp: settled_response_def outcome_then_Return with_header_def split: option.split_asm)

lemma request_digest_headers [simp]:
  "request_digest C x (rq\<lparr>rq_headers := hs\<rparr>) = request_digest C x rq"
  by (simp add: request_digest_def request_url_def BOUND_HEADERS_def http_request_hash_unbound
      split: option.split)

lemma request_url_headers [simp]: "request_url x (rq\<lparr>rq_headers := hs\<rparr>) = request_url x rq"
  by (simp add: request_url_def split: option.split)

lemma request_digest_length:
  "sha256_length C \<Longrightarrow> request_digest C x rq = Ok h \<Longrightarrow> length h = 32"
  by (auto simp: request_digest_def http_request_hash_def sha256_length_def result_simps)

text \<open>The settlement branch of the handler.\<close>

lemma x402_paid_branch:
  assumes "request_digest C x rq = Ok hash" "header_get (rq_headers rq) PAYMENT_SIGNATURE = Some sig"
    and "parse_signature C sig = Ok p" "unix_now (e_settle_clock env) = Return now"
  shows "x402_get_fortune C issue x env rq (w, store) =
    (case settle C (e_db_fault env) p (x402_terms x hash) now store of
       (Inr s, store') \<Rightarrow> (settled_response C x (e_random env) s, w, store')
     | (Inl (Rejected reason), store') \<Rightarrow>
         (case challenge C issue (e_challenge_clock env) (x402_terms x hash) (request_url x rq)
                 (reason_as_str reason)
                 (Some \<lparr>sr_success = False, sr_error_reason = Some (reason_as_str reason),
                        sr_transaction = '''', sr_network = caip2 (x_network x)\<rparr>) w of
            (out, w') \<Rightarrow> (out, w', store'))
     | (Inl (Store e), store') \<Rightarrow> (Fail (Internal e), w, store'))"
  using assms by (simp add: x402_get_fortune_def Let_def)

lemma x402_unpaid_branch:
  assumes "request_digest C x rq = Ok hash" "header_get (rq_headers rq) PAYMENT_SIGNATURE = None"
  shows "x402_get_fortune C issue x env rq (w, store) =
    (case challenge C issue (e_challenge_clock env) (x402_terms x hash) (request_url x rq)
            ''PAYMENT-SIGNATURE header is required'' None w of (out, w') \<Rightarrow> (out, w', store))"
  using assms by (simp add: x402_get_fortune_def Let_def)

text \<open>Every answer comes from one of three branches.\<close>

lemma x402_Return_cases:
  assumes "x402_get_fortune C issue x env rq (w, store) = (Return r, w', store')"
  obtains
    (challenged) hash where "request_digest C x rq = Ok hash"
      "header_get (rq_headers rq) PAYMENT_SIGNATURE = None" "store' = store"
      "challenge C issue (e_challenge_clock env) (x402_terms x hash) (request_url x rq)
         ''PAYMENT-SIGNATURE header is required'' None w = (Return r, w')"
  | (rejected) hash sig p now reason where "request_digest C x rq = Ok hash"
      "header_get (rq_headers rq) PAYMENT_SIGNATURE = Some sig" "parse_signature C sig = Ok p"
      "unix_now (e_settle_clock env) = Return now"
      "settle C (e_db_fault env) p (x402_terms x hash) now store = (Err (Rejected reason), store')"
      "challenge C issue (e_challenge_clock env) (x402_terms x hash) (request_url x rq)
         (reason_as_str reason)
         (Some \<lparr>sr_success = False, sr_error_reason = Some (reason_as_str reason),
                sr_transaction = '''', sr_network = caip2 (x_network x)\<rparr>) w = (Return r, w')"
  | (settled) hash sig p now s where "request_digest C x rq = Ok hash"
      "header_get (rq_headers rq) PAYMENT_SIGNATURE = Some sig" "parse_signature C sig = Ok p"
      "unix_now (e_settle_clock env) = Return now"
      "settle C (e_db_fault env) p (x402_terms x hash) now store = (Ok s, store')"
      "settled_response C x (e_random env) s = Return r" "w' = w"
proof -
  obtain hash where hash: "request_digest C x rq = Ok hash"
    using assms by (cases "request_digest C x rq") (auto simp: x402_get_fortune_def)
  show thesis
  proof (cases "header_get (rq_headers rq) PAYMENT_SIGNATURE")
    case None
    note run = assms [unfolded x402_unpaid_branch [OF hash None]]
    then show thesis using challenged [OF hash None] by (auto split: prod.split_asm)
  next
    case (Some sig)
    obtain p where p: "parse_signature C sig = Ok p"
      using assms hash Some by (cases "parse_signature C sig") (auto simp: x402_get_fortune_def Let_def)
    obtain now where now: "unix_now (e_settle_clock env) = Return now"
      using assms hash Some p
      by (cases "unix_now (e_settle_clock env)") (auto simp: x402_get_fortune_def Let_def)
    obtain res store1 where s: "settle C (e_db_fault env) p (x402_terms x hash) now store = (res, store1)"
      by (cases "settle C (e_db_fault env) p (x402_terms x hash) now store")
    note run = assms [unfolded x402_paid_branch [OF hash Some p now] s]
    show thesis
    proof (cases res)
      case (Inr st)
      with run s show thesis using settled [OF hash Some p now] by auto
    next
      case (Inl e)
      with run s show thesis
        using rejected [OF hash Some p now] by (cases e) (auto split: prod.split_asm)
    qed
  qed
qed

lemma challenge_not_ok:
  assumes "challenge C issue nanos t url msg failure w = (Return r, w')"
  shows "status r \<noteq> OK_STATUS"
  using assms by (rule challenge_Return) (rule challenge_response_not_ok)

lemma x402_settled:
  assumes "x402_get_fortune C issue x env rq (w, store) = (Return r, w', store')"
    and "status r = OK_STATUS" "table_wf store"
  obtains sig p hash now pf f h where
    "header_get (rq_headers rq) PAYMENT_SIGNATURE = Some sig" "parse_signature C sig = Ok p"
    "request_digest C x rq = Ok hash" "unix_now (e_settle_clock env) = Return now"
    "verify C p (x402_terms x hash) now = Ok pf"
    "map_of store (replay_key C (x_network x) (pf_payment_hash pf)) = None"
    "store' = store @ [(replay_key C (x_network x) (pf_payment_hash pf), to_sql_time (pf_retain_until pf))]"
    "w' = w" "f \<in> set FORTUNES"
    "encode_header C (settlement_to_json
       \<lparr>sr_success = True, sr_error_reason = None, sr_transaction = hex_encode C (pf_payment_hash pf),
        sr_network = caip2 (x_network x)\<rparr>) = Return h"
    "r = \<lparr>status = OK_STATUS, resp_headers = [(PAYMENT_RESPONSE, h)],
          resp_body = JsonBody (JObj [(''fortune'', JStr f)])\<rparr>"
  using assms(1)
proof (cases rule: x402_Return_cases)
  case (settled hash sig p now s)
  then obtain pf where pf: "verify C p (x402_terms x hash) now = Ok pf"
    "consume (e_db_fault env) (replay_key C (x_network x) (pf_payment_hash pf)) (pf_retain_until pf) store
       = (Ok True, store')" "transaction s = hex_encode C (pf_payment_hash pf)"
    by (auto simp: settle_Ok)
  let ?k = "replay_key C (x_network x) (pf_payment_hash pf)"
  have free: "map_of store ?k = None" and f: "e_db_fault env = None"
    using pf(2) replay.consume_Ok_True [OF assms(3)] by auto
  then have new: "?k \<notin> fst ` set store" by (simp add: map_of_eq_None_iff)
  have rows: "store' = store @ [(?k, to_sql_time (pf_retain_until pf))]"
    using pf(2) new by (simp add: f consume_def sql_insert_or_ignore_def)
  obtain fortune h where fortune: "random_fortune (e_random env) = Return fortune"
    and h: "encode_header C (settlement_to_json
       \<lparr>sr_success = True, sr_error_reason = None, sr_transaction = transaction s,
        sr_network = caip2 (x_network x)\<rparr>) = Return h"
    and r: "r = \<lparr>status = OK_STATUS, resp_headers = [(PAYMENT_RESPONSE, h)],
          resp_body = JsonBody (JObj [(''fortune'', JStr fortune)])\<rparr>"
    using settled_response_Return [OF settled(6) assms(2)] by blast
  show thesis
    using that [OF settled(2,3,1,4) pf(1) free rows settled(7) random_fortune_Return [OF fortune]] h r pf(3)
    by simp
next
  case (challenged hash)
  then show thesis using challenge_not_ok [OF challenged(4)] assms(2) by simp
next
  case (rejected hash sig p now reason)
  then show thesis using challenge_not_ok [OF rejected(6)] assms(2) by simp
qed

lemma x402_store_change:
  assumes "x402_get_fortune C issue x env rq (w, store) = (out, w', store')" "table_wf store"
  shows "(store' = store \<and> (\<forall>r. out = Return r \<longrightarrow> status r \<noteq> OK_STATUS))
    \<or> (\<exists>hash sig p now st. request_digest C x rq = Ok hash
         \<and> header_get (rq_headers rq) PAYMENT_SIGNATURE = Some sig
         \<and> parse_signature C sig = Ok p \<and> unix_now (e_settle_clock env) = Return now
         \<and> settle C (e_db_fault env) p (x402_terms x hash) now store = (Ok st, store'))"
proof (cases "request_digest C x rq")
  case (Inl e)
  with assms(1) show ?thesis by (auto simp: x402_get_fortune_def)
next
  case (Inr hash)
  show ?thesis
  proof (cases "header_get (rq_headers rq) PAYMENT_SIGNATURE")
    case None
    from assms(1) [unfolded x402_unpaid_branch [OF Inr None]] show ?thesis
      by (auto split: prod.split_asm dest: challenge_not_ok)
  next
    case (Some sig)
    show ?thesis
    proof (cases "(\<exists>e. parse_signature C sig = Err e) \<or> (\<forall>now. unix_now (e_settle_clock env) \<noteq> Return now)")
      case True
      with assms(1) Inr Some show ?thesis
        by (auto simp: x402_get_fortune_def Let_def split: sum.split_asm outcome.split_asm)
    next
      case False
      then obtain p now where p: "parse_signature C sig = Ok p" "unix_now (e_settle_clock env) = Return now"
        by (cases "parse_signature C sig") auto
      obtain res store1 where s: "settle C (e_db_fault env) p (x402_terms x hash) now store = (res, store1)"
        by (cases "settle C (e_db_fault env) p (x402_terms x hash) now store")
      note run = assms(1) [unfolded x402_paid_branch [OF Inr Some p] s]
      consider (ok) st where "res = Ok st" | (rejected) e where "res = Err (Rejected e)"
        | (failed) e where "res = Err (Store e)"
        by (metis settle_error.exhaust sum.exhaust)
      then show ?thesis
      proof cases
        case ok
        with run s p Inr Some show ?thesis by auto
      next
        case rejected
        with run settle_Rejected [of C "e_db_fault env" p "x402_terms x hash" now store e store1] s assms(2)
        show ?thesis by (auto split: prod.split_asm dest: challenge_not_ok)
      next
        case failed
        with run settle_Store [of C "e_db_fault env" p "x402_terms x hash" now store e store1] s
        show ?thesis by auto
      qed
    qed
  qed
qed

text \<open>
  What a call can do to the store: nothing, and then it does not answer 200; or it records one new key,
  that of a verified payment for this request, and then its outcome is the settled response.
\<close>

definition records_payment ::
  "crates \<Rightarrow> x402_state \<Rightarrow> x402_env \<Rightarrow> request \<Rightarrow> table \<Rightarrow> proof_of_payment \<Rightarrow> u64 \<Rightarrow> table \<Rightarrow> bool" where
  "records_payment C x env rq store pf now store' \<longleftrightarrow>
     (\<exists>sig p hash.
        header_get (rq_headers rq) PAYMENT_SIGNATURE = Some sig \<and> parse_signature C sig = Ok p
        \<and> request_digest C x rq = Ok hash \<and> unix_now (e_settle_clock env) = Return now
        \<and> verify C p (x402_terms x hash) now = Ok pf)
     \<and> map_of store (replay_key C (x_network x) (pf_payment_hash pf)) = None
     \<and> store' = store @ [(replay_key C (x_network x) (pf_payment_hash pf), to_sql_time (pf_retain_until pf))]"

lemma settle_records:
  assumes "settle C f p t now store = (Ok st, store')" "table_wf store"
  obtains pf where "verify C p t now = Ok pf"
    "map_of store (replay_key C (t_network t) (pf_payment_hash pf)) = None"
    "store' = store @ [(replay_key C (t_network t) (pf_payment_hash pf), to_sql_time (pf_retain_until pf))]"
    "st = \<lparr>transaction = hex_encode C (pf_payment_hash pf)\<rparr>"
proof -
  obtain pf where pf: "verify C p t now = Ok pf"
    "consume f (replay_key C (t_network t) (pf_payment_hash pf)) (pf_retain_until pf) store = (Ok True, store')"
    "transaction st = hex_encode C (pf_payment_hash pf)"
    using assms(1) by (auto simp: settle_Ok)
  have free: "map_of store (replay_key C (t_network t) (pf_payment_hash pf)) = None" "f = None"
    using pf(2) replay.consume_Ok_True [OF assms(2)] by auto
  then have "replay_key C (t_network t) (pf_payment_hash pf) \<notin> fst ` set store"
    by (simp add: map_of_eq_None_iff)
  then have "store' = store @ [(replay_key C (t_network t) (pf_payment_hash pf), to_sql_time (pf_retain_until pf))]"
    using pf(2) by (simp add: free(2) consume_def sql_insert_or_ignore_def)
  then show thesis using that pf(1,3) free(1) by simp
qed

lemma x402_store_effect:
  assumes run: "x402_get_fortune C issue x env rq (w, store) = (out, w', store')" and wf: "table_wf store"
  shows "(store' = store \<and> (\<forall>r. out = Return r \<longrightarrow> status r \<noteq> OK_STATUS))
    \<or> (\<exists>pf now. records_payment C x env rq store pf now store' \<and> w' = w
         \<and> out = settled_response C x (e_random env) \<lparr>transaction = hex_encode C (pf_payment_hash pf)\<rparr>)"
  using x402_store_change [OF run wf]
proof (elim disjE exE conjE)
  fix hash sig p now st
  assume d: "request_digest C x rq = Ok hash" "header_get (rq_headers rq) PAYMENT_SIGNATURE = Some sig"
    "parse_signature C sig = Ok p" "unix_now (e_settle_clock env) = Return now"
    and s: "settle C (e_db_fault env) p (x402_terms x hash) now store = (Ok st, store')"
  from run [unfolded x402_paid_branch [OF d] s]
  have out: "out = settled_response C x (e_random env) st" "w' = w" by auto
  from s wf obtain pf where "verify C p (x402_terms x hash) now = Ok pf"
    "map_of store (replay_key C (x_network x) (pf_payment_hash pf)) = None"
    "store' = store @ [(replay_key C (x_network x) (pf_payment_hash pf), to_sql_time (pf_retain_until pf))]"
    "st = \<lparr>transaction = hex_encode C (pf_payment_hash pf)\<rparr>"
    by (rule settle_records) simp
  then show ?thesis using d out unfolding records_payment_def by blast
qed blast

text \<open>What the route accepts as payment in a state of the store.\<close>

definition x402_paid :: "crates \<Rightarrow> x402_state \<Rightarrow> x402_env \<Rightarrow> request \<Rightarrow> table \<Rightarrow> bool" where
  "x402_paid C x env rq store \<longleftrightarrow>
     (\<exists>sig p hash now pf.
        header_get (rq_headers rq) PAYMENT_SIGNATURE = Some sig \<and> parse_signature C sig = Ok p
        \<and> request_digest C x rq = Ok hash \<and> unix_now (e_settle_clock env) = Return now
        \<and> verify C p (x402_terms x hash) now = Ok pf
        \<and> map_of store (replay_key C (x_network x) (pf_payment_hash pf)) = None)"

lemma settle_wf:
  "settle C f p t now store = (Ok s, store') \<Longrightarrow> table_wf store \<Longrightarrow> table_wf store'"
  by (auto simp: settle_Ok dest: replay.consume_records)

lemma x402_keeps_wf:
  assumes "table_wf (snd st)"
  shows "table_wf (snd (snd (x402_get_fortune C issue x env rq st)))"
proof -
  obtain w store where st: "st = (w, store)" by (cases st)
  obtain out w' store' where run: "x402_get_fortune C issue x env rq (w, store) = (out, w', store')"
    by (cases "x402_get_fortune C issue x env rq (w, store)")
  then show ?thesis
    using assms x402_store_change [OF run] settle_wf by (auto simp: st)
qed

lemma x402_served_paid:
  assumes "table_wf (snd st)" "x402_get_fortune C issue x env rq st = (Return r, st')" "status r = OK_STATUS"
  shows "x402_paid C x env rq (snd st)"
proof -
  obtain w store w' store' where st: "st = (w, store)" "st' = (w', store')" by (cases st; cases st')
  show ?thesis
    by (rule x402_settled [of C issue x env rq w store r w' store'])
       (use assms st in \<open>auto simp: x402_paid_def\<close>)
qed

lemma x402_statuses:
  assumes "x402_get_fortune C issue x env rq st = (Return r, st')"
  shows "status r \<in> {OK_STATUS, PAYMENT_REQUIRED_STATUS, INTERNAL_SERVER_ERROR}"
proof -
  obtain w store w' store' where st: "st = (w, store)" "st' = (w', store')" by (cases st; cases st')
  have ch: "status r \<in> {PAYMENT_REQUIRED_STATUS, INTERNAL_SERVER_ERROR}"
    if "challenge C issue nanos t url msg failure w = (Return r, w')" for nanos t url msg failure
    using that
    by (rule challenge_Return)
       (auto simp: challenge_response_def Let_def outcome_then_Return insert_header_def with_header_def
         split: option.split_asm)
  from assms [unfolded st] show ?thesis
  proof (cases rule: x402_Return_cases)
    case (settled hash sig p now s)
    then show ?thesis
      by (auto simp: settled_response_def outcome_then_Return with_header_def split: option.split_asm)
  qed (use ch in blast)+
qed

interpretation x402_route: paywall
  "\<lambda>q st. x402_get_fortune C issue x (fst q) (snd q) st" "\<lambda>st. table_wf (snd st)"
  "\<lambda>q st. x402_paid C x (fst q) (snd q) (snd st)" for C issue x
  by unfold_locales (rule x402_keeps_wf x402_served_paid x402_statuses; assumption)+

section \<open>An example\<close>

definition ex_x402 :: x402_state where
  "ex_x402 =
     \<lparr>x_network = Mainnet, x_pay_to = ex_node_key, x_amount_msat = 1000, x_max_timeout_secs = 300,
      x_clock_skew_secs = 60, x_public_url = ''http://a''\<rparr>"

definition ex_request :: "header_map \<Rightarrow> request" where
  "ex_request hs =
     \<lparr>rq_method = ''GET'', rq_path = ''/x402'', rq_path_and_query = Some ''/x402?q=1'',
      rq_headers = hs, rq_body = []\<rparr>"

definition ex_hash :: bytes where
  "ex_hash = ref_digest (as_bytes (print_json
     (request_document (ref_crates [] []) ''GET'' ''http://a/x402?q=1'' [] [])))"

definition ex_client_document :: json where
  "ex_client_document =
     client_payload [] (requirements (ref_crates [] []) (ex_terms ex_hash) ''lnbc1'')
       [(''preimage'', JStr (ref_hex_encode ex_preimage))]"

definition ex_world :: crates where
  "ex_world = ex_crates [([1], ex_client_document)] ex_hash"

definition ex_env :: "int \<Rightarrow> x402_env" where
  "ex_env nanos =
     \<lparr>e_settle_clock = nanos, e_challenge_clock = nanos, e_random = (\<lambda>_. 0), e_db_fault = None\<rparr>"

definition ex_signature :: bytes where
  "ex_signature = as_bytes (b64_encode ex_world [1])"

definition ex_issue :: "nat issuer" where
  "ex_issue amount hash expiry n = (Ok ''lnbc1'', Suc n)"

lemma ex_world_laws [simp]:
  "hex_roundtrip ex_world" "hex_lower ex_world" "b64_roundtrip ex_world" "b64_alphabet ex_world"
  "sha256_length ex_world" "hmac_length ex_world" "ascii_headers ex_world"
  "json_writes ex_world"
  by (simp_all add: ex_world_def)

lemma ex_x402_simps [simp]:
  "x_network ex_x402 = Mainnet" "x_pay_to ex_x402 = ex_node_key" "x_amount_msat ex_x402 = 1000"
  "x_max_timeout_secs ex_x402 = 300" "x_clock_skew_secs ex_x402 = 60"
  by (simp_all add: ex_x402_def)

lemma length_ex_hash [simp]: "length ex_hash = 32"
  by (simp add: ex_hash_def)

lemma request_document_ref:
  "request_document (ref_crates d i) m u b es = request_document (ref_crates d' i') m u b es"
  by (simp add: request_document_members)

lemma request_digest_ex [simp]: "request_digest ex_world ex_x402 (ex_request hs) = Ok ex_hash"
  unfolding ex_world_def ex_crates_def
  using request_document_ref [of "[([1], ex_client_document)]" "[(''lnbc1'', ex_raw ex_hash)]"
      "''GET''" "''http://a/x402?q=1''" "[]" "[]" "[]" "[]"]
  by (simp add: request_digest_def BOUND_HEADERS_def http_request_hash_unbound ex_request_def
      request_url_def ex_x402_def) (simp add: ex_hash_def)

lemma x402_terms_ex [simp]: "x402_terms ex_x402 ex_hash = ex_terms ex_hash"
  by (simp add: x402_terms_def ex_x402_def ex_terms_def BOUND_HEADERS_def)

lemma requirements_ex:
  "requirements ex_world t s = requirements (ref_crates [] []) t s"
  by (simp add: requirements_def ex_world_def ex_crates_def)

lemma json_ex:
  "json_parse ex_world [1] = Ok ex_client_document" "json_to_vec ex_world j = Ok (as_bytes (print_json j))"
  "hex_encode ex_world bs = ref_hex_encode bs"
  by (simp_all add: ex_world_def ex_crates_def)

lemma parse_signature_client:
  assumes "ascii_headers C" "b64_alphabet C" "b64_roundtrip C"
    and "json_parse C bs = Ok (client_payload others r p)" "map_wf (pr_extra r)" "map_wf p"
    and "fst ` set others \<inter> {''x402Version'', ''accepted'', ''payload''} = {}"
  shows "parse_signature C (as_bytes (b64_encode C bs)) =
    Ok \<lparr>pp_x402_version = 2, pp_accepted = r, pp_payload = p\<rparr>"
proof -
  have "header_to_str C (as_bytes (b64_encode C bs)) = Some (b64_encode C bs)"
    using ascii_header_value(2) [OF assms(1) b64_encode_visible [OF assms(2)]] .
  moreover have "decode_header C payload_of_json (b64_encode C bs) =
      Ok \<lparr>pp_x402_version = 2, pp_accepted = r, pp_payload = p\<rparr>"
    using payload_of_client_payload [OF assms(5-7)] assms(3,4)
    by (simp add: decode_header_Ok b64_roundtrip_def)
  ultimately show ?thesis by (simp add: parse_signature_def X402_VERSION_def)
qed

lemma map_wf_preimage [simp]: "map_wf [(''preimage'', JStr s)]"
  by (simp add: map_wf_def obj_sorted_def)

lemma parse_signature_ex:
  "parse_signature ex_world ex_signature = Ok (paid_payload ex_world (ex_terms ex_hash) ''lnbc1'' ex_preimage)"
  unfolding ex_signature_def paid_payload_def json_ex requirements_ex
  by (rule parse_signature_client [where others = "[]"])
     (simp_all add: json_ex ex_client_document_def requirements_wf [of _ "[]"])

lemma verify_ex_world:
  "1000 \<le> now \<Longrightarrow> now \<le> 1360 \<Longrightarrow>
     verify ex_world (paid_payload ex_world (ex_terms ex_hash) ''lnbc1'' ex_preimage) (ex_terms ex_hash) now
       = Ok \<lparr>pf_payment_hash = ex_preimage, pf_retain_until = 4960\<rparr>"
  unfolding ex_world_def by (rule verify_ex) simp_all

lemma unix_now_ex [simp]: "unix_now 1100000000000 = Return 1100"
  by (simp add: unix_now_def)

lemma x402_ex_settled:
  "\<exists>r. x402_get_fortune ex_world ex_issue ex_x402 (ex_env 1100000000000)
       (ex_request [(''payment-signature'', ex_signature)]) (0, []) =
     (Return r, 0, [(replay_key ex_world Mainnet ex_preimage, to_sql_time 4960)]) \<and> status r = OK_STATUS"
proof -
  have s: "settle ex_world None (paid_payload ex_world (ex_terms ex_hash) ''lnbc1'' ex_preimage)
      (ex_terms ex_hash) 1100 [] = (Ok \<lparr>transaction = hex_encode ex_world ex_preimage\<rparr>,
        [(replay_key ex_world Mainnet ex_preimage, to_sql_time 4960)])"
    using verify_ex_world [of 1100]
    by (simp add: settle_Ok consume_def sql_insert_or_ignore_def)
  have h: "header_get (rq_headers (ex_request [(''payment-signature'', ex_signature)])) PAYMENT_SIGNATURE
      = Some ex_signature"
    by (simp add: ex_request_def header_get_def PAYMENT_SIGNATURE_def)
  have f: "random_fortune (\<lambda>_. 0) = Return (FORTUNES ! 0)"
    using random_fortune_in_range(1) [of "\<lambda>_. 0"] by (simp add: in_range_def)
  have v: "header_from_str ex_world (b64_encode ex_world bs) \<noteq> None" for bs
    by (rule b64_header_value) simp_all
  show ?thesis
    using x402_paid_branch [OF request_digest_ex h parse_signature_ex, of "ex_env 1100000000000" 1100
        ex_issue 0 "[]"] s
    by (simp add: ex_env_def settled_response_def f encode_header_def json_ex v)
qed

lemma unix_now_ex2 [simp]: "unix_now 1000000000000 = Return 1000"
  by (simp add: unix_now_def)

lemma issued_ex: "check_issued_invoice ex_world ''lnbc1'' (ex_terms ex_hash) 1000 = Ok ()"
proof -
  have "invoice_end (ex_invoice ex_hash) = 1300"
    by (simp add: invoice_end_def saturating_add_def ex_invoice_def)
  moreover have "check (ex_invoice ex_hash) (ex_terms ex_hash) 1000 = Ok ()" by (rule check_ex) simp
  ultimately show ?thesis by (simp add: check_issued_invoice_Ok ex_world_def)
qed

lemma x402_ex_challenged:
  assumes "header_get hs PAYMENT_SIGNATURE = None"
  shows "\<exists>r. x402_get_fortune ex_world ex_issue ex_x402 (ex_env 1000000000000) (ex_request hs) (n, st)
      = (Return r, Suc n, st) \<and> status r = PAYMENT_REQUIRED_STATUS
    \<and> resp_body r = JsonBody (payment_required_to_json (challenge_body ex_world (ex_terms ex_hash)
        (request_url ex_x402 (ex_request hs)) ''PAYMENT-SIGNATURE header is required'' ''lnbc1''))"
proof -
  have h: "header_get (rq_headers (ex_request hs)) PAYMENT_SIGNATURE = None"
    using assms by (simp add: ex_request_def)
  have v: "header_from_str ex_world (b64_encode ex_world bs) \<noteq> None" for bs
    by (rule b64_header_value) simp_all
  show ?thesis
    unfolding x402_unpaid_branch [OF request_digest_ex h]
    by (simp add: challenge_def ex_issue_def ex_env_def issued_ex challenge_response_def Let_def
        encode_header_def json_ex v)
qed

section \<open>The route\<close>

text \<open>
  C3. \<^verbatim>\<open>/x402\<close> serves only settled payments: an answer 200 comes from a payment header that decodes,
  whose payment \<open>verify\<close> accepts for the terms of this very request (its method, URL and body), and
  whose key was not in the replay store and now is; nothing else in the store changed, no invoice was
  created, and the answer is a fortune with the settlement's payment hash in its header.
\<close>

theorem x402_serves_only_settled:
  assumes "x402_get_fortune C issue x env rq (w, store) = (Return r, w', store')"
    and "status r = 200" "table_wf store"
  shows "\<exists>sig p hash now pf f h.
    header_get (rq_headers rq) ''payment-signature'' = Some sig \<and> parse_signature C sig = Ok p
    \<and> http_request_hash C (rq_method rq) (request_url x rq) (rq_body rq) [] (rq_headers rq) = Ok hash
    \<and> unix_now (e_settle_clock env) = Return now
    \<and> verify C p (x402_terms x hash) now = Ok pf
    \<and> map_of store (replay_key C (x_network x) (pf_payment_hash pf)) = None
    \<and> store' = store @ [(replay_key C (x_network x) (pf_payment_hash pf), to_sql_time (pf_retain_until pf))]
    \<and> w' = w \<and> f \<in> set FORTUNES
    \<and> encode_header C (settlement_to_json
         \<lparr>sr_success = True, sr_error_reason = None, sr_transaction = hex_encode C (pf_payment_hash pf),
          sr_network = caip2 (x_network x)\<rparr>) = Return h
    \<and> r = \<lparr>status = 200, resp_headers = [(''payment-response'', h)],
           resp_body = JsonBody (JObj [(''fortune'', JStr f)])\<rparr>"
proof -
  have ok: "status r = OK_STATUS" using assms(2) by (simp add: OK_STATUS_def)
  show ?thesis
    by (rule x402_settled [OF assms(1) ok assms(3), unfolded request_digest_def BOUND_HEADERS_def
          PAYMENT_SIGNATURE_def PAYMENT_RESPONSE_def OK_STATUS_def]) blast
qed

theorem x402_serves_only_settled_witness:
  "\<exists>p pf. parse_signature ex_world ex_signature = Ok p
     \<and> verify ex_world p (ex_terms ex_hash) 1100 = Ok pf
     \<and> (replay_key ex_world Mainnet ex_preimage, to_sql_time 4960)
         = (replay_key ex_world Mainnet (pf_payment_hash pf), to_sql_time (pf_retain_until pf))"
proof -
  obtain r where r: "x402_get_fortune ex_world ex_issue ex_x402 (ex_env 1100000000000)
       (ex_request [(''payment-signature'', ex_signature)]) (0, []) =
     (Return r, 0, [(replay_key ex_world Mainnet ex_preimage, to_sql_time 4960)])" "status r = OK_STATUS"
    using x402_ex_settled by blast
  from x402_serves_only_settled [OF r(1)] r(2)
  obtain sig p hash now pf where *:
    "header_get [(''payment-signature'', ex_signature)] ''payment-signature'' = Some sig"
    "parse_signature ex_world sig = Ok p" "unix_now 1100000000000 = Return now"
    "http_request_hash ex_world (rq_method (ex_request [(''payment-signature'', ex_signature)]))
       (request_url ex_x402 (ex_request [(''payment-signature'', ex_signature)]))
       (rq_body (ex_request [(''payment-signature'', ex_signature)])) []
       (rq_headers (ex_request [(''payment-signature'', ex_signature)])) = Ok hash"
    "verify ex_world p (x402_terms ex_x402 hash) now = Ok pf"
    "[(replay_key ex_world Mainnet ex_preimage, to_sql_time 4960)] =
       [] @ [(replay_key ex_world (x_network ex_x402) (pf_payment_hash pf), to_sql_time (pf_retain_until pf))]"
    by (auto simp: table_wf_def OK_STATUS_def ex_env_def ex_request_def)
  moreover have "hash = ex_hash"
    using *(4) request_digest_ex [of "[(''payment-signature'', ex_signature)]"]
    by (simp add: request_digest_def BOUND_HEADERS_def)
  ultimately show ?thesis
    by (auto simp: header_get_def)
qed

text \<open>
  C9. The x402 flow completes: a client that was challenged with 402, reads the offered requirements
  from the body, pays the invoice in them and repeats the request with a payment header that echoes
  those requirements, among any other members, with the preimage, is served with a fortune and its
  payment is recorded; whatever other headers the repeated request carries and however the states of
  the node and the store changed meanwhile, provided that this payment is not recorded yet, the
  database works, and it is not later than the invoice's end and the clock skew.
\<close>

theorem x402_pay_then_serve:
  assumes laws: "hex_lower C" "hex_roundtrip C" "b64_roundtrip C" "b64_alphabet C" "ascii_headers C"
      "sha256_length C" "json_writes C"
    and challenged: "x402_get_fortune C issue x env rq (w, store) = (Return r, w1, store1)"
      "header_get (rq_headers rq) ''payment-signature'' = None"
    and offer: "resp_body r = JsonBody (payment_required_to_json q)" "pq_accepts q = [req]"
      "map_wf (pr_extra req)" "map_of (pr_extra req) ''invoice'' = Some (JStr s)" "s \<noteq> []"
    and paid: "decode C s = Ok iv" "sha256 C p = inv_payment_hash iv" "length p = 32"
      "json_parse C bs = Ok (client_payload others req [(''preimage'', JStr (hex_encode C p))])"
      "fst ` set others \<inter> {''x402Version'', ''accepted'', ''payload''} = {}"
      "header_get hs ''payment-signature'' = Some (as_bytes (b64_encode C bs))"
    and time: "unix_now (e_challenge_clock env) = Return issued"
      "unix_now (e_settle_clock env') = Return now" "issued \<le> now"
      "unat now \<le> unat (inv_created iv) + unat (inv_expiry iv) + unat (x_clock_skew_secs x)"
    and server: "e_db_fault env' = None" "in_range (e_random env')" "table_wf store2"
      "map_of store2 (replay_key C (x_network x) (inv_payment_hash iv)) = None"
  shows "\<exists>r' f t. x402_get_fortune C issue x env' (rq\<lparr>rq_headers := hs\<rparr>) (w2, store2) =
      (Return r', w2, store2 @ [(replay_key C (x_network x) (inv_payment_hash iv), t)])
    \<and> status r' = 200 \<and> f \<in> set FORTUNES \<and> resp_body r' = JsonBody (JObj [(''fortune'', JStr f)])"
proof -
  have none: "header_get (rq_headers rq) PAYMENT_SIGNATURE = None"
    using challenged(2) by (simp add: PAYMENT_SIGNATURE_def)
  from challenged(1) obtain hash where hash: "request_digest C x rq = Ok hash"
    and ch: "challenge C issue (e_challenge_clock env) (x402_terms x hash) (request_url x rq)
         ''PAYMENT-SIGNATURE header is required'' None w = (Return r, w1)"
    by (cases rule: x402_Return_cases) (simp_all add: none)
  let ?t = "x402_terms x hash"
  from ch obtain invoice where checked: "check_issued_invoice C invoice ?t issued = Ok ()"
    and resp: "challenge_response C ?t (request_url x rq) ''PAYMENT-SIGNATURE header is required'' None invoice
      = Return r"
    by (rule challenge_Return) (simp add: time(1))
  from resp laws(5,4) have body: "resp_body r = JsonBody (payment_required_to_json
      (challenge_body C ?t (request_url x rq) ''PAYMENT-SIGNATURE header is required'' invoice))"
    by (rule challenge_response_Return)
  then have "requirements_to_json req = requirements_to_json (requirements C ?t invoice)"
    using offer(1,2)
    by (auto simp: payment_required_to_json_def challenge_body_def split: option.split_asm)
  then have req: "req = requirements C ?t invoice"
    using requirements_wire.enc_inj offer(3) requirements_wf [of ?t "[]"] by simp
  with offer(4) have s: "s = invoice" by (simp add: requirements_extra)
  let ?p = "paid_payload C ?t s p"
  have parse: "parse_signature C (as_bytes (b64_encode C bs)) = Ok ?p"
    using parse_signature_client [OF laws(5,4,3) paid(4) offer(3) map_wf_preimage paid(5)]
    by (simp add: paid_payload_def req s)
  have iv: "check iv ?t issued = Ok ()"
    using checked paid(1) by (auto simp: check_issued_invoice_Ok s)
  have "verify C ?p ?t now = Ok \<lparr>pf_payment_hash = inv_payment_hash iv,
      pf_retain_until = saturating_add (last_valid iv ?t) REPLAY_RETENTION_SECS\<rparr>"
  proof (rule verify_paid [OF laws(1,2) _ _ offer(5) paid(1) check_later [OF iv time(3)] paid(2,3)])
    show "length (t_request_hash ?t) = 32" using request_digest_length [OF laws(6) hash] by simp
    show "is_valid_http_params (t_binding_params ?t)"
      by (simp add: is_valid_http_params_def http_params_object)
    show "now \<le> last_valid iv ?t"
      using time(4) unat_u64_bound [of now] by (simp add: word_le_nat_alt unat_last_valid)
  qed
  moreover have "replay_key C (x_network x) (inv_payment_hash iv) \<notin> fst ` set store2"
    using server(4) by (simp add: map_of_eq_None_iff)
  ultimately have settled: "settle C (e_db_fault env') ?p ?t now store2 =
      (Ok \<lparr>transaction = hex_encode C (inv_payment_hash iv)\<rparr>,
       store2 @ [(replay_key C (x_network x) (inv_payment_hash iv),
          to_sql_time (saturating_add (last_valid iv ?t) REPLAY_RETENTION_SECS))])"
    by (simp add: settle_Ok server(1) consume_def sql_insert_or_ignore_def)
  obtain v where v: "json_to_vec C (settlement_to_json \<lparr>sr_success = True, sr_error_reason = None,
      sr_transaction = hex_encode C (inv_payment_hash iv), sr_network = caip2 (x_network x)\<rparr>) = Ok v"
    using json_writes_Ok [OF laws(7)] by blast
  have "settled_response C x (e_random env') \<lparr>transaction = hex_encode C (inv_payment_hash iv)\<rparr> =
      Return \<lparr>status = 200, resp_headers = [(PAYMENT_RESPONSE, b64_encode C v)],
              resp_body = JsonBody (JObj [(''fortune'', JStr (FORTUNES ! e_random env' 50))])\<rparr>"
    using random_fortune_in_range(1) [OF server(2)] b64_header_value [OF laws(5,4)]
    by (simp add: settled_response_def encode_header_def v OK_STATUS_def)
  moreover have "FORTUNES ! e_random env' 50 \<in> set FORTUNES"
    using random_fortune_in_range(2) [OF server(2)] by simp
  moreover have "header_get (rq_headers (rq\<lparr>rq_headers := hs\<rparr>)) PAYMENT_SIGNATURE
      = Some (as_bytes (b64_encode C bs))"
    using paid(6) by (simp add: PAYMENT_SIGNATURE_def)
  ultimately show ?thesis
    using x402_paid_branch [of C x "rq\<lparr>rq_headers := hs\<rparr>" hash, OF _ _ parse time(2), of issue w2 store2]
      hash settled by simp
qed

theorem x402_pay_then_serve_witness:
  "\<exists>r' f t. x402_get_fortune ex_world ex_issue ex_x402 (ex_env 1100000000000)
       ((ex_request [])\<lparr>rq_headers := [(''payment-signature'', ex_signature)]\<rparr>) (7, [(''k'', 1)]) =
      (Return r', 7, [(''k'', 1)] @ [(replay_key ex_world (x_network ex_x402) (inv_payment_hash (ex_invoice ex_hash)), t)])
    \<and> status r' = 200 \<and> f \<in> set FORTUNES \<and> resp_body r' = JsonBody (JObj [(''fortune'', JStr f)])"
proof -
  let ?t = "ex_terms ex_hash"
  have h: "header_get [] PAYMENT_SIGNATURE = None" by (simp add: header_get_def)
  obtain r where r: "x402_get_fortune ex_world ex_issue ex_x402 (ex_env 1000000000000) (ex_request []) (0, [])
      = (Return r, Suc 0, [])"
    "resp_body r = JsonBody (payment_required_to_json (challenge_body ex_world ?t
        (request_url ex_x402 (ex_request [])) ''PAYMENT-SIGNATURE header is required'' ''lnbc1''))"
    using x402_ex_challenged [OF h] by blast
  show ?thesis
  proof (rule x402_pay_then_serve [OF _ _ _ _ _ _ _ r(1) _ r(2), where s = "''lnbc1''" and issued = 1000
        and p = ex_preimage and others = "[]" and bs = "[1]" and req = "requirements ex_world ?t ''lnbc1''"])
    show "json_parse ex_world [1] = Ok (client_payload [] (requirements ex_world ?t ''lnbc1'')
        [(''preimage'', JStr (hex_encode ex_world ex_preimage))])"
      by (simp only: json_ex ex_client_document_def requirements_ex)
    show "map_wf (pr_extra (requirements ex_world ?t ''lnbc1''))"
      by (rule requirements_wf [of _ "[]"]) simp
    show "unix_now (e_settle_clock (ex_env 1100000000000)) = Return 1100" by (simp add: ex_env_def)
    show "unix_now (e_challenge_clock (ex_env 1000000000000)) = Return 1000" by (simp add: ex_env_def)
    show "decode ex_world ''lnbc1'' = Ok (ex_invoice ex_hash)" by (simp add: ex_world_def)
    show "sha256 ex_world ex_preimage = inv_payment_hash (ex_invoice ex_hash)"
      by (simp add: ex_world_def inv_payment_hash_ex)
  qed (simp_all add: challenge_body_def requirements_extra header_get_def ex_signature_def ex_env_def
      ex_request_def table_wf_def replay_key_def
      ex_invoice_def)
qed

text \<open>
  C24. A malformed payment header costs nothing: when the header is no text, no base64, no JSON, no
  payload, or of another version, the answer is 400 with an x402 error, no invoice is created, and the
  store is not touched.
\<close>

theorem x402_malformed_signature:
  assumes "request_digest C x rq = Ok hash" "header_get (rq_headers rq) ''payment-signature'' = Some sig"
    and "parse_signature C sig = Err e"
  shows "x402_get_fortune C issue x env rq (w, store) = (Fail e, w, store)
    \<and> (\<exists>m. e = X402 m) \<and> status (into_response e) = 400"
proof -
  have "\<exists>m. e = X402 m" using assms(3) by (auto simp: parse_signature_def result_simps split: if_split_asm)
  then show ?thesis
    using assms(1,2)
    by (auto simp: x402_get_fortune_def Let_def PAYMENT_SIGNATURE_def assms(3) into_response_def
        error_status_def status_defs)
qed

theorem x402_malformed_signature_witness:
  "\<exists>e. x402_get_fortune ex_world ex_issue ex_x402 (ex_env 0) (ex_request [(''payment-signature'', [200])]) (3, [])
      = (Fail e, 3, []) \<and> status (into_response e) = 400"
proof -
  have "parse_signature ex_world [200] = Err (X402 ''malformed PAYMENT-SIGNATURE header: invalid header encoding'')"
    by (simp add: parse_signature_def ex_world_def ex_crates_def visible_def)
  from x402_malformed_signature [OF request_digest_ex _ this, of "[(''payment-signature'', [200])]" ex_issue
      "ex_env 0" 3 "[]"]
  show ?thesis by (auto simp: ex_request_def header_get_def)
qed

text \<open>
  C17. What a rejected payment gets: a request with a payment header that is answered with 402 had its
  payment refused, by a failed check or as a duplicate, and left the store as it was; the answer is a
  fresh challenge for the same request, whose one offer carries an invoice that was issued now and
  passes the issuing checks, whose error is the reason, and whose \<^verbatim>\<open>payment-response\<close> header holds the
  failed settlement with the same reason.
\<close>

theorem x402_rejection:
  assumes "ascii_headers C" "b64_alphabet C" "table_wf store"
    and "x402_get_fortune C issue x env rq (w, store) = (Return r, w', store')" "status r = 402"
    and "header_get (rq_headers rq) ''payment-signature'' = Some sig"
  shows "store' = store \<and> (\<exists>hash p now reason invoice now' h v.
    request_digest C x rq = Ok hash \<and> parse_signature C sig = Ok p
    \<and> unix_now (e_settle_clock env) = Return now
    \<and> (verify C p (x402_terms x hash) now = Err reason
       \<or> (\<exists>pf. verify C p (x402_terms x hash) now = Ok pf \<and> reason = DuplicateSettlement
            \<and> map_of store (replay_key C (x_network x) (pf_payment_hash pf)) \<noteq> None))
    \<and> issue (x_amount_msat x) hash (x_max_timeout_secs x) w = (Ok invoice, w')
    \<and> unix_now (e_challenge_clock env) = Return now'
    \<and> check_issued_invoice C invoice (x402_terms x hash) now' = Ok ()
    \<and> resp_body r = JsonBody (payment_required_to_json
         (challenge_body C (x402_terms x hash) (request_url x rq) (reason_as_str reason) invoice))
    \<and> encode_header C (settlement_to_json
         \<lparr>sr_success = False, sr_error_reason = Some (reason_as_str reason), sr_transaction = '''',
          sr_network = caip2 (x_network x)\<rparr>) = Return v
    \<and> resp_headers r = [(''payment-required'', h), (''payment-response'', v)])"
  using assms(4)
proof (cases rule: x402_Return_cases)
  case (challenged hash)
  then show ?thesis using assms(6) by (simp add: PAYMENT_SIGNATURE_def)
next
  case (settled hash sg p now s)
  have "status r \<noteq> 402"
    using settled(6) by (auto simp: settled_response_def outcome_then_Return with_header_def status_defs
        split: option.split_asm)
  then show ?thesis using assms(5) by simp
next
  case (rejected hash sg p now reason)
  have sg: "sg = sig" using rejected(2) assms(6) by (simp add: PAYMENT_SIGNATURE_def)
  from rejected(6) obtain invoice now' where i:
    "issue (x_amount_msat x) hash (x_max_timeout_secs x) w = (Ok invoice, w')"
    "unix_now (e_challenge_clock env) = Return now'"
    "check_issued_invoice C invoice (x402_terms x hash) now' = Ok ()"
    and resp: "challenge_response C (x402_terms x hash) (request_url x rq) (reason_as_str reason)
       (Some \<lparr>sr_success = False, sr_error_reason = Some (reason_as_str reason), sr_transaction = '''',
          sr_network = caip2 (x_network x)\<rparr>) invoice = Return r"
    by (rule challenge_Return) simp
  from resp assms(1,2) obtain h v where
    "resp_body r = JsonBody (payment_required_to_json
         (challenge_body C (x402_terms x hash) (request_url x rq) (reason_as_str reason) invoice))"
    "encode_header C (settlement_to_json
         \<lparr>sr_success = False, sr_error_reason = Some (reason_as_str reason), sr_transaction = '''',
          sr_network = caip2 (x_network x)\<rparr>) = Return v"
    "resp_headers r = [(PAYMENT_REQUIRED, h), (PAYMENT_RESPONSE, v)]"
    by (rule challenge_response_Return) blast
  moreover note settle_Rejected [OF rejected(5) assms(3)]
  ultimately show ?thesis
    using rejected(1,3,4) i unfolding sg PAYMENT_REQUIRED_def PAYMENT_RESPONSE_def
    by simp metis
qed

lemma x402_ex_expired:
  "\<exists>r. x402_get_fortune ex_world ex_issue ex_x402
       \<lparr>e_settle_clock = 5000000000000, e_challenge_clock = 1000000000000, e_random = (\<lambda>_. 0), e_db_fault = None\<rparr>
       (ex_request [(''payment-signature'', ex_signature)]) (0, []) = (Return r, 1, []) \<and> status r = 402"
proof -
  let ?env = "\<lparr>e_settle_clock = 5000000000000, e_challenge_clock = 1000000000000, e_random = (\<lambda>_ :: nat. 0 :: nat),
      e_db_fault = None\<rparr>"
  let ?p = "paid_payload ex_world (ex_terms ex_hash) ''lnbc1'' ex_preimage"
  have ok: "verify ex_world ?p (ex_terms ex_hash) 1100 = Ok \<lparr>pf_payment_hash = ex_preimage, pf_retain_until = 4960\<rparr>"
    by (rule verify_ex_world) simp_all
  have expired: "verify ex_world ?p (ex_terms ex_hash) 5000 = Err InvoiceExpired"
    by (rule verify_expired [OF ok]) simp_all
  have s: "settle ex_world None ?p (ex_terms ex_hash) 5000 [] = (Err (Rejected InvoiceExpired), [])"
    by (simp add: settle_def expired)
  have h: "header_get (rq_headers (ex_request [(''payment-signature'', ex_signature)])) PAYMENT_SIGNATURE
      = Some ex_signature"
    by (simp add: ex_request_def header_get_def PAYMENT_SIGNATURE_def)
  have v: "header_from_str ex_world (b64_encode ex_world bs) \<noteq> None" for bs
    by (rule b64_header_value) simp_all
  have "unix_now (e_settle_clock ?env) = Return 5000" by (simp add: unix_now_def)
  from x402_paid_branch [OF request_digest_ex h parse_signature_ex this, of ex_issue 0 "[]"] s v
  show ?thesis
    by (simp add: challenge_def ex_issue_def issued_ex challenge_response_def Let_def encode_header_def
        json_ex insert_header_def PAYMENT_REQUIRED_STATUS_def split: option.split)
qed

theorem x402_rejection_witness:
  "\<exists>reason p. parse_signature ex_world ex_signature = Ok p
     \<and> verify ex_world p (ex_terms ex_hash) 5000 = Err reason \<and> ex_issue 1000 ex_hash 300 0 = (Ok ''lnbc1'', 1)"
proof -
  let ?env = "\<lparr>e_settle_clock = 5000000000000, e_challenge_clock = 1000000000000, e_random = (\<lambda>_ :: nat. 0 :: nat),
      e_db_fault = None\<rparr>"
  have now: "unix_now 5000000000000 = Return 5000" by (simp add: unix_now_def)
  obtain r where r: "x402_get_fortune ex_world ex_issue ex_x402 ?env
       (ex_request [(''payment-signature'', ex_signature)]) (0, []) = (Return r, 1, [])" "status r = 402"
    using x402_ex_expired by blast
  have h: "header_get (rq_headers (ex_request [(''payment-signature'', ex_signature)])) ''payment-signature''
      = Some ex_signature"
    by (simp add: ex_request_def header_get_def)
  from x402_rejection [OF _ _ _ r h] obtain p reason where
    "parse_signature ex_world ex_signature = Ok p" "verify ex_world p (ex_terms ex_hash) 5000 = Err reason"
    by (auto simp: table_wf_def now)
  then show ?thesis by (auto simp: ex_issue_def)
qed

text \<open>
  C18. What an unpaid request gets: without a payment header every answer is a 402 challenge, which
  leaves the store alone, whose invoice was issued by the node for the price, the request's hash and the
  configured expiry and passes the issuing checks, and whose \<^verbatim>\<open>payment-required\<close> header is the base64
  text of the JSON document in the body.
\<close>

theorem x402_unpaid_challenge:
  assumes "ascii_headers C" "b64_alphabet C"
    and "x402_get_fortune C issue x env rq (w, store) = (Return r, w', store')"
    and "header_get (rq_headers rq) ''payment-signature'' = None"
  shows "status r = 402 \<and> store' = store \<and> (\<exists>hash invoice now v.
    request_digest C x rq = Ok hash
    \<and> issue (x_amount_msat x) hash (x_max_timeout_secs x) w = (Ok invoice, w')
    \<and> unix_now (e_challenge_clock env) = Return now
    \<and> check_issued_invoice C invoice (x402_terms x hash) now = Ok ()
    \<and> json_to_vec C (payment_required_to_json (challenge_body C (x402_terms x hash) (request_url x rq)
         ''PAYMENT-SIGNATURE header is required'' invoice)) = Ok v
    \<and> resp_headers r = [(''payment-required'', b64_encode C v)]
    \<and> resp_body r = JsonBody (payment_required_to_json (challenge_body C (x402_terms x hash) (request_url x rq)
         ''PAYMENT-SIGNATURE header is required'' invoice)))"
  using assms(3)
proof (cases rule: x402_Return_cases)
  case (challenged hash)
  from challenged(4) obtain invoice now where i:
    "issue (x_amount_msat x) hash (x_max_timeout_secs x) w = (Ok invoice, w')"
    "unix_now (e_challenge_clock env) = Return now"
    "check_issued_invoice C invoice (x402_terms x hash) now = Ok ()"
    and resp: "challenge_response C (x402_terms x hash) (request_url x rq)
       ''PAYMENT-SIGNATURE header is required'' None invoice = Return r"
    by (rule challenge_Return) simp
  from resp assms(1,2) obtain h where
    "encode_header C (payment_required_to_json (challenge_body C (x402_terms x hash) (request_url x rq)
         ''PAYMENT-SIGNATURE header is required'' invoice)) = Return h"
    "status r = PAYMENT_REQUIRED_STATUS"
    "resp_body r = JsonBody (payment_required_to_json (challenge_body C (x402_terms x hash) (request_url x rq)
         ''PAYMENT-SIGNATURE header is required'' invoice))"
    "resp_headers r = [(PAYMENT_REQUIRED, h)]"
    by (rule challenge_response_Return) blast
  then show ?thesis
    using challenged(1,3) i
    by (simp add: encode_header_Return PAYMENT_REQUIRED_STATUS_def PAYMENT_REQUIRED_def)
qed (use assms(4) in \<open>simp_all add: PAYMENT_SIGNATURE_def\<close>)

theorem x402_unpaid_challenge_witness:
  "\<exists>r. x402_get_fortune ex_world ex_issue ex_x402 (ex_env 1000000000000) (ex_request []) (4, [])
      = (Return r, 5, []) \<and> status r = 402"
proof -
  have h: "header_get [] PAYMENT_SIGNATURE = None" by (simp add: header_get_def)
  obtain r where r: "x402_get_fortune ex_world ex_issue ex_x402 (ex_env 1000000000000) (ex_request []) (4, [])
      = (Return r, Suc 4, [])"
    using x402_ex_challenged [OF h] by blast
  with x402_unpaid_challenge [OF _ _ r] show ?thesis by (simp add: ex_request_def header_get_def)
qed

text \<open>
  C30. Which headers matter: the answer of \<^verbatim>\<open>/x402\<close> depends on no header of the request but
  \<^verbatim>\<open>payment-signature\<close>, which the cross-origin policy of the route lets a page send; and every
  header of an answer is one that the policy lets the page read.
\<close>

theorem x402_cors_suffices:
  "header_get hs ''payment-signature'' = header_get (rq_headers rq) ''payment-signature'' \<Longrightarrow>
     x402_get_fortune C issue x env (rq\<lparr>rq_headers := hs\<rparr>) st = x402_get_fortune C issue x env rq st
     \<and> ''payment-signature'' \<in> set (allow_headers (snd x402_router))
     \<and> (case fst (x402_get_fortune C issue x env rq st) of
          Return r \<Rightarrow> list_all (\<lambda>h. fst h \<in> set (expose_headers (snd x402_router))) (resp_headers r)
        | _ \<Rightarrow> True)"
proof -
  assume same: "header_get hs ''payment-signature'' = header_get (rq_headers rq) ''payment-signature''"
  obtain w store where st: "st = (w, store)" by (cases st)
  have "x402_get_fortune C issue x env (rq\<lparr>rq_headers := hs\<rparr>) st = x402_get_fortune C issue x env rq st"
    using same
    by (cases "request_digest C x rq")
       (simp_all add: x402_get_fortune_def st PAYMENT_SIGNATURE_def Let_def)
  moreover have "''payment-signature'' \<in> set (allow_headers (snd x402_router))"
    by (simp add: x402_router_def PAYMENT_SIGNATURE_def)
  moreover have "list_all (\<lambda>h. fst h \<in> {PAYMENT_REQUIRED, PAYMENT_RESPONSE}) (resp_headers r)"
    if "x402_get_fortune C issue x env rq (w, store) = (Return r, w', store')" for r w' store'
    using that
  proof (cases rule: x402_Return_cases)
    case (challenged hash)
    then show ?thesis
      by (elim challenge_Return) (rule challenge_response_headers)
  next
    case (rejected hash sig p now reason)
    then show ?thesis
      by (elim challenge_Return) (rule challenge_response_headers)
  next
    case (settled hash sig p now s)
    then show ?thesis
      by (auto simp: settled_response_def outcome_then_Return with_header_def split: option.split_asm)
  qed
  ultimately show ?thesis
    by (cases "x402_get_fortune C issue x env rq (w, store)")
       (simp add: st x402_router_def split: outcome.split)
qed

theorem x402_cors_suffices_witness:
  "x402_get_fortune ex_world ex_issue ex_x402 (ex_env 0)
      ((ex_request [])\<lparr>rq_headers := [(''origin'', as_bytes ''http://b'')]\<rparr>) (0, [])
   = x402_get_fortune ex_world ex_issue ex_x402 (ex_env 0) (ex_request []) (0, [])"
  using x402_cors_suffices [of "[(''origin'', as_bytes ''http://b'')]" "ex_request []" ex_world ex_issue
      ex_x402 "ex_env 0" "(0, [])"]
  by (simp add: ex_request_def header_get_def)

lemma encode_header_total: "json_writes C \<Longrightarrow> \<exists>h. encode_header C d = Return h"
  using json_writes_Ok [of C d] by (auto simp: encode_header_def)

lemma challenge_no_panic:
  assumes "json_writes C" "ascii_headers C" "b64_alphabet C" "0 \<le> nanos"
  shows "fst (challenge C issue nanos t url msg failure w) \<noteq> Panic e"
proof -
  have enc: "encode_header C d \<noteq> Panic e'" for d e'
    using encode_header_total [OF assms(1), of d] by auto
  have ok: "header_from_str C h \<noteq> None" if "encode_header C d = Return h" for d h
    using that b64_header_value [OF assms(2,3)] by (auto simp: encode_header_Return)
  have "challenge_response C t url msg failure i \<noteq> Panic e" for i
    using enc ok
    by (cases failure)
       (auto simp: challenge_response_def Let_def outcome_then_def dest: ok split: outcome.split option.split)
  then show ?thesis
    using assms(4)
    by (auto simp: challenge_def unix_now_def split: prod.split sum.split)
qed

text \<open>
  C25. No request brings a handler down: with a clock after 1970 and the documented behaviour of the
  encoders and of the random generator, none of the \<^verbatim>\<open>expect\<close>s of the \<^verbatim>\<open>/x402\<close> handler fails, for any
  request, any answer of the node and any fault of the database.
\<close>

theorem x402_never_panics:
  assumes "json_writes C" "ascii_headers C" "b64_alphabet C" "in_range (e_random env)"
    and "0 \<le> e_settle_clock env" "0 \<le> e_challenge_clock env"
  shows "fst (x402_get_fortune C issue x env rq st) \<noteq> Panic e"
proof -
  obtain w store where st: "st = (w, store)" by (cases st)
  obtain now where now: "unix_now (e_settle_clock env) = Return now"
    using assms(5) by (simp add: unix_now_def)
  have settled: "settled_response C x (e_random env) s \<noteq> Panic e" for s
    using random_fortune_in_range(1) [OF assms(4)] encode_header_total [OF assms(1)]
    by (auto simp: settled_response_def outcome_then_def split: outcome.split) (metis outcome.distinct(3))
  have ch: "challenge C issue (e_challenge_clock env) t url msg failure w \<noteq> (Panic e, w')" for t url msg failure w'
    using challenge_no_panic [OF assms(1-3,6)] by (metis fst_conv)
  show ?thesis
  proof (cases "request_digest C x rq")
    case (Inl e)
    then show ?thesis by (simp add: x402_get_fortune_def st)
  next
    case (Inr hash)
    show ?thesis
    proof (cases "header_get (rq_headers rq) PAYMENT_SIGNATURE")
      case None
      then show ?thesis
        unfolding st x402_unpaid_branch [OF Inr None] using ch by (auto split: prod.split)
    next
      case (Some sig)
      show ?thesis
      proof (cases "parse_signature C sig")
        case (Inl e)
        then show ?thesis using Inr Some by (simp add: x402_get_fortune_def st Let_def)
      next
        fix p assume p: "parse_signature C sig = Ok p"
        show ?thesis
          unfolding st x402_paid_branch [OF Inr Some p now]
          using ch settled by (auto split: prod.split sum.split settle_error.split)
      qed
    qed
  qed
qed

theorem x402_never_panics_witness:
  "fst (x402_get_fortune ex_world ex_issue ex_x402 (ex_env 1100000000000)
      (ex_request [(''payment-signature'', ex_signature)]) (0, [])) \<noteq> Panic ''index out of bounds''"
  by (rule x402_never_panics) (simp_all add: ex_env_def)

lemma price_msat_Some:
  assumes "price_msat cfg = Some m"
  shows "int (unat m) = 1000 * sint (invoice_amount_sats cfg) \<and> 0 < unat m \<and> unat m < 2 ^ 63"
proof -
  from assms obtain msat where msat: "i64_checked_mul (invoice_amount_sats cfg) 1000 = Some msat"
    "u64_try_from_i64 msat = Some m" "0 < m"
    by (auto simp: price_msat_def bind_eq_Some_conv split: if_split_asm)
  then have m: "m = msat" "0 \<le> sint msat" by (simp_all add: u64_try_from_i64_def split: if_split_asm)
  have "sint (1000 :: i64) = 1000" by simp
  then have "sint msat = sint (invoice_amount_sats cfg) * 1000"
    using i64_checked_mul_Some [OF msat(1)] by simp
  then show ?thesis
    using small_unat_of_sint [OF m(2)] msat(3) m(1) by (simp add: word_less_nat_alt)
qed

lemma timeout_secs_Some:
  assumes "timeout_secs cfg = Some s"
  shows "int (unat s) = sint (invoice_expiry_secs cfg) \<and> 0 < unat s \<and> unat s < 2 ^ 63"
proof -
  have s: "s = invoice_expiry_secs cfg" "0 \<le> sint (invoice_expiry_secs cfg)" "0 < s"
    using assms by (auto simp: timeout_secs_def bind_eq_Some_conv u64_try_from_i64_def split: if_split_asm)
  then show ?thesis using small_unat_of_sint [OF s(2)] by (simp add: word_less_nat_alt)
qed

lemma x402_from_app_Some:
  assumes "x402_from_app C rpc cfg open_store w = (Ok (Some (x, store)), w')"
  obtains xc info where "x402 cfg = Some xc" "get_info rpc w = (Ok info, w')"
    "network_from_lnd (ni_network info) = Some (x_network x)"
    "pubkey_from_str C (ni_pubkey info) = Some (x_pay_to x)"
    "price_msat cfg = Some (x_amount_msat x)" "timeout_secs cfg = Some (x_max_timeout_secs x)"
    "open_store (replay_db_path xc) = Ok store"
    "x_clock_skew_secs x = clock_skew_secs xc" "x_public_url x = public_url xc"
  using assms
  by (auto simp: x402_from_app_def result_simps split: option.split_asm prod.split_asm sum.split_asm)

text \<open>
  C26. The price and the timeout of \<^verbatim>\<open>/x402\<close>: when the route is set up, the amount is exactly a
  thousand millisatoshis for each configured satoshi and the timeout exactly the configured expiry, both
  positive, with no wrap-around; the network is the node's and the replay store is the opened one; and
  the issuer's conversions back to signed integers never fail, so an invoice is always requested from the
  node with these two values.
\<close>

theorem x402_price_exact:
  assumes "x402_from_app C rpc cfg open_store w = (Ok (Some (x, store)), w')"
  shows "int (unat (x_amount_msat x)) = 1000 * sint (invoice_amount_sats cfg) \<and> 0 < x_amount_msat x
    \<and> int (unat (x_max_timeout_secs x)) = sint (invoice_expiry_secs cfg) \<and> 0 < x_max_timeout_secs x
    \<and> (\<exists>xc info. x402 cfg = Some xc \<and> get_info rpc w = (Ok info, w')
         \<and> network_from_lnd (ni_network info) = Some (x_network x)
         \<and> open_store (replay_db_path xc) = Ok store)
    \<and> app_issue rpc (x_amount_msat x) hash (x_max_timeout_secs x) v
        = create_invoice_with_description_hash rpc (x_amount_msat x) hash (x_max_timeout_secs x) v
    \<and> sint (x_amount_msat x) = 1000 * sint (invoice_amount_sats cfg)
    \<and> sint (x_max_timeout_secs x) = sint (invoice_expiry_secs cfg)"
proof -
  obtain xc info where x: "x402 cfg = Some xc" "get_info rpc w = (Ok info, w')"
    "network_from_lnd (ni_network info) = Some (x_network x)" "open_store (replay_db_path xc) = Ok store"
    "price_msat cfg = Some (x_amount_msat x)" "timeout_secs cfg = Some (x_max_timeout_secs x)"
    using assms by (rule x402_from_app_Some)
  note m = price_msat_Some [OF x(5)] and s = timeout_secs_Some [OF x(6)]
  have "app_issue rpc (x_amount_msat x) hash (x_max_timeout_secs x) v
      = create_invoice_with_description_hash rpc (x_amount_msat x) hash (x_max_timeout_secs x) v"
    using m s by (simp add: app_issue_def i64_try_from_u64_def)
  moreover have "sint (x_amount_msat x) = int (unat (x_amount_msat x))"
    "sint (x_max_timeout_secs x) = int (unat (x_max_timeout_secs x))"
    using m s sint_of_small_unat by blast+
  ultimately show ?thesis using m s x(1-4) by (simp add: word_less_nat_alt)
qed

theorem x402_price_exact_witness:
  "\<exists>x w'. x402_from_app (ref_crates [] []) ex_rpc
        (ex_config\<lparr>x402 := Some \<lparr>public_url = ''http://a'', replay_db_path = ''r.db'', clock_skew_secs = 60\<rparr>\<rparr>)
        (\<lambda>_. Ok []) 0 = (Ok (Some (x, [])), w')
     \<and> int (unat (x_amount_msat x)) = 1000 \<and> int (unat (x_max_timeout_secs x)) = 300"
proof -
  let ?cfg = "ex_config\<lparr>x402 := Some \<lparr>public_url = ''http://a'', replay_db_path = ''r.db'', clock_skew_secs = 60\<rparr>\<rparr>"
  have "pubkey_from_str (ref_crates [] []) (ref_hex_encode ex_node_key) = Some ex_node_key"
    by (simp add: ref_crates_def ref_hex_roundtrip)
  moreover have "price_msat ?cfg = Some 1000" "timeout_secs ?cfg = Some 300"
    by (simp_all add: price_msat_def timeout_secs_def ex_config_def i64_checked_mul_def Let_def
        u64_try_from_i64_def)
  moreover have "get_info ex_rpc 0 = (Ok \<lparr>ni_pubkey = ref_hex_encode ex_node_key, ni_network = ''mainnet''\<rparr>, 0)"
    by (simp add: get_info_def ex_rpc_def)
  ultimately obtain x where "x402_from_app (ref_crates [] []) ex_rpc ?cfg (\<lambda>_. Ok []) 0 = (Ok (Some (x, [])), 0)"
    by (simp add: x402_from_app_def network_from_lnd_def)
  with x402_price_exact [OF this] show ?thesis by (auto simp: ex_config_def)
qed

end
