(* ===== verification/Settlement.thy ===== *)
theory Settlement
  imports X402_Handler
begin

text \<open>
  Concurrent settlement. Requests are served in parallel: each reads the clock and verifies its
  payment, and later, as a separate atomic step, consumes it in the replay store. In between,
  other requests, the pruning task and a restart may take steps. A restart opens the same database file, so it
  keeps the table, drops the requests in flight, and may bring new settings: another price, timeout, public URL or clock
  skew. The steps are a relation on the server's state; the safety of the settlement is an
  invariant of its reachable states.
\<close>

text \<open>
  What stays the same over restarts: the node and its network, the database file, and the range of the clock
  skews that are ever configured.
\<close>

record deployment =
  dp_network :: network
  dp_pay_to :: pubkey
  dp_min_skew :: nat
  dp_max_skew :: nat

definition deployed :: "deployment \<Rightarrow> x402_state \<Rightarrow> bool" where
  "deployed D x \<longleftrightarrow>
     x_network x = dp_network D \<and> x_pay_to x = dp_pay_to D
     \<and> dp_min_skew D \<le> unat (x_clock_skew_secs x) \<and> unat (x_clock_skew_secs x) \<le> dp_max_skew D"

record server =
  sv_x402 :: x402_state
  sv_rows :: table
  sv_pending :: "(proof_of_payment \<times> u64) list"
  sv_settled :: "proof_of_payment list"
  sv_pruned :: u64

definition proof_key :: "crates \<Rightarrow> network \<Rightarrow> proof_of_payment \<Rightarrow> string" where
  "proof_key C n pf = replay_key C n (pf_payment_hash pf)"

text \<open>
  \<open>sv_pruned\<close> is the latest time at which the pruner has run. The clock may jump back, and a
  request may stay in flight, but the pruner never runs further ahead of the clock reading of a
  request than the retention time of an hour, less what the configured clock skew ever changes by.
\<close>

definition within_retention :: "deployment \<Rightarrow> u64 \<Rightarrow> u64 \<Rightarrow> bool" where
  "within_retention D pruned now \<longleftrightarrow>
     unat pruned + (dp_max_skew D - dp_min_skew D) \<le> unat now + unat REPLAY_RETENTION_SECS"

inductive server_step :: "crates \<Rightarrow> deployment \<Rightarrow> server \<Rightarrow> server \<Rightarrow> bool" for C D where
  verified:
    "verify C p (x402_terms (sv_x402 s) hash) now = Ok pf \<Longrightarrow> within_retention D (sv_pruned s) now \<Longrightarrow>
     server_step C D s (s\<lparr>sv_pending := (pf, now) # sv_pending s\<rparr>)"
| consumed:
    "(pf, now) \<in> set (sv_pending s) \<Longrightarrow>
     consume fault (proof_key C (x_network (sv_x402 s)) pf) (pf_retain_until pf) (sv_rows s) = (res, rows) \<Longrightarrow>
     server_step C D s
       (s\<lparr>sv_rows := rows, sv_pending := remove1 (pf, now) (sv_pending s),
          sv_settled := (if res = Ok True then pf # sv_settled s else sv_settled s)\<rparr>)"
| pruned:
    "(\<And>pf now. (pf, now) \<in> set (sv_pending s) \<Longrightarrow> within_retention D t now) \<Longrightarrow>
     prune fault t (sv_rows s) = (res, rows) \<Longrightarrow>
     server_step C D s (s\<lparr>sv_rows := rows, sv_pruned := max (sv_pruned s) t\<rparr>)"
| restarted:
    "replay_open None None None path (Some (sv_rows s)) = Ok rows \<Longrightarrow> deployed D x \<Longrightarrow>
     server_step C D s (s\<lparr>sv_x402 := x, sv_rows := rows, sv_pending := []\<rparr>)"

definition server_start :: "x402_state \<Rightarrow> server" where
  "server_start x =
     \<lparr>sv_x402 = x, sv_rows = [], sv_pending = [], sv_settled = [], sv_pruned = 0\<rparr>"

inductive server_reach :: "crates \<Rightarrow> deployment \<Rightarrow> server \<Rightarrow> bool" for C D where
  start: "deployed D x \<Longrightarrow> server_reach C D (server_start x)"
| step: "server_reach C D s \<Longrightarrow> server_step C D s s' \<Longrightarrow> server_reach C D s'"

text \<open>
  The receiving node gives each invoice its own payment hash, so two invoices it signed with
  the same payment hash are the same one; what matters here is that they expire together.
\<close>

definition unique_payment_hashes :: "crates \<Rightarrow> pubkey \<Rightarrow> bool" where
  "unique_payment_hashes C k \<longleftrightarrow>
     (\<forall>a b i j. decode C a = Ok i \<and> decode C b = Ok j \<and> inv_payee i = k \<and> inv_payee j = k
        \<and> inv_payment_hash i = inv_payment_hash j \<longrightarrow> invoice_end i = invoice_end j)"

section \<open>Proofs of payment that the server verified\<close>

definition own_proof :: "crates \<Rightarrow> x402_state \<Rightarrow> proof_of_payment \<Rightarrow> u64 \<Rightarrow> bool" where
  "own_proof C x pf now \<longleftrightarrow> (\<exists>p hash. verify C p (x402_terms x hash) now = Ok pf)"

text \<open>The invoice behind a proof, and how its end bounds the use and the retention of the proof.\<close>

lemma own_proof_invoice:
  assumes "own_proof C x pf now"
  obtains tx iv where "decode C tx = Ok iv" "inv_payee iv = x_pay_to x"
    "pf_payment_hash pf = inv_payment_hash iv"
    "unat now \<le> unat (invoice_end iv) + unat (x_clock_skew_secs x)"
    "unat (pf_retain_until pf) =
       min (unat (invoice_end iv) + unat (x_clock_skew_secs x) + 3600) (2 ^ 64 - 1)"
proof -
  obtain p hash where "verify C p (x402_terms x hash) now = Ok pf"
    using assms by (auto simp: own_proof_def)
  then obtain tx iv where iv: "decode C tx = Ok iv" "check iv (x402_terms x hash) now = Ok ()"
    "now \<le> last_valid iv (x402_terms x hash)"
    "pf = \<lparr>pf_payment_hash = inv_payment_hash iv,
           pf_retain_until = saturating_add (last_valid iv (x402_terms x hash)) REPLAY_RETENTION_SECS\<rparr>"
    by (auto simp: verify_Ok)
  have "inv_payee iv = x_pay_to x" using iv(2) by (simp add: check_Ok)
  moreover have "unat now \<le> unat (invoice_end iv) + unat (x_clock_skew_secs x)"
    using iv(3) by (simp add: last_valid_def word_le_nat_alt unat_saturating_add)
  ultimately show thesis
    using that [of tx iv] iv(1,4)
    by (simp add: last_valid_def unat_saturating_add REPLAY_RETENTION_SECS_def min_def)
qed

text \<open>A key that the pruner has dropped belongs to an invoice that no request can still use.\<close>

lemma retention_outlasts_validity:
  assumes "unique_payment_hashes C (dp_pay_to D)" "deployed D x" "deployed D x'"
    and "own_proof C x pf now" "own_proof C x' pf' now'" "pf_payment_hash pf = pf_payment_hash pf'"
    and "pf_retain_until pf' < pruned"
  shows "\<not> within_retention D pruned now"
proof -
  obtain tx iv where i: "decode C tx = Ok iv" "inv_payee iv = dp_pay_to D"
    "pf_payment_hash pf = inv_payment_hash iv"
    "unat now \<le> unat (invoice_end iv) + unat (x_clock_skew_secs x)"
    using assms(2,4) by (auto simp: deployed_def elim: own_proof_invoice)
  obtain tx' iv' where j: "decode C tx' = Ok iv'" "inv_payee iv' = dp_pay_to D"
    "pf_payment_hash pf' = inv_payment_hash iv'"
    "unat (pf_retain_until pf') =
       min (unat (invoice_end iv') + unat (x_clock_skew_secs x') + 3600) (2 ^ 64 - 1)"
    using assms(3,5) by (auto simp: deployed_def elim: own_proof_invoice)
  have "invoice_end iv = invoice_end iv'"
    using assms(1,6) i(1-3) j(1-3) unfolding unique_payment_hashes_def by metis
  then show ?thesis
    using assms(2,3,7) i(4) j(4) unat_u64_bound [of pruned]
    by (auto simp: within_retention_def deployed_def word_less_nat_alt REPLAY_RETENTION_SECS_def)
qed

section \<open>The invariant\<close>

definition server_inv :: "crates \<Rightarrow> deployment \<Rightarrow> server \<Rightarrow> bool" where
  "server_inv C D s \<longleftrightarrow>
     table_wf (sv_rows s) \<and> deployed D (sv_x402 s)
     \<and> (\<forall>(pf, now) \<in> set (sv_pending s). own_proof C (sv_x402 s) pf now \<and> within_retention D (sv_pruned s) now)
     \<and> (\<forall>pf \<in> set (sv_settled s). (\<exists>x now. deployed D x \<and> own_proof C x pf now)
          \<and> (map_of (sv_rows s) (proof_key C (dp_network D) pf) = Some (to_sql_time (pf_retain_until pf))
             \<or> pf_retain_until pf < sv_pruned s))
     \<and> (\<forall>k \<in> dom (map_of (sv_rows s)). \<exists>pf \<in> set (sv_settled s). k = proof_key C (dp_network D) pf)
     \<and> distinct (map pf_payment_hash (sv_settled s))"

lemma server_inv_wf: "server_inv C D s \<Longrightarrow> table_wf (sv_rows s)"
  by (simp add: server_inv_def)

lemma server_inv_network: "server_inv C D s \<Longrightarrow> x_network (sv_x402 s) = dp_network D"
  by (simp add: server_inv_def deployed_def)

lemma server_inv_start: "deployed D x \<Longrightarrow> server_inv C D (server_start x)"
  by (simp add: server_inv_def server_start_def table_wf_def)

lemma proof_key_inject:
  "hex_roundtrip C \<Longrightarrow> proof_key C n pf = proof_key C n pf' \<longleftrightarrow> pf_payment_hash pf = pf_payment_hash pf'"
  by (simp add: proof_key_def replay_key_def hex_encode_inj)

text \<open>A payment that the store takes as new was not settled before.\<close>

lemma fresh_key_unsettled:
  assumes laws: "unique_payment_hashes C (dp_pay_to D)" "hex_roundtrip C"
    and inv: "server_inv C D s" and pending: "(pf, now) \<in> set (sv_pending s)"
    and absent: "map_of (sv_rows s) (proof_key C (dp_network D) pf) = None"
    and settled: "pf' \<in> set (sv_settled s)"
  shows "pf_payment_hash pf \<noteq> pf_payment_hash pf'"
proof
  assume same: "pf_payment_hash pf = pf_payment_hash pf'"
  have own: "deployed D (sv_x402 s)" "own_proof C (sv_x402 s) pf now" "within_retention D (sv_pruned s) now"
    using inv pending by (auto simp: server_inv_def)
  obtain x now' where own': "deployed D x" "own_proof C x pf' now'"
    using inv settled by (auto simp: server_inv_def)
  have "proof_key C (dp_network D) pf' = proof_key C (dp_network D) pf"
    using same proof_key_inject [OF laws(2)] by metis
  then have "pf_retain_until pf' < sv_pruned s"
    using inv settled absent by (auto simp: server_inv_def)
  then show False
    using retention_outlasts_validity [OF laws(1) own(1) own'(1) own(2) own'(2) same] own(3) by blast
qed

lemma inv_consumed_True:
  assumes laws: "unique_payment_hashes C (dp_pay_to D)" "hex_roundtrip C"
    and inv: "server_inv C D s" and pending: "(pf, now) \<in> set (sv_pending s)"
    and ok: "consume f (proof_key C (dp_network D) pf) (pf_retain_until pf) (sv_rows s) = (Ok True, rows)"
  shows "server_inv C D
    (s\<lparr>sv_rows := rows, sv_pending := remove1 (pf, now) (sv_pending s),
       sv_settled := pf # sv_settled s\<rparr>)"
proof -
  have rows: "table_wf rows" "map_of rows =
      (map_of (sv_rows s))(proof_key C (dp_network D) pf \<mapsto> to_sql_time (pf_retain_until pf))"
    using replay.consume_records [OF server_inv_wf [OF inv] ok] by auto
  have "map_of (sv_rows s) (proof_key C (dp_network D) pf) = None"
    using ok replay.consume_Ok_True [OF server_inv_wf [OF inv]] by blast
  note fresh = fresh_key_unsettled [OF laws inv pending this]
  have "deployed D (sv_x402 s) \<and> own_proof C (sv_x402 s) pf now"
    using inv pending by (auto simp: server_inv_def)
  moreover have "distinct (map pf_payment_hash (pf # sv_settled s))"
    using fresh inv by (auto simp: server_inv_def)
  moreover have "map_of rows (proof_key C (dp_network D) pf') = map_of (sv_rows s) (proof_key C (dp_network D) pf')"
    if "pf' \<in> set (sv_settled s)" for pf'
    using fresh [OF that] rows(2) proof_key_inject [OF laws(2)] by auto
  moreover have "set (remove1 (pf, now) (sv_pending s)) \<subseteq> set (sv_pending s)"
    by (rule set_remove1_subset)
  ultimately show ?thesis
    using inv rows by (auto simp: server_inv_def)
qed

lemma inv_pruned:
  assumes inv: "server_inv C D s"
    and ahead: "\<And>pf now. (pf, now) \<in> set (sv_pending s) \<Longrightarrow> within_retention D t now"
    and "prune f t (sv_rows s) = (res, rows)"
  shows "server_inv C D (s\<lparr>sv_rows := rows, sv_pruned := max (sv_pruned s) t\<rparr>)"
proof (cases f)
  case (Some e)
  then have "rows = sv_rows s" using assms(3) replay.prune_fault by simp
  then show ?thesis
    using inv ahead by (auto simp: server_inv_def max_def less_le_trans)
next
  case None
  have "table_wf (sv_rows s)" using inv by (rule server_inv_wf)
  then have rows: "table_wf rows" "map_of rows = (\<lambda>k. case map_of (sv_rows s) k of None \<Rightarrow> None
      | Some r \<Rightarrow> if sint r < sint (to_sql_time t) then None else Some r)"
    using replay.prune_keeps [of "sv_rows s" t] assms(3) None by auto
  have "map_of rows (proof_key C (dp_network D) pf) = Some (to_sql_time (pf_retain_until pf))
      \<or> pf_retain_until pf < max (sv_pruned s) t" if "pf \<in> set (sv_settled s)" for pf
  proof -
    from inv that have "map_of (sv_rows s) (proof_key C (dp_network D) pf) = Some (to_sql_time (pf_retain_until pf))
        \<or> pf_retain_until pf < sv_pruned s"
      by (simp add: server_inv_def)
    then show ?thesis
      using to_sql_time_less [of "pf_retain_until pf" t] by (auto simp: rows(2) less_max_iff_disj split: if_splits)
  qed
  moreover have "dom (map_of rows) \<subseteq> dom (map_of (sv_rows s))"
    by (auto simp: rows(2) split: option.splits)
  ultimately show ?thesis
    using inv ahead rows(1) by (auto simp: server_inv_def max_def subset_iff)
qed

lemma server_step_inv:
  assumes "unique_payment_hashes C (dp_pay_to D)" "hex_roundtrip C"
    and "server_step C D s s'" and inv: "server_inv C D s"
  shows "server_inv C D s'"
  using assms(3)
proof (cases rule: server_step.cases)
  case (verified p hash now pf)
  then have "own_proof C (sv_x402 s) pf now" by (auto simp: own_proof_def)
  with verified inv show ?thesis by (auto simp: server_inv_def)
next
  case (consumed pf now fault res rows)
  note con = consumed(3) [unfolded server_inv_network [OF inv]]
  show ?thesis
  proof (cases "res = Ok True")
    case True
    with consumed con inv_consumed_True [OF assms(1,2) inv, of pf now fault rows] show ?thesis by simp
  next
    case False
    then have "rows = sv_rows s"
      using replay.consume_unchanged [OF server_inv_wf [OF inv] con] by blast
    with consumed(1) False inv show ?thesis
      by (auto simp: server_inv_def dest: notin_set_remove1)
  qed
next
  case (pruned t fault res rows)
  with inv_pruned [OF inv] show ?thesis by blast
next
  case (restarted path rows x)
  then have "rows = sv_rows s" by (simp add: replay_open_def)
  with restarted inv show ?thesis by (simp add: server_inv_def)
qed

lemma server_reach_inv:
  assumes "unique_payment_hashes C (dp_pay_to D)" "hex_roundtrip C" "server_reach C D s"
  shows "server_inv C D s"
  using assms(3)
  by (induction rule: server_reach.induct)
     (auto intro: server_inv_start server_step_inv [OF assms(1,2)])

text \<open>One call of \<open>settle\<close> with a verified payment is two steps of the server.\<close>

lemma settle_is_two_steps:
  assumes "verify C p (x402_terms (sv_x402 s) hash) now = Ok pf"
    and "within_retention D (sv_pruned s) now"
    and "settle C fault p (x402_terms (sv_x402 s) hash) now (sv_rows s) = (res, rows)"
  shows "\<exists>s1. server_step C D s s1 \<and> server_step C D s1
    (s\<lparr>sv_rows := rows, sv_settled := (if \<exists>st. res = Ok st then pf # sv_settled s else sv_settled s)\<rparr>)"
proof -
  let ?s1 = "s\<lparr>sv_pending := (pf, now) # sv_pending s\<rparr>"
  obtain r where c: "consume fault (proof_key C (x_network (sv_x402 s)) pf) (pf_retain_until pf) (sv_rows s) = (r, rows)"
    and r: "(\<exists>st. res = Ok st) \<longleftrightarrow> r = Ok True"
    using assms(1,3)
    by (auto simp: settle_def proof_key_def replay_key_def Let_def
        split: prod.split_asm sum.split_asm if_split_asm)
  have "server_step C D s ?s1" using assms(1,2) by (rule server_step.verified)
  moreover have "server_step C D ?s1
      (s\<lparr>sv_rows := rows, sv_settled := (if \<exists>st. res = Ok st then pf # sv_settled s else sv_settled s)\<rparr>)"
    using server_step.consumed [of pf now ?s1 fault C r rows D] c
    by (cases "r = Ok True") (simp_all add: r)
  ultimately show ?thesis by blast
qed

text \<open>A tick of the pruning task is a step of the server.\<close>

lemma pruner_tick_is_step:
  assumes "pruner_tick fault nanos (sv_rows s) = (out, rows)" "unix_now nanos = Return t"
    and "\<And>pf now. (pf, now) \<in> set (sv_pending s) \<Longrightarrow> within_retention D t now"
  shows "out = Return () \<and> server_step C D s (s\<lparr>sv_rows := rows, sv_pruned := max (sv_pruned s) t\<rparr>)"
proof -
  obtain res where "prune fault t (sv_rows s) = (res, rows)" "out = Return ()"
    using assms(1,2) by (cases "prune fault t (sv_rows s)") (simp add: pruner_tick_def)
  then show ?thesis using server_step.pruned assms(3) by blast
qed

text \<open>
  One call of the handler: either it leaves the table alone, or it is exactly the two steps in which the
  server verifies and consumes one payment.
\<close>

definition receipt_text :: "crates \<Rightarrow> network \<Rightarrow> bytes \<Rightarrow> (app_error, string) outcome" where
  "receipt_text C n hash = encode_header C (settlement_to_json
     \<lparr>sr_success = True, sr_error_reason = None, sr_transaction = hex_encode C hash, sr_network = caip2 n\<rparr>)"

definition verified_state :: "server \<Rightarrow> proof_of_payment \<Rightarrow> u64 \<Rightarrow> server" where
  "verified_state s pf now = s\<lparr>sv_pending := (pf, now) # sv_pending s\<rparr>"

definition settled_state :: "crates \<Rightarrow> server \<Rightarrow> proof_of_payment \<Rightarrow> server" where
  "settled_state C s pf =
     s\<lparr>sv_rows := sv_rows s @ [(proof_key C (x_network (sv_x402 s)) pf, to_sql_time (pf_retain_until pf))],
       sv_settled := pf # sv_settled s\<rparr>"

lemma settled_state_simps [simp]:
  "sv_rows (settled_state C s pf) =
     sv_rows s @ [(proof_key C (x_network (sv_x402 s)) pf, to_sql_time (pf_retain_until pf))]"
  "sv_settled (settled_state C s pf) = pf # sv_settled s" "sv_pending (settled_state C s pf) = sv_pending s"
  "sv_x402 (settled_state C s pf) = sv_x402 s" "sv_pruned (settled_state C s pf) = sv_pruned s"
  by (simp_all add: settled_state_def)

lemma records_payment_steps:
  assumes "records_payment C (sv_x402 s) env rq (sv_rows s) pf now store'" "within_retention D (sv_pruned s) now"
  shows "server_step C D s (verified_state s pf now)"
    and "server_step C D (verified_state s pf now) (settled_state C s pf)"
    and "store' = sv_rows (settled_state C s pf)"
proof -
  obtain p hash where v: "verify C p (x402_terms (sv_x402 s) hash) now = Ok pf"
    using assms(1) by (auto simp: records_payment_def)
  then show "server_step C D s (verified_state s pf now)"
    unfolding verified_state_def using assms(2) by (rule server_step.verified)
  have key: "replay_key C (x_network (sv_x402 s)) (pf_payment_hash pf) = proof_key C (x_network (sv_x402 s)) pf"
    by (simp add: proof_key_def)
  show rows: "store' = sv_rows (settled_state C s pf)"
    using assms(1) by (simp add: records_payment_def key)
  have "map_of (sv_rows s) (proof_key C (x_network (sv_x402 s)) pf) = None"
    using assms(1) by (simp add: records_payment_def key)
  then have "consume None (proof_key C (x_network (sv_x402 s)) pf) (pf_retain_until pf) (sv_rows s)
      = (Ok True, sv_rows (settled_state C s pf))"
    by (simp add: consume_def sql_insert_or_ignore_def map_of_eq_None_iff)
  with server_step.consumed [of pf now "verified_state s pf now" None C "Ok True" "sv_rows (settled_state C s pf)" D]
  show "server_step C D (verified_state s pf now) (settled_state C s pf)"
    by (simp add: verified_state_def settled_state_def)
qed

lemma handler_steps:
  assumes run: "x402_get_fortune C issue (sv_x402 s) env rq (w, sv_rows s) = (out, w', store')"
    and wf: "table_wf (sv_rows s)"
    and clock: "\<forall>now. unix_now (e_settle_clock env) = Return now \<longrightarrow> within_retention D (sv_pruned s) now"
  shows "(store' = sv_rows s \<and> (\<forall>r. out = Return r \<longrightarrow> status r \<noteq> 200))
    \<or> (\<exists>pf now. records_payment C (sv_x402 s) env rq (sv_rows s) pf now store'
         \<and> server_step C D s (verified_state s pf now)
         \<and> server_step C D (verified_state s pf now) (settled_state C s pf)
         \<and> store' = sv_rows (settled_state C s pf)
         \<and> out = settled_response C (sv_x402 s) (e_random env) \<lparr>transaction = hex_encode C (pf_payment_hash pf)\<rparr>)"
  using x402_store_effect [OF run wf]
proof (elim disjE exE conjE)
  fix pf now
  assume r: "records_payment C (sv_x402 s) env rq (sv_rows s) pf now store'"
    and out: "out = settled_response C (sv_x402 s) (e_random env) \<lparr>transaction = hex_encode C (pf_payment_hash pf)\<rparr>"
  have "within_retention D (sv_pruned s) now" using r clock by (auto simp: records_payment_def)
  from records_payment_steps [OF r this] r out show ?thesis by blast
qed (simp add: OK_STATUS_def)

text \<open>The same for a reachable state, and the receipt of an answer 200.\<close>

lemma handler_reach:
  assumes reach: "server_reach C D s" and wf: "table_wf (sv_rows s)"
    and run: "x402_get_fortune C issue (sv_x402 s) env rq (w, sv_rows s) = (out, w', store')"
    and clock: "\<forall>now. unix_now (e_settle_clock env) = Return now \<longrightarrow> within_retention D (sv_pruned s) now"
  shows "\<exists>s'. server_reach C D s' \<and> sv_rows s' = store' \<and> sv_pending s' = sv_pending s
    \<and> sv_x402 s' = sv_x402 s \<and> sv_pruned s' = sv_pruned s \<and> set (sv_settled s) \<subseteq> set (sv_settled s')
    \<and> (\<forall>r. out = Return r \<and> status r = 200 \<longrightarrow>
         (\<exists>pf h. sv_settled s' = pf # sv_settled s \<and> resp_headers r = [(PAYMENT_RESPONSE, h)]
            \<and> receipt_text C (x_network (sv_x402 s)) (pf_payment_hash pf) = Return h))"
  using handler_steps [OF run wf clock]
proof (elim disjE exE conjE)
  assume "store' = sv_rows s" "\<forall>r. out = Return r \<longrightarrow> status r \<noteq> 200"
  then show ?thesis using reach by blast
next
  fix pf now
  assume s: "server_step C D s (verified_state s pf now)"
    "server_step C D (verified_state s pf now) (settled_state C s pf)"
    and rows: "store' = sv_rows (settled_state C s pf)"
    and out: "out = settled_response C (sv_x402 s) (e_random env) \<lparr>transaction = hex_encode C (pf_payment_hash pf)\<rparr>"
  have "server_reach C D (settled_state C s pf)" using reach s server_reach.step by blast
  moreover have "\<exists>h. resp_headers r = [(PAYMENT_RESPONSE, h)]
      \<and> receipt_text C (x_network (sv_x402 s)) (pf_payment_hash pf) = Return h"
    if "out = Return r" "status r = 200" for r
    using settled_response_Return [OF that(1) [unfolded out]] that(2)
    by (auto simp: receipt_text_def OK_STATUS_def)
  ultimately show ?thesis by (intro exI [of _ "settled_state C s pf"]) (simp add: rows subset_insertI)
qed

section \<open>An example\<close>

lemma unique_ex [simp]: "unique_payment_hashes ex_world k"
  unfolding unique_payment_hashes_def ex_world_def using decode_ex_only by blast

text \<open>A deployment whose operator may set the clock skew to at most half an hour.\<close>

definition ex_deployment :: deployment where
  "ex_deployment =
     \<lparr>dp_network = Mainnet, dp_pay_to = ex_node_key, dp_min_skew = 0, dp_max_skew = 1800\<rparr>"

lemma ex_deployment_simps [simp]:
  "dp_network ex_deployment = Mainnet" "dp_pay_to ex_deployment = ex_node_key"
  "dp_min_skew ex_deployment = 0" "dp_max_skew ex_deployment = 1800"
  by (simp_all add: ex_deployment_def)

lemma ex_deployed [simp]: "deployed ex_deployment ex_x402"
  by (simp add: deployed_def)

lemma ex_within [simp]: "within_retention ex_deployment 0 1100"
  by (simp add: within_retention_def REPLAY_RETENTION_SECS_def)

definition ex_proof :: proof_of_payment where
  "ex_proof = \<lparr>pf_payment_hash = ex_preimage, pf_retain_until = 4960\<rparr>"

definition ex_key :: string where
  "ex_key = replay_key ex_world Mainnet ex_preimage"

definition ex_server :: server where
  "ex_server =
     \<lparr>sv_x402 = ex_x402, sv_rows = [(ex_key, to_sql_time 4960)], sv_pending = [],
      sv_settled = [ex_proof], sv_pruned = 0\<rparr>"

lemma ex_proof_verified:
  "verify ex_world (paid_payload ex_world (ex_terms ex_hash) ''lnbc1'' ex_preimage)
     (x402_terms ex_x402 ex_hash) 1100 = Ok ex_proof"
  using verify_ex_world [of 1100] by (simp add: ex_proof_def)

text \<open>The first payment of the example settles in two steps from any state without its key.\<close>

lemma ex_settles:
  assumes "server_reach ex_world D s" "sv_x402 s = ex_x402" "within_retention D (sv_pruned s) 1100"
    and "ex_key \<notin> fst ` set (sv_rows s)"
  shows "server_reach ex_world D (s\<lparr>sv_rows := sv_rows s @ [(ex_key, to_sql_time 4960)],
    sv_settled := ex_proof # sv_settled s\<rparr>)"
proof -
  let ?s1 = "s\<lparr>sv_pending := (ex_proof, 1100) # sv_pending s\<rparr>"
  have key: "proof_key ex_world Mainnet ex_proof = ex_key" by (simp add: proof_key_def ex_key_def ex_proof_def)
  have consumed: "consume None ex_key (pf_retain_until ex_proof) (sv_rows s)
      = (Ok True, sv_rows s @ [(ex_key, to_sql_time 4960)])"
    using assms(4) by (simp add: consume_def sql_insert_or_ignore_def ex_proof_def)
  have "verify ex_world (paid_payload ex_world (ex_terms ex_hash) ''lnbc1'' ex_preimage)
      (x402_terms (sv_x402 s) ex_hash) 1100 = Ok ex_proof"
    by (simp only: assms(2) ex_proof_verified)
  then have "server_step ex_world D s ?s1" using assms(3) by (rule server_step.verified)
  moreover have "server_step ex_world D ?s1 (s\<lparr>sv_rows := sv_rows s @ [(ex_key, to_sql_time 4960)],
      sv_settled := ex_proof # sv_settled s\<rparr>)"
    using server_step.consumed [of ex_proof 1100 ?s1 None ex_world "Ok True" "sv_rows s @ [(ex_key, to_sql_time 4960)]" D]
      assms(2) consumed by (simp add: key)
  ultimately show ?thesis using server_reach.step assms(1) by blast
qed

lemma ex_server_reach: "server_reach ex_world ex_deployment ex_server"
  using ex_settles [OF server_reach.start [OF ex_deployed]]
  by (simp add: server_start_def ex_server_def)

section \<open>Properties\<close>

text \<open>
  C1. No payment buys two fortunes: in every state that the server can reach, with any number of
  requests verifying and consuming their payments in any interleaving, with database failures,
  prunings and restarts with other settings in between, the settled payments have pairwise distinct
  payment hashes. The node is taken to give each of its invoices its own payment hash, and the pruner
  not to run more than the retention time of an hour ahead of the clock reading of a request, less
  the amount by which the operator ever changes the clock skew.
\<close>

theorem payments_settle_once:
  assumes "unique_payment_hashes C (dp_pay_to D)" "hex_roundtrip C" "server_reach C D s"
  shows "distinct (map pf_payment_hash (sv_settled s))"
  using server_reach_inv [OF assms] by (simp add: server_inv_def)

theorem payments_settle_once_witness:
  "distinct (map pf_payment_hash (sv_settled ex_server)) \<and> sv_settled ex_server \<noteq> []"
  using payments_settle_once [of ex_world ex_deployment ex_server] ex_server_reach
  by (simp add: ex_server_def)

text \<open>
  C13. No payment is lost to another: in a reachable state, a payment that the store refuses as already
  consumed is one that was settled before, the same payment hash; so a client whose payment was never
  settled is never told it is a duplicate.
\<close>

theorem duplicates_were_settled:
  assumes "unique_payment_hashes C (dp_pay_to D)" "hex_roundtrip C" "server_reach C D s"
    and "consume fault (proof_key C (x_network (sv_x402 s)) pf) r (sv_rows s) = (Ok False, rows)"
  shows "pf_payment_hash pf \<in> set (map pf_payment_hash (sv_settled s)) \<and> rows = sv_rows s"
proof -
  have inv: "server_inv C D s" using server_reach_inv [OF assms(1-3)] .
  have used: "proof_key C (dp_network D) pf \<in> dom (map_of (sv_rows s))" "rows = sv_rows s"
    using assms(4) replay.consume_Ok_False [OF server_inv_wf [OF inv]] server_inv_network [OF inv] by auto
  then obtain pf' where "pf' \<in> set (sv_settled s)" "proof_key C (dp_network D) pf = proof_key C (dp_network D) pf'"
    using inv unfolding server_inv_def by blast
  then show ?thesis using used(2) proof_key_inject [OF assms(2)] by force
qed

theorem duplicates_were_settled_witness:
  "pf_payment_hash ex_proof \<in> set (map pf_payment_hash (sv_settled ex_server)) \<and> sv_rows ex_server = sv_rows ex_server"
  by (rule duplicates_were_settled [of ex_world ex_deployment _ None _ 0])
     (simp_all add: ex_server_reach, simp add: ex_server_def proof_key_def ex_key_def ex_proof_def
        consume_def sql_insert_or_ignore_def)



text \<open>
  C6. The limit of the retention: the condition on the clock skew is needed. If a payment settled, its
  retention passed and the pruner removed its key, and the server is restarted with a skew that is
  larger by more than the retention time, then the same payment settles a second time.
\<close>

theorem skew_increase_reopens:
  assumes "table_wf store" and "verify C p (x402_terms x h) now = Ok pf"
    and "settle C None p (x402_terms x h) now store = (Ok st, store1)"
    and "unat t = unat (pf_retain_until pf) + 1" "unat t < 2 ^ 63"
    and "unat (x_clock_skew_secs x) + 3601 \<le> unat skew"
  shows "\<exists>store2. settle C None p (x402_terms (x\<lparr>x_clock_skew_secs := skew\<rparr>) h) t (snd (prune None t store1))
    = (Ok st, store2)"
proof -
  let ?t = "x402_terms x h" and ?t' = "x402_terms (x\<lparr>x_clock_skew_secs := skew\<rparr>) h"
  let ?key = "replay_key C (x_network x) (pf_payment_hash pf)"
  obtain tx iv where v: "map_of (pr_extra (pp_accepted p)) ''invoice'' = Some (JStr tx)" "tx \<noteq> []"
    "check_core C (pp_accepted p) ?t = Ok ()" "check_extra C (pr_extra (pp_accepted p)) ?t = Ok ()"
    "decode C tx = Ok iv" "check iv ?t now = Ok ()"
    "check_preimage C (pp_payload p) (inv_payment_hash iv) = Ok ()" "now \<le> last_valid iv ?t"
    and pf: "pf = \<lparr>pf_payment_hash = inv_payment_hash iv,
      pf_retain_until = saturating_add (last_valid iv ?t) REPLAY_RETENTION_SECS\<rparr>"
    using assms(2) by (auto simp: verify_Ok)
  have t: "unat t = unat (invoice_end iv) + unat (x_clock_skew_secs x) + 3601"
    using assms(4,5) by (simp add: pf last_valid_def unat_saturating_add REPLAY_RETENTION_SECS_def min_def split: if_splits)
  have "unat now \<le> unat t"
    using v(8) t by (simp add: last_valid_def word_le_nat_alt unat_saturating_add)
  then have "check iv ?t' t = Ok ()"
    using v(6) assms(6) by (auto simp: check_Ok word_le_nat_alt unat_saturating_add)
  moreover have "check_core C (pp_accepted p) ?t' = Ok ()" "check_extra C (pr_extra (pp_accepted p)) ?t' = Ok ()"
    using v(3,4) by (simp_all add: check_core_Ok check_extra_Ok)
  moreover have "t \<le> last_valid iv ?t'"
    using t assms(5,6) by (simp add: last_valid_def word_le_nat_alt unat_saturating_add)
  ultimately obtain pf' where v': "verify C p ?t' t = Ok pf'" "pf_payment_hash pf' = pf_payment_hash pf"
    using v by (simp add: verify_Ok pf)
  have c: "consume None ?key (pf_retain_until pf) store = (Ok True, store1)"
    "transaction st = hex_encode C (pf_payment_hash pf)"
    using assms(2,3) by (auto simp: settle_Ok)
  then have store1: "table_wf store1" "map_of store1 = (map_of store)(?key \<mapsto> to_sql_time (pf_retain_until pf))"
    using replay.consume_records [OF assms(1)] by auto
  have "sint (to_sql_time (pf_retain_until pf)) < sint (to_sql_time t)"
    using assms(4,5) by (simp add: sint_to_sql_time)
  then have pruned: "table_wf (snd (prune None t store1))" "map_of (snd (prune None t store1)) ?key = None"
    using replay.prune_keeps [OF store1(1), of t] store1(2) by auto
  obtain store2 where "consume None ?key (pf_retain_until pf') (snd (prune None t store1)) = (Ok True, store2)"
    using replay.consume_fresh [OF pruned] by blast
  then show ?thesis
    using v' c(2) by (auto simp: settle_Ok)
qed

theorem skew_increase_reopens_witness:
  "\<exists>store2. settle ex_world None (paid_payload ex_world (ex_terms ex_hash) ''lnbc1'' ex_preimage)
     (x402_terms (ex_x402\<lparr>x_clock_skew_secs := 10000\<rparr>) ex_hash) 4961
     (snd (prune None 4961 [(ex_key, to_sql_time 4960)]))
   = (Ok \<lparr>transaction = hex_encode ex_world ex_preimage\<rparr>, store2)"
proof (rule skew_increase_reopens [of "[]" _ _ _ _ 1100, OF _ ex_proof_verified])
  show "settle ex_world None (paid_payload ex_world (ex_terms ex_hash) ''lnbc1'' ex_preimage)
      (x402_terms ex_x402 ex_hash) 1100 [] =
    (Ok \<lparr>transaction = hex_encode ex_world ex_preimage\<rparr>, [(ex_key, to_sql_time 4960)])"
    using ex_proof_verified
    by (simp add: settle_Ok consume_def sql_insert_or_ignore_def ex_key_def ex_proof_def)
qed (simp_all add: table_wf_def ex_proof_def)

end
