(* ===== verification/Token.thy ===== *)
theory Token
  imports Reference_Crates
begin

text \<open>
  \<^verbatim>\<open>src/token.rs\<close>: the HMAC token that binds a payment hash to the server's root key. Arrays
  \<^verbatim>\<open>[u8; 32]\<close> are byte lists; \<open>token_wf\<close> is the invariant that their lengths are 32.
\<close>

record token =
  payment_hash :: bytes
  signature :: bytes

definition token_wf :: "token \<Rightarrow> bool" where
  "token_wf t \<longleftrightarrow> length (payment_hash t) = 32 \<and> length (signature t) = 32"

definition hmac_sign :: "crates \<Rightarrow> bytes \<Rightarrow> bytes \<Rightarrow> bytes" where
  "hmac_sign C key data = hmac_sha256 C key data"

definition mint :: "crates \<Rightarrow> bytes \<Rightarrow> bytes \<Rightarrow> token" where
  "mint C root_key hash = \<lparr>payment_hash = hash, signature = hmac_sign C root_key hash\<rparr>"

definition token_verify :: "crates \<Rightarrow> token \<Rightarrow> bytes \<Rightarrow> string + unit" where
  "token_verify C t root_key =
     (let expected = hmac_sign C root_key (payment_hash t)
      in if expected \<noteq> signature t then Err ''invalid token signature'' else Ok ())"

definition serialize :: "crates \<Rightarrow> token \<Rightarrow> string" where
  "serialize C t = b64_encode C (payment_hash t @ signature t)"

definition deserialize :: "crates \<Rightarrow> string \<Rightarrow> string + token" where
  "deserialize C encoded =
     try_then (map_err (\<lambda>e. ''base64 decode error: '' @ e) (b64_decode C encoded)) (\<lambda>data.
     if length data \<noteq> 64
     then Err (''token must be 64 bytes, got '' @ dec_string (length data))
     else Ok \<lparr>payment_hash = take 32 data, signature = drop 32 data\<rparr>)"

section \<open>Properties\<close>

lemma mint_wf: "hmac_length C \<Longrightarrow> length h = 32 \<Longrightarrow> token_wf (mint C k h)"
  by (simp add: token_wf_def mint_def hmac_sign_def hmac_length_def)

lemma token_verify_Ok [result_simps]:
  "token_verify C t k = Ok u \<longleftrightarrow> signature t = hmac_sha256 C k (payment_hash t)"
  by (auto simp: token_verify_def hmac_sign_def Let_def)

lemma deserialize_Ok [result_simps]:
  "deserialize C s = Ok t \<longleftrightarrow>
     token_wf t \<and> b64_decode C s = Ok (payment_hash t @ signature t)"
proof
  assume "deserialize C s = Ok t"
  then show "token_wf t \<and> b64_decode C s = Ok (payment_hash t @ signature t)"
    by (auto simp: deserialize_def result_simps token_wf_def split: if_splits)
next
  assume "token_wf t \<and> b64_decode C s = Ok (payment_hash t @ signature t)"
  then show "deserialize C s = Ok t"
    by (simp add: deserialize_def token_wf_def)
qed

lemma deserialize_serialize:
  "b64_roundtrip C \<Longrightarrow> token_wf t \<Longrightarrow> deserialize C (serialize C t) = Ok t"
  by (simp add: deserialize_Ok serialize_def b64_roundtrip_def)

interpretation token_wire: codec
  "\<lambda>(C, t). (C, serialize C t)"
  "\<lambda>(C, s). map_err id (try_then (deserialize C s) (\<lambda>t. Ok (C, t)))"
  "\<lambda>(C, t). b64_roundtrip C \<and> token_wf t"
  by unfold_locales (auto simp: deserialize_serialize)

text \<open>
  C27. A minted token survives its wire format and is accepted under the key that minted it: the
  base64 text of a token for any 32-byte payment hash is read back as the same token, and its
  signature verifies.
\<close>

theorem token_roundtrip:
  assumes "b64_roundtrip C" "hmac_length C" "length h = 32"
  shows "deserialize C (serialize C (mint C k h)) = Ok (mint C k h)
    \<and> token_verify C (mint C k h) k = Ok ()"
  using assms by (simp add: deserialize_serialize mint_wf token_verify_Ok)
    (simp add: mint_def hmac_sign_def)

theorem token_roundtrip_witness:
  "deserialize (ref_crates [] []) (serialize (ref_crates [] [])
       (mint (ref_crates [] []) (replicate 32 1) (replicate 32 7)))
     = Ok (mint (ref_crates [] []) (replicate 32 1) (replicate 32 7))
   \<and> token_verify (ref_crates [] []) (mint (ref_crates [] []) (replicate 32 1) (replicate 32 7))
       (replicate 32 1) = Ok ()"
  by (rule token_roundtrip) simp_all

end
