(* ===== verification/L402_Auth.thy ===== *)
theory L402_Auth
  imports Token
begin

text \<open>
  \<^verbatim>\<open>src/l402.rs\<close>: the challenge header, the parser of the \<^verbatim>\<open>Authorization\<close> header and the
  verification of the credentials.
\<close>

definition build_challenge :: "string \<Rightarrow> string \<Rightarrow> string" where
  "build_challenge token_base64 bolt11_invoice =
     ''L402 token='' @ [CHR 0x22] @ token_base64 @ [CHR 0x22] @ '', invoice='' @ [CHR 0x22] @
     bolt11_invoice @ [CHR 0x22]"

record l402_credentials =
  token_base64 :: string
  preimage :: bytes

definition parse_authorization :: "crates \<Rightarrow> string \<Rightarrow> string + l402_credentials" where
  "parse_authorization C header_value =
     try_then (ok_or (strip_prefix header_value ''L402 '')
       (''authorization must start with '' @ [CHR 0x27] @ ''L402 '' @ [CHR 0x27])) (\<lambda>rest.
     try_then (ok_or (split_once rest CHR '':'') (''authorization must contain '' @ [CHR 0x27] @ '':'' @ [CHR 0x27] @ '' separator''))
       (\<lambda>(token_part, preimage_part).
     try_then (map_err (\<lambda>e. ''invalid preimage hex: '' @ e) (hex_decode C preimage_part)) (\<lambda>p.
     if length p \<noteq> 32
     then Err (''preimage must be 32 bytes, got '' @ dec_string (length p))
     else Ok \<lparr>token_base64 = token_part, preimage = p\<rparr>)))"

definition verify_l402 :: "crates \<Rightarrow> bytes \<Rightarrow> string \<Rightarrow> bytes \<Rightarrow> string + unit" where
  "verify_l402 C root_key token_b64 p =
     try_then (deserialize C token_b64) (\<lambda>t.
     try_then (token_verify C t root_key) (\<lambda>_.
     if sha256 C p \<noteq> payment_hash t
     then Err ''preimage does not match payment hash''
     else Ok ()))"

section \<open>Properties\<close>

lemma parse_authorization_Ok [result_simps]:
  "parse_authorization C h = Ok c \<longleftrightarrow>
     (\<exists>hex. h = ''L402 '' @ token_base64 c @ CHR '':'' # hex
        \<and> CHR '':'' \<notin> set (token_base64 c)
        \<and> hex_decode C hex = Ok (preimage c) \<and> length (preimage c) = 32)"
  by (cases c) (auto simp: parse_authorization_def result_simps split: if_splits prod.splits)

lemma verify_l402_Ok [result_simps]:
  "verify_l402 C k s p = Ok u \<longleftrightarrow>
     (let h = sha256 C p
      in length h = 32 \<and> length (hmac_sha256 C k h) = 32
         \<and> b64_decode C s = Ok (h @ hmac_sha256 C k h))"
  (is "?l \<longleftrightarrow> ?r")
proof
  assume ?l
  then show ?r
    by (auto simp: verify_l402_def result_simps token_wf_def Let_def split: if_splits)
next
  assume r: ?r
  then have "deserialize C s = Ok (mint C k (sha256 C p))"
    by (simp add: deserialize_Ok token_wf_def mint_def hmac_sign_def Let_def)
  then show ?l
    by (simp add: verify_l402_def mint_def token_verify_def hmac_sign_def)
qed

end
