(* ===== verification/Handlers.thy ===== *)
theory Handlers
  imports L402_Auth Lnd_Client Fortunes Paywall
begin

text \<open>
  \<^verbatim>\<open>src/handlers.rs\<close>: the L402 route \<^verbatim>\<open>/fortune\<close> and the static routes. The handler's inputs
  are the configuration, the node's RPCs, the random generator and the request's headers; its
  state is the node's.
\<close>

definition l402_dispense ::
  "crates \<Rightarrow> config \<Rightarrow> (nat \<Rightarrow> nat) \<Rightarrow> string \<Rightarrow> (app_error, response) outcome" where
  "l402_dispense C cfg rng auth_str =
     (case parse_authorization C auth_str of
        Inl e \<Rightarrow> Fail (L402 e)
      | Inr creds \<Rightarrow>
          (case verify_l402 C (root_key cfg) (token_base64 creds) (preimage creds) of
             Inl e \<Rightarrow> Fail (L402 e)
           | Inr _ \<Rightarrow>
               (case random_fortune rng of
                  Return fortune \<Rightarrow>
                    Return \<lparr>status = OK_STATUS, resp_headers = [],
                            resp_body = JsonBody (json_obj [(''fortune'', JStr fortune)])\<rparr>
                | Fail e \<Rightarrow> Fail e
                | Panic msg \<Rightarrow> Panic msg)))"

definition l402_challenge ::
  "crates \<Rightarrow> 'w lnd_rpc \<Rightarrow> config \<Rightarrow> 'w \<Rightarrow> (app_error, response) outcome \<times> 'w" where
  "l402_challenge C rpc cfg w =
     (case create_invoice rpc (invoice_amount_sats cfg) (invoice_memo cfg)
             (invoice_expiry_secs cfg) w of
        (Inl e, w') \<Rightarrow> (Fail e, w')
      | (Inr (hash, request), w') \<Rightarrow>
          if length hash \<noteq> 32
          then (Fail (Internal ''unexpected payment hash length from LND''), w')
          else
            let tok = mint C (root_key cfg) hash;
                challenge = build_challenge (serialize C tok) request
            in (Return (with_header C ''www-authenticate'' challenge
                  \<lparr>status = PAYMENT_REQUIRED_STATUS, resp_headers = [],
                   resp_body = JsonBody (json_obj
                     [(''payment_request'', JStr request),
                      (''amount_sats'', JInt (sint (invoice_amount_sats cfg)))])\<rparr>), w'))"

definition l402_get_fortune ::
  "crates \<Rightarrow> 'w lnd_rpc \<Rightarrow> config \<Rightarrow> (nat \<Rightarrow> nat) \<Rightarrow> header_map \<Rightarrow> 'w
     \<Rightarrow> (app_error, response) outcome \<times> 'w" where
  "l402_get_fortune C rpc cfg rng headers w =
     (case header_get headers ''authorization'' of
        Some auth_header \<Rightarrow>
          (case header_to_str C auth_header of
             None \<Rightarrow> (Fail (L402 ''invalid authorization header encoding''), w)
           | Some auth_str \<Rightarrow>
               if starts_with auth_str ''L402 ''
               then (l402_dispense C cfg rng auth_str, w)
               else l402_challenge C rpc cfg w)
      | None \<Rightarrow> l402_challenge C rpc cfg w)"

definition index_page :: response where
  "index_page =
     \<lparr>status = OK_STATUS, resp_headers = [],
      resp_body = HtmlBody
        (''<h1>fortune-402</h1>'' @
         ''<p>A test server for <a href='' @ [CHR 0x22] @
         ''https://docs.lightning.engineering/the-lightning-network/l402'' @ [CHR 0x22] @
         ''>L402</a>. '' @
         ''Pay a Lightning invoice, get a fortune cookie.</p>'' @
         ''<p>Try it: <code>GET /fortune</code></p>'' @
         ''<p>Or pay over <a href='' @ [CHR 0x22] @
         ''https://github.com/x402-foundation/x402'' @ [CHR 0x22] @ ''>x402</a> '' @
         ''with Lightning: <code>GET /x402</code></p>'')\<rparr>"

definition health :: response where
  "health = \<lparr>status = OK_STATUS, resp_headers = [], resp_body = TextBody ''ok''\<rparr>"

section \<open>Properties\<close>

text \<open>What the route accepts as proof of payment, for a given root key.\<close>

definition l402_paid :: "crates \<Rightarrow> bytes \<Rightarrow> header_map \<Rightarrow> bool" where
  "l402_paid C key headers \<longleftrightarrow>
     (case header_get headers ''authorization'' of
        None \<Rightarrow> False
      | Some v \<Rightarrow>
          (case header_to_str C v of
             None \<Rightarrow> False
           | Some s \<Rightarrow>
               (case parse_authorization C s of
                  Inl _ \<Rightarrow> False
                | Inr c \<Rightarrow>
                    (case deserialize C (token_base64 c) of
                       Inl _ \<Rightarrow> False
                     | Inr t \<Rightarrow> signature t = hmac_sha256 C key (payment_hash t)
                                 \<and> sha256 C (preimage c) = payment_hash t))))"

lemma verify_l402_token:
  "verify_l402 C k s p = Ok u \<longleftrightarrow>
     (\<exists>t. deserialize C s = Ok t \<and> signature t = hmac_sha256 C k (payment_hash t)
        \<and> sha256 C p = payment_hash t)"
  by (auto simp: verify_l402_def result_simps split: if_splits)

lemma create_invoice_cases:
  "create_invoice rpc a m e w = (r, w') \<Longrightarrow>
     (\<exists>err. r = Inl (Lnd err)) \<or> (\<exists>hash req. r = Inr (hash, req))"
  by (auto simp: create_invoice_def split: prod.splits sum.splits)

lemma l402_challenge_not_ok:
  "l402_challenge C rpc cfg w = (Return r, w') \<Longrightarrow> status r \<noteq> OK_STATUS"
  by (auto simp: l402_challenge_def Let_def with_header_def split: prod.splits sum.splits if_splits option.splits)

lemma l402_challenge_Return:
  assumes "l402_challenge C rpc cfg w = (Return r, w')"
  obtains res where
    "add_invoice rpc (lnrpc_default\<lparr>ln_value := invoice_amount_sats cfg, ln_memo := invoice_memo cfg,
        ln_expiry := invoice_expiry_secs cfg\<rparr>) w = (Ok res, w')"
    "length (r_hash res) = 32"
    "r = with_header C ''www-authenticate''
       (build_challenge (serialize C (mint C (root_key cfg) (r_hash res))) (payment_request res))
       \<lparr>status = PAYMENT_REQUIRED_STATUS, resp_headers = [],
        resp_body = JsonBody (JObj
          [(''amount_sats'', JInt (sint (invoice_amount_sats cfg))),
           (''payment_request'', JStr (payment_request res))])\<rparr>"
  using assms
  by (auto simp: l402_challenge_def create_invoice_def Let_def
      split: prod.split_asm sum.split_asm if_split_asm)

lemma l402_dispense_Return:
  "l402_dispense C cfg rng s = Return r \<longleftrightarrow>
     (\<exists>c u f. parse_authorization C s = Ok c
        \<and> verify_l402 C (root_key cfg) (token_base64 c) (preimage c) = Ok u
        \<and> random_fortune rng = Return f
        \<and> r = \<lparr>status = OK_STATUS, resp_headers = [],
               resp_body = JsonBody (JObj [(''fortune'', JStr f)])\<rparr>)"
  by (auto simp: l402_dispense_def split: sum.splits outcome.splits)

lemma parse_authorization_starts:
  "parse_authorization C s = Ok c \<Longrightarrow> starts_with s ''L402 ''"
  by (auto simp: parse_authorization_Ok starts_with_iff)

text \<open>What a client that paid sends, and that the route accepts it.\<close>

definition l402_authorization :: "crates \<Rightarrow> string \<Rightarrow> bytes \<Rightarrow> string" where
  "l402_authorization C tok p = ''L402 '' @ tok @ '':'' @ hex_encode C p"

definition l402_laws :: "crates \<Rightarrow> bool" where
  "l402_laws C \<longleftrightarrow> b64_roundtrip C \<and> b64_alphabet C \<and> hex_roundtrip C \<and> hex_lower C
     \<and> hmac_length C \<and> sha256_length C \<and> ascii_headers C"

lemma ref_l402_laws [simp]: "l402_laws (ref_crates d i)"
  by (simp add: l402_laws_def)

lemma l402_paid_client:
  assumes "l402_laws C" "length p = 32"
    and "header_get headers ''authorization'' =
           Some (as_bytes (l402_authorization C (serialize C (mint C k (sha256 C p))) p))"
  shows "l402_paid C k headers"
proof -
  let ?t = "mint C k (sha256 C p)"
  let ?s = "l402_authorization C (serialize C ?t) p"
  have laws: "ascii_headers C" "b64_alphabet C" "hex_lower C" "hex_roundtrip C" "b64_roundtrip C"
    "hmac_length C" "sha256_length C"
    using assms(1) by (simp_all add: l402_laws_def)
  have "visible_ascii ?s"
    using b64_encode_visible [OF laws(2)] hex_encode_visible [OF laws(3)]
    by (simp add: l402_authorization_def serialize_def)
  then have "header_to_str C (as_bytes ?s) = Some ?s" by (rule ascii_header_value(2) [OF laws(1)])
  moreover have "parse_authorization C ?s = Ok \<lparr>token_base64 = serialize C ?t, preimage = p\<rparr>"
    using b64_encode_no_colon [OF laws(2)] laws(4) assms(2)
    by (simp add: parse_authorization_Ok l402_authorization_def serialize_def hex_roundtrip_def)
  moreover have "deserialize C (serialize C ?t) = Ok ?t"
    using laws(5-7) by (simp add: deserialize_serialize mint_wf sha256_length_def)
  ultimately show ?thesis
    using assms(3) by (simp add: l402_paid_def mint_def hmac_sign_def)
qed

lemma l402_paid_serves:
  assumes "in_range rng" "l402_paid C (root_key cfg) headers"
  shows "l402_get_fortune C rpc cfg rng headers w =
     (Return \<lparr>status = OK_STATUS, resp_headers = [],
              resp_body = JsonBody (JObj [(''fortune'', JStr (FORTUNES ! rng 50))])\<rparr>, w)"
proof -
  obtain v s c t where h: "header_get headers ''authorization'' = Some v" "header_to_str C v = Some s"
    and p: "parse_authorization C s = Ok c"
    and t: "deserialize C (token_base64 c) = Ok t" "signature t = hmac_sha256 C (root_key cfg) (payment_hash t)"
      "sha256 C (preimage c) = payment_hash t"
    using assms(2) by (auto simp: l402_paid_def split: option.splits sum.splits)
  then have "verify_l402 C (root_key cfg) (token_base64 c) (preimage c) = Ok ()"
    by (auto simp: verify_l402_token)
  moreover have "starts_with s ''L402 ''" using p by (rule parse_authorization_starts)
  ultimately show ?thesis
    using h p random_fortune_in_range [OF assms(1)] by (simp add: l402_get_fortune_def l402_dispense_def)
qed

lemma l402_unpaid:
  assumes "\<not> l402_paid C (root_key cfg) headers"
    and "l402_get_fortune C rpc cfg rng headers w = (Return r, w')"
  shows "status r \<noteq> OK_STATUS \<and> l402_challenge C rpc cfg w = (Return r, w')"
proof (cases "\<exists>v s. header_get headers ''authorization'' = Some v \<and> header_to_str C v = Some s
    \<and> starts_with s ''L402 ''")
  case True
  then obtain v s where h: "header_get headers ''authorization'' = Some v" "header_to_str C v = Some s"
    "starts_with s ''L402 ''" by blast
  with assms(2) have "l402_dispense C cfg rng s = Return r" by (simp add: l402_get_fortune_def)
  then obtain c u where "parse_authorization C s = Ok c"
    "verify_l402 C (root_key cfg) (token_base64 c) (preimage c) = Ok u"
    by (auto simp: l402_dispense_Return)
  with h have "l402_paid C (root_key cfg) headers"
    by (auto simp: l402_paid_def verify_l402_token)
  with assms(1) show ?thesis by simp
next
  case False
  with assms(2) have "l402_challenge C rpc cfg w = (Return r, w')"
    by (auto simp: l402_get_fortune_def split: option.split_asm if_split_asm)
  then show ?thesis using l402_challenge_not_ok [of C rpc cfg w r w'] by simp
qed

lemma build_challenge_inject:
  assumes "CHR 0x22 \<notin> set tok" "CHR 0x22 \<notin> set tok'"
    and "build_challenge tok i = build_challenge tok' i'"
  shows "tok = tok' \<and> i = i'"
proof -
  let ?r = "\<lambda>i. '', invoice='' @ [CHR 0x22] @ i @ [CHR 0x22]"
  have "tok @ CHR 0x22 # ?r i = tok' @ CHR 0x22 # ?r i'"
    using assms(3) by (simp add: build_challenge_def)
  then have "split_once (tok @ CHR 0x22 # ?r i) CHR 0x22 = Some (tok', ?r i')"
    using assms(2) by (simp add: split_once_Some)
  then show ?thesis using assms(1) by (simp add: split_once_Some)
qed

lemma l402_statuses:
  assumes "l402_get_fortune C rpc cfg rng headers w = (Return r, w')"
  shows "status r \<in> {OK_STATUS, PAYMENT_REQUIRED_STATUS, INTERNAL_SERVER_ERROR}"
  using assms
  by (auto simp: l402_get_fortune_def l402_dispense_Return l402_challenge_def with_header_def Let_def
      split: option.split_asm if_split_asm prod.split_asm sum.split_asm)

lemma l402_ok_paid:
  assumes "l402_get_fortune C rpc cfg rng headers w = (Return r, w')" "status r = OK_STATUS"
  shows "l402_paid C (root_key cfg) headers"
proof (rule ccontr)
  assume "\<not> l402_paid C (root_key cfg) headers"
  from l402_unpaid [OF this assms(1)] assms(2) show False by simp
qed

interpretation l402_route: paywall
  "\<lambda>q w. l402_get_fortune C rpc cfg (fst q) (snd q) w" "\<lambda>_. True"
  "\<lambda>q _. l402_paid C (root_key cfg) (snd q)" for C rpc cfg
  by unfold_locales (rule TrueI | (rule l402_ok_paid l402_statuses; assumption))+

section \<open>The route\<close>

text \<open>What a client of the example node that paid sends.\<close>

definition ex_token :: string where
  "ex_token = serialize (ref_crates [] [])
     (mint (ref_crates [] []) (root_key ex_config) (ref_digest ex_preimage))"

definition ex_authorization :: header_map where
  "ex_authorization =
     [(''authorization'', as_bytes (l402_authorization (ref_crates [] []) ex_token ex_preimage))]"

lemma ex_paid: "l402_paid (ref_crates [] []) (root_key ex_config) ex_authorization"
  by (rule l402_paid_client [of _ ex_preimage])
     (simp_all add: ex_authorization_def ex_token_def header_get_def)

lemma ex_challenge:
  "l402_get_fortune (ref_crates [] []) ex_rpc ex_config rng [] n =
     (Return \<lparr>status = PAYMENT_REQUIRED_STATUS,
              resp_headers = [(''www-authenticate'', build_challenge ex_token ''lnbc1'')],
              resp_body = JsonBody (JObj [(''amount_sats'', JInt 1), (''payment_request'', JStr ''lnbc1'')])\<rparr>,
      Suc n)"
  by (simp add: l402_get_fortune_def l402_challenge_def header_get_def create_invoice_def ex_rpc_def
      ex_token_def Let_def) (simp add: ex_config_def)

text \<open>
  C10. The L402 route gives a fortune exactly for a valid payment: it answers 200 iff the
  \<^verbatim>\<open>Authorization\<close> header holds a token signed with the server's key together with a preimage
  whose SHA-256 is the token's payment hash; then the answer is one of the fortunes and the node
  is not involved. Any other answer is not a 200, and without panics.
\<close>

theorem l402_served_iff_paid:
  assumes "in_range rng"
  shows "((\<exists>r. fst (l402_get_fortune C rpc cfg rng headers w) = Return r \<and> status r = 200)
          = l402_paid C (root_key cfg) headers)
    \<and> (l402_paid C (root_key cfg) headers \<longrightarrow>
         (\<exists>f \<in> set FORTUNES. l402_get_fortune C rpc cfg rng headers w =
           (Return \<lparr>status = 200, resp_headers = [],
                    resp_body = JsonBody (JObj [(''fortune'', JStr f)])\<rparr>, w)))"
proof (cases "l402_paid C (root_key cfg) headers")
  case True
  moreover have "FORTUNES ! rng 50 \<in> set FORTUNES"
    using random_fortune_in_range(2) [OF assms] by simp
  ultimately show ?thesis
    using l402_paid_serves [OF assms, of C cfg headers rpc w] by (auto simp: OK_STATUS_def)
next
  case False
  then show ?thesis
    using l402_unpaid [OF False, of rpc rng w]
    by (cases "l402_get_fortune C rpc cfg rng headers w") (auto simp: OK_STATUS_def)
qed

theorem l402_served_iff_paid_witness:
  "(\<exists>r. fst (l402_get_fortune (ref_crates [] []) ex_rpc ex_config (\<lambda>_. 0) ex_authorization 5)
          = Return r \<and> status r = 200)
   \<and> \<not> (\<exists>r. fst (l402_get_fortune (ref_crates [] []) ex_rpc ex_config (\<lambda>_. 0) [] 5) = Return r
          \<and> status r = 200)"
  using l402_served_iff_paid [of "\<lambda>_. 0" "ref_crates [] []" ex_rpc ex_config ex_authorization 5]
    l402_served_iff_paid [of "\<lambda>_. 0" "ref_crates [] []" ex_rpc ex_config "[]" 5] ex_paid
  by (simp add: l402_paid_def header_get_def)

text \<open>
  C19. The L402 flow completes: when a request without credentials was challenged with a token and
  an invoice, a client that sends the token of the challenge back with the preimage of the
  invoice's payment hash gets a fortune, at any later time and in any state of the node.
\<close>

theorem l402_pay_then_serve:
  assumes "l402_laws C" "in_range rng'"
    and "l402_get_fortune C rpc cfg rng [] w = (Return r, w')"
    and "resp_headers r = [(''www-authenticate'', build_challenge tok invc)]" "CHR 0x22 \<notin> set tok"
    and "\<And>req e. fst (add_invoice rpc req w) = Ok e \<Longrightarrow> r_hash e = sha256 C p" "length p = 32"
    and "header_get headers ''authorization'' = Some (as_bytes (l402_authorization C tok p))"
  shows "\<exists>f \<in> set FORTUNES. l402_get_fortune C rpc cfg rng' headers w2 =
    (Return \<lparr>status = 200, resp_headers = [], resp_body = JsonBody (JObj [(''fortune'', JStr f)])\<rparr>, w2)"
proof -
  let ?t = "mint C (root_key cfg) (sha256 C p)"
  have "l402_challenge C rpc cfg w = (Return r, w')"
    using assms(3) by (simp add: l402_get_fortune_def header_get_def)
  then obtain res where "fst (add_invoice rpc (lnrpc_default\<lparr>ln_value := invoice_amount_sats cfg,
        ln_memo := invoice_memo cfg, ln_expiry := invoice_expiry_secs cfg\<rparr>) w) = Ok res"
    "resp_headers r \<in> {[], [(''www-authenticate'',
        build_challenge (serialize C (mint C (root_key cfg) (r_hash res))) (payment_request res))]}"
    by (rule l402_challenge_Return) (auto simp: with_header_def split: option.split)
  then obtain invc' where "resp_headers r \<in> {[], [(''www-authenticate'',
        build_challenge (serialize C ?t) invc')]}"
    using assms(6) by metis
  with assms(4) have "build_challenge tok invc = build_challenge (serialize C ?t) invc'" by auto
  moreover have "CHR 0x22 \<notin> set (serialize C ?t)"
    using assms(1) b64_encode_no_quote by (simp add: serialize_def l402_laws_def)
  ultimately have "tok = serialize C ?t"
    using build_challenge_inject [OF assms(5)] by blast
  then have "l402_paid C (root_key cfg) headers"
    using l402_paid_client [OF assms(1,7)] assms(8) by simp
  moreover have "FORTUNES ! rng' 50 \<in> set FORTUNES"
    using random_fortune_in_range(2) [OF assms(2)] by simp
  ultimately show ?thesis
    using l402_paid_serves [OF assms(2), of C cfg headers rpc w2] by (auto simp: OK_STATUS_def)
qed

theorem l402_pay_then_serve_witness:
  "\<exists>f \<in> set FORTUNES. l402_get_fortune (ref_crates [] []) ex_rpc ex_config (\<lambda>_. 0) ex_authorization 9 =
    (Return \<lparr>status = 200, resp_headers = [], resp_body = JsonBody (JObj [(''fortune'', JStr f)])\<rparr>, 9)"
proof (rule l402_pay_then_serve)
  show "l402_get_fortune (ref_crates [] []) ex_rpc ex_config (\<lambda>_. 0) [] 5 =
     (Return \<lparr>status = PAYMENT_REQUIRED_STATUS,
              resp_headers = [(''www-authenticate'', build_challenge ex_token ''lnbc1'')],
              resp_body = JsonBody (JObj [(''amount_sats'', JInt 1), (''payment_request'', JStr ''lnbc1'')])\<rparr>,
      Suc 5)"
    by (rule ex_challenge)
  show "CHR 0x22 \<notin> set ex_token"
    using b64_encode_no_quote [of "ref_crates [] []"] by (simp add: ex_token_def serialize_def)
  show "header_get ex_authorization ''authorization'' =
      Some (as_bytes (l402_authorization (ref_crates [] []) ex_token ex_preimage))"
    by (simp add: ex_authorization_def header_get_def)
qed (auto simp: ex_rpc_def)

text \<open>
  C20. The L402 challenge is bound to its invoice: a 402 answer comes from one invoice that the node
  issued for the configured amount, memo and expiry, carries in its header that invoice and the
  token minted for its payment hash, and says the price in its body. No fortune and no other
  header is in it.
\<close>

theorem l402_challenge_binds_invoice:
  assumes "l402_get_fortune C rpc cfg rng headers w = (Return r, w')" "status r = 402"
  shows "\<exists>res.
    add_invoice rpc \<lparr>ln_value = invoice_amount_sats cfg, ln_memo = invoice_memo cfg,
        ln_expiry = invoice_expiry_secs cfg, ln_value_msat = 0, ln_description_hash = []\<rparr> w = (Ok res, w')
    \<and> length (r_hash res) = 32
    \<and> resp_headers r = [(''www-authenticate'',
         ''L402 token='' @ [CHR 0x22] @ serialize C (mint C (root_key cfg) (r_hash res)) @ [CHR 0x22] @
         '', invoice='' @ [CHR 0x22] @ payment_request res @ [CHR 0x22])]
    \<and> resp_body r = JsonBody (JObj
         [(''amount_sats'', JInt (sint (invoice_amount_sats cfg))),
          (''payment_request'', JStr (payment_request res))])"
proof -
  have "l402_challenge C rpc cfg w = (Return r, w')"
  proof (cases "l402_paid C (root_key cfg) headers")
    case True
    have False
      using assms True
      by (auto simp: l402_get_fortune_def l402_paid_def l402_dispense_def random_fortune_def Let_def
          status_defs parse_authorization_starts split: option.split_asm sum.split_asm if_split_asm)
    then show ?thesis ..
  next
    case False
    then show ?thesis using l402_unpaid [OF False assms(1)] by simp
  qed
  then show ?thesis
    by (rule l402_challenge_Return)
      (use assms(2) in \<open>auto simp: with_header_def lnrpc_default_def build_challenge_def status_defs split: option.split_asm\<close>)
qed

theorem l402_challenge_binds_invoice_witness:
  "\<exists>res. add_invoice ex_rpc \<lparr>ln_value = 1, ln_memo = ''Fortune cookie'', ln_expiry = 300,
        ln_value_msat = 0, ln_description_hash = []\<rparr> 5 = (Ok res, 6)
    \<and> length (r_hash res) = 32 \<and> payment_request res = ''lnbc1''"
  using l402_challenge_binds_invoice [OF ex_challenge [of "\<lambda>_. 0" 5]]
  by (simp add: status_defs) (auto simp: ex_config_def)

text \<open>
  C21. Bad L402 credentials are refused at once: a request whose \<^verbatim>\<open>Authorization\<close> header starts
  with \<^verbatim>\<open>L402\<close> but is no proof of payment gets 401, and no invoice is created for it.
\<close>

theorem l402_bad_credentials:
  assumes "header_get headers ''authorization'' = Some v" "header_to_str C v = Some (''L402 '' @ s)"
    and "\<not> l402_paid C (root_key cfg) headers"
  shows "\<exists>e. l402_get_fortune C rpc cfg rng headers w = (Fail (L402 e), w)
    \<and> status (into_response (L402 e)) = 401"
proof -
  have "verify_l402 C (root_key cfg) (token_base64 c) (preimage c) \<noteq> Ok u"
    if "parse_authorization C (''L402 '' @ s) = Ok c" for c u
    using that assms by (auto simp: verify_l402_token l402_paid_def)
  then have "\<exists>e. l402_dispense C cfg rng (''L402 '' @ s) = Fail (L402 e)"
    by (auto simp: l402_dispense_def split: sum.split)
  then show ?thesis
    using assms(1,2) starts_with_append [of "''L402 ''" s]
    by (auto simp: l402_get_fortune_def into_response_def error_status_def status_defs)
qed

theorem l402_bad_credentials_witness:
  "\<exists>e. l402_get_fortune (ref_crates [] []) ex_rpc ex_config (\<lambda>_. 0)
        [(''authorization'', as_bytes ''L402 abc'')] 5 = (Fail (L402 e), 5)
      \<and> status (into_response (L402 e)) = 401"
proof (rule l402_bad_credentials)
  have v: "header_to_str (ref_crates [] []) (as_bytes ''L402 abc'') = Some ''L402 abc''"
    by (rule ascii_header_value) simp_all
  then show "header_to_str (ref_crates [] []) (as_bytes ''L402 abc'') = Some (''L402 '' @ ''abc'')"
    by simp
  have "parse_authorization (ref_crates [] []) ''L402 abc'' \<noteq> Ok c" for c
    by (simp add: parse_authorization_def strip_prefix_def starts_with_def)
  then show "\<not> l402_paid (ref_crates [] []) (root_key ex_config) [(''authorization'', as_bytes ''L402 abc'')]"
    using v by (auto simp: l402_paid_def header_get_def split: sum.split)
qed (simp add: header_get_def)

end
