(* ===== verification/Systemd.thy ===== *)
theory Systemd
  imports Prelude
begin

text \<open>
  \<^verbatim>\<open>src/systemd.rs\<close>: the notifications to the service manager and the watchdog. Sending is a
  function of the messages and the socket's state (crate \<^verbatim>\<open>sd-notify\<close>); a failure is logged
  and otherwise ignored. A \<^verbatim>\<open>Duration\<close> is a number of nanoseconds.
\<close>

datatype notify_state = Ready | Status string | Stopping | Watchdog

type_synonym 's sd_notify = "notify_state list \<Rightarrow> 's \<Rightarrow> (string + unit) \<times> 's"

definition notify :: "'s sd_notify \<Rightarrow> notify_state list \<Rightarrow> 's \<Rightarrow> 's" where
  "notify send state sock = snd (send state sock)"

definition notify_ready :: "'s sd_notify \<Rightarrow> string \<Rightarrow> 's \<Rightarrow> 's" where
  "notify_ready send txt sock = notify send [Ready, Status txt] sock"

definition notify_stopping :: "'s sd_notify \<Rightarrow> 's \<Rightarrow> 's" where
  "notify_stopping send sock = notify send [Stopping] sock"

text \<open>
  The watchdog: the interval of the pings, if any are sent, and the task, which waits for the next tick of its
  ticker and pings, for ever. The ticker \<^verbatim>\<open>tokio::time::interval\<close> is an argument: what waiting for tick \<open>k\<close> of
  a period does to the surroundings. The task is given by what it has done after \<open>n\<close> rounds.
\<close>

definition watchdog_interval :: "nat option \<Rightarrow> nat option" where
  "watchdog_interval enabled =
     (case enabled of
        None \<Rightarrow> None
      | Some timeout \<Rightarrow>
          let interval = timeout div 2 in if interval = 0 then None else Some interval)"

type_synonym 's ticker = "nat \<Rightarrow> nat \<Rightarrow> 's \<Rightarrow> 's"

fun watchdog_pings :: "'s sd_notify \<Rightarrow> (nat \<Rightarrow> 's \<Rightarrow> 's) \<Rightarrow> nat \<Rightarrow> nat \<Rightarrow> 's \<Rightarrow> 's" where
  "watchdog_pings send tick k 0 sock = sock"
| "watchdog_pings send tick k (Suc n) sock =
     watchdog_pings send tick (Suc k) n (notify send [Watchdog] (tick k sock))"

definition spawn_watchdog :: "'s sd_notify \<Rightarrow> 's ticker \<Rightarrow> nat option \<Rightarrow> nat \<Rightarrow> 's \<Rightarrow> 's" where
  "spawn_watchdog send ticker enabled n sock =
     (case watchdog_interval enabled of
        None \<Rightarrow> sock
      | Some interval \<Rightarrow> watchdog_pings send (ticker interval) 0 n sock)"

lemma watchdog_interval_Some:
  "watchdog_interval enabled = Some i \<longleftrightarrow> (\<exists>t. enabled = Some t \<and> i = t div 2 \<and> 2 \<le> t)"
  by (cases enabled) (auto simp: watchdog_interval_def Let_def)

section \<open>What the service manager sees\<close>

text \<open>
  The documented behaviour of the ticker and of the socket, for an observer that reads off the surroundings the
  time and the messages that arrived, each with its time. Tick \<open>k\<close> is due \<open>k\<close> periods after the start and fires then, or
  later by at most \<open>late\<close>, for as long as the runtime is held up; a late tick does not move the ones after it
  (\<^verbatim>\<open>MissedTickBehavior::Burst\<close>). A message that is sent arrives.
\<close>

type_synonym arrivals = "(nat \<times> notify_state list) list"

definition ticks_on_time :: "('s \<Rightarrow> nat) \<Rightarrow> ('s \<Rightarrow> arrivals) \<Rightarrow> 's ticker \<Rightarrow> nat \<Rightarrow> nat \<Rightarrow> bool" where
  "ticks_on_time clock arrived ticker start late \<longleftrightarrow>
     (\<forall>period k s. start + k * period \<le> clock (ticker period k s) \<and> clock (ticker period k s) \<le> start + k * period + late
        \<and> arrived (ticker period k s) = arrived s)"

definition messages_arrive :: "('s \<Rightarrow> nat) \<Rightarrow> ('s \<Rightarrow> arrivals) \<Rightarrow> 's sd_notify \<Rightarrow> bool" where
  "messages_arrive clock arrived send \<longleftrightarrow>
     (\<forall>msgs s. arrived (snd (send msgs s)) = arrived s @ [(clock s, msgs)])"

text \<open>Round \<open>j\<close> of the task adds exactly one message, a ping at the time of its tick.\<close>

lemma watchdog_pings_arrive:
  assumes "ticks_on_time clock arrived ticker start late" "messages_arrive clock arrived send"
  shows "\<exists>times. arrived (watchdog_pings send (ticker period) k n s) = arrived s @ map (\<lambda>t. (t, [Watchdog])) times
    \<and> length times = n
    \<and> (\<forall>j < n. start + (k + j) * period \<le> times ! j \<and> times ! j \<le> start + (k + j) * period + late)"
proof (induction n arbitrary: k s)
  case 0
  then show ?case by simp
next
  case (Suc n)
  let ?t = "clock (ticker period k s)"
  obtain times where IH: "arrived (watchdog_pings send (ticker period) (Suc k) n
      (notify send [Watchdog] (ticker period k s))) =
        arrived (notify send [Watchdog] (ticker period k s)) @ map (\<lambda>t. (t, [Watchdog])) times"
    "length times = n"
    "\<forall>j < n. start + (Suc k + j) * period \<le> times ! j \<and> times ! j \<le> start + (Suc k + j) * period + late"
    using Suc.IH by blast
  have first: "start + k * period \<le> ?t" "?t \<le> start + k * period + late"
    "arrived (notify send [Watchdog] (ticker period k s)) = arrived s @ [(?t, [Watchdog])]"
    using assms unfolding ticks_on_time_def messages_arrive_def notify_def by simp_all
  have "start + (k + j) * period \<le> (?t # times) ! j \<and> (?t # times) ! j \<le> start + (k + j) * period + late"
    if "j < Suc n" for j
    using that IH(3) first(1,2) by (cases j) auto
  then show ?case
    using IH(1,2) first(3) by (intro exI [of _ "?t # times"]) simp
qed

text \<open>Every moment up to round \<open>n\<close> has a round that is due less than a period after it.\<close>

lemma round_due_after:
  fixes period :: nat
  assumes "0 < period" "t \<le> n * period"
  obtains k where "k \<le> n" "t \<le> k * period" "k * period < t + period"
proof -
  define k where "k = (t + period - 1) div period"
  have "k * period + (t + period - 1) mod period = t + period - 1" unfolding k_def by (rule div_mult_mod_eq)
  moreover have "(t + period - 1) mod period < period" using assms(1) by simp
  ultimately have k: "t \<le> k * period" "k * period < t + period" using assms(1) by linarith+
  have "t + period \<le> Suc n * period" using assms(2) by simp
  with k(2) have "k * period < Suc n * period" by (rule less_le_trans)
  then have "k \<le> n" by (simp only: mult_less_cancel2 less_Suc_eq_le)
  then show thesis using k by (rule that)
qed

text \<open>
  C40. The watchdog never starves: let the unit set a timeout of at least two nanoseconds, and the runtime be
  held up by less than half of it. Then after \<open>n + 1\<close> rounds of the task the service manager has got exactly
  \<open>n + 1\<close> messages, all of them pings, and from the start of the task until its last tick is due there is no moment
  after which the next ping takes as long as the timeout to come. A task that pings once, or at the
  whole timeout, or sends something else, does not do this.
\<close>

theorem watchdog_in_time:
  assumes "ticks_on_time clock arrived ticker start late" "messages_arrive clock arrived send"
    and "2 \<le> timeout" "2 * late < timeout" "arrived s = []"
  shows "let seen = arrived (spawn_watchdog send ticker (Some timeout) (Suc n) s) in
    length seen = Suc n \<and> (\<forall>m \<in> set seen. snd m = [Watchdog])
    \<and> (\<forall>t. start \<le> t \<and> t \<le> start + n * (timeout div 2)
         \<longrightarrow> (\<exists>p. (p, [Watchdog]) \<in> set seen \<and> t \<le> p \<and> p < t + timeout))"
proof -
  let ?i = "timeout div 2"
  define seen where "seen = arrived (spawn_watchdog send ticker (Some timeout) (Suc n) s)"
  have "watchdog_interval (Some timeout) = Some ?i" using assms(3) by (simp add: watchdog_interval_Some)
  then have "seen = arrived (watchdog_pings send (ticker ?i) 0 (Suc n) s)"
    by (simp add: seen_def spawn_watchdog_def del: watchdog_pings.simps)
  then obtain times where times: "seen = map (\<lambda>t. (t, [Watchdog])) times" "length times = Suc n"
    "\<forall>j < Suc n. start + j * ?i \<le> times ! j \<and> times ! j \<le> start + j * ?i + late"
    using watchdog_pings_arrive [OF assms(1,2), of ?i 0 "Suc n" s] assms(5) by auto
  have "\<exists>p. (p, [Watchdog]) \<in> set seen \<and> t \<le> p \<and> p < t + timeout"
    if t: "start \<le> t" "t \<le> start + n * ?i" for t
  proof -
    have i: "0 < ?i" "2 * ?i \<le> timeout" using assms(3) by auto
    have "t - start \<le> n * ?i" using t by simp
    with i(1) obtain k where k: "k \<le> n" "t - start \<le> k * ?i" "k * ?i < (t - start) + ?i" by (rule round_due_after)
    then have p: "start + k * ?i \<le> times ! k" "times ! k \<le> start + k * ?i + late" "times ! k \<in> set times"
      using times(2,3) by auto
    have "t \<le> times ! k \<and> times ! k < t + timeout" using k(2,3) p(1,2) i(2) assms(4) t(1) by linarith
    then show ?thesis using p(3) times(1) by auto
  qed
  then show ?thesis using times(1,2) unfolding Let_def seen_def [symmetric] by auto
qed

text \<open>Surroundings with a clock and a record of the messages, in which every tick is late by the same time.\<close>

definition late_ticker :: "nat \<Rightarrow> (nat \<times> arrivals) ticker" where
  "late_ticker late period k s = (k * period + late, snd s)"

definition recording :: "(nat \<times> arrivals) sd_notify" where
  "recording msgs s = (Ok (), fst s, snd s @ [(fst s, msgs)])"

theorem watchdog_in_time_witness:
  "\<exists>p. (p, [Watchdog]) \<in> set (snd (spawn_watchdog recording (late_ticker 4) (Some 30) 8 (0, [])))
     \<and> 100 \<le> p \<and> p < 130"
proof -
  have "ticks_on_time fst snd (late_ticker 4) 0 4" "messages_arrive fst snd recording"
    by (simp_all add: ticks_on_time_def messages_arrive_def late_ticker_def recording_def)
  from watchdog_in_time [OF this, of 30 "(0, [])" 7]
  have "\<forall>t. t \<le> 105 \<longrightarrow> (\<exists>p. (p, [Watchdog]) \<in> set (snd (spawn_watchdog recording (late_ticker 4) (Some 30) 8 (0, [])))
      \<and> t \<le> p \<and> p < t + 30)"
    by (simp add: Let_def)
  from spec [OF this, of 100] show ?thesis by simp
qed

end
