(* ===== verification/Std_Text.thy ===== *)
theory Std_Text
  imports Prelude
begin

text \<open>
  The functions of the Rust standard library that read the answer of the health check: lossy
  UTF-8 decoding, lines, and words. A decoded text is the list of its Unicode scalars, each
  written as its UTF-8 bytes.
\<close>

type_synonym scalar = string

definition REPLACEMENT :: scalar where
  "REPLACEMENT = [CHR 0xEF, CHR 0xBF, CHR 0xBD]"

text \<open>
  The ranges of the bytes that may follow a first byte in well-formed UTF-8; \<open>None\<close> for a byte
  that starts no scalar.
\<close>

definition continuation_ranges :: "nat \<Rightarrow> (nat \<times> nat) list option" where
  "continuation_ranges b =
     (let tail = (0x80, 0xBF) in
      if b < 0x80 then Some []
      else if 0xC2 \<le> b \<and> b \<le> 0xDF then Some [tail]
      else if b = 0xE0 then Some [(0xA0, 0xBF), tail]
      else if b = 0xED then Some [(0x80, 0x9F), tail]
      else if 0xE1 \<le> b \<and> b \<le> 0xEF then Some [tail, tail]
      else if b = 0xF0 then Some [(0x90, 0xBF), tail, tail]
      else if 0xF1 \<le> b \<and> b \<le> 0xF3 then Some [tail, tail, tail]
      else if b = 0xF4 then Some [(0x80, 0x8F), tail, tail]
      else None)"

text \<open>The longest prefix in the ranges, whether it fills them, and the remaining bytes.\<close>

fun take_continuation :: "(nat \<times> nat) list \<Rightarrow> bytes \<Rightarrow> bytes \<times> bool \<times> bytes" where
  "take_continuation [] bs = ([], True, bs)"
| "take_continuation (r # rs) [] = ([], False, [])"
| "take_continuation (r # rs) (b # bs) =
     (if fst r \<le> unat b \<and> unat b \<le> snd r
      then case take_continuation rs bs of (c, full, rest) \<Rightarrow> (b # c, full, rest)
      else ([], False, b # bs))"

lemma take_continuation_rest:
  "(c, full, rest) = take_continuation rs bs \<Longrightarrow> length rest \<le> length bs"
  by (induction rs bs arbitrary: c full rest rule: take_continuation.induct)
     (auto split: prod.splits if_splits simp: le_SucI)

text \<open>\<^verbatim>\<open>String::from_utf8_lossy\<close>: each longest prefix of a scalar that is cut short is replaced.\<close>

function from_utf8_lossy :: "bytes \<Rightarrow> scalar list" where
  "from_utf8_lossy [] = []"
| "from_utf8_lossy (b # bs) =
     (case continuation_ranges (unat b) of
        None \<Rightarrow> REPLACEMENT # from_utf8_lossy bs
      | Some rs \<Rightarrow>
          (case take_continuation rs bs of
             (c, full, rest) \<Rightarrow>
               (if full then map char_of_byte (b # c) else REPLACEMENT) # from_utf8_lossy rest))"
  by pat_completeness auto
termination
  by (relation "measure length") (auto simp: less_Suc_eq_le dest: take_continuation_rest)

text \<open>\<^verbatim>\<open>str::lines().next()\<close>: the text before the first line feed, less a carriage return before it.\<close>

definition strip_cr :: "scalar list \<Rightarrow> scalar list" where
  "strip_cr s = (if s \<noteq> [] \<and> last s = [CHR 0x0D] then butlast s else s)"

definition first_line :: "scalar list \<Rightarrow> scalar list option" where
  "first_line s =
     (if s = [] then None
      else let l = takeWhile (\<lambda>c. c \<noteq> [CHR 0x0A]) s
           in Some (if [CHR 0x0A] \<in> set s then strip_cr l else l))"

text \<open>\<^verbatim>\<open>char::is_whitespace\<close>: the scalars with the property White_Space.\<close>

definition is_whitespace :: "scalar \<Rightarrow> bool" where
  "is_whitespace c \<longleftrightarrow>
     c \<in> {[CHR 0x20], [CHR 0x09], [CHR 0x0A], [CHR 0x0B], [CHR 0x0C], [CHR 0x0D],
          [CHR 0xC2, CHR 0x85], [CHR 0xC2, CHR 0xA0], [CHR 0xE1, CHR 0x9A, CHR 0x80],
          [CHR 0xE2, CHR 0x80, CHR 0x80], [CHR 0xE2, CHR 0x80, CHR 0x81], [CHR 0xE2, CHR 0x80, CHR 0x82],
          [CHR 0xE2, CHR 0x80, CHR 0x83], [CHR 0xE2, CHR 0x80, CHR 0x84], [CHR 0xE2, CHR 0x80, CHR 0x85],
          [CHR 0xE2, CHR 0x80, CHR 0x86], [CHR 0xE2, CHR 0x80, CHR 0x87], [CHR 0xE2, CHR 0x80, CHR 0x88],
          [CHR 0xE2, CHR 0x80, CHR 0x89], [CHR 0xE2, CHR 0x80, CHR 0x8A], [CHR 0xE2, CHR 0x80, CHR 0xA8],
          [CHR 0xE2, CHR 0x80, CHR 0xA9], [CHR 0xE2, CHR 0x80, CHR 0xAF], [CHR 0xE2, CHR 0x81, CHR 0x9F],
          [CHR 0xE3, CHR 0x80, CHR 0x80]}"

function split_whitespace :: "scalar list \<Rightarrow> scalar list list" where
  "split_whitespace s =
     (let r = dropWhile is_whitespace s
      in if r = [] then []
         else takeWhile (\<lambda>c. \<not> is_whitespace c) r
              # split_whitespace (dropWhile (\<lambda>c. \<not> is_whitespace c) r))"
  by pat_completeness auto
termination
proof (relation "measure length", simp)
  fix s r :: "scalar list"
  assume r: "r = dropWhile is_whitespace s" "r \<noteq> []"
  then have "\<not> is_whitespace (hd r)" using hd_dropWhile by blast
  then have "length (dropWhile (\<lambda>c. \<not> is_whitespace c) r) < length r"
    using r(2) by (cases r) (auto simp: le_imp_less_Suc length_dropWhile_le)
  also have "length r \<le> length s" by (simp add: r(1) length_dropWhile_le)
  finally show "(dropWhile (\<lambda>c. \<not> is_whitespace c) r, s) \<in> measure length" by simp
qed

declare split_whitespace.simps [simp del]

section \<open>Facts\<close>

text \<open>ASCII text decodes to itself.\<close>

lemma from_utf8_lossy_ascii: "is_ascii s \<Longrightarrow> from_utf8_lossy (as_bytes s) = map (\<lambda>c. [c]) s"
  by (induction s)
     (simp_all add: is_ascii_def as_bytes_def continuation_ranges_def byte_of_char_def unat_of_nat
        char_of_byte_def)

lemma from_utf8_lossy_ascii_append:
  "is_ascii s \<Longrightarrow> from_utf8_lossy (as_bytes s @ bs) = map (\<lambda>c. [c]) s @ from_utf8_lossy bs"
  by (induction s)
     (simp_all add: is_ascii_def as_bytes_def continuation_ranges_def byte_of_char_def unat_of_nat
        char_of_byte_def)

text \<open>A line that a carriage return and a line feed end.\<close>

lemma first_line_crlf:
  assumes "[CHR 0x0A] \<notin> set l"
  shows "first_line (l @ [CHR 0x0D] # [CHR 0x0A] # r) = Some l"
proof -
  have "takeWhile (\<lambda>c. c \<noteq> [CHR 0x0A]) (l @ [CHR 0x0D] # [CHR 0x0A] # r) = l @ [[CHR 0x0D]]"
    using assms by (subst takeWhile_append2) auto
  then show ?thesis by (simp add: first_line_def strip_cr_def)
qed

text \<open>The first words of a text.\<close>

lemma split_whitespace_word:
  assumes "w \<noteq> []" "\<forall>c \<in> set w. \<not> is_whitespace c" "is_whitespace sp"
  shows "split_whitespace (w @ sp # r) = w # split_whitespace r"
proof -
  have d: "dropWhile is_whitespace (w @ sp # r) = w @ sp # r"
    using assms(1,2) by (cases w) auto
  have "takeWhile (\<lambda>c. \<not> is_whitespace c) (w @ sp # r) = w"
    "dropWhile (\<lambda>c. \<not> is_whitespace c) (w @ sp # r) = sp # r"
    using assms(2,3) by (auto simp: takeWhile_append2 dropWhile_append2)
  moreover have "split_whitespace (sp # r) = split_whitespace r"
    using assms(3) by (subst (1 2) split_whitespace.simps) simp
  ultimately show ?thesis
    using assms(1) by (subst split_whitespace.simps) (simp add: d Let_def)
qed

lemma split_whitespace_words:
  "w \<in> set (split_whitespace s) \<Longrightarrow> w \<noteq> [] \<and> (\<forall>c \<in> set w. \<not> is_whitespace c)"
proof (induction s rule: split_whitespace.induct)
  case (1 s)
  define r where "r = dropWhile is_whitespace s"
  have eq: "split_whitespace s = (if r = [] then []
      else takeWhile (\<lambda>c. \<not> is_whitespace c) r # split_whitespace (dropWhile (\<lambda>c. \<not> is_whitespace c) r))"
    unfolding r_def by (subst split_whitespace.simps) (simp only: Let_def)
  then have "r \<noteq> []" using 1(2) by auto
  then have "\<not> is_whitespace (hd r)" using hd_dropWhile r_def by blast
  then have "takeWhile (\<lambda>c. \<not> is_whitespace c) r \<noteq> []" using \<open>r \<noteq> []\<close> by (cases r) auto
  moreover from 1(2) \<open>r \<noteq> []\<close>
  have "w = takeWhile (\<lambda>c. \<not> is_whitespace c) r \<or> w \<in> set (split_whitespace (dropWhile (\<lambda>c. \<not> is_whitespace c) r))"
    unfolding eq by simp
  ultimately show ?case
    using 1(1) [OF r_def \<open>r \<noteq> []\<close>] set_takeWhileD by metis
qed

end
