(* ===== verification/Health_Probe.thy ===== *)
theory Health_Probe
  imports Net_Addr Std_Text
begin

text \<open>
  \<^verbatim>\<open>src/main.rs\<close>, \<^verbatim>\<open>health_probe\<close>: the \<^verbatim>\<open>health-check\<close> subcommand. The exchange with the server is three
  calls of the TCP library, each of which ends after some time or never does; the deadline cuts
  the whole of it. The texts of an address and of a status are the library's, and arguments here.
\<close>

section \<open>Calls that take time\<close>

text \<open>What a future of the async runtime comes to: a result after some milliseconds, or nothing ever.\<close>

datatype 'a io = Finish nat "string + 'a" | Hang

definition io_then :: "'a io \<Rightarrow> ('a \<Rightarrow> 'b io) \<Rightarrow> 'b io" where
  "io_then m k =
     (case m of
        Hang \<Rightarrow> Hang
      | Finish d (Inl e) \<Rightarrow> Finish d (Err e)
      | Finish d (Inr x) \<Rightarrow> (case k x of Hang \<Rightarrow> Hang | Finish d' r \<Rightarrow> Finish (d + d') r))"

text \<open>
  A deadline on a call that takes time: the time until it is over, and the result if it came in time. This is
  the documented behaviour of \<^verbatim>\<open>tokio::time::timeout\<close>, whose source is not in the repository, with a timer that
  fires exactly.
\<close>

definition timeout :: "nat \<Rightarrow> 'a io \<Rightarrow> nat \<times> (string + 'a) option" where
  "timeout limit m =
     (case m of
        Hang \<Rightarrow> (limit, None)
      | Finish d r \<Rightarrow> if d \<le> limit then (d, Some r) else (limit, None))"


lemma timeout_bound: "fst (timeout limit m) \<le> limit"
  by (simp add: timeout_def split: io.split)

lemma timeout_Some:
  "timeout limit m = (d, Some r) \<longleftrightarrow> m = Finish d r \<and> d \<le> limit"
  by (auto simp: timeout_def split: io.splits if_splits)


section \<open>The probe\<close>

text \<open>The connection is a type variable: writing to it gives the connection to read from.\<close>

record 'c net =
  tcp_connect :: "socket_addr \<Rightarrow> 'c io"
  write_all :: "'c \<Rightarrow> bytes \<Rightarrow> 'c io"
  read_to_end :: "'c \<Rightarrow> bytes io"

definition probe_addr :: "socket_addr \<Rightarrow> socket_addr" where
  "probe_addr listen =
     (if is_unspecified (ip listen)
      then listen\<lparr>ip := (case ip listen of V4 _ \<Rightarrow> ipv4_localhost | V6 _ \<Rightarrow> ipv6_localhost)\<rparr>
      else listen)"

definition probe_request :: bytes where
  "probe_request = as_bytes
     (''GET /health HTTP/1.1'' @ [CHR 0x0D, CHR 0x0A] @ ''Host: localhost'' @ [CHR 0x0D, CHR 0x0A] @
      ''Connection: close'' @ [CHR 0x0D, CHR 0x0A, CHR 0x0D, CHR 0x0A])"

definition probe_exchange :: "'c net \<Rightarrow> socket_addr \<Rightarrow> bytes io" where
  "probe_exchange net addr =
     io_then (tcp_connect net addr) (\<lambda>stream.
     io_then (write_all net stream probe_request) (\<lambda>stream'.
     read_to_end net stream'))"

text \<open>The status code of an answer: a \<^verbatim>\<open>u16\<close> from 100 to 999, the second word of the first line.\<close>

definition response_status :: "bytes \<Rightarrow> nat option" where
  "response_status response =
     Option.bind (first_line (from_utf8_lossy response)) (\<lambda>line.
     Option.bind (case drop 1 (split_whitespace line) of [] \<Rightarrow> None | c # _ \<Rightarrow> Some c) (\<lambda>code.
     Option.bind (parse_unsigned (2 ^ 16) (concat code)) (\<lambda>n.
     if 100 \<le> n \<and> n < 1000 then Some n else None)))"

definition PROBE_TIMEOUT_MS :: nat where
  "PROBE_TIMEOUT_MS = 5000"

text \<open>What the probe makes of an answer, and the probe: how long it takes, and its result.\<close>

definition probe_verdict :: "(nat \<Rightarrow> string) \<Rightarrow> string \<Rightarrow> bytes \<Rightarrow> string + unit" where
  "probe_verdict show_status url response =
     try_then (ok_or (response_status response) (url @ '' returned a malformed response'')) (\<lambda>st.
     if 200 \<le> st \<and> st < 300 then Ok ()
     else Err (url @ '' returned '' @ show_status st))"

definition health_probe ::
  "'c net \<Rightarrow> (socket_addr \<Rightarrow> string) \<Rightarrow> (nat \<Rightarrow> string) \<Rightarrow> socket_addr \<Rightarrow> nat \<times> (string + unit)" where
  "health_probe net show_addr show_status listen =
     (let addr = probe_addr listen;
          url = ''http://'' @ show_addr addr @ ''/health'' in
      case timeout PROBE_TIMEOUT_MS (probe_exchange net addr) of
        (d, None) \<Rightarrow> (d, Err (url @ '' did not answer within 5s''))
      | (d, Some (Inl e)) \<Rightarrow> (d, Err (url @ '' request failed''))
      | (d, Some (Inr response)) \<Rightarrow> (d, probe_verdict show_status url response))"



lemma health_probe_time: "fst (health_probe net sa ss listen) = fst (timeout PROBE_TIMEOUT_MS (probe_exchange net (probe_addr listen)))"
  by (auto simp: health_probe_def Let_def split: prod.split option.split sum.split)



section \<open>Reading a status line\<close>

text \<open>The words of a status line are read back, whatever the reason phrase and the rest of the answer are.\<close>

definition token_char :: "char \<Rightarrow> bool" where
  "token_char c \<longleftrightarrow> (32 :: nat) < of_char c \<and> of_char c < (128 :: nat)"

lemma token_char_scalar: "token_char c \<Longrightarrow> \<not> is_whitespace [c]"
  by (auto simp: token_char_def is_whitespace_def)

lemma token_ascii: "list_all token_char w \<Longrightarrow> is_ascii w"
  by (auto simp: token_char_def is_ascii_def list_all_iff)

lemma concat_singletons [simp]: "concat (map (\<lambda>c. [c]) w) = w"
  by (induction w) simp_all

lemma dec_string_token: "list_all token_char (dec_string n)"
proof -
  have "token_char (digit_char d)" if "d < 10" for d
    using that by (simp add: token_char_def digit_char_def)
  then show ?thesis using dec_string_digits by (fastforce simp: list_all_iff)
qed

lemma response_status_line:
  assumes "v \<noteq> []" "list_all token_char v" "is_ascii reason" "CHR 0x0A \<notin> set reason"
    and "100 \<le> n" "n < 1000"
  shows "response_status (as_bytes (v @ '' '' @ dec_string n @ '' '' @ reason @ [CHR 0x0D, CHR 0x0A]) @ rest) = Some n"
proof -
  let ?s = "\<lambda>w. map (\<lambda>c. [c]) w :: scalar list"
  let ?line = "?s v @ '' '' # ?s (dec_string n) @ '' '' # ?s reason"
  have word: "\<forall>c \<in> set (?s w). \<not> is_whitespace c" if "list_all token_char w" for w
    using that token_char_scalar by (auto simp: list_all_iff)
  have sp: "is_whitespace '' ''" by (simp add: is_whitespace_def)
  have ascii: "is_ascii (v @ '' '' @ dec_string n @ '' '' @ reason @ [CHR 0x0D, CHR 0x0A])"
    using assms(2,3) dec_string_token [of n] by (auto simp: is_ascii_def list_all_iff token_char_def)
  have no_lf: "[CHR 0x0A] \<notin> set ?line"
    using assms(2,4) dec_string_token [of n] by (auto simp: list_all_iff token_char_def)
  have "from_utf8_lossy (as_bytes (v @ '' '' @ dec_string n @ '' '' @ reason @ [CHR 0x0D, CHR 0x0A]) @ rest)
      = ?line @ [CHR 0x0D] # [CHR 0x0A] # from_utf8_lossy rest"
    using from_utf8_lossy_ascii_append [OF ascii, of rest] by simp
  then have line: "first_line (from_utf8_lossy
      (as_bytes (v @ '' '' @ dec_string n @ '' '' @ reason @ [CHR 0x0D, CHR 0x0A]) @ rest)) = Some ?line"
    using first_line_crlf [OF no_lf] by simp
  have words: "split_whitespace ?line = ?s v # ?s (dec_string n) # split_whitespace (?s reason)"
    using split_whitespace_word [OF _ word [OF assms(2)] sp] split_whitespace_word [OF _ word [OF dec_string_token] sp]
      assms(1) by simp
  show ?thesis
    unfolding response_status_def line using assms(5,6) by (simp add: words parse_unsigned_dec_string)
qed

section \<open>Properties\<close>


text \<open>
  C37. The health check always ends: it takes at most five seconds, whatever the server does; and when
  connecting, sending or reading never ends, its result after the five seconds is the error that says so.
\<close>

theorem health_probe_ends:
  "fst (health_probe net show_addr show_status listen) \<le> 5000
   \<and> (probe_exchange net (probe_addr listen) = Hang \<longrightarrow>
        health_probe net show_addr show_status listen
        = (5000, Err (''http://'' @ show_addr (probe_addr listen) @ ''/health did not answer within 5s'')))
   \<and> (tcp_connect net (probe_addr listen) = Hang
        \<or> (\<exists>c d. tcp_connect net (probe_addr listen) = Finish d (Ok c)
             \<and> (write_all net c probe_request = Hang
                \<or> (\<exists>c' d'. write_all net c probe_request = Finish d' (Ok c') \<and> read_to_end net c' = Hang)))
      \<longrightarrow> probe_exchange net (probe_addr listen) = Hang)"
proof -
  have "fst (health_probe net show_addr show_status listen) \<le> 5000"
    using timeout_bound [of PROBE_TIMEOUT_MS] by (simp add: health_probe_time PROBE_TIMEOUT_MS_def)
  then show ?thesis
    by (auto simp: health_probe_def Let_def timeout_def PROBE_TIMEOUT_MS_def probe_exchange_def io_then_def)
qed

definition ex_addr :: socket_addr where
  "ex_addr = \<lparr>ip = V4 [0, 0, 0, 0], port = 3402, scope_id = 0\<rparr>"

text \<open>A server that takes a fifth of a second to connect and answers with the bytes it is given, or never.\<close>

definition ex_net :: "bytes io \<Rightarrow> unit net" where
  "ex_net answer =
     \<lparr>tcp_connect = (\<lambda>_. Finish 200 (Ok ())), write_all = (\<lambda>_ _. Finish 1 (Ok ())), read_to_end = (\<lambda>_. answer)\<rparr>"

theorem health_probe_ends_witness:
  "health_probe (ex_net Hang) (\<lambda>_. ''127.0.0.1:3402'') (\<lambda>_. ''200 OK'') ex_addr
   = (5000, Err ''http://127.0.0.1:3402/health did not answer within 5s'')"
  using health_probe_ends [of "ex_net Hang" "\<lambda>_. ''127.0.0.1:3402''" "\<lambda>_. ''200 OK''" ex_addr]
  by (simp add: ex_net_def)

text \<open>
  The probe reads what a server writes: for an answer in time whose first line is a version, a
  three-digit status and an ASCII reason phrase, whatever bytes follow, the probe succeeds for a status
  from 200 to 299, and otherwise its error names that status.
\<close>

lemma probe_reads_status:
  assumes "version \<noteq> []" "list_all token_char version" "is_ascii reason" "CHR 0x0A \<notin> set reason"
    and "100 \<le> n" "n < 1000"
    and "probe_exchange net (probe_addr listen) = Finish d (Ok
      (as_bytes (version @ '' '' @ dec_string n @ '' '' @ reason @ [CHR 0x0D, CHR 0x0A]) @ rest))"
    and "d \<le> 5000"
  shows "health_probe net show_addr show_status listen =
    (d, if 200 \<le> n \<and> n < 300 then Ok ()
        else Err (''http://'' @ show_addr (probe_addr listen) @ ''/health'' @ '' returned '' @ show_status n))"
proof -
  define r where "r = as_bytes (version @ '' '' @ dec_string n @ '' '' @ reason @ [CHR 0x0D, CHR 0x0A]) @ rest"
  define url where "url = ''http://'' @ show_addr (probe_addr listen) @ ''/health''"
  have "timeout PROBE_TIMEOUT_MS (probe_exchange net (probe_addr listen)) = (d, Some (Ok r))"
    using assms(7,8) by (simp add: timeout_Some PROBE_TIMEOUT_MS_def r_def)
  then have "health_probe net show_addr show_status listen = (d, probe_verdict show_status url r)"
    by (simp add: health_probe_def Let_def url_def)
  moreover have "probe_verdict show_status url r = (if 200 \<le> n \<and> n < 300 then Ok () else Err (url @ '' returned '' @ show_status n))"
    by (simp only: probe_verdict_def response_status_line [OF assms(1-6), of rest, folded r_def] ok_or_simps try_then_simps)
  ultimately show ?thesis by (simp only: url_def append_assoc)
qed

lemma probe_reads_status_example:
  "health_probe (ex_net (Finish 3 (Ok (as_bytes (''HTTP/1.1 503 Service Unavailable'' @ [CHR 0x0D, CHR 0x0A])))))
     (\<lambda>_. ''127.0.0.1:3402'') (\<lambda>_. ''503 Service Unavailable'') ex_addr
   = (204, Err ''http://127.0.0.1:3402/health returned 503 Service Unavailable'')"
proof -
  have d: "dec_string 503 = ''503''"
    by (simp add: dec_string.simps digit_char_def char_of_def bit_0)
  show ?thesis
    using probe_reads_status [of "''HTTP/1.1''" "''Service Unavailable''" 503
        "ex_net (Finish 3 (Ok (as_bytes (''HTTP/1.1 503 Service Unavailable'' @ [CHR 0x0D, CHR 0x0A]))))"
        ex_addr 204 "[]" "\<lambda>_. ''127.0.0.1:3402''" "\<lambda>_. ''503 Service Unavailable''"]
    by (simp add: d token_char_def is_ascii_def ex_net_def probe_exchange_def io_then_def)
qed

end
