(* ===== verification/Main_App.thy ===== *)
theory Main_App
  imports Handlers X402_Handler Systemd Health_Probe
begin

text \<open>
  \<^verbatim>\<open>src/main.rs\<close>: the command line, the startup, the routes, the shutdown, and the program as a whole.
  What the program asks its surroundings for is the record \<open>process\<close>; what it does to them is a
  list of effects.
\<close>

section \<open>The command line\<close>

datatype command = Serve | HealthCheck

text \<open>The \<^verbatim>\<open>Debug\<close> form of an ASCII string: quoted, with its special characters escaped.\<close>

definition debug_char :: "char \<Rightarrow> string" where
  "debug_char c =
     (if c = CHR 0x22 \<or> c = CHR 0x5C then [CHR 0x5C, c]
      else if c = CHR 0x0A then [CHR 0x5C, CHR ''n'']
      else if c = CHR 0x0D then [CHR 0x5C, CHR ''r'']
      else if c = CHR 0x09 then [CHR 0x5C, CHR ''t'']
      else if c = CHR 0x00 then [CHR 0x5C, CHR ''0'']
      else if of_char c < (32 :: nat) \<or> of_char c = (127 :: nat)
      then [CHR 0x5C] @ ''u{'' @
           (if of_char c < (16 :: nat) then [] else [hex_digit (of_char c div 16)]) @
           [hex_digit (of_char c mod 16)] @ ''}''
      else [c])"

definition debug_string :: "string \<Rightarrow> string" where
  "debug_string s = [CHR 0x22] @ concat (map debug_char s) @ [CHR 0x22]"

definition parse_command :: "string list \<Rightarrow> string + command" where
  "parse_command args =
     (case drop 1 args of
        [] \<Rightarrow> Ok Serve
      | a # _ \<Rightarrow>
          if a = ''health-check'' then Ok HealthCheck
          else Err (''unknown command '' @ debug_string a @ '', expected `health-check`''))"

section \<open>Startup and routes\<close>

datatype route = IndexRoute | FortuneRoute | HealthRoute | X402Route

definition app_routes :: "bool \<Rightarrow> (string \<times> route) list" where
  "app_routes x402_enabled =
     [(''/'', IndexRoute), (''/fortune'', FortuneRoute), (''/health'', HealthRoute)] @
     (if x402_enabled then [(fst x402_router, X402Route)] else [])"

record 'w app =
  app_config :: config
  app_rpc :: "'w lnd_rpc"
  app_x402 :: "x402_state option"

text \<open>
  The startup: the configuration, the connection to the node, and the state of \<^verbatim>\<open>/x402\<close>. It
  gives the application and its first state: the node's and the replay table.
\<close>

definition startup ::
  "crates \<Rightarrow> bytes \<Rightarrow> (string \<Rightarrow> string \<Rightarrow> string \<Rightarrow> string + 'w lnd_rpc \<times> 'w)
     \<Rightarrow> (string \<Rightarrow> string + table) \<Rightarrow> env \<Rightarrow> string + 'w app \<times> 'w \<times> table" where
  "startup C random_key dial open_store env =
     try_then (from_env C random_key env) (\<lambda>cfg.
     try_then (map_err app_error_to_string (connect dial cfg)) (\<lambda>(rpc, w).
     case x402_from_app C rpc cfg open_store w of
       (Inl e, w') \<Rightarrow> Err e
     | (Inr None, w') \<Rightarrow> Ok (\<lparr>app_config = cfg, app_rpc = rpc, app_x402 = None\<rparr>, w', [])
     | (Inr (Some (x, store)), w') \<Rightarrow>
         Ok (\<lparr>app_config = cfg, app_rpc = rpc, app_x402 = Some x\<rparr>, w', store)))"

section \<open>Shutdown\<close>

text \<open>
  A future that a \<^verbatim>\<open>select!\<close> waits for: when it is ready and with what, or never. Ctrl+C ends with an
  error when its handler cannot be installed; SIGTERM has its handler installed at the first poll.
\<close>

type_synonym branch = "(nat \<times> (string, unit) outcome) option"

definition ctrl_c_branch :: "unit io \<Rightarrow> branch" where
  "ctrl_c_branch c =
     (case c of
        Hang \<Rightarrow> None
      | Finish d (Inl e) \<Rightarrow> Some (d, Panic ''failed to create Ctrl+C shutdown signal'')
      | Finish d (Inr _) \<Rightarrow> Some (d, Return ()))"

definition terminate_branch :: "string + nat option \<Rightarrow> branch" where
  "terminate_branch t =
     (case t of
        Inl e \<Rightarrow> Some (0, Panic ''failed to create SIGTERM shutdown signal'')
      | Inr None \<Rightarrow> None
      | Inr (Some d) \<Rightarrow> Some (d, Return ()))"

text \<open>
  \<^verbatim>\<open>tokio::select!\<close> is an argument: what it makes of two futures. It is documented to give the result of a
  branch that completes first, polling them in random order.
\<close>

type_synonym select2 = "branch \<Rightarrow> branch \<Rightarrow> branch"

definition shutdown_signal :: "select2 \<Rightarrow> unit io \<Rightarrow> string + nat option \<Rightarrow> branch" where
  "shutdown_signal select ctrl_c sigterm = select (ctrl_c_branch ctrl_c) (terminate_branch sigterm)"

definition selects_first :: "select2 \<Rightarrow> bool" where
  "selects_first select \<longleftrightarrow>
     (\<forall>a b. (select a b = a \<or> select a b = b)
        \<and> (case select a b of
             None \<Rightarrow> a = None \<and> b = None
           | Some (d, _) \<Rightarrow> (\<forall>e y. a = Some (e, y) \<or> b = Some (e, y) \<longrightarrow> d \<le> e)))"

section \<open>The program\<close>

text \<open>
  What the libraries and the operating system answer: the installation of the crypto provider; the
  environment after \<^verbatim>\<open>.env\<close> was loaded, with an error that is dropped; the log filter of the environment,
  if it has one; randomness for a root key; the connection to the node; the replay database; the
  listener; the watchdog's timeout; the signals; \<^verbatim>\<open>select!\<close>; when serving returns and with what, given the
  shutdown signal (never returning is \<open>None\<close>); and what the health probe uses.
\<close>

record ('w, 'c) process =
  p_install_provider :: "string + unit"
  p_dotenv :: "env \<Rightarrow> (string + string) \<times> env"
  p_env_filter :: "env \<Rightarrow> string + string"
  p_random_key :: bytes
  p_dial :: "string \<Rightarrow> string \<Rightarrow> string \<Rightarrow> string + 'w lnd_rpc \<times> 'w"
  p_open_store :: "string \<Rightarrow> string + table"
  p_bind :: "socket_addr \<Rightarrow> string + unit"
  p_watchdog :: "nat option"
  p_ctrl_c :: "unit io"
  p_sigterm :: "string + nat option"
  p_select :: select2
  p_serve :: "branch \<Rightarrow> (nat \<times> (string, unit) outcome) option"
  p_net :: "'c net"
  p_show_addr :: "socket_addr \<Rightarrow> string"
  p_show_status :: "nat \<Rightarrow> string"

datatype main_effect =
    InitLogging string
  | SpawnPruner
  | BindListener socket_addr
  | SpawnWatchdog "nat option"
  | Notify "notify_state list"

definition log_filter :: "('w, 'c) process \<Rightarrow> env \<Rightarrow> string" where
  "log_filter P env =
     (case p_env_filter P env of Inl _ \<Rightarrow> ''fortune_402=info,tower_http=info'' | Inr f \<Rightarrow> f)"

definition main_signal :: "('w, 'c) process \<Rightarrow> branch" where
  "main_signal P = shutdown_signal (p_select P) (p_ctrl_c P) (p_sigterm P)"

definition returned :: "string + 'a \<Rightarrow> (string, 'a) outcome" where
  "returned r = (case r of Inl e \<Rightarrow> Fail e | Inr x \<Rightarrow> Return x)"

text \<open>
  Serving on the bound listener: readiness first, and the stopping notification when the signal is there
  before serving returns. The effects are those of the main task, in order; the task of the watchdog, which
  it spawns, pings beside them until the process ends, also while the last requests are served (\<open>Systemd\<close>).
\<close>

definition stopping_reported :: "('w, 'c) process \<Rightarrow> bool" where
  "stopping_reported P =
     (case main_signal P of
        Some (d, Return _) \<Rightarrow> (case p_serve P (main_signal P) of None \<Rightarrow> True | Some (e, _) \<Rightarrow> d \<le> e)
      | _ \<Rightarrow> False)"

definition serve_until_shutdown ::
  "('w, 'c) process \<Rightarrow> socket_addr \<Rightarrow> (string, unit) outcome option \<times> main_effect list" where
  "serve_until_shutdown P addr =
     (map_option snd (p_serve P (main_signal P)),
      [SpawnWatchdog (watchdog_interval (p_watchdog P)),
       Notify [Ready, Status (''Serving on http://'' @ p_show_addr P addr)]] @
      (if stopping_reported P then [Notify [Stopping]] else []))"

definition run_server ::
  "crates \<Rightarrow> ('w, 'c) process \<Rightarrow> env \<Rightarrow> (string, unit) outcome option \<times> main_effect list" where
  "run_server C P env =
     (case startup C (p_random_key P) (p_dial P) (p_open_store P) env of
        Inl e \<Rightarrow> (Some (Fail e), [])
      | Inr (app, _) \<Rightarrow>
          let addr = listen_addr (app_config app);
              before = (if app_x402 app = None then [] else [SpawnPruner]) @ [BindListener addr] in
          (case p_bind P addr of
             Inl e \<Rightarrow> (Some (Fail e), before)
           | Inr _ \<Rightarrow>
               (case serve_until_shutdown P addr of (res, effects) \<Rightarrow> (res, before @ effects))))"

text \<open>The program: its result, if it ends, and its effects in order.\<close>

definition run_main ::
  "crates \<Rightarrow> ('w, 'c) process \<Rightarrow> string list \<Rightarrow> env
     \<Rightarrow> (string, unit) outcome option \<times> main_effect list" where
  "run_main C P args env0 =
     (case p_install_provider P of
        Inl _ \<Rightarrow> (Some (Panic ''Failed to install rustls crypto provider''), [])
      | Inr _ \<Rightarrow>
          let env = snd (p_dotenv P env0) in
          (case parse_command args of
             Inl e \<Rightarrow> (Some (Fail e), [])
           | Inr HealthCheck \<Rightarrow>
               (Some (returned (try_then (listen_addr_from_env env) (\<lambda>addr.
                  snd (health_probe (p_net P) (p_show_addr P) (p_show_status P) addr)))), [])
           | Inr Serve \<Rightarrow>
               (case run_server C P env of
                  (res, effects) \<Rightarrow> (res, InitLogging (log_filter P env) # effects))))"

section \<open>Requests\<close>

text \<open>
  One request: the handler of its path, or \<open>None\<close> where the framework answers by itself (an
  unknown path, a method the route does not have, or a body that the extractor of \<^verbatim>\<open>/x402\<close> refuses with 413:
  it takes one of at most two megabytes, the default limit of \<^verbatim>\<open>axum\<close>).
\<close>

definition BODY_LIMIT :: nat where
  "BODY_LIMIT = 2097152"

definition serve ::
  "crates \<Rightarrow> 'w app \<Rightarrow> x402_env \<Rightarrow> request \<Rightarrow> 'w \<times> table
     \<Rightarrow> ((app_error, response) outcome \<times> 'w \<times> table) option" where
  "serve C app env rq st =
     (if rq_method rq \<noteq> ''GET'' \<and> rq_method rq \<noteq> ''HEAD'' then None
      else case map_of (app_routes (app_x402 app \<noteq> None)) (rq_path rq) of
        None \<Rightarrow> None
      | Some IndexRoute \<Rightarrow> Some (Return index_page, st)
      | Some HealthRoute \<Rightarrow> Some (Return health, st)
      | Some FortuneRoute \<Rightarrow>
          (case st of (w, store) \<Rightarrow>
           case l402_get_fortune C (app_rpc app) (app_config app) (e_random env) (rq_headers rq) w of
             (out, w') \<Rightarrow> Some (out, w', store))
      | Some X402Route \<Rightarrow>
          (case app_x402 app of
             None \<Rightarrow> None
           | Some x \<Rightarrow>
               if BODY_LIMIT < length (rq_body rq) then None
               else Some (x402_get_fortune C (app_issue (app_rpc app)) x env rq st)))"

section \<open>Properties\<close>

lemma connect_Ok:
  "connect dial cfg = Ok c \<longleftrightarrow>
     dial (lnd_address cfg) (lnd_cert_path cfg) (lnd_macaroon_path cfg) = Ok c"
  by (simp add: connect_def map_err_Ok)

lemma startup_Ok:
  assumes "startup C key dial open_store env = Ok (app, w, store)"
  obtains w0 where "from_env C key env = Ok (app_config app)"
    "connect dial (app_config app) = Ok (app_rpc app, w0)"
    "x402_from_app C (app_rpc app) (app_config app) open_store w0 =
       (Ok (map_option (\<lambda>x. (x, store)) (app_x402 app)), w)"
    "app_x402 app = None \<Longrightarrow> store = []"
proof -
  obtain cfg rpc w0 where c: "from_env C key env = Ok cfg" "connect dial cfg = Ok (rpc, w0)"
    using assms by (auto simp: startup_def result_simps)
  with assms have "(case x402_from_app C rpc cfg open_store w0 of
       (Inl e, w') \<Rightarrow> Err e
     | (Inr None, w') \<Rightarrow> Ok (\<lparr>app_config = cfg, app_rpc = rpc, app_x402 = None\<rparr>, w', [])
     | (Inr (Some (x, store)), w') \<Rightarrow>
         Ok (\<lparr>app_config = cfg, app_rpc = rpc, app_x402 = Some x\<rparr>, w', store)) = Ok (app, w, store)"
    by (simp add: startup_def)
  then show thesis
    using that c by (auto split: prod.split_asm sum.split_asm option.split_asm)
qed

lemma run_server_ready:
  assumes "run_server C P env = (res, effects)" and "Notify (Ready # others) \<in> set effects"
  obtains app st where "startup C (p_random_key P) (p_dial P) (p_open_store P) env = Ok (app, st)"
    "p_bind P (listen_addr (app_config app)) = Ok ()"
    "res = fst (serve_until_shutdown P (listen_addr (app_config app)))"
    "effects = (if app_x402 app = None then [] else [SpawnPruner]) @ [BindListener (listen_addr (app_config app))] @
       snd (serve_until_shutdown P (listen_addr (app_config app)))"
proof -
  obtain app st where s: "startup C (p_random_key P) (p_dial P) (p_open_store P) env = Ok (app, st)"
    using assms by (auto simp: run_server_def split: sum.split_asm)
  moreover obtain "p_bind P (listen_addr (app_config app)) = Ok ()"
    using assms s by (cases "p_bind P (listen_addr (app_config app))") (auto simp: run_server_def Let_def split: if_splits)
  ultimately show thesis
    using that assms(1) by (auto simp: run_server_def Let_def split: prod.split_asm)
qed

text \<open>What a run in which readiness was reported has done, and how it ends.\<close>

definition ready_effects :: "('w, 'c) process \<Rightarrow> env \<Rightarrow> main_effect list \<Rightarrow> socket_addr \<Rightarrow> main_effect list" where
  "ready_effects P env pruner addr =
     InitLogging (log_filter P env) # pruner @
     [BindListener addr, SpawnWatchdog (watchdog_interval (p_watchdog P)),
      Notify [Ready, Status (''Serving on http://'' @ p_show_addr P addr)]] @
     (if stopping_reported P then [Notify [Stopping]] else [])"

lemma run_main_ready:
  assumes "run_main C P args env0 = (res, effects)" and "Notify (Ready # others) \<in> set effects"
  obtains app st pruner where "startup C (p_random_key P) (p_dial P) (p_open_store P) (snd (p_dotenv P env0)) = Ok (app, st)"
    "p_bind P (listen_addr (app_config app)) = Ok ()" "res = map_option snd (p_serve P (main_signal P))"
    "pruner \<in> {[], [SpawnPruner]}"
    "effects = ready_effects P (snd (p_dotenv P env0)) pruner (listen_addr (app_config app))"
proof -
  obtain es where run: "run_server C P (snd (p_dotenv P env0)) = (res, es)" "Notify (Ready # others) \<in> set es"
    "effects = InitLogging (log_filter P (snd (p_dotenv P env0))) # es"
    using assms by (auto simp: run_main_def Let_def split: sum.split_asm command.split_asm prod.split_asm)
  obtain app st where app: "startup C (p_random_key P) (p_dial P) (p_open_store P) (snd (p_dotenv P env0)) = Ok (app, st)"
    "p_bind P (listen_addr (app_config app)) = Ok ()"
    "res = fst (serve_until_shutdown P (listen_addr (app_config app)))"
    "es = (if app_x402 app = None then [] else [SpawnPruner]) @ [BindListener (listen_addr (app_config app))] @
       snd (serve_until_shutdown P (listen_addr (app_config app)))"
    using run(1,2) by (rule run_server_ready)
  show thesis
    using that [OF app(1,2), of "if app_x402 app = None then [] else [SpawnPruner]"] app(3,4) run(3)
    by (simp add: ready_effects_def serve_until_shutdown_def)
qed

text \<open>
  C35. Readiness is reported only by a server that works: when the program tells the service
  manager that it is ready, the configuration was loaded, the connection to the node was made, and
  the listener was bound to the configured address before, in this order after the logging was set up;
  the stopping notification is the last thing the main task does, and it is sent iff the shutdown signal came,
  without an error, before serving returned.
\<close>

theorem ready_after_bind:
  assumes "run_main C P args env0 = (res, effects)"
    and "Notify (Ready # others) \<in> set effects"
  shows "\<exists>cfg pruner. from_env C (p_random_key P) (snd (p_dotenv P env0)) = Ok cfg
    \<and> \<not> isl (p_dial P (lnd_address cfg) (lnd_cert_path cfg) (lnd_macaroon_path cfg))
    \<and> p_bind P (listen_addr cfg) = Ok () \<and> res = map_option snd (p_serve P (main_signal P)) \<and> pruner \<in> {[], [SpawnPruner]}
    \<and> effects = InitLogging (log_filter P (snd (p_dotenv P env0))) # pruner @
        [BindListener (listen_addr cfg), SpawnWatchdog (watchdog_interval (p_watchdog P)),
         Notify [Ready, Status (''Serving on http://'' @ p_show_addr P (listen_addr cfg))]] @
        (case main_signal P of
           Some (d, Return _) \<Rightarrow>
             (case p_serve P (main_signal P) of
                None \<Rightarrow> [Notify [Stopping]]
              | Some (e, _) \<Rightarrow> if d \<le> e then [Notify [Stopping]] else [])
         | _ \<Rightarrow> [])"
proof -
  obtain app st pruner where app:
    "startup C (p_random_key P) (p_dial P) (p_open_store P) (snd (p_dotenv P env0)) = Ok (app, st)"
    "p_bind P (listen_addr (app_config app)) = Ok ()" "res = map_option snd (p_serve P (main_signal P))"
    "pruner \<in> {[], [SpawnPruner]}"
    "effects = ready_effects P (snd (p_dotenv P env0)) pruner (listen_addr (app_config app))"
    using assms by (rule run_main_ready)
  obtain w store where st: "st = (w, store)" by (cases st)
  obtain w0 where c: "from_env C (p_random_key P) (snd (p_dotenv P env0)) = Ok (app_config app)"
    "connect (p_dial P) (app_config app) = Ok (app_rpc app, w0)"
    using app(1) [unfolded st] by (rule startup_Ok)
  have dial: "\<not> isl (p_dial P (lnd_address (app_config app)) (lnd_cert_path (app_config app))
      (lnd_macaroon_path (app_config app)))"
    using c(2) by (simp add: connect_Ok)
  have stop: "(if stopping_reported P then [Notify [Stopping]] else []) =
      (case main_signal P of
         Some (d, Return _) \<Rightarrow>
           (case p_serve P (main_signal P) of
              None \<Rightarrow> [Notify [Stopping]]
            | Some (e, _) \<Rightarrow> if d \<le> e then [Notify [Stopping]] else [])
       | _ \<Rightarrow> [])"
    by (auto simp: stopping_reported_def split: option.split outcome.split)
  show ?thesis using c(1) dial app(2-4) app(5) [unfolded ready_effects_def stop] by blast
qed

text \<open>
  A process whose libraries all work, with the signals and the answer to the probe given; its last requests take
  two units of time.
\<close>

definition ex_select :: select2 where
  "ex_select a b =
     (case a of
        None \<Rightarrow> b
      | Some (d, _) \<Rightarrow> (case b of None \<Rightarrow> a | Some (e, _) \<Rightarrow> if d \<le> e then a else b))"

definition ex_serving :: "branch \<Rightarrow> (nat \<times> (string, unit) outcome) option" where
  "ex_serving sig = (case sig of None \<Rightarrow> None | Some (d, _) \<Rightarrow> Some (d + 2, Return ()))"

lemma ex_select_first: "selects_first ex_select"
  by (auto simp: selects_first_def ex_select_def split: option.split)

definition ex_process :: "unit io \<Rightarrow> string + nat option \<Rightarrow> bytes io \<Rightarrow> (nat, unit) process" where
  "ex_process ctrl_c sigterm answer =
     \<lparr>p_install_provider = Ok (), p_dotenv = (\<lambda>env. (Err ''path not found'', env)),
      p_env_filter = (\<lambda>env. ok_or (env ''RUST_LOG'') ''environment variable not found''),
      p_random_key = replicate 32 1, p_dial = (\<lambda>_ _ _. Ok (ex_rpc, 0)), p_open_store = (\<lambda>_. Ok []),
      p_bind = (\<lambda>_. Ok ()), p_watchdog = Some 30, p_ctrl_c = ctrl_c, p_sigterm = sigterm,
      p_select = ex_select, p_serve = ex_serving,
      p_net = ex_net answer, p_show_addr = (\<lambda>_. ''0.0.0.0:3402''), p_show_status = (\<lambda>_. ''200 OK'')\<rparr>"

definition ex_min_env :: env where
  "ex_min_env = [''LND_CERT_PATH'' \<mapsto> ''c'', ''LND_MACAROON_PATH'' \<mapsto> ''m'']"

lemma startup_ex:
  "startup (ref_crates [] []) (replicate 32 1) (\<lambda>_ _ _. Ok (ex_rpc, 0)) (\<lambda>_. Ok []) ex_min_env =
     Ok (\<lparr>app_config = default_settings ''c'' ''m'' (replicate 32 1), app_rpc = ex_rpc, app_x402 = None\<rparr>, 0, [])"
  by (simp add: ex_min_env_def startup_def from_env_default connect_def x402_from_app_def default_settings_def)

lemma run_main_ex:
  "run_main (ref_crates [] []) (ex_process ctrl_c sigterm answer) [''fortune-402''] ex_min_env =
     (map_option (\<lambda>_. Return ()) (shutdown_signal ex_select ctrl_c sigterm),
      [InitLogging ''fortune_402=info,tower_http=info'', BindListener ex_addr, SpawnWatchdog (Some 15),
       Notify [Ready, Status ''Serving on http://0.0.0.0:3402'']] @
      (case shutdown_signal ex_select ctrl_c sigterm of Some (_, Return _) \<Rightarrow> [Notify [Stopping]] | _ \<Rightarrow> []))"
proof -
  have "ex_min_env ''RUST_LOG'' = None" by (simp add: ex_min_env_def)
  then show ?thesis
    by (simp add: run_main_def run_server_def serve_until_shutdown_def parse_command_def ex_process_def startup_ex
        log_filter_def main_signal_def watchdog_interval_def default_settings_def ex_addr_def
        stopping_reported_def ex_serving_def split: option.split outcome.split)
qed

theorem ready_after_bind_witness:
  "\<exists>cfg. from_env (ref_crates [] []) (replicate 32 1) ex_min_env = Ok cfg
     \<and> snd (run_main (ref_crates [] []) (ex_process Hang (Ok (Some 7)) Hang) [''fortune-402''] ex_min_env) =
       [InitLogging ''fortune_402=info,tower_http=info'', BindListener (listen_addr cfg), SpawnWatchdog (Some 15),
        Notify [Ready, Status ''Serving on http://0.0.0.0:3402''], Notify [Stopping]]"
proof -
  have "shutdown_signal ex_select Hang (Ok (Some 7)) = Some (7, Return ())"
    by (simp add: shutdown_signal_def ex_select_def ctrl_c_branch_def terminate_branch_def)
  note run = run_main_ex [of Hang "Ok (Some 7)" Hang, unfolded this]
  from ready_after_bind [OF run, of "[Status ''Serving on http://0.0.0.0:3402'']"] run show ?thesis
    by (auto simp: ex_process_def)
qed

section \<open>Shutdown and configuration errors\<close>

text \<open>The earlier of two times, where either may never come.\<close>

definition first_of :: "nat option \<Rightarrow> nat option \<Rightarrow> nat option" where
  "first_of a b =
     (case a of None \<Rightarrow> b | Some d \<Rightarrow> (case b of None \<Rightarrow> Some d | Some e \<Rightarrow> Some (min d e)))"

lemma shutdown_signal_first:
  assumes "selects_first select"
  shows "shutdown_signal select (case ct of None \<Rightarrow> Hang | Some d \<Rightarrow> Finish d (Ok ())) (Ok tt) =
     map_option (\<lambda>d. (d, Return ())) (first_of ct tt)"
proof -
  define a :: branch where "a = map_option (\<lambda>d. (d, Return ())) ct"
  define b :: branch where "b = map_option (\<lambda>d. (d, Return ())) tt"
  have "ctrl_c_branch (case ct of None \<Rightarrow> Hang | Some d \<Rightarrow> Finish d (Ok ())) = a" "terminate_branch (Ok tt) = b"
    by (simp_all add: a_def b_def ctrl_c_branch_def terminate_branch_def split: option.split)
  moreover have "select a b = a \<or> select a b = b"
    "case select a b of None \<Rightarrow> a = None \<and> b = None
       | Some (d, _) \<Rightarrow> (\<forall>e y. a = Some (e, y) \<or> b = Some (e, y) \<longrightarrow> d \<le> e)"
    using assms unfolding selects_first_def by blast+
  then have "select a b = map_option (\<lambda>d. (d, Return ())) (first_of ct tt)"
    by (auto simp: a_def b_def first_of_def min_def split: option.splits)
  ultimately show ?thesis by (simp add: shutdown_signal_def)
qed

text \<open>
  The documented behaviour of \<^verbatim>\<open>axum::serve\<close> with a graceful shutdown: without a signal it never returns; after
  the signal it takes no new connections, and returns without an error when the requests in flight are
  answered, which takes some time that does not depend on this program's startup or shutdown.
\<close>

definition serves_gracefully :: "(branch \<Rightarrow> (nat \<times> (string, unit) outcome) option) \<Rightarrow> (nat \<Rightarrow> nat) \<Rightarrow> bool" where
  "serves_gracefully serving drain \<longleftrightarrow>
     serving None = None \<and> (\<forall>d. serving (Some (d, Return ())) = Some (d + drain d, Return ()))"

text \<open>
  C36. The server stops at the first signal, and only then: in a run that became ready, with the handlers of
  Ctrl+C and SIGTERM installed and the runtime's \<^verbatim>\<open>select!\<close> and \<^verbatim>\<open>serve\<close> as documented, the program ends iff one of
  the two signals comes. It then ends without an error, as soon as the requests that were in flight at the
  earlier of the two are answered; the main task tells the service manager exactly once that it is
  stopping, after it told it that it is ready. Without a signal it runs for ever and never tells it so.
\<close>

theorem shutdown_at_first_signal:
  assumes "run_main C P args env0 = (res, effects)" "Notify (Ready # others) \<in> set effects"
    and "p_ctrl_c P = (case ct of None \<Rightarrow> Hang | Some d \<Rightarrow> Finish d (Ok ()))" "p_sigterm P = Ok tt"
    and "selects_first (p_select P)" "serves_gracefully (p_serve P) drain"
  shows "(res = None) = (ct = None \<and> tt = None)
    \<and> (res \<noteq> None \<longrightarrow> res = Some (Return ())
         \<and> p_serve P (main_signal P) = Some (the (first_of ct tt) + drain (the (first_of ct tt)), Return ()))
    \<and> count_list effects (Notify [Stopping]) = (if ct = None \<and> tt = None then 0 else 1)
    \<and> (\<forall>before after. effects = before @ Notify [Stopping] # after \<longrightarrow> Notify (Ready # others) \<in> set before)"
proof -
  obtain app st pruner where run:
    "startup C (p_random_key P) (p_dial P) (p_open_store P) (snd (p_dotenv P env0)) = Ok (app, st)"
    "p_bind P (listen_addr (app_config app)) = Ok ()" "res = map_option snd (p_serve P (main_signal P))"
    "pruner \<in> {[], [SpawnPruner]}"
    "effects = ready_effects P (snd (p_dotenv P env0)) pruner (listen_addr (app_config app))"
    using assms(1,2) by (rule run_main_ready)
  have sig: "main_signal P = map_option (\<lambda>d. (d, Return ())) (first_of ct tt)"
    unfolding main_signal_def assms(3,4) by (rule shutdown_signal_first [OF assms(5)])
  have none: "first_of ct tt = None \<longleftrightarrow> ct = None \<and> tt = None"
    by (auto simp: first_of_def split: option.split)
  have served: "p_serve P (main_signal P) = map_option (\<lambda>d. (d + drain d, Return ())) (first_of ct tt)"
    using assms(6) by (cases "first_of ct tt") (simp_all add: sig serves_gracefully_def)
  have stop: "stopping_reported P = (first_of ct tt \<noteq> None)"
    using assms(6) by (cases "first_of ct tt") (simp_all add: stopping_reported_def sig serves_gracefully_def)
  define prior where "prior = InitLogging (log_filter P (snd (p_dotenv P env0))) # pruner @
    [BindListener (listen_addr (app_config app)), SpawnWatchdog (watchdog_interval (p_watchdog P)),
     Notify [Ready, Status (''Serving on http://'' @ p_show_addr P (listen_addr (app_config app)))]]"
  have effects: "effects = prior @ (if first_of ct tt \<noteq> None then [Notify [Stopping]] else [])"
    by (simp add: run(5) ready_effects_def stop prior_def)
  have free: "Notify [Stopping] \<notin> set prior" using run(4) by (auto simp: prior_def)
  have ready: "Notify (Ready # others) \<in> set prior" using assms(2) unfolding effects by (auto split: if_splits)
  have "before = prior" if "effects = before @ Notify [Stopping] # after" for before after
  proof (cases "first_of ct tt")
    case None
    then have "Notify [Stopping] \<in> set prior" using that effects by simp
    with free show ?thesis by blast
  next
    case (Some d)
    then show ?thesis using snoc_eq_split [OF free] that effects by simp
  qed
  with ready have "\<forall>before after. effects = before @ Notify [Stopping] # after \<longrightarrow> Notify (Ready # others) \<in> set before"
    by blast
  moreover have "count_list effects (Notify [Stopping]) = (if ct = None \<and> tt = None then 0 else 1)"
    using count_notin [OF free] by (simp add: effects none)
  ultimately show ?thesis
    using none by (auto simp: run(3) served)
qed

theorem shutdown_at_first_signal_witness:
  "fst (run_main (ref_crates [] []) (ex_process (Finish 9 (Ok ())) (Ok (Some 7)) Hang) [''fortune-402''] ex_min_env)
     = Some (Return ())
   \<and> p_serve (ex_process (Finish 9 (Ok ())) (Ok (Some 7)) Hang)
       (main_signal (ex_process (Finish 9 (Ok ())) (Ok (Some 7)) Hang)) = Some (9, Return ())"
proof -
  let ?P = "ex_process (Finish 9 (Ok ())) (Ok (Some 7)) Hang"
  obtain res effects where run: "run_main (ref_crates [] []) ?P [''fortune-402''] ex_min_env = (res, effects)"
    by fastforce
  then have ready: "Notify (Ready # [Status ''Serving on http://0.0.0.0:3402'']) \<in> set effects"
    by (auto simp: run_main_ex)
  have "serves_gracefully (p_serve ?P) (\<lambda>_. 2)" "selects_first (p_select ?P)"
    using ex_select_first by (simp_all add: serves_gracefully_def ex_process_def ex_serving_def)
  then show ?thesis
    using shutdown_at_first_signal [OF run ready, of "Some 9" "Some 7" "\<lambda>_. 2"] run
    by (simp add: ex_process_def first_of_def)
qed

text \<open>The configuration with and without a root key differ in nothing else.\<close>

lemma from_env_blank_key:
  assumes "from_env C key (env(''L402_ROOT_KEY'' := None)) = Ok cfg" "env ''L402_ROOT_KEY'' = Some []"
    and "hex_decode C [] = Ok []"
  shows "from_env C key env = Err ''L402_ROOT_KEY must be 32 bytes (64 hex chars)''"
proof -
  let ?env = "env(''L402_ROOT_KEY'' := None)"
  have var: "var_or ?env n d = var_or env n d" if "n \<noteq> ''L402_ROOT_KEY''" for n d
    using that by (simp add: var_or_def)
  have "root_key_from_env C key env = Err ''L402_ROOT_KEY must be 32 bytes (64 hex chars)''"
    using assms(2,3) by (simp add: root_key_from_env_def)
  then show ?thesis
    using assms(1) by (simp add: from_env_Ok) (simp add: from_env_def listen_addr_from_env_def var Let_def)
qed

text \<open>
  C38. A blank root key stops the server: with the crypto provider installed, an environment from which
  the configuration would load if \<^verbatim>\<open>L402_ROOT_KEY\<close> were not set, but where it is set to the empty string,
  as in \<^verbatim>\<open>.env.example\<close>, makes the program end with an error before it binds the listener or tells the
  service manager anything; it does not fall back to a random key as an unset variable does.
\<close>

theorem blank_root_key_stops_server:
  assumes "hex_decode C [] = Ok []" "snd (p_dotenv P env0) = env" "env ''L402_ROOT_KEY'' = Some []"
    and "from_env C (p_random_key P) (env(''L402_ROOT_KEY'' := None)) = Ok cfg"
    and "p_install_provider P = Ok ()" "parse_command args = Ok Serve"
  shows "run_main C P args env0 =
    (Some (Fail ''L402_ROOT_KEY must be 32 bytes (64 hex chars)''), [InitLogging (log_filter P env)])"
  using assms from_env_blank_key [OF assms(4,3,1)]
  by (simp add: run_main_def run_server_def startup_def)

theorem blank_root_key_stops_server_witness:
  "fst (run_main (ref_crates [] []) (ex_process Hang (Ok None) Hang) [''fortune-402'']
      (ex_min_env(''L402_ROOT_KEY'' \<mapsto> ''''))) = Some (Fail ''L402_ROOT_KEY must be 32 bytes (64 hex chars)'')"
proof -
  have "(ex_min_env(''L402_ROOT_KEY'' \<mapsto> '''')) (''L402_ROOT_KEY'' := None) = ex_min_env"
    by (auto simp: ex_min_env_def)
  then have "from_env (ref_crates [] []) (replicate 32 1) ((ex_min_env(''L402_ROOT_KEY'' \<mapsto> '''')) (''L402_ROOT_KEY'' := None))
      = Ok (default_settings ''c'' ''m'' (replicate 32 1))"
    by (simp add: ex_min_env_def from_env_default)
  then show ?thesis
    using blank_root_key_stops_server [of "ref_crates [] []" "ex_process Hang (Ok None) Hang"
        "ex_min_env(''L402_ROOT_KEY'' \<mapsto> [])" "ex_min_env(''L402_ROOT_KEY'' \<mapsto> [])" _ "[''fortune-402'']"]
    by (simp add: ex_process_def parse_command_def)
qed

end
