(* ===== verification/Server_Runs.thy ===== *)
theory Server_Runs
  imports Settlement Main_App
begin

text \<open>
  Runs of the whole program: requests to any route, ticks of the pruning task, and restarts with
  another configuration, one after the other on the table of the replay store. The receipts of a run
  are what the clients of \<^verbatim>\<open>/x402\<close> see; the properties of \<open>Settlement\<close> carry over to them. A restart
  opens the same database file: the operator may change every setting but \<^verbatim>\<open>REPLAY_DB_PATH\<close>, as the README asks
  (the database has to persist), so the rows of the store survive it.
\<close>

datatype 'w server_event =
    Request x402_env request
  | PrunerTick db_fault int
  | Restart "'w app"

type_synonym 'w server_state = "'w app \<times> 'w \<times> table"

definition event_step :: "crates \<Rightarrow> 'w server_event \<Rightarrow> 'w server_state \<Rightarrow> 'w server_state" where
  "event_step C e st =
     (case st of (app, w, store) \<Rightarrow>
      case e of
        Request env rq \<Rightarrow>
          (case serve C app env rq (w, store) of None \<Rightarrow> st | Some (_, st') \<Rightarrow> (app, st'))
      | PrunerTick fault nanos \<Rightarrow> (app, w, snd (pruner_tick fault nanos store))
      | Restart app' \<Rightarrow>
          (case replay_open None None None '''' (Some store) of
             Inl _ \<Rightarrow> st
           | Inr store' \<Rightarrow> (app', w, store')))"

text \<open>The receipt of an event: for an answer 200 of \<^verbatim>\<open>/x402\<close>, its \<^verbatim>\<open>payment-response\<close> header.\<close>

definition event_receipt :: "crates \<Rightarrow> 'w server_event \<Rightarrow> 'w server_state \<Rightarrow> string option list" where
  "event_receipt C e st =
     (case st of (app, w, store) \<Rightarrow>
      case e of
        Request env rq \<Rightarrow>
          (case serve C app env rq (w, store) of
             None \<Rightarrow> []
           | Some (out, _) \<Rightarrow>
               (case deliver out of
                  None \<Rightarrow> []
                | Some r \<Rightarrow>
                    if rq_path rq = ''/x402'' \<and> status r = 200
                    then [map_of (resp_headers r) PAYMENT_RESPONSE] else []))
      | _ \<Rightarrow> [])"

fun receipts :: "crates \<Rightarrow> 'w server_event list \<Rightarrow> 'w server_state \<Rightarrow> string option list" where
  "receipts C [] st = []"
| "receipts C (e # es) st = event_receipt C e st @ receipts C es (event_step C e st)"

text \<open>
  The conditions on the surroundings: the settings of each restart belong to the deployment, and no
  request reads a clock that is behind the latest tick of the pruner by more than the retention allows.
\<close>

fun clocks_ok :: "deployment \<Rightarrow> u64 \<Rightarrow> 'w server_event list \<Rightarrow> bool" where
  "clocks_ok D pruned [] = True"
| "clocks_ok D pruned (Request env rq # es) =
     ((case unix_now (e_settle_clock env) of Return now \<Rightarrow> within_retention D pruned now | _ \<Rightarrow> True)
      \<and> clocks_ok D pruned es)"
| "clocks_ok D pruned (PrunerTick fault nanos # es) =
     clocks_ok D (case unix_now nanos of Return t \<Rightarrow> max pruned t | _ \<Rightarrow> pruned) es"
| "clocks_ok D pruned (Restart app # es) =
     ((case app_x402 app of None \<Rightarrow> True | Some x \<Rightarrow> deployed D x) \<and> clocks_ok D pruned es)"

section \<open>A run is a run of the abstract server\<close>

text \<open>A state of the program and a reachable state of the server of \<open>Settlement\<close> with the same table.\<close>

definition simulates :: "crates \<Rightarrow> deployment \<Rightarrow> u64 \<Rightarrow> 'w server_state \<Rightarrow> server \<Rightarrow> bool" where
  "simulates C D pruned st s \<longleftrightarrow>
     server_reach C D s \<and> sv_rows s = snd (snd st) \<and> sv_pending s = [] \<and> sv_pruned s = pruned
     \<and> (\<forall>x. app_x402 (fst st) = Some x \<longrightarrow> sv_x402 s = x)"

lemma simulates_request:
  assumes laws: "unique_payment_hashes C (dp_pay_to D)" "hex_roundtrip C"
    and sim: "simulates C D pruned (app, w, store) s"
    and clock: "clocks_ok D pruned (Request env rq # es)"
  shows "\<exists>s'. simulates C D pruned (event_step C (Request env rq) (app, w, store)) s'
    \<and> (event_receipt C (Request env rq) (app, w, store) = [] \<and> set (sv_settled s) \<subseteq> set (sv_settled s')
       \<or> (\<exists>pf h. event_receipt C (Request env rq) (app, w, store) = [Some h] \<and> sv_settled s' = pf # sv_settled s
            \<and> receipt_text C (dp_network D) (pf_payment_hash pf) = Return h))"
proof -
  have inv: "server_inv C D s" using server_reach_inv [OF laws] sim by (simp add: simulates_def)
  show ?thesis
  proof (cases "serve C app env rq (w, store)")
    case None
    then show ?thesis using sim by (intro exI [of _ s]) (simp add: event_step_def event_receipt_def)
  next
    case (Some a)
    then obtain out w' store' where run: "serve C app env rq (w, store) = Some (out, w', store')" by (cases a) auto
    show ?thesis
    proof (cases "rq_path rq = ''/x402''")
      case False
      then have "store' = store"
        using run by (auto simp: serve_def app_routes_def x402_router_def split: if_split_asm prod.split_asm option.split_asm)
      then show ?thesis
        using sim run False
        by (intro exI [of _ s]) (simp add: event_step_def event_receipt_def simulates_def split: option.split)
    next
      case True
      then obtain x where x: "app_x402 app = Some x"
        "x402_get_fortune C (app_issue (app_rpc app)) x env rq (w, store) = (out, w', store')"
        using run by (auto simp: serve_def app_routes_def x402_router_def split: if_split_asm option.split_asm)
      then have s: "sv_x402 s = x" "sv_rows s = store" "sv_pruned s = pruned" "server_reach C D s" "sv_pending s = []"
        using sim by (simp_all add: simulates_def)
      have "\<forall>now. unix_now (e_settle_clock env) = Return now \<longrightarrow> within_retention D (sv_pruned s) now"
        using clock s(3) by auto
      from handler_reach [OF s(4) server_inv_wf [OF inv], of "app_issue (app_rpc app)" env rq w out w' store'] x(2) s(1,2) this
      obtain s' where s': "server_reach C D s'" "sv_rows s' = store'" "sv_pending s' = sv_pending s"
        "sv_x402 s' = sv_x402 s" "sv_pruned s' = sv_pruned s" "set (sv_settled s) \<subseteq> set (sv_settled s')"
        and ok: "\<forall>r. out = Return r \<and> status r = 200 \<longrightarrow>
             (\<exists>pf h. sv_settled s' = pf # sv_settled s \<and> resp_headers r = [(PAYMENT_RESPONSE, h)]
                \<and> receipt_text C (x_network (sv_x402 s)) (pf_payment_hash pf) = Return h)"
        by auto
      have sim': "simulates C D pruned (event_step C (Request env rq) (app, w, store)) s'"
        using s' s x(1) run by (simp add: simulates_def event_step_def)
      show ?thesis
      proof (cases "\<exists>r. out = Return r \<and> status r = 200")
        case True
        then obtain r pf h where "out = Return r" "status r = 200" "sv_settled s' = pf # sv_settled s"
          "resp_headers r = [(PAYMENT_RESPONSE, h)]" "receipt_text C (x_network (sv_x402 s)) (pf_payment_hash pf) = Return h"
          using ok by blast
        then show ?thesis
          using sim' run \<open>rq_path rq = _\<close> server_inv_network [OF inv]
          by (intro exI [of _ s'] conjI disjI2 exI [of _ pf] exI [of _ h]) (simp_all add: event_receipt_def deliver_def)
      next
        case False
        then have "event_receipt C (Request env rq) (app, w, store) = []"
          using run by (cases out) (auto simp: event_receipt_def deliver_def into_response_def error_status_def
                UNAUTHORIZED_def BAD_REQUEST_def INTERNAL_SERVER_ERROR_def split: app_error.split)
        then show ?thesis using sim' s'(6) by blast
      qed
    qed
  qed
qed

lemma simulates_tick:
  assumes "simulates C D pruned (app, w, store) s"
  shows "\<exists>s'. simulates C D (case unix_now nanos of Return t \<Rightarrow> max pruned t | _ \<Rightarrow> pruned)
      (event_step C (PrunerTick fault nanos) (app, w, store)) s' \<and> sv_settled s' = sv_settled s"
proof (cases "unix_now nanos")
  case (Return t)
  let ?rows = "snd (pruner_tick fault nanos store)"
  obtain out where "pruner_tick fault nanos (sv_rows s) = (out, ?rows)"
    using assms by (cases "pruner_tick fault nanos store") (simp add: simulates_def)
  then have "server_step C D s (s\<lparr>sv_rows := ?rows, sv_pruned := max (sv_pruned s) t\<rparr>)"
    using pruner_tick_is_step [of fault nanos s out ?rows t D C] Return assms by (simp add: simulates_def)
  then have "server_reach C D (s\<lparr>sv_rows := ?rows, sv_pruned := max (sv_pruned s) t\<rparr>)"
    using assms server_reach.step by (auto simp: simulates_def)
  then show ?thesis
    using assms Return
    by (intro exI [of _ "s\<lparr>sv_rows := ?rows, sv_pruned := max (sv_pruned s) t\<rparr>"]) (simp add: simulates_def event_step_def)
qed (use assms in \<open>auto simp: simulates_def event_step_def pruner_tick_def\<close>)

lemma simulates_restart:
  assumes "simulates C D pruned (app, w, store) s" "clocks_ok D pruned (Restart app' # es)"
  shows "\<exists>s'. simulates C D pruned (event_step C (Restart app') (app, w, store)) s' \<and> sv_settled s' = sv_settled s"
proof (cases "app_x402 app'")
  case None
  then show ?thesis
    using assms(1) by (intro exI [of _ s]) (simp add: simulates_def event_step_def replay_open_def)
next
  case (Some x)
  let ?s' = "s\<lparr>sv_x402 := x, sv_pending := []\<rparr>"
  have "server_step C D s ?s'"
    using server_step.restarted [of "[]" s "sv_rows s" D x C] Some assms(2) by (simp add: replay_open_def)
  then have "server_reach C D ?s'"
    using assms(1) server_reach.step by (auto simp: simulates_def)
  then show ?thesis
    using assms(1) Some by (intro exI [of _ ?s']) (simp add: simulates_def event_step_def replay_open_def)
qed

lemma receipts_distinct:
  assumes laws: "unique_payment_hashes C (dp_pay_to D)" "hex_roundtrip C"
  shows "simulates C D pruned st s \<Longrightarrow> clocks_ok D pruned es \<Longrightarrow>
    \<exists>hashes. distinct hashes \<and> set hashes \<inter> set (map pf_payment_hash (sv_settled s)) = {}
      \<and> list_all2 (\<lambda>r h. \<exists>t. r = Some t \<and> receipt_text C (dp_network D) h = Return t) (receipts C es st) hashes"
proof (induction es arbitrary: pruned st s)
  case Nil
  then show ?case by simp
next
  case (Cons e es)
  obtain app w store where st: "st = (app, w, store)" by (cases st)
  show ?case
  proof (cases e)
    case (Request env rq)
    from simulates_request [OF laws Cons.prems(1) [unfolded st] Cons.prems(2) [unfolded Request]]
    obtain s' where s': "simulates C D pruned (event_step C e st) s'" and
      r: "event_receipt C e st = [] \<and> set (sv_settled s) \<subseteq> set (sv_settled s')
       \<or> (\<exists>pf h. event_receipt C e st = [Some h] \<and> sv_settled s' = pf # sv_settled s
            \<and> receipt_text C (dp_network D) (pf_payment_hash pf) = Return h)"
      unfolding Request st by blast
    have "clocks_ok D pruned es" using Cons.prems(2) Request by simp
    from Cons.IH [OF s' this] obtain hashes where IH: "distinct hashes"
      "set hashes \<inter> set (map pf_payment_hash (sv_settled s')) = {}"
      "list_all2 (\<lambda>r h. \<exists>t. r = Some t \<and> receipt_text C (dp_network D) h = Return t)
         (receipts C es (event_step C e st)) hashes" by blast
    from r show ?thesis
    proof (elim disjE exE conjE)
      assume "event_receipt C e st = []" "set (sv_settled s) \<subseteq> set (sv_settled s')"
      then show ?thesis using IH by (intro exI [of _ hashes]) auto
    next
      fix pf h
      assume h: "event_receipt C e st = [Some h]" "sv_settled s' = pf # sv_settled s"
        "receipt_text C (dp_network D) (pf_payment_hash pf) = Return h"
      have "distinct (map pf_payment_hash (sv_settled s'))"
        using server_reach_inv [OF laws] s' by (auto simp: simulates_def server_inv_def)
      then show ?thesis using IH h by (intro exI [of _ "pf_payment_hash pf # hashes"]) auto
    qed
  next
    case (PrunerTick fault nanos)
    from simulates_tick [OF Cons.prems(1) [unfolded st], of nanos fault] Cons.IH Cons.prems(2)
    show ?thesis unfolding PrunerTick st by (fastforce simp: event_receipt_def)
  next
    case (Restart app')
    from simulates_restart [OF Cons.prems(1) [unfolded st] Cons.prems(2) [unfolded Restart]] Cons.IH Cons.prems(2)
    show ?thesis unfolding Restart st by (fastforce simp: event_receipt_def)
  qed
qed

section \<open>An example\<close>

definition ex_app :: "nat app" where
  "ex_app = \<lparr>app_config = ex_config, app_rpc = ex_rpc, app_x402 = Some ex_x402\<rparr>"

lemma serve_ex_x402:
  "serve ex_world ex_app env (ex_request hs) st = Some (x402_get_fortune ex_world (app_issue ex_rpc) ex_x402 env (ex_request hs) st)"
  by (simp add: serve_def ex_app_def ex_request_def app_routes_def x402_router_def split: prod.split)

lemma app_issue_ex:
  "app_issue ex_rpc 1000 h 300 n = (Ok ''lnbc1'', Suc n)"
  by (simp add: app_issue_def i64_try_from_u64_def create_invoice_with_description_hash_def ex_rpc_def)

text \<open>The paid request of the example, and what its answer adds to the store.\<close>

lemma serve_ex_paid:
  "\<exists>r. serve ex_world ex_app (ex_env 1100000000000) (ex_request [(''payment-signature'', ex_signature)]) (0, [])
     = Some (Return r, 0, [(ex_key, to_sql_time 4960)]) \<and> status r = OK_STATUS"
proof -
  have h: "header_get (rq_headers (ex_request [(''payment-signature'', ex_signature)])) PAYMENT_SIGNATURE
      = Some ex_signature"
    by (simp add: ex_request_def header_get_def PAYMENT_SIGNATURE_def)
  obtain r where run: "x402_get_fortune ex_world ex_issue ex_x402 (ex_env 1100000000000)
       (ex_request [(''payment-signature'', ex_signature)]) (0, []) = (Return r, 0, [(ex_key, to_sql_time 4960)])"
    "status r = OK_STATUS"
    using x402_ex_settled unfolding ex_key_def by blast
  have now: "unix_now (e_settle_clock (ex_env 1100000000000)) = Return 1100" by (simp add: ex_env_def)
  have "x402_get_fortune ex_world (app_issue ex_rpc) ex_x402 (ex_env 1100000000000)
       (ex_request [(''payment-signature'', ex_signature)]) (0, []) = (Return r, 0, [(ex_key, to_sql_time 4960)])"
    using run(1) run(2)
    unfolding x402_paid_branch [OF request_digest_ex h parse_signature_ex now]
    by (auto split: prod.split_asm sum.split_asm settle_error.split_asm dest: challenge_not_ok)
  then show ?thesis using run(2) by (simp add: serve_ex_x402)
qed

section \<open>Properties\<close>

text \<open>
  C2. One fortune for each payment, as the clients see it: over any run of the program that starts with
  an empty store, with requests to any route, prunings and restarts with other settings, the
  receipts of the answers 200 of \<^verbatim>\<open>/x402\<close> name pairwise different payment hashes. The node is taken to
  give each invoice its own payment hash, and no request to read a clock that is behind the latest
  pruning by more than the retention allows.
\<close>

theorem one_fortune_per_payment:
  assumes "unique_payment_hashes C (dp_pay_to D)" "hex_roundtrip C"
    and "app_x402 app = Some x" "deployed D x" "clocks_ok D 0 es"
  shows "\<exists>hashes. distinct hashes
    \<and> list_all2 (\<lambda>r h. \<exists>t. r = Some t \<and> receipt_text C (dp_network D) h = Return t)
        (receipts C es (app, w, [])) hashes"
proof -
  have "simulates C D 0 (app, w, []) (server_start x)"
    using server_reach.start [OF assms(4)] assms(3) by (simp add: simulates_def server_start_def)
  from receipts_distinct [OF assms(1,2) this assms(5)] show ?thesis by blast
qed

text \<open>The same payment twice, with a pruning and a restart in between, gives one receipt.\<close>

definition ex_events :: "nat server_event list" where
  "ex_events =
     (let paid = Request (ex_env 1100000000000) (ex_request [(''payment-signature'', ex_signature)])
      in [paid, PrunerTick None 1200000000000, Restart ex_app, paid])"

lemma within_ex: "pruned \<le> 1200 \<Longrightarrow> within_retention ex_deployment pruned 1100"
  by (simp add: within_retention_def REPLAY_RETENTION_SECS_def word_le_nat_alt)

theorem one_fortune_per_payment_witness:
  "\<exists>hashes. distinct hashes \<and> hashes \<noteq> []
    \<and> list_all2 (\<lambda>r h. \<exists>t. r = Some t \<and> receipt_text ex_world Mainnet h = Return t)
        (receipts ex_world ex_events (ex_app, 0, [])) hashes"
proof -
  have clock: "unix_now 1100000000000 = Return 1100" "unix_now 1200000000000 = Return 1200"
    by (simp_all add: unix_now_def)
  have "clocks_ok ex_deployment 0 ex_events"
    using within_ex [of 0] within_ex [of 1200] by (simp add: ex_events_def Let_def ex_env_def clock ex_app_def)
  from one_fortune_per_payment [OF _ _ _ _ this, of ex_world ex_app ex_x402 0] obtain hashes where
    h: "distinct hashes" "list_all2 (\<lambda>r h. \<exists>t. r = Some t \<and> receipt_text ex_world Mainnet h = Return t)
        (receipts ex_world ex_events (ex_app, 0, [])) hashes"
    by (auto simp: ex_app_def)
  obtain r where "serve ex_world ex_app (ex_env 1100000000000) (ex_request [(''payment-signature'', ex_signature)]) (0, [])
     = Some (Return r, 0, [(ex_key, to_sql_time 4960)])" "status r = OK_STATUS"
    using serve_ex_paid by blast
  then have "receipts ex_world ex_events (ex_app, 0, []) \<noteq> []"
    by (simp add: ex_events_def Let_def event_receipt_def deliver_def OK_STATUS_def ex_request_def)
  then have "hashes \<noteq> []" using h(2) by auto
  then show ?thesis using h by blast
qed

end
