(* ===== verification/Module_Tests.thy ===== *)
theory Module_Tests
  imports Config L402_Auth Replay Binding Systemd Handlers Health_Probe
begin

text \<open>
  The unit tests of the smaller modules, as predicates on the model: a test is the conjunction of its
  assertions. Each passes, for every library that behaves as documented on what the test hands to it. What
  a test draws at random is an argument, and holds for every value.
\<close>

unbundle bit_operations_syntax

section \<open>\<^verbatim>\<open>src/replay.rs\<close>\<close>

definition memory :: "string + table" where
  "memory = replay_open None None None '':memory:'' None"

text \<open>Calls on one store, each unwrapped: the values they return, and the store after them.\<close>

datatype store_call = Consume string u64 | Prune u64

fun store_calls :: "store_call list \<Rightarrow> table \<Rightarrow> (bool + nat) list option \<times> table" where
  "store_calls [] t = (Some [], t)"
| "store_calls (Consume key r # cs) t =
     (case consume None key r t of
        (Inl _, t') \<Rightarrow> (None, t')
      | (Inr b, t') \<Rightarrow> (case store_calls cs t' of (vs, t'') \<Rightarrow> (map_option (\<lambda>vs. Inl b # vs) vs, t'')))"
| "store_calls (Prune now # cs) t =
     (case prune None now t of
        (Inl _, t') \<Rightarrow> (None, t')
      | (Inr n, t') \<Rightarrow> (case store_calls cs t' of (vs, t'') \<Rightarrow> (map_option (\<lambda>vs. Inr n # vs) vs, t'')))"

definition test_consume_once :: bool where
  "test_consume_once =
     (case memory of
        Inl _ \<Rightarrow> False
      | Inr store \<Rightarrow>
          fst (store_calls [Consume ''net:aa'' 100, Consume ''net:aa'' 100, Consume ''net:bb'' 100] store)
            = Some [Inl True, Inl False, Inl True])"

definition test_prune_keeps_unexpired_keys :: bool where
  "test_prune_keeps_unexpired_keys =
     (case memory of
        Inl _ \<Rightarrow> False
      | Inr store \<Rightarrow>
          map_option (drop 3) (fst (store_calls
            [Consume ''old'' 100, Consume ''boundary'' 200, Consume ''new'' 300, Prune 200,
             Consume ''old'' 100, Consume ''boundary'' 200, Consume ''new'' 300] store))
            = Some [Inr 1, Inl True, Inl False, Inl False])"

text \<open>The file that the first store leaves is what the second one opens.\<close>

definition test_survives_reopen :: "string \<Rightarrow> bool" where
  "test_survives_reopen path =
     (case replay_open None None None path None of
        Inl _ \<Rightarrow> False
      | Inr store \<Rightarrow>
          (case store_calls [Consume ''net:aa'' (- 1)] store of (first, file) \<Rightarrow>
             first = Some [Inl True]
             \<and> (case replay_open None None None path (Some file) of
                  Inl _ \<Rightarrow> False
                | Inr store' \<Rightarrow> fst (store_calls [Consume ''net:aa'' (- 1)] store') = Some [Inl False])))"

lemma replay_tests_pass:
  "test_consume_once" "test_prune_keeps_unexpired_keys" "test_survives_reopen path"
proof -
  have times: "sint (to_sql_time 100) = 100" "sint (to_sql_time 200) = 200" "sint (to_sql_time 300) = 300"
    by (simp_all add: to_sql_time_def i64_try_from_u64_def)
  note eval = memory_def replay_open_def consume_def prune_def sql_insert_or_ignore_def sql_delete_before_def
  show "test_consume_once" by (simp add: test_consume_once_def eval)
  show "test_prune_keeps_unexpired_keys" by (auto simp: test_prune_keeps_unexpired_keys_def eval times)
  show "test_survives_reopen path" by (simp add: test_survives_reopen_def eval)
qed

section \<open>\<^verbatim>\<open>src/x402/binding.rs\<close>\<close>

definition hash_url :: "crates \<Rightarrow> string \<Rightarrow> string option" where
  "hash_url C url =
     (case http_request_hash C ''GET'' url [] [] [] of Inl _ \<Rightarrow> None | Inr h \<Rightarrow> Some (hex_encode C h))"

definition article_url :: "string \<Rightarrow> string" where
  "article_url name = ''https://api.example.com/article/'' @ name"

definition test_spec_vectors :: "crates \<Rightarrow> bool" where
  "test_spec_vectors C \<longleftrightarrow>
     hash_url C (article_url ''A'') = Some ''0d6623f775e025501fa7f0a30b54da25aad62b6ccfe35c85da38016711e6c018''
     \<and> hash_url C (article_url ''B'') = Some ''4a99860f75eed1ea8178a5db488e044173bc570c8a6210f2c8590cdf8622d509''"

definition test_method_and_body_change_hash :: "crates \<Rightarrow> bool" where
  "test_method_and_body_change_hash C =
     (let url = article_url ''A'';
          get = http_request_hash C ''GET'' url [] [] [];
          post = http_request_hash C ''POST'' url [] [] [];
          body = http_request_hash C ''GET'' url (as_bytes ''x'') [] [] in
      \<not> isl get \<and> \<not> isl post \<and> \<not> isl body \<and> get \<noteq> post \<and> get \<noteq> body)"

definition test_bound_headers_distinguish_absent_and_empty :: "crates \<Rightarrow> bool" where
  "test_bound_headers_distinguish_absent_and_empty C =
     (let hash = http_request_hash C ''GET'' (article_url ''A'') [] [''accept''];
          absent = hash [];
          empty = hash [(''accept'', as_bytes '''')];
          trimmed = hash [(''accept'', as_bytes ''  text/plain '')];
          plain = hash [(''accept'', as_bytes ''text/plain'')] in
      \<not> isl absent \<and> \<not> isl empty \<and> \<not> isl trimmed \<and> \<not> isl plain \<and> absent \<noteq> empty \<and> trimmed = plain)"

definition test_multiple_header_lines_are_joined :: "crates \<Rightarrow> bool" where
  "test_multiple_header_lines_are_joined C =
     (let split = header_value_hash C [(''accept'', as_bytes ''a''), (''accept'', as_bytes ''b'')] ''accept'';
          joined = header_value_hash C [(''accept'', as_bytes ''a, b'')] ''accept'' in
      \<not> isl split \<and> split = joined)"

definition test_non_ascii_bound_header_is_rejected :: "crates \<Rightarrow> bool" where
  "test_non_ascii_bound_header_is_rejected C =
     isl (http_request_hash C ''GET'' ''https://a.test/'' [] [''accept'']
            [(''accept'', as_bytes ''caf'' @ [0xC3, 0xA9])])"

definition test_http_params_validation :: bool where
  "test_http_params_validation \<longleftrightarrow>
     is_valid_http_params (http_params [])
     \<and> is_valid_http_params (json_obj [(''headers'', JArr [JStr ''accept'', JStr ''content-type''])])
     \<and> \<not> is_valid_http_params (json_obj [])
     \<and> \<not> is_valid_http_params (json_obj [(''headers'', JArr []), (''extra'', JInt 1)])
     \<and> \<not> is_valid_http_params (json_obj [(''headers'', JArr [JStr ''Accept''])])
     \<and> \<not> is_valid_http_params (json_obj [(''headers'', JArr [JStr ''b'', JStr ''a''])])
     \<and> \<not> is_valid_http_params (json_obj [(''headers'', JArr [JStr ''a'', JStr ''a''])])
     \<and> \<not> is_valid_http_params (json_obj [(''headers'', JArr [JStr ''''])])
     \<and> \<not> is_valid_http_params (json_obj [(''headers'', JArr [JStr ''payment-signature''])])
     \<and> \<not> is_valid_http_params (json_obj [(''headers'', JStr ''accept'')])"

text \<open>
  The vectors of the specification are values of the digest: they hold for the library whose digest
  and JCS text give them.
\<close>

lemma spec_vectors_iff:
  "test_spec_vectors C \<longleftrightarrow>
     list_all (\<lambda>(name, hash). \<exists>d. jcs_to_vec C (request_document C ''GET'' (article_url name) [] []) = Ok d
        \<and> hex_encode C (sha256 C d) = hash)
       [(''A'', ''0d6623f775e025501fa7f0a30b54da25aad62b6ccfe35c85da38016711e6c018''),
        (''B'', ''4a99860f75eed1ea8178a5db488e044173bc570c8a6210f2c8590cdf8622d509'')]"
  by (auto simp: test_spec_vectors_def hash_url_def http_request_hash_unbound try_then_def split: sum.split)

lemma http_request_hash_total:
  assumes "\<forall>j. \<not> isl (jcs_to_vec C j)" "list_all (\<lambda>n. \<not> isl (header_value_hash C hs n)) ns"
  shows "\<not> isl (http_request_hash C m u b ns hs)"
proof -
  have "\<exists>es. header_entries C hs ns = Ok es"
    using assms(2)
  proof (induction ns)
    case (Cons n ns)
    then show ?case by (cases "header_value_hash C hs n") auto
  qed simp
  then obtain es where es: "header_entries C hs ns = Ok es" by blast
  have "\<not> isl (jcs_to_vec C (request_document C m u b es))" using assms(1) by simp
  then show ?thesis by (cases "jcs_to_vec C (request_document C m u b es)") (simp_all add: http_request_hash_def es)
qed

text \<open>Two requests that bind no headers and that no collision confuses have different hashes.\<close>

definition documents_differ :: "crates \<Rightarrow> string \<Rightarrow> (string \<times> bytes) \<Rightarrow> (string \<times> bytes) \<Rightarrow> bool" where
  "documents_differ C url r r' \<longleftrightarrow>
     (let doc = (\<lambda>(m, b). request_document C m url b []) in
      \<not> collides (sha256 C) (snd r) (snd r') \<and> \<not> collides (jcs_to_vec C) (doc r) (doc r')
      \<and> \<not> collides (sha256 C) (projr (jcs_to_vec C (doc r))) (projr (jcs_to_vec C (doc r'))))"

lemma unbound_hashes_differ:
  assumes "hex_roundtrip C" "\<forall>j. \<not> isl (jcs_to_vec C j)" "documents_differ C url (m, b) (m', b')"
    and "(m, b) \<noteq> (m', b')"
  shows "http_request_hash C m url b [] [] \<noteq> http_request_hash C m' url b' [] []"
proof
  obtain d d' where d: "jcs_to_vec C (request_document C m url b []) = Ok d"
    "jcs_to_vec C (request_document C m' url b' []) = Ok d'"
    using assms(2) by (metis isl_def sum.exhaust)
  assume "http_request_hash C m url b [] [] = http_request_hash C m' url b' [] []"
  then have "d = d'" using assms(3) d by (simp add: http_request_hash_unbound documents_differ_def collides_def)
  then have "request_document C m url b [] = request_document C m' url b' []"
    using assms(3) d by (simp add: documents_differ_def collides_def)
  then have "m = m'" "sha256 C b = sha256 C b'" using request_document_inject [OF assms(1)] by auto
  then show False using assms(3,4) by (simp add: documents_differ_def collides_def)
qed

lemma method_and_body_change_hash:
  assumes "hex_roundtrip C" "\<forall>j. \<not> isl (jcs_to_vec C j)"
    and "documents_differ C (article_url ''A'') (''GET'', []) (''POST'', [])"
    and "documents_differ C (article_url ''A'') (''GET'', []) (''GET'', as_bytes ''x'')"
  shows "test_method_and_body_change_hash C"
proof -
  have "\<not> isl (http_request_hash C m (article_url ''A'') b [] [])" for m b
    using assms(2) by (intro http_request_hash_total) simp_all
  moreover have "as_bytes ''x'' \<noteq> []" by (simp add: as_bytes_def)
  ultimately show ?thesis
    using unbound_hashes_differ [OF assms(1-3)] unbound_hashes_differ [OF assms(1,2,4)]
    by (simp add: test_method_and_body_change_hash_def Let_def)
qed

lemma accept_hashes:
  assumes "ascii_headers C"
  shows "header_value_hash C [(''accept'', as_bytes '''')] ''accept'' = Ok (sha256 C [1])"
    "header_value_hash C [(''accept'', as_bytes ''  text/plain '')] ''accept''
       = header_value_hash C [(''accept'', as_bytes ''text/plain'')] ''accept''"
    "\<not> isl (header_value_hash C [(''accept'', as_bytes ''text/plain'')] ''accept'')"
    "header_value_hash C [(''accept'', as_bytes ''a''), (''accept'', as_bytes ''b'')] ''accept''
       = header_value_hash C [(''accept'', as_bytes ''a, b'')] ''accept''"
    "\<not> isl (header_value_hash C [(''accept'', as_bytes ''a, b'')] ''accept'')"
proof -
  have str: "header_to_str C (as_bytes s) = Some s" if "visible_ascii s" for s
    using ascii_header_value(2) [OF assms that] .
  note eval = header_value_hash_def header_get_all_def trim_matches_def str visible_ascii_def Let_def
  show "header_value_hash C [(''accept'', as_bytes '''')] ''accept'' = Ok (sha256 C [1])"
    by (simp add: eval) (simp add: as_bytes_def)
  show "header_value_hash C [(''accept'', as_bytes ''  text/plain '')] ''accept''
       = header_value_hash C [(''accept'', as_bytes ''text/plain'')] ''accept''"
    by (simp add: eval)
  show "\<not> isl (header_value_hash C [(''accept'', as_bytes ''text/plain'')] ''accept'')"
    by (simp add: eval)
  show "header_value_hash C [(''accept'', as_bytes ''a''), (''accept'', as_bytes ''b'')] ''accept''
       = header_value_hash C [(''accept'', as_bytes ''a, b'')] ''accept''"
    by (simp add: eval)
  show "\<not> isl (header_value_hash C [(''accept'', as_bytes ''a, b'')] ''accept'')"
    by (simp add: eval)
qed

lemma binding_tests_pass:
  assumes laws: "hex_roundtrip C" "ascii_headers C" "\<forall>j. \<not> isl (jcs_to_vec C j)"
  shows "\<not> collides (sha256 C) [0] [1] \<Longrightarrow>
      \<not> binding_collision C (''GET'', article_url ''A'', [], [''accept''], [])
          (''GET'', article_url ''A'', [], [''accept''], [(''accept'', as_bytes '''')]) \<Longrightarrow>
      test_bound_headers_distinguish_absent_and_empty C"
    "test_multiple_header_lines_are_joined C"
    "header_to_str C (as_bytes ''caf'' @ [0xC3, 0xA9]) = None \<Longrightarrow> test_non_ascii_bound_header_is_rejected C"
    "test_http_params_validation"
proof -
  show "test_multiple_header_lines_are_joined C"
    using accept_hashes(4,5) [OF laws(2)] by (simp add: test_multiple_header_lines_are_joined_def)
  show "header_to_str C (as_bytes ''caf'' @ [0xC3, 0xA9]) = None \<Longrightarrow> test_non_ascii_bound_header_is_rejected C"
    by (simp add: test_non_ascii_bound_header_is_rejected_def http_request_hash_def header_value_hash_def
        header_get_all_def Let_def)
  show "test_http_params_validation"
    by (simp add: test_http_params_validation_def is_valid_http_params_def http_params_object is_lowercase_token_def
        less_eq_char_def)
  let ?empty = "[(''accept'', as_bytes '''')]"
  let ?hash = "http_request_hash C ''GET'' (article_url ''A'') [] [''accept'']"
  assume no: "\<not> binding_collision C (''GET'', article_url ''A'', [], [''accept''], [])
          (''GET'', article_url ''A'', [], [''accept''], ?empty)" "\<not> collides (sha256 C) [0] [1]"
  have absent: "header_value_hash C [] ''accept'' = Ok (sha256 C [0])"
    by (simp add: header_value_hash_def header_get_all_def)
  have total: "\<not> isl (?hash hs)" if "\<not> isl (header_value_hash C hs ''accept'')" for hs
    using http_request_hash_total [OF laws(3)] that by simp
  note empty = accept_hashes(1) [OF laws(2)]
  have "?hash [] \<noteq> ?hash ?empty"
  proof
    assume eq: "?hash [] = ?hash ?empty"
    obtain d d' where d: "jcs_to_vec C (binding_document C (''GET'', article_url ''A'', [], [''accept''], [])) = Ok d"
      "jcs_to_vec C (binding_document C (''GET'', article_url ''A'', [], [''accept''], ?empty)) = Ok d'"
      using laws(3) by (metis isl_def sum.exhaust)
    then have "sha256 C d = sha256 C d'"
      using eq by (simp add: http_request_hash_def binding_document_def absent empty)
    then have "d = d'" using no(1) d by (simp add: binding_collision_def collides_def)
    then have "binding_document C (''GET'', article_url ''A'', [], [''accept''], [])
        = binding_document C (''GET'', article_url ''A'', [], [''accept''], ?empty)"
      using no(1) d by (simp add: binding_collision_def collides_def)
    then have "sha256 C [0] = sha256 C [1]"
      using request_document_inject [OF laws(1)] hex_encode_inj [OF laws(1)]
      by (simp add: binding_document_def absent empty)
    then show False using no(2) by (simp add: collides_def)
  qed
  moreover have "?hash [(''accept'', as_bytes ''  text/plain '')] = ?hash [(''accept'', as_bytes ''text/plain'')]"
    using accept_hashes(2) [OF laws(2)] by (simp add: http_request_hash_def)
  ultimately show "test_bound_headers_distinguish_absent_and_empty C"
    unfolding test_bound_headers_distinguish_absent_and_empty_def Let_def
    using total accept_hashes(2,3) [OF laws(2)] absent empty by simp
qed

section \<open>\<^verbatim>\<open>src/config.rs\<close>\<close>

definition test_public_url :: "crates \<Rightarrow> bool" where
  "test_public_url C \<longleftrightarrow>
     parse_public_url C ''https://fortune.example.com/'' = Ok ''https://fortune.example.com''
     \<and> parse_public_url C ''http://127.0.0.1:3402/prefix'' = Ok ''http://127.0.0.1:3402/prefix''
     \<and> list_all (\<lambda>bad. isl (parse_public_url C bad))
         [''fortune.example.com'', ''ftp://fortune.example.com'', ''https://user@fortune.example.com'',
          ''https://fortune.example.com/?a=b'', ''https://fortune.example.com/#x'',
          ''https://fort'' @ [CHR 0xC3, CHR 0xBC] @ ''ne.example.com'']"

text \<open>The scheme and the authority of the texts that reach the parser of URIs.\<close>

definition parses_uris :: "crates \<Rightarrow> bool" where
  "parses_uris C \<longleftrightarrow>
     uri_parse C ''https://fortune.example.com/'' = Ok (Some ''https'', Some ''fortune.example.com'')
     \<and> uri_parse C ''http://127.0.0.1:3402/prefix'' = Ok (Some ''http'', Some ''127.0.0.1:3402'')
     \<and> uri_parse C ''fortune.example.com'' = Ok (None, Some ''fortune.example.com'')
     \<and> uri_parse C ''ftp://fortune.example.com'' = Ok (Some ''ftp'', Some ''fortune.example.com'')
     \<and> uri_parse C ''https://user@fortune.example.com'' = Ok (Some ''https'', Some ''user@fortune.example.com'')"

lemma config_test_passes: "parses_uris C \<Longrightarrow> test_public_url C"
  by (simp add: test_public_url_def parses_uris_def parse_public_url_def is_ascii_def trim_end_matches_def)

section \<open>\<^verbatim>\<open>src/token.rs\<close> and \<^verbatim>\<open>src/l402.rs\<close>\<close>

definition test_roundtrip :: "crates \<Rightarrow> bytes \<Rightarrow> bytes \<Rightarrow> bool" where
  "test_roundtrip C key hash =
     (case deserialize C (serialize C (mint C key hash)) of
        Inl _ \<Rightarrow> False
      | Inr decoded \<Rightarrow> payment_hash decoded = hash \<and> token_verify C decoded key = Ok ())"

definition test_tampered_signature_fails :: "crates \<Rightarrow> bytes \<Rightarrow> bytes \<Rightarrow> bool" where
  "test_tampered_signature_fails C key hash =
     (case deserialize C (serialize C (mint C key hash)) of
        Inl _ \<Rightarrow> False
      | Inr decoded \<Rightarrow>
          isl (token_verify C (decoded\<lparr>signature := (signature decoded)[0 := signature decoded ! 0 XOR 0xFF]\<rparr>) key))"

definition test_wrong_key_fails :: "crates \<Rightarrow> bytes \<Rightarrow> bytes \<Rightarrow> bytes \<Rightarrow> bool" where
  "test_wrong_key_fails C key wrong_key hash = isl (token_verify C (mint C key hash) wrong_key)"

definition test_parse_authorization :: "crates \<Rightarrow> bool" where
  "test_parse_authorization C =
     (let p = replicate 32 0xAB; header = ''L402 dGVzdA==:'' @ hex_encode C p in
      parse_authorization C header = Ok \<lparr>token_base64 = ''dGVzdA=='', preimage = p\<rparr>)"

definition test_verify_l402 :: "crates \<Rightarrow> bytes \<Rightarrow> bytes \<Rightarrow> bool" where
  "test_verify_l402 C key p = (verify_l402 C key (serialize C (mint C key (sha256 C p))) p = Ok ())"

definition test_verify_l402_wrong_preimage :: "crates \<Rightarrow> bytes \<Rightarrow> bytes \<Rightarrow> bytes \<Rightarrow> bool" where
  "test_verify_l402_wrong_preimage C key p wrong =
     isl (verify_l402 C key (serialize C (mint C key (sha256 C p))) wrong)"

definition test_build_challenge :: bool where
  "test_build_challenge \<longleftrightarrow>
     build_challenge ''abc123'' ''lnbc1...'' =
       ''L402 token='' @ [CHR 0x22] @ ''abc123'' @ [CHR 0x22] @ '', invoice='' @ [CHR 0x22] @ ''lnbc1...'' @ [CHR 0x22]"

lemma token_tests_pass:
  assumes "b64_roundtrip C" "hmac_length C" "length hash = 32"
  shows "test_roundtrip C key hash" "test_tampered_signature_fails C key hash"
    "hmac_sha256 C key hash \<noteq> hmac_sha256 C wrong_key hash \<Longrightarrow> test_wrong_key_fails C key wrong_key hash"
proof -
  have read: "deserialize C (serialize C (mint C key hash)) = Ok (mint C key hash)"
    using assms by (simp add: deserialize_serialize mint_wf)
  show "test_roundtrip C key hash"
    using read by (simp add: test_roundtrip_def token_verify_def mint_def)
  obtain b bs where sig: "hmac_sha256 C key hash = b # bs"
  proof (cases "hmac_sha256 C key hash")
    case Nil
    moreover have "length (hmac_sha256 C key hash) = 32" using assms(2) by (simp add: hmac_length_def)
    ultimately show ?thesis by simp
  qed (rule that)
  have "b XOR 0xFF \<noteq> b"
  proof
    assume "b XOR 0xFF = b"
    then have "b XOR (b XOR 0xFF) = b XOR b" by simp
    then show False by (simp flip: xor.assoc)
  qed
  then show "test_tampered_signature_fails C key hash"
    using read by (simp add: test_tampered_signature_fails_def token_verify_def mint_def hmac_sign_def sig)
  show "hmac_sha256 C key hash \<noteq> hmac_sha256 C wrong_key hash \<Longrightarrow> test_wrong_key_fails C key wrong_key hash"
    by (simp add: test_wrong_key_fails_def token_verify_def mint_def hmac_sign_def)
qed

lemma l402_tests_pass:
  assumes "hex_roundtrip C" "b64_roundtrip C" "hmac_length C" "sha256_length C"
  shows "test_parse_authorization C" "test_verify_l402 C key p"
    "sha256 C wrong \<noteq> sha256 C p \<Longrightarrow> test_verify_l402_wrong_preimage C key p wrong" "test_build_challenge"
proof -
  have "''L402 dGVzdA==:'' @ h = ''L402 '' @ ''dGVzdA=='' @ CHR '':'' # h" for h by simp
  then show "test_parse_authorization C"
    using assms(1) by (simp add: test_parse_authorization_def parse_authorization_Ok hex_roundtrip_def)
  have read: "deserialize C (serialize C (mint C key (sha256 C p))) = Ok (mint C key (sha256 C p))"
    using assms(2-4) by (simp add: deserialize_serialize mint_wf sha256_length_def)
  show "test_verify_l402 C key p" "sha256 C wrong \<noteq> sha256 C p \<Longrightarrow> test_verify_l402_wrong_preimage C key p wrong"
    using read by (simp_all add: test_verify_l402_def test_verify_l402_wrong_preimage_def verify_l402_def
        token_verify_def mint_def)
  show "test_build_challenge" by (simp add: test_build_challenge_def build_challenge_def)
qed

section \<open>\<^verbatim>\<open>src/systemd.rs\<close>\<close>

text \<open>
  The socket that stands in for the service manager: the datagrams that arrived, each its lines in the
  protocol of \<^verbatim>\<open>sd_notify(3)\<close>; \<open>recv\<close> takes the first.
\<close>

definition notify_line :: "notify_state \<Rightarrow> string" where
  "notify_line st =
     (case st of Ready \<Rightarrow> ''READY=1'' | Status s \<Rightarrow> ''STATUS='' @ s | Stopping \<Rightarrow> ''STOPPING=1''
      | Watchdog \<Rightarrow> ''WATCHDOG=1'')"

definition fake_systemd :: "string list list sd_notify" where
  "fake_systemd state sock = (Ok (), sock @ [map notify_line state])"

definition recv :: "string list list \<Rightarrow> string list option \<times> string list list" where
  "recv sock = (case sock of [] \<Rightarrow> (None, []) | m # ms \<Rightarrow> (Some m, ms))"

text \<open>The test waits for two pings, so for two rounds of the task, whenever its ticks come.\<close>

definition test_notifies_fake_systemd :: "string list list sd_notify \<Rightarrow> string list list ticker \<Rightarrow> bool" where
  "test_notifies_fake_systemd send ticker =
     (case recv (notify_ready send ''serving'' []) of (ready, sock) \<Rightarrow>
      case recv (notify_stopping send sock) of (stopping, sock) \<Rightarrow>
      case recv (spawn_watchdog send ticker (Some (200000 * 1000)) 2 sock) of (ping, sock) \<Rightarrow>
      case recv sock of (ping', _) \<Rightarrow>
        ready = Some [''READY=1'', ''STATUS=serving''] \<and> stopping = Some [''STOPPING=1'']
        \<and> ping = Some [''WATCHDOG=1''] \<and> ping' = Some [''WATCHDOG=1''])"

lemma systemd_test_passes:
  assumes "\<And>period k sock. ticker period k sock = sock"
  shows "test_notifies_fake_systemd fake_systemd ticker"
proof -
  have "watchdog_interval (Some (200000 * 1000)) = Some (100 * 1000000)" by (simp add: watchdog_interval_def)
  then have "spawn_watchdog fake_systemd ticker (Some (200000 * 1000)) 2 sock
      = sock @ [[''WATCHDOG=1''], [''WATCHDOG=1'']]" for sock
    using assms by (simp add: spawn_watchdog_def numeral_2_eq_2 notify_def fake_systemd_def notify_line_def)
  then show ?thesis
    by (simp add: test_notifies_fake_systemd_def notify_ready_def notify_stopping_def notify_def fake_systemd_def
        recv_def notify_line_def)
qed

section \<open>\<^verbatim>\<open>src/main.rs\<close>\<close>

text \<open>
  A server on the loopback interface: within the deadline it answers the probe with the status line of
  a response, whatever headers and body follow.
\<close>

definition answers :: "'c net \<Rightarrow> socket_addr \<Rightarrow> response \<Rightarrow> string \<Rightarrow> bool" where
  "answers net addr r reason \<longleftrightarrow>
     is_ascii reason \<and> CHR 0x0A \<notin> set reason \<and>
     (\<exists>d rest. d \<le> PROBE_TIMEOUT_MS \<and> probe_exchange net addr = Finish d (Ok
        (as_bytes (''HTTP/1.1'' @ '' '' @ dec_string (status r) @ '' '' @ reason @ [CHR 0x0D, CHR 0x0A]) @ rest)))"

definition loopback :: "16 word \<Rightarrow> socket_addr" where
  "loopback p = \<lparr>ip = ipv4_localhost, port = p, scope_id = 0\<rparr>"

definition contains :: "string \<Rightarrow> string \<Rightarrow> bool" where
  "contains s t \<longleftrightarrow> list_ex (\<lambda>n. starts_with (drop n s) t) [0..<Suc (length s)]"

definition test_health_probe_passes_for_running_server ::
  "'c net \<Rightarrow> (socket_addr \<Rightarrow> string) \<Rightarrow> (nat \<Rightarrow> string) \<Rightarrow> 16 word \<Rightarrow> bool" where
  "test_health_probe_passes_for_running_server net show_addr show_status p \<longleftrightarrow>
     snd (health_probe net show_addr show_status (loopback p)) = Ok ()
     \<and> snd (health_probe net show_addr show_status \<lparr>ip = V4 [0, 0, 0, 0], port = p, scope_id = 0\<rparr>) = Ok ()"

definition test_health_probe_fails_for_error_status ::
  "'c net \<Rightarrow> (socket_addr \<Rightarrow> string) \<Rightarrow> (nat \<Rightarrow> string) \<Rightarrow> 16 word \<Rightarrow> bool" where
  "test_health_probe_fails_for_error_status net show_addr show_status p =
     (case snd (health_probe net show_addr show_status (loopback p)) of
        Inl err \<Rightarrow> contains err ''503''
      | Inr _ \<Rightarrow> False)"

definition test_health_probe_fails_without_server ::
  "'c net \<Rightarrow> (socket_addr \<Rightarrow> string) \<Rightarrow> (nat \<Rightarrow> string) \<Rightarrow> 16 word \<Rightarrow> bool" where
  "test_health_probe_fails_without_server net show_addr show_status p =
     isl (snd (health_probe net show_addr show_status (loopback p)))"

lemma contains_infix: "contains (s @ t @ u) t"
proof -
  have "starts_with (drop (length s) (s @ t @ u)) t" by (simp add: starts_with_iff)
  then show ?thesis unfolding contains_def list_ex_iff by (intro bexI [of _ "length s"]) auto
qed

lemma health_probe_answered:
  assumes "answers net (probe_addr a) r reason" "100 \<le> status r" "status r < 1000"
  shows "\<exists>d. health_probe net sa ss a =
    (d, if 200 \<le> status r \<and> status r < 300 then Ok ()
        else Err (''http://'' @ sa (probe_addr a) @ ''/health'' @ '' returned '' @ ss (status r)))"
proof -
  obtain d rest where d: "d \<le> PROBE_TIMEOUT_MS" "probe_exchange net (probe_addr a) = Finish d (Ok
        (as_bytes (''HTTP/1.1'' @ '' '' @ dec_string (status r) @ '' '' @ reason @ [CHR 0x0D, CHR 0x0A]) @ rest))"
    and reason: "is_ascii reason" "CHR 0x0A \<notin> set reason"
    using assms(1) unfolding answers_def by blast
  have "timeout PROBE_TIMEOUT_MS (probe_exchange net (probe_addr a)) = (d, Some (Ok
        (as_bytes (''HTTP/1.1'' @ '' '' @ dec_string (status r) @ '' '' @ reason @ [CHR 0x0D, CHR 0x0A]) @ rest)))"
    unfolding timeout_Some using d by simp
  moreover have "response_status (as_bytes (''HTTP/1.1'' @ '' '' @ dec_string (status r) @ '' '' @ reason
      @ [CHR 0x0D, CHR 0x0A]) @ rest) = Some (status r)"
    by (rule response_status_line) (use reason assms(2,3) in \<open>simp_all add: token_char_def\<close>)
  ultimately show ?thesis
    unfolding health_probe_def Let_def probe_verdict_def prod.case option.case sum.case
    by (intro exI [of _ d]) (simp only: probe_verdict_def ok_or_simps try_then_simps append_assoc prod.case option.case sum.case simp_thms)
qed

lemma health_probe_tests_pass:
  "answers net (loopback p) health ''OK'' \<Longrightarrow> test_health_probe_passes_for_running_server net sa ss p"
  "answers net (loopback p) \<lparr>status = 503, resp_headers = [], resp_body = TextBody []\<rparr> ''Service Unavailable'' \<Longrightarrow>
     starts_with (ss 503) ''503'' \<Longrightarrow> test_health_probe_fails_for_error_status net sa ss p"
  "tcp_connect net (loopback p) = Finish d (Err e) \<Longrightarrow> test_health_probe_fails_without_server net sa ss p"
proof -
  have probed: "probe_addr (loopback p) = loopback p"
    "probe_addr \<lparr>ip = V4 [0, 0, 0, 0], port = p, scope_id = 0\<rparr> = loopback p"
    by (simp_all add: probe_addr_def loopback_def is_unspecified_def ipv4_localhost_def)
  show "test_health_probe_passes_for_running_server net sa ss p" if "answers net (loopback p) health ''OK''"
    using that health_probe_answered [of net "loopback p" health "''OK''" sa ss]
      health_probe_answered [of net "\<lparr>ip = V4 [0, 0, 0, 0], port = p, scope_id = 0\<rparr>" health "''OK''" sa ss]
    by (auto simp: probed test_health_probe_passes_for_running_server_def health_def OK_STATUS_def)
  show "test_health_probe_fails_for_error_status net sa ss p"
    if a: "answers net (loopback p) \<lparr>status = 503, resp_headers = [], resp_body = TextBody []\<rparr> ''Service Unavailable''"
      "starts_with (ss 503) ''503''"
  proof -
    obtain r where "ss 503 = ''503'' @ r" using a(2) by (auto simp: starts_with_iff)
    then have "contains ((''http://'' @ sa (loopback p) @ ''/health'' @ '' returned '') @ ss 503) ''503''"
      using contains_infix by metis
    moreover have "answers net (probe_addr (loopback p))
        \<lparr>status = 503, resp_headers = [], resp_body = TextBody []\<rparr> ''Service Unavailable''"
      using a(1) by (simp only: probed)
    ultimately show ?thesis
      using health_probe_answered [of net "loopback p" "\<lparr>status = 503, resp_headers = [], resp_body = TextBody []\<rparr>" "''Service Unavailable''" sa ss]
      by (auto simp: probed test_health_probe_fails_for_error_status_def)
  qed
  show "test_health_probe_fails_without_server net sa ss p" if "tcp_connect net (loopback p) = Finish d (Err e)"
    using that by (auto simp: test_health_probe_fails_without_server_def health_probe_def Let_def probed
        probe_exchange_def io_then_def timeout_def split: prod.split option.split)
qed

end
