(* ===== verification/Lnbtc_Tests.thy ===== *)
theory Lnbtc_Tests
  imports Lnbtc
begin

text \<open>
  The unit tests of \<^verbatim>\<open>src/x402/lnbtc.rs\<close>, as predicates on the model: a test is the conjunction of its
  assertions, and it passes for every library that behaves as documented on its inputs. The tests
  are the repository's own reading of the settlement rules, so they check the definitions
  of \<open>Lnbtc\<close> against it. What a test draws at random, the keys and the invoice builder are its world.
\<close>

section \<open>Fixtures\<close>

text \<open>
  \<^verbatim>\<open>lightning_invoice::InvoiceBuilder\<close>: what the tests set, with an inline description or the hash of one. The
  payment secret and the final CLTV delta, which no check of the program reads, are left out. The builder may
  refuse a request (\<open>None\<close>); the tests unwrap its result, so a test in which it does fails.
\<close>

record invoice_request =
  ir_currency :: currency
  ir_description :: "string + bytes"
  ir_payment_hash :: bytes
  ir_created :: u64
  ir_amount_msat :: u64
  ir_expiry :: u64

record test_world =
  tw_public_key :: "bytes \<Rightarrow> pubkey"
  tw_build_signed :: "bytes \<Rightarrow> invoice_request \<Rightarrow> string option"
  tw_random :: "nat \<Rightarrow> bytes"
  tw_genesis :: "network \<Rightarrow> string"

definition SPEC_INVOICE :: string where
  "SPEC_INVOICE = ''lnbc250n1pj48ugqpp54y3u9s8ylemsv8l3ewyzzu0klhujvuvmkl6llchq23vy8rzjsf0qsp5zyg3zyg3zyg3zyg3zyg3zyg3zyg3zyg3zyg3zyg3zyg3zyg3zygshp5p4nz8am4uqj4q8a87z3sk4x6yk4dv2mvel34epw68qqkwy0xcqvqxqzfvcqpjr4rx6ls6j5rpwknuea64evlk7yfx56wmqcer5eerekdsn9tlv6v4ex9mlz5dtm9qapl3svwlqcf7837dmjkru9z9w4h2rvm0md52w2sqxrwu5f''"

definition SPEC_PREIMAGE :: string where
  "SPEC_PREIMAGE = ''0001020304050607080900010203040506070809000102030405060708090102''"

definition SPEC_PAYMENT_HASH :: string where
  "SPEC_PAYMENT_HASH = ''a923c2c0e4fe77061ff1cb882171f6fdf926719bb7f5ffe2e05458438c52825e''"

definition SPEC_TIME :: u64 where
  "SPEC_TIME = 1700000000"

definition ARTICLE_A :: string where
  "ARTICLE_A = ''0d6623f775e025501fa7f0a30b54da25aad62b6ccfe35c85da38016711e6c018''"

definition ARTICLE_B :: string where
  "ARTICLE_B = ''4a99860f75eed1ea8178a5db488e044173bc570c8a6210f2c8590cdf8622d509''"

definition secret_key :: bytes where
  "secret_key = replicate 31 0 @ [1]"

text \<open>
  The 32 bytes of a hexadecimal literal. The code panics on any other text, which here has no bytes; the
  literals of the tests decode, by \<open>hex_canonical\<close>.
\<close>

definition hash32 :: "crates \<Rightarrow> string \<Rightarrow> bytes" where
  "hash32 C hex_str = (case hex_decode C hex_str of Inl _ \<Rightarrow> [] | Inr bs \<Rightarrow> bs)"

definition spec_terms :: "crates \<Rightarrow> test_world \<Rightarrow> string \<Rightarrow> terms" where
  "spec_terms C W request_hash =
     \<lparr>t_network = Mainnet, t_pay_to = tw_public_key W secret_key, t_amount_msat = 25000,
      t_max_timeout_secs = 300, t_request_hash = hash32 C request_hash,
      t_binding_params = http_params [], t_clock_skew_secs = 60\<rparr>"

definition test_payload :: "payment_requirements \<Rightarrow> string \<Rightarrow> payment_payload" where
  "test_payload accepted preimage =
     \<lparr>pp_x402_version = 2, pp_accepted = accepted,
      pp_payload = obj_of [(''preimage'', JStr preimage)]\<rparr>"

definition spec_payload :: "crates \<Rightarrow> test_world \<Rightarrow> payment_payload" where
  "spec_payload C W = test_payload (requirements C (spec_terms C W ARTICLE_A) SPEC_INVOICE) SPEC_PREIMAGE"

definition sign_invoice ::
  "crates \<Rightarrow> test_world \<Rightarrow> nat \<Rightarrow> bytes \<Rightarrow> currency \<Rightarrow> u64 \<Rightarrow> bytes \<Rightarrow> u64 \<Rightarrow> u64 \<Rightarrow> (string \<times> bytes) option" where
  "sign_invoice C W n key cur amount_msat description_hash expiry_secs created =
     (let preimage = tw_random W n in
      map_option (\<lambda>invoice. (invoice, preimage))
        (tw_build_signed W key
           \<lparr>ir_currency = cur, ir_description = Inr description_hash,
            ir_payment_hash = sha256 C preimage, ir_created = created,
            ir_amount_msat = amount_msat, ir_expiry = expiry_secs\<rparr>))"

definition rejected :: "crates \<Rightarrow> payment_payload \<Rightarrow> terms \<Rightarrow> u64 \<Rightarrow> error_reason option" where
  "rejected C p t now = (case verify C p t now of Inl e \<Rightarrow> Some e | Inr _ \<Rightarrow> None)"

text \<open>An edit of the \<^verbatim>\<open>extra\<close> map of a payload, and \<^verbatim>\<open>Map::remove\<close>.\<close>

definition with_extra :: "(json_map \<Rightarrow> json_map) \<Rightarrow> payment_payload \<Rightarrow> payment_payload" where
  "with_extra f p = p\<lparr>pp_accepted := (pp_accepted p)\<lparr>pr_extra := f (pr_extra (pp_accepted p))\<rparr>\<rparr>"

definition obj_remove :: "string \<Rightarrow> json_map \<Rightarrow> json_map" where
  "obj_remove k ms = filter (\<lambda>m. fst m \<noteq> k) ms"

definition with_accepted :: "(payment_requirements \<Rightarrow> payment_requirements) \<Rightarrow> payment_payload \<Rightarrow> payment_payload" where
  "with_accepted f p = p\<lparr>pp_accepted := f (pp_accepted p)\<rparr>"

text \<open>\<^verbatim>\<open>str::to_uppercase\<close> and \<^verbatim>\<open>str::repeat\<close> on ASCII text.\<close>

definition to_ascii_upper :: "string \<Rightarrow> string" where
  "to_ascii_upper s =
     map (\<lambda>c. if CHR ''a'' \<le> c \<and> c \<le> CHR ''z'' then char_of (of_char c - (32 :: nat)) else c) s"

definition repeat :: "string \<Rightarrow> nat \<Rightarrow> string" where
  "repeat s n = concat (replicate n s)"

section \<open>The world of the tests\<close>

text \<open>An invoice that the builder made and the given key signed, as the parser reads it.\<close>

definition signed_as :: "pubkey \<Rightarrow> invoice_request \<Rightarrow> signed_invoice \<Rightarrow> bool" where
  "signed_as key q raw \<longleftrightarrow>
     check_signature raw \<and> payment_hashes raw = [ir_payment_hash q]
     \<and> (case ir_description q of
          Inl d \<Rightarrow> inline_descriptions raw = [d] \<and> description_hashes raw = []
        | Inr h \<Rightarrow> inline_descriptions raw = [] \<and> description_hashes raw = [h])
     \<and> raw_amount raw \<noteq> None \<and> amount_pico_btc raw = Some (10 * ir_amount_msat q)
     \<and> payee_pub_key raw = None \<and> recover_payee_pub_key raw = Some key
     \<and> invoice_currency raw = ir_currency q \<and> invoice_timestamp raw = ir_created q
     \<and> expiry_time raw = Some (ir_expiry q)"

definition other_key :: bytes where
  "other_key = replicate 32 2"

text \<open>
  The requests that the builder is documented to accept, and more than covers the tests: hashes of 32 bytes, an
  ASCII description that fits its field, a timestamp of at most 35 bits, and a positive amount whose
  picobitcoins fit a \<^verbatim>\<open>u64\<close>. For these, and the two keys of the tests, it gives an invoice in ASCII
  text that the parser reads as what was asked for.
\<close>

definition buildable :: "invoice_request \<Rightarrow> bool" where
  "buildable q \<longleftrightarrow>
     length (ir_payment_hash q) = 32
     \<and> (case ir_description q of
          Inl d \<Rightarrow> is_ascii d \<and> length d \<le> 639
        | Inr h \<Rightarrow> length h = 32)
     \<and> unat (ir_created q) < 2 ^ 35 \<and> unat (ir_expiry q) < 2 ^ 32
     \<and> 0 < unat (ir_amount_msat q) \<and> unat (ir_amount_msat q) < 2 ^ 60"

definition builds :: "crates \<Rightarrow> test_world \<Rightarrow> bool" where
  "builds C W \<longleftrightarrow>
     (\<forall>key q. key \<in> {secret_key, other_key} \<and> buildable q \<longrightarrow>
        (\<exists>tx raw. tw_build_signed W key q = Some tx \<and> tx \<noteq> [] \<and> is_ascii tx
           \<and> bolt11_from_str C tx = Some raw \<and> signed_as (tw_public_key W key) q raw))"

text \<open>The specification's test vector: what its invoice holds.\<close>

definition spec_request :: "crates \<Rightarrow> invoice_request" where
  "spec_request C =
     \<lparr>ir_currency = Bitcoin, ir_description = Inr (hash32 C ARTICLE_A),
      ir_payment_hash = hash32 C SPEC_PAYMENT_HASH, ir_created = SPEC_TIME,
      ir_amount_msat = 25000, ir_expiry = 300\<rparr>"

text \<open>One character of the specification's invoice replaced, which its checksum or its signature tells.\<close>

definition tampered_invoice :: string where
  "tampered_invoice = SPEC_INVOICE[20 := if SPEC_INVOICE ! 20 = CHR ''q'' then CHR ''p'' else CHR ''q'']"

text \<open>The hashes of the first blocks, from crate \<^verbatim>\<open>bitcoin\<close>.\<close>

fun genesis_block :: "network \<Rightarrow> string" where
  "genesis_block Mainnet = ''000000000019d6689c085ae165831e934ff763ae46a2a6c172b3f1b60a8ce26f''"
| "genesis_block Testnet = ''000000000933ea01ad0ee984209779baaec3ced90fa3f408719526f8d77f4943''"
| "genesis_block Signet = ''00000008819873e925422c1ff0f99f7cc9bbb232af63a077a480a3633bee1ef6''"

definition documented :: "crates \<Rightarrow> test_world \<Rightarrow> bool" where
  "documented C W \<longleftrightarrow>
     hex_roundtrip C \<and> hex_lower C \<and> hex_canonical C \<and> sha256_length C \<and> builds C W
     \<and> (\<forall>n. length (tw_random W n) = 32)
     \<and> (\<exists>raw. bolt11_from_str C SPEC_INVOICE = Some raw
          \<and> signed_as (tw_public_key W secret_key) (spec_request C) raw)
     \<and> sha256 C (hash32 C SPEC_PREIMAGE) = hash32 C SPEC_PAYMENT_HASH
     \<and> sha256 C (hash32 C (repeat ''00'' 32)) \<noteq> hash32 C SPEC_PAYMENT_HASH
     \<and> tw_public_key W secret_key \<noteq> tw_public_key W other_key
     \<and> pubkey_to_string C (tw_public_key W secret_key) \<noteq> repeat ''02'' 33
     \<and> (case bolt11_from_str C tampered_invoice of None \<Rightarrow> True | Some raw \<Rightarrow> \<not> check_signature raw)
     \<and> tw_genesis W = genesis_block"

section \<open>The tests\<close>

definition test_network_ids_follow_bip122 :: "test_world \<Rightarrow> bool" where
  "test_network_ids_follow_bip122 W =
     list_all (\<lambda>n. caip2 n = ''lnbtc:'' @ take 32 (tw_genesis W n)) [Mainnet, Testnet, Signet]"

definition test_signet_invoice_settles_only_on_signet :: "crates \<Rightarrow> test_world \<Rightarrow> bool" where
  "test_signet_invoice_settles_only_on_signet C W =
     (let t = (spec_terms C W ARTICLE_A)\<lparr>t_network := Signet\<rparr>;
          key = secret_key; hash = t_request_hash t in
      case sign_invoice C W 0 key SignetCurrency 25000 hash 300 SPEC_TIME of
        None \<Rightarrow> False
      | Some (invoice, preimage) \<Rightarrow>
      case sign_invoice C W 1 key BitcoinTestnet 25000 hash 300 SPEC_TIME of
        None \<Rightarrow> False
      | Some (invoice', preimage') \<Rightarrow>
        fst (settle C None (test_payload (requirements C t invoice) (hex_encode C preimage)) t SPEC_TIME [])
          = Ok \<lparr>transaction = hex_encode C (sha256 C preimage)\<rparr>
        \<and> rejected C (test_payload (requirements C t invoice') (hex_encode C preimage')) t SPEC_TIME
          = Some InvoiceCurrencyMismatch)"

definition test_spec_vector_settles :: "crates \<Rightarrow> test_world \<Rightarrow> bool" where
  "test_spec_vector_settles C W \<longleftrightarrow>
     fst (settle C None (spec_payload C W) (spec_terms C W ARTICLE_A) SPEC_TIME [])
       = Ok \<lparr>transaction = SPEC_PAYMENT_HASH\<rparr>"

definition test_spec_vector_passes_issue_checks :: "crates \<Rightarrow> test_world \<Rightarrow> bool" where
  "test_spec_vector_passes_issue_checks C W \<longleftrightarrow>
     check_issued_invoice C SPEC_INVOICE (spec_terms C W ARTICLE_A) SPEC_TIME = Ok ()"

definition test_proof_settles_only_once :: "crates \<Rightarrow> test_world \<Rightarrow> bool" where
  "test_proof_settles_only_once C W =
     (let t = spec_terms C W ARTICLE_A in
      case settle C None (spec_payload C W) t SPEC_TIME [] of (res, store) \<Rightarrow>
        \<not> isl res
        \<and> fst (settle C None (spec_payload C W) t SPEC_TIME store) = Err (Rejected DuplicateSettlement))"

definition test_proof_for_other_request_is_rejected :: "crates \<Rightarrow> test_world \<Rightarrow> bool" where
  "test_proof_for_other_request_is_rejected C W =
     (let t = spec_terms C W ARTICLE_B;
          p = with_extra (obj_insert ''requestHash'' (JStr ARTICLE_B)) (spec_payload C W) in
      rejected C (spec_payload C W) t SPEC_TIME = Some RequestMismatch
      \<and> rejected C p t SPEC_TIME = Some InvoiceRequestMismatch)"

definition test_missing_or_malformed_binding_is_rejected :: "crates \<Rightarrow> test_world \<Rightarrow> bool" where
  "test_missing_or_malformed_binding_is_rejected C W =
     (let t = spec_terms C W ARTICLE_A; p = spec_payload C W in
      list_all (\<lambda>field. rejected C (with_extra (obj_remove field) p) t SPEC_TIME = Some RequestBinding)
        [''requestHash'', ''requestBindingProfile'', ''requestBindingParams'']
      \<and> list_all (\<lambda>(field, v). rejected C (with_extra (obj_insert field v) p) t SPEC_TIME = Some RequestBinding)
        [(''requestHash'', JStr (to_ascii_upper ARTICLE_A)),
         (''requestBindingProfile'', JStr ''mcp:1''),
         (''requestBindingParams'', json_obj []),
         (''requestBindingParams'', json_obj [(''headers'', JArr []), (''unknown'', JArr [])])]
      \<and> rejected C
          (with_extra (obj_insert ''requestBindingParams'' (json_obj [(''headers'', JArr [JStr ''accept''])])) p)
          t SPEC_TIME = Some RequestMismatch)"

definition test_core_field_mismatches_are_rejected :: "crates \<Rightarrow> test_world \<Rightarrow> bool" where
  "test_core_field_mismatches_are_rejected C W =
     list_all (\<lambda>(mutate, reason).
         rejected C (with_accepted mutate (spec_payload C W)) (spec_terms C W ARTICLE_A) SPEC_TIME = Some reason)
       [(\<lambda>a. a\<lparr>pr_scheme := ''upto''\<rparr>, UnsupportedScheme),
        (\<lambda>a. a\<lparr>pr_network := caip2 Testnet\<rparr>, NetworkMismatch),
        (\<lambda>a. a\<lparr>pr_amount := ''1000''\<rparr>, AmountMismatch),
        (\<lambda>a. a\<lparr>pr_asset := ''USD''\<rparr>, Asset),
        (\<lambda>a. a\<lparr>pr_pay_to := repeat ''02'' 33\<rparr>, PayToMismatch),
        (\<lambda>a. a\<lparr>pr_max_timeout_seconds := 60\<rparr>, MaxTimeoutMismatch)]"

definition test_transfer_method_and_flow_are_checked :: "crates \<Rightarrow> test_world \<Rightarrow> bool" where
  "test_transfer_method_and_flow_are_checked C W =
     (let t = spec_terms C W ARTICLE_A;
          p = with_extra (obj_remove ''assetTransferMethod'') (spec_payload C W) in
      \<not> isl (verify C p t SPEC_TIME)
      \<and> rejected C (with_extra (obj_insert ''assetTransferMethod'' (JStr ''bolt12'')) p) t SPEC_TIME
          = Some AssetTransferMethod
      \<and> rejected C (with_extra (obj_remove ''paymentFlow'') (spec_payload C W)) t SPEC_TIME = Some PaymentFlow)"

definition test_preimage_is_checked :: "crates \<Rightarrow> test_world \<Rightarrow> bool" where
  "test_preimage_is_checked C W =
     (let t = spec_terms C W ARTICLE_A in
      rejected C ((spec_payload C W)\<lparr>pp_payload := []\<rparr>) t SPEC_TIME = Some PreimageMissing
      \<and> list_all (\<lambda>(preimage, reason).
            rejected C (test_payload (requirements C t SPEC_INVOICE) preimage) t SPEC_TIME = Some reason)
          [(repeat ''AB'' 32, PreimageMalformed),
           (''0x'' @ drop 2 SPEC_PREIMAGE, PreimageMalformed),
           (drop 2 SPEC_PREIMAGE, PreimageLength),
           (repeat ''00'' 32, PreimageHashMismatch)])"

definition test_expiry_grace_window :: "crates \<Rightarrow> test_world \<Rightarrow> bool" where
  "test_expiry_grace_window C W =
     (let t = spec_terms C W ARTICLE_A; last = SPEC_TIME + 300 + 60 in
      \<not> isl (verify C (spec_payload C W) t last)
      \<and> rejected C (spec_payload C W) t (last + 1) = Some InvoiceExpired
      \<and> check_issued_invoice C SPEC_INVOICE t (SPEC_TIME + 301) = Err InvoiceExpired)"

definition test_invoice_created_in_future_is_rejected :: "crates \<Rightarrow> test_world \<Rightarrow> bool" where
  "test_invoice_created_in_future_is_rejected C W =
     (let t = spec_terms C W ARTICLE_A in
      \<not> isl (verify C (spec_payload C W) t (SPEC_TIME - 60))
      \<and> rejected C (spec_payload C W) t (SPEC_TIME - 61) = Some InvoiceCreatedInFuture)"

definition test_invoice_mismatches_are_rejected :: "crates \<Rightarrow> test_world \<Rightarrow> bool" where
  "test_invoice_mismatches_are_rejected C W =
     (let t = spec_terms C W ARTICLE_A; key = secret_key; hash = t_request_hash t;
          pay = (\<lambda>(invoice, preimage). test_payload (requirements C t invoice) (hex_encode C preimage)) in
      list_all (\<lambda>(signed, reason).
          case signed of None \<Rightarrow> False | Some s \<Rightarrow> rejected C (pay s) t SPEC_TIME = Some reason)
        [(sign_invoice C W 0 other_key Bitcoin 25000 hash 300 SPEC_TIME, InvoicePayeeMismatch),
         (sign_invoice C W 1 key BitcoinTestnet 25000 hash 300 SPEC_TIME, InvoiceCurrencyMismatch),
         (sign_invoice C W 2 key Bitcoin 24000 hash 300 SPEC_TIME, InvoiceAmountMismatch),
         (sign_invoice C W 3 key Bitcoin 25000 hash 600 SPEC_TIME, InvoiceExpiryMismatch)]
      \<and> (case sign_invoice C W 4 key Bitcoin 25000 hash 300 SPEC_TIME of
            None \<Rightarrow> False
          | Some s \<Rightarrow> \<not> isl (verify C (pay s) t SPEC_TIME)))"

definition test_inline_description_is_rejected :: "crates \<Rightarrow> test_world \<Rightarrow> bool" where
  "test_inline_description_is_rejected C W =
     (let t = spec_terms C W ARTICLE_A; preimage = tw_random W 0 in
      case tw_build_signed W secret_key
        \<lparr>ir_currency = Bitcoin, ir_description = Inl ''article A'', ir_payment_hash = sha256 C preimage,
         ir_created = SPEC_TIME, ir_amount_msat = 25000, ir_expiry = 300\<rparr> of
        None \<Rightarrow> False
      | Some invoice \<Rightarrow>
          rejected C (test_payload (requirements C t invoice) (hex_encode C preimage)) t SPEC_TIME
            = Some InvoiceDescription)"

definition test_undecodable_invoice_is_rejected :: "crates \<Rightarrow> test_world \<Rightarrow> bool" where
  "test_undecodable_invoice_is_rejected C W =
     (let t = spec_terms C W ARTICLE_A in
      rejected C (with_extra (obj_remove ''invoice'') (spec_payload C W)) t SPEC_TIME = Some InvoiceMissing
      \<and> rejected C (test_payload (requirements C t tampered_invoice) SPEC_PREIMAGE) t SPEC_TIME
          = Some InvoiceDecodeFailed)"

section \<open>The tests pass\<close>

lemma decode_built:
  assumes "bolt11_from_str C tx = Some raw" "signed_as key q raw" "unat (ir_amount_msat q) < 2 ^ 60"
  shows "decode C tx = Ok
    \<lparr>inv_currency = ir_currency q, inv_amount_msat = Some (ir_amount_msat q),
     inv_payment_hash = ir_payment_hash q,
     inv_description_hash = (case ir_description q of Inl _ \<Rightarrow> None | Inr h \<Rightarrow> Some h),
     inv_payee = key, inv_created = ir_created q, inv_expiry = ir_expiry q\<rparr>"
proof -
  have "unat (10 * ir_amount_msat q) = 10 * unat (ir_amount_msat q)"
    using assms(3) by (simp add: unat_word_ariths)
  then have "decode_amount raw = Ok (Some (ir_amount_msat q))"
    using assms(2) by (auto simp: decode_amount_Ok signed_as_def)
  then show ?thesis
    using assms(1,2) by (auto simp: decode_def collect_fields_lists signed_as_def decode_payee_def split: sum.splits)
qed

lemma hex_texts:
  "length ARTICLE_A = 64" "length ARTICLE_B = 64" "length SPEC_PREIMAGE = 64" "length SPEC_PAYMENT_HASH = 64"
  "list_all is_hex_lower ARTICLE_A" "list_all is_hex_lower ARTICLE_B" "list_all is_hex_lower SPEC_PREIMAGE"
  "list_all is_hex_lower SPEC_PAYMENT_HASH" "ARTICLE_A \<noteq> ARTICLE_B"
  by (simp_all add: ARTICLE_A_def ARTICLE_B_def SPEC_PREIMAGE_def SPEC_PAYMENT_HASH_def is_hex_lower_def)

lemma spec_texts [simp]:
  "SPEC_INVOICE \<noteq> []" "\<not> is_lower_hex_digit CHR ''x''"
  "list_all is_lower_hex_digit (drop 2 SPEC_PREIMAGE)" "length SPEC_PREIMAGE = 64"
  by (simp_all add: SPEC_INVOICE_def is_lower_hex_digit_def SPEC_PREIMAGE_def numeral_2_eq_2)

lemma upper_text [simp]: "\<not> list_all is_lower_hex_digit (to_ascii_upper ARTICLE_A)"
  by (simp add: ARTICLE_A_def to_ascii_upper_def is_lower_hex_digit_def less_eq_char_def)

lemma repeat_texts [simp]:
  "\<not> list_all is_lower_hex_digit (repeat ''AB'' 32)" "list_all is_lower_hex_digit (repeat ''00'' 32)"
  "length (repeat ''00'' 32) = 64"
  by (simp_all add: repeat_def numeral_eq_Suc is_lower_hex_digit_def)

text \<open>What the documented behaviour gives for the fixtures.\<close>

lemma hash32_text:
  assumes "hex_canonical C" "list_all is_hex_lower s" "length s = 64"
  shows "hex_decode C s = Ok (hash32 C s)" "hex_encode C (hash32 C s) = s"
  using assms by (auto simp: hex_canonical_def hash32_def dest!: spec [of _ s])

lemma fixture_texts:
  assumes "documented C W"
  shows "hex_encode C (hash32 C ARTICLE_A) = ARTICLE_A" "hex_encode C (hash32 C ARTICLE_B) = ARTICLE_B"
    "hex_encode C (hash32 C SPEC_PAYMENT_HASH) = SPEC_PAYMENT_HASH"
    "hex_decode C SPEC_PREIMAGE = Ok (hash32 C SPEC_PREIMAGE)"
    "hex_decode C (repeat ''00'' 32) = Ok (hash32 C (repeat ''00'' 32))"
    "hash32 C ARTICLE_A \<noteq> hash32 C ARTICLE_B"
proof -
  have C: "hex_canonical C" using assms by (simp add: documented_def)
  have zero: "list_all is_hex_lower (repeat ''00'' 32)"
    using repeat_texts(2) by (simp add: is_lower_hex_digit_eq [abs_def])
  show "hex_encode C (hash32 C ARTICLE_A) = ARTICLE_A" "hex_encode C (hash32 C ARTICLE_B) = ARTICLE_B"
    "hex_encode C (hash32 C SPEC_PAYMENT_HASH) = SPEC_PAYMENT_HASH"
    "hex_decode C SPEC_PREIMAGE = Ok (hash32 C SPEC_PREIMAGE)"
    "hex_decode C (repeat ''00'' 32) = Ok (hash32 C (repeat ''00'' 32))"
    using hash32_text [OF C] hex_texts zero repeat_texts(3) by auto
  then show "hash32 C ARTICLE_A \<noteq> hash32 C ARTICLE_B" using hex_texts(9) by metis
qed

definition spec_invoice :: "crates \<Rightarrow> test_world \<Rightarrow> invoice" where
  "spec_invoice C W =
     \<lparr>inv_currency = Bitcoin, inv_amount_msat = Some 25000,
      inv_payment_hash = hash32 C SPEC_PAYMENT_HASH, inv_description_hash = Some (hash32 C ARTICLE_A),
      inv_payee = tw_public_key W secret_key, inv_created = SPEC_TIME, inv_expiry = 300\<rparr>"

lemma spec_invoice_hash [simp]: "inv_payment_hash (spec_invoice C W) = hash32 C SPEC_PAYMENT_HASH"
  by (simp add: spec_invoice_def)

lemma decode_spec: "documented C W \<Longrightarrow> decode C SPEC_INVOICE = Ok (spec_invoice C W)"
  by (auto simp: documented_def spec_request_def spec_invoice_def dest: decode_built)

lemma decode_signed:
  assumes "documented C W" "key \<in> {secret_key, other_key}" "buildable q"
  obtains tx where "tw_build_signed W key q = Some tx" "tx \<noteq> []" "is_ascii tx" "decode C tx = Ok
    \<lparr>inv_currency = ir_currency q, inv_amount_msat = Some (ir_amount_msat q),
     inv_payment_hash = ir_payment_hash q,
     inv_description_hash = (case ir_description q of Inl _ \<Rightarrow> None | Inr h \<Rightarrow> Some h),
     inv_payee = tw_public_key W key, inv_created = ir_created q, inv_expiry = ir_expiry q\<rparr>"
proof -
  obtain tx raw where tx: "tw_build_signed W key q = Some tx" "tx \<noteq> []" "is_ascii tx"
    and raw: "bolt11_from_str C tx = Some raw" "signed_as (tw_public_key W key) q raw"
    using assms unfolding documented_def builds_def by blast
  have "unat (ir_amount_msat q) < 2 ^ 60" using assms(3) by (simp add: buildable_def)
  from that [OF tx decode_built [OF raw this]] show thesis .
qed

lemma no_headers_valid [simp]: "is_valid_http_params (http_params [])"
  by (simp add: is_valid_http_params_def http_params_object)

lemma spec_terms_simps [simp]:
  "t_network (spec_terms C W h) = Mainnet" "t_pay_to (spec_terms C W h) = tw_public_key W secret_key"
  "t_amount_msat (spec_terms C W h) = 25000" "t_max_timeout_secs (spec_terms C W h) = 300"
  "t_request_hash (spec_terms C W h) = hash32 C h" "t_binding_params (spec_terms C W h) = http_params []"
  "t_clock_skew_secs (spec_terms C W h) = 60"
  by (simp_all add: spec_terms_def)

lemma spec_payload_simps [simp]:
  "pp_accepted (spec_payload C W) = requirements C (spec_terms C W ARTICLE_A) SPEC_INVOICE"
  "pp_payload (spec_payload C W) = [(''preimage'', JStr SPEC_PREIMAGE)]"
  by (simp_all add: spec_payload_def test_payload_def)

text \<open>The stages of a verification, each with the one before it passed.\<close>

lemma rejected_core: "check_core C (pp_accepted p) t = Err e \<Longrightarrow> rejected C p t now = Some e"
  by (simp add: rejected_def verify_def)

lemma rejected_extra:
  "check_core C (pp_accepted p) t = Ok () \<Longrightarrow> check_extra C (pr_extra (pp_accepted p)) t = Err e \<Longrightarrow>
     rejected C p t now = Some e"
  by (simp add: rejected_def verify_def)

lemma rejected_missing:
  "check_core C (pp_accepted p) t = Ok () \<Longrightarrow> check_extra C (pr_extra (pp_accepted p)) t = Ok () \<Longrightarrow>
     map_of (pr_extra (pp_accepted p)) ''invoice'' = None \<Longrightarrow> rejected C p t now = Some InvoiceMissing"
  by (simp add: rejected_def verify_def)

lemma rejected_check:
  "check_core C (pp_accepted p) t = Ok () \<Longrightarrow> check_extra C (pr_extra (pp_accepted p)) t = Ok () \<Longrightarrow>
     map_of (pr_extra (pp_accepted p)) ''invoice'' = Some (JStr tx) \<Longrightarrow> tx \<noteq> [] \<Longrightarrow>
     decode C tx = Ok iv \<Longrightarrow> check iv t now = Err e \<Longrightarrow> rejected C p t now = Some e"
  by (simp add: rejected_def verify_def)

lemma rejected_preimage:
  "check_core C (pp_accepted p) t = Ok () \<Longrightarrow> check_extra C (pr_extra (pp_accepted p)) t = Ok () \<Longrightarrow>
     map_of (pr_extra (pp_accepted p)) ''invoice'' = Some (JStr tx) \<Longrightarrow> tx \<noteq> [] \<Longrightarrow>
     decode C tx = Ok iv \<Longrightarrow> check iv t now = Ok () \<Longrightarrow>
     check_preimage C (pp_payload p) (inv_payment_hash iv) = Err e \<Longrightarrow> rejected C p t now = Some e"
  by (simp add: rejected_def verify_def)

lemma rejected_expired:
  "check_core C (pp_accepted p) t = Ok () \<Longrightarrow> check_extra C (pr_extra (pp_accepted p)) t = Ok () \<Longrightarrow>
     map_of (pr_extra (pp_accepted p)) ''invoice'' = Some (JStr tx) \<Longrightarrow> tx \<noteq> [] \<Longrightarrow>
     decode C tx = Ok iv \<Longrightarrow> check iv t now = Ok () \<Longrightarrow>
     check_preimage C (pp_payload p) (inv_payment_hash iv) = Ok () \<Longrightarrow> now > last_valid iv t \<Longrightarrow>
     rejected C p t now = Some InvoiceExpired"
  by (simp add: rejected_def verify_def)

text \<open>The offered requirements pass the first two stages, for any terms of the tests.\<close>

lemma requirements_core: "check_core C (requirements C t tx) t = Ok ()"
  by (simp add: check_core_Ok requirements_def Let_def)

lemma requirements_check_extra:
  assumes "hex_lower C" "length (t_request_hash t) = 32" "t_binding_params t = http_params []"
  shows "check_extra C (pr_extra (requirements C t tx)) t = Ok ()"
  using hex_encode_digits [OF assms(1)] assms(2,3) by (simp add: check_extra_Ok requirements_extra)

lemma requirements_invoice [simp]: "map_of (pr_extra (requirements C t tx)) ''invoice'' = Some (JStr tx)"
  by (simp add: requirements_extra)

lemma hash32_length:
  assumes "documented C W"
  shows "length (hash32 C ARTICLE_A) = 32" "length (hash32 C ARTICLE_B) = 32"
proof -
  have "length (hex_encode C h) = 2 * length h" for h
    using assms by (simp add: documented_def hex_lower_def)
  from this [of "hash32 C ARTICLE_A"] this [of "hash32 C ARTICLE_B"]
  show "length (hash32 C ARTICLE_A) = 32" "length (hash32 C ARTICLE_B) = 32"
    using fixture_texts(1,2) [OF assms] hex_texts(1,2) by simp_all
qed

text \<open>The stages of the test vector.\<close>

lemma spec_stages:
  assumes "documented C W"
  shows "check_core C (requirements C (spec_terms C W ARTICLE_A) tx) (spec_terms C W ARTICLE_A) = Ok ()"
    "check_extra C (pr_extra (requirements C (spec_terms C W ARTICLE_A) tx)) (spec_terms C W ARTICLE_A) = Ok ()"
    "check_preimage C [(''preimage'', JStr SPEC_PREIMAGE)] (inv_payment_hash (spec_invoice C W)) = Ok ()"
proof -
  show "check_core C (requirements C (spec_terms C W ARTICLE_A) tx) (spec_terms C W ARTICLE_A) = Ok ()"
    by (rule requirements_core)
  show "check_extra C (pr_extra (requirements C (spec_terms C W ARTICLE_A) tx)) (spec_terms C W ARTICLE_A) = Ok ()"
    using assms hash32_length [OF assms] by (intro requirements_check_extra) (simp_all add: documented_def)
  have "list_all is_lower_hex_digit SPEC_PREIMAGE"
    using hex_texts(7) by (simp add: is_lower_hex_digit_eq [abs_def])
  then show "check_preimage C [(''preimage'', JStr SPEC_PREIMAGE)] (inv_payment_hash (spec_invoice C W)) = Ok ()"
    using fixture_texts(4) [OF assms] hex_texts(3) assms
    by (simp add: check_preimage_Ok documented_def)
qed

lemma spec_check:
  "1699999940 \<le> unat now \<Longrightarrow> check (spec_invoice C W) (spec_terms C W ARTICLE_A) now = Ok ()"
  by (auto simp: check_Ok spec_invoice_def word_le_nat_alt unat_saturating_add SPEC_TIME_def)

lemma spec_last_valid: "last_valid (spec_invoice C W) (spec_terms C W ARTICLE_A) = 1700000360"
  by (simp add: last_valid_def invoice_end_def spec_invoice_def SPEC_TIME_def saturating_add_def)

lemma spec_verified:
  assumes "documented C W" "1699999940 \<le> unat now" "unat now \<le> 1700000360"
  shows "verify C (spec_payload C W) (spec_terms C W ARTICLE_A) now =
    Ok \<lparr>pf_payment_hash = hash32 C SPEC_PAYMENT_HASH, pf_retain_until = 1700003960\<rparr>"
proof -
  have "now \<le> 1700000360" using assms(3) by (simp add: word_le_nat_alt)
  then show ?thesis
    using spec_stages [OF assms(1)] decode_spec [OF assms(1)] spec_check [OF assms(2), of C W]
    by (auto simp: verify_Ok spec_last_valid saturating_add_def REPLAY_RETENTION_SECS_def)
qed

lemma spec_time: "unat SPEC_TIME = 1700000000"
  by (simp add: SPEC_TIME_def)

lemma spec_vector_settles: "documented C W \<Longrightarrow> test_spec_vector_settles C W"
  using spec_verified [of C W SPEC_TIME] fixture_texts(3) [of C W]
  by (simp add: test_spec_vector_settles_def settle_def spec_time consume_def sql_insert_or_ignore_def Let_def)

lemma spec_vector_passes_issue_checks:
  "documented C W \<Longrightarrow> test_spec_vector_passes_issue_checks C W"
  using decode_spec [of C W] spec_check [of SPEC_TIME C W]
  by (auto simp: test_spec_vector_passes_issue_checks_def check_issued_invoice_Ok spec_time invoice_end_def
      spec_invoice_def SPEC_TIME_def saturating_add_def)

lemma proof_settles_only_once: "documented C W \<Longrightarrow> test_proof_settles_only_once C W"
  using spec_verified [of C W SPEC_TIME]
  by (simp add: test_proof_settles_only_once_def settle_def spec_time consume_def sql_insert_or_ignore_def Let_def)

lemma expiry_grace_window: "documented C W \<Longrightarrow> test_expiry_grace_window C W"
proof -
  assume doc: "documented C W"
  have "rejected C (spec_payload C W) (spec_terms C W ARTICLE_A) 1700000361 = Some InvoiceExpired"
    using spec_stages [OF doc] decode_spec [OF doc] spec_check [of 1700000361 C W]
    by (intro rejected_expired [of _ _ _ SPEC_INVOICE "spec_invoice C W"]) (simp_all add: spec_last_valid)
  moreover have "check_issued_invoice C SPEC_INVOICE (spec_terms C W ARTICLE_A) 1700000301 = Err InvoiceExpired"
    using decode_spec [OF doc] spec_check [of 1700000301 C W]
    by (simp add: check_issued_invoice_def invoice_end_def spec_invoice_def SPEC_TIME_def saturating_add_def)
  ultimately show ?thesis
    using spec_verified [OF doc, of 1700000360] by (simp add: test_expiry_grace_window_def Let_def SPEC_TIME_def)
qed

lemma invoice_created_in_future_is_rejected:
  "documented C W \<Longrightarrow> test_invoice_created_in_future_is_rejected C W"
proof -
  assume doc: "documented C W"
  have "check (spec_invoice C W) (spec_terms C W ARTICLE_A) 1699999939 = Err InvoiceCreatedInFuture"
    by (simp add: check_def spec_invoice_def SPEC_TIME_def saturating_add_def)
  then have "rejected C (spec_payload C W) (spec_terms C W ARTICLE_A) 1699999939 = Some InvoiceCreatedInFuture"
    using spec_stages [OF doc] decode_spec [OF doc]
    by (intro rejected_check [of _ _ _ SPEC_INVOICE "spec_invoice C W"]) simp_all
  then show ?thesis
    using spec_verified [OF doc, of 1699999940]
    by (simp add: test_invoice_created_in_future_is_rejected_def Let_def SPEC_TIME_def)
qed

lemma core_field_mismatches_are_rejected:
  "documented C W \<Longrightarrow> test_core_field_mismatches_are_rejected C W"
proof -
  assume doc: "documented C W"
  have amount: "dec_string 25000 \<noteq> ''1000''"
  proof
    assume "dec_string 25000 = ''1000''"
    then have "parse_digits 0 (dec_string 25000) = Some 1000" by (simp add: digit_value_def)
    then show False by simp
  qed
  have key: "repeat ''02'' 33 \<noteq> pubkey_to_string C (tw_public_key W secret_key)"
    using doc by (auto simp: documented_def)
  show ?thesis
    unfolding test_core_field_mismatches_are_rejected_def list.pred_inject prod.case
    by (intro conjI rejected_core TrueI)
       (use amount key in \<open>simp_all add: with_accepted_def check_core_def requirements_def Let_def SCHEME_def ASSET_def\<close>)
qed

text \<open>Edits of \<^verbatim>\<open>extra\<close> leave the first stage alone.\<close>

lemma with_extra_simps [simp]:
  "pp_payload (with_extra f p) = pp_payload p"
  "pr_extra (pp_accepted (with_extra f p)) = f (pr_extra (pp_accepted p))"
  "check_core C (pp_accepted (with_extra f p)) t = check_core C (pp_accepted p) t"
  by (simp_all add: with_extra_def check_core_def)

lemma map_of_obj_remove [simp]: "map_of (obj_remove k ms) l = (if l = k then None else map_of ms l)"
  by (induction ms) (auto simp: obj_remove_def)

lemma extra_members:
  assumes "documented C W"
  shows "map_of (pr_extra (requirements C (spec_terms C W ARTICLE_A) tx)) =
    [''assetTransferMethod'' \<mapsto> JStr ASSET_TRANSFER_METHOD, ''invoice'' \<mapsto> JStr tx,
     ''paymentFlow'' \<mapsto> JStr PAYMENT_FLOW, ''requestBindingParams'' \<mapsto> http_params [],
     ''requestBindingProfile'' \<mapsto> JStr HTTP_PROFILE, ''requestHash'' \<mapsto> JStr ARTICLE_A]"
  using fixture_texts(1) [OF assms] by (auto simp: requirements_extra fun_eq_iff)

lemma article_digits [simp]:
  "list_all is_lower_hex_digit ARTICLE_A" "list_all is_lower_hex_digit ARTICLE_B"
  "length ARTICLE_A = 64" "length ARTICLE_B = 64"
  using hex_texts by (simp_all add: is_lower_hex_digit_eq [abs_def])

lemma proof_for_other_request_is_rejected:
  "documented C W \<Longrightarrow> test_proof_for_other_request_is_rejected C W"
proof -
  assume doc: "documented C W"
  let ?t = "spec_terms C W ARTICLE_B"
  have core: "check_core C (requirements C (spec_terms C W ARTICLE_A) tx) ?t = Ok ()" for tx
    by (simp add: check_core_Ok requirements_def Let_def)
  note hex = fixture_texts(2) [OF doc]
  have "rejected C (spec_payload C W) ?t SPEC_TIME = Some RequestMismatch"
    by (intro rejected_extra) (simp_all add: core check_extra_def extra_members [OF doc] hex hex_texts(9))
  moreover have "check (spec_invoice C W) ?t SPEC_TIME = Err InvoiceRequestMismatch"
    using fixture_texts(6) [OF doc] by (simp add: check_def spec_invoice_def)
  then have "rejected C (with_extra (obj_insert ''requestHash'' (JStr ARTICLE_B)) (spec_payload C W)) ?t SPEC_TIME
      = Some InvoiceRequestMismatch"
    using decode_spec [OF doc]
    by (intro rejected_check [of _ _ _ SPEC_INVOICE "spec_invoice C W"])
       (simp_all add: core check_extra_def extra_members [OF doc] hex)
  ultimately show ?thesis by (simp add: test_proof_for_other_request_is_rejected_def)
qed

lemma binding_params_cases [simp]:
  "\<not> is_valid_http_params (JObj [])"
  "\<not> is_valid_http_params (JObj [(''headers'', JArr []), (''unknown'', JArr [])])"
  "is_valid_http_params (JObj [(''headers'', JArr [JStr ''accept''])])"
  by (simp_all add: is_valid_http_params_def is_lowercase_token_def)

lemma missing_or_malformed_binding_is_rejected:
  "documented C W \<Longrightarrow> test_missing_or_malformed_binding_is_rejected C W"
proof -
  assume doc: "documented C W"
  let ?t = "spec_terms C W ARTICLE_A"
  have edited: "rejected C (with_extra f (spec_payload C W)) ?t SPEC_TIME = Some e"
    if "check_extra C (f (pr_extra (requirements C ?t SPEC_INVOICE))) ?t = Err e" for f e
    using that by (intro rejected_extra) (simp_all add: requirements_core)
  note eval = check_extra_def extra_members [OF doc] fixture_texts(1) [OF doc] HTTP_PROFILE_def http_params_object
  show ?thesis
    unfolding test_missing_or_malformed_binding_is_rejected_def Let_def list.pred_inject prod.case
    by (intro conjI edited TrueI) (simp_all add: eval)
qed

lemma transfer_method_and_flow_are_checked:
  "documented C W \<Longrightarrow> test_transfer_method_and_flow_are_checked C W"
proof -
  assume doc: "documented C W"
  let ?t = "spec_terms C W ARTICLE_A"
  let ?p = "with_extra (obj_remove ''assetTransferMethod'') (spec_payload C W)"
  note eval = check_extra_def extra_members [OF doc] fixture_texts(1) [OF doc] ASSET_TRANSFER_METHOD_def
  have "verify C ?p ?t SPEC_TIME = verify C (spec_payload C W) ?t SPEC_TIME"
    by (simp add: verify_def eval)
  then have "\<not> isl (verify C ?p ?t SPEC_TIME)" using spec_verified [OF doc, of SPEC_TIME] by (simp add: spec_time)
  moreover have "rejected C (with_extra (obj_insert ''assetTransferMethod'' (JStr ''bolt12'')) ?p) ?t SPEC_TIME
      = Some AssetTransferMethod"
    by (intro rejected_extra) (simp_all add: requirements_core eval)
  moreover have "rejected C (with_extra (obj_remove ''paymentFlow'') (spec_payload C W)) ?t SPEC_TIME = Some PaymentFlow"
    by (intro rejected_extra) (simp_all add: requirements_core eval)
  ultimately show ?thesis by (simp add: test_transfer_method_and_flow_are_checked_def Let_def)
qed

lemma preimage_is_checked: "documented C W \<Longrightarrow> test_preimage_is_checked C W"
proof -
  assume doc: "documented C W"
  let ?t = "spec_terms C W ARTICLE_A"
  have rej: "rejected C p ?t SPEC_TIME = Some e"
    if "pp_accepted p = requirements C ?t SPEC_INVOICE"
      "check_preimage C (pp_payload p) (hash32 C SPEC_PAYMENT_HASH) = Err e" for p e
    using that spec_stages [OF doc] decode_spec [OF doc] spec_check [of SPEC_TIME C W]
    by (intro rejected_preimage [of _ _ _ SPEC_INVOICE "spec_invoice C W"]) (simp_all add: spec_time)
  have "sha256 C (hash32 C (repeat ''00'' 32)) \<noteq> hash32 C SPEC_PAYMENT_HASH"
    using doc by (simp add: documented_def)
  then show ?thesis
    unfolding test_preimage_is_checked_def Let_def list.pred_inject prod.case
    by (intro conjI rej TrueI)
       (simp_all add: test_payload_def check_preimage_def fixture_texts(5) [OF doc])
qed

lemma network_ids_follow_bip122: "documented C W \<Longrightarrow> test_network_ids_follow_bip122 W"
  by (simp add: documented_def test_network_ids_follow_bip122_def)

lemma rejected_undecodable:
  "check_core C (pp_accepted p) t = Ok () \<Longrightarrow> check_extra C (pr_extra (pp_accepted p)) t = Ok () \<Longrightarrow>
     map_of (pr_extra (pp_accepted p)) ''invoice'' = Some (JStr tx) \<Longrightarrow> tx \<noteq> [] \<Longrightarrow>
     decode C tx = Err e \<Longrightarrow> rejected C p t now = Some e"
  by (simp add: rejected_def verify_def)

lemma undecodable_invoice_is_rejected:
  assumes doc: "documented C W"
  shows "test_undecodable_invoice_is_rejected C W"
proof -
  let ?t = "spec_terms C W ARTICLE_A"
  have "rejected C (with_extra (obj_remove ''invoice'') (spec_payload C W)) ?t SPEC_TIME = Some InvoiceMissing"
    by (intro rejected_missing)
       (simp_all add: requirements_core check_extra_def extra_members [OF doc] fixture_texts(1) [OF doc])
  moreover have "decode C tampered_invoice = Err InvoiceDecodeFailed"
    using doc by (auto simp: documented_def decode_def split: option.splits)
  then have "rejected C (test_payload (requirements C ?t tampered_invoice) SPEC_PREIMAGE) ?t SPEC_TIME
      = Some InvoiceDecodeFailed"
    using spec_stages(1,2) [OF doc, of tampered_invoice]
    by (intro rejected_undecodable [of _ _ _ tampered_invoice]) (simp_all add: test_payload_def tampered_invoice_def)
  ultimately show ?thesis by (simp add: test_undecodable_invoice_is_rejected_def)
qed

text \<open>Invoices that a test signs itself.\<close>

definition signable :: "bytes \<Rightarrow> u64 \<Rightarrow> bytes \<Rightarrow> u64 \<Rightarrow> u64 \<Rightarrow> bool" where
  "signable key amount dh expiry created \<longleftrightarrow>
     key \<in> {secret_key, other_key} \<and> 0 < unat amount \<and> unat amount < 2 ^ 60 \<and> length dh = 32
     \<and> unat expiry < 2 ^ 32 \<and> unat created < 2 ^ 35"

lemma sign_invoice_decodes:
  assumes "documented C W" "signable key amount dh expiry created"
  obtains tx where "sign_invoice C W n key cur amount dh expiry created = Some (tx, tw_random W n)"
    "tx \<noteq> []" "is_ascii tx" "decode C tx = Ok
      \<lparr>inv_currency = cur, inv_amount_msat = Some amount, inv_payment_hash = sha256 C (tw_random W n),
       inv_description_hash = Some dh, inv_payee = tw_public_key W key, inv_created = created,
       inv_expiry = expiry\<rparr>"
proof -
  let ?q = "\<lparr>ir_currency = cur, ir_description = Inr dh, ir_payment_hash = sha256 C (tw_random W n),
    ir_created = created, ir_amount_msat = amount, ir_expiry = expiry\<rparr>"
  have q: "key \<in> {secret_key, other_key}" "buildable ?q"
    using assms by (auto simp: buildable_def signable_def documented_def sha256_length_def)
  show thesis
    by (rule decode_signed [OF assms(1) q]) (rule that; simp add: sign_invoice_def)
qed

lemma signed_stages:
  assumes "documented C W" "t = (spec_terms C W ARTICLE_A)\<lparr>t_network := n\<rparr>"
    and "signable key amount (hash32 C ARTICLE_A) expiry SPEC_TIME"
  obtains tx where "sign_invoice C W i key cur amount (hash32 C ARTICLE_A) expiry SPEC_TIME = Some (tx, tw_random W i)"
    "tx \<noteq> []" "decode C tx = Ok
      \<lparr>inv_currency = cur, inv_amount_msat = Some amount, inv_payment_hash = sha256 C (tw_random W i),
       inv_description_hash = Some (hash32 C ARTICLE_A), inv_payee = tw_public_key W key, inv_created = SPEC_TIME,
       inv_expiry = expiry\<rparr>"
    "check_core C (requirements C t tx) t = Ok ()" "check_extra C (pr_extra (requirements C t tx)) t = Ok ()"
    "check_preimage C [(''preimage'', JStr (hex_encode C (tw_random W i)))] (sha256 C (tw_random W i)) = Ok ()"
proof -
  have extra: "check_extra C (pr_extra (requirements C t tx)) t = Ok ()" for tx
    using assms(1,2) hash32_length [OF assms(1)] by (intro requirements_check_extra) (simp_all add: documented_def)
  have "length (tw_random W i) = 32" using assms(1) by (simp add: documented_def)
  then have pre: "check_preimage C [(''preimage'', JStr (hex_encode C (tw_random W i)))] (sha256 C (tw_random W i)) = Ok ()"
    using assms(1) hex_encode_digits [of C "tw_random W i"] by (auto simp: check_preimage_Ok documented_def hex_roundtrip_def)
  show thesis
    by (rule sign_invoice_decodes [OF assms(1,3)]) (rule that [OF _ _ _ requirements_core extra pre]; assumption)
qed

lemma signed_rejected:
  assumes "documented C W" "t = (spec_terms C W ARTICLE_A)\<lparr>t_network := n\<rparr>"
    and "signable key amount (hash32 C ARTICLE_A) expiry SPEC_TIME"
    and "check \<lparr>inv_currency = cur, inv_amount_msat = Some amount, inv_payment_hash = sha256 C (tw_random W i),
       inv_description_hash = Some (hash32 C ARTICLE_A), inv_payee = tw_public_key W key, inv_created = SPEC_TIME,
       inv_expiry = expiry\<rparr> t SPEC_TIME = Err e"
  shows "case sign_invoice C W i key cur amount (hash32 C ARTICLE_A) expiry SPEC_TIME of
      None \<Rightarrow> False
    | Some s \<Rightarrow> rejected C (case s of (tx, preimage) \<Rightarrow>
        test_payload (requirements C t tx) (hex_encode C preimage)) t SPEC_TIME = Some e"
proof (rule signed_stages [OF assms(1-3), of i cur])
  fix tx
  assume s: "sign_invoice C W i key cur amount (hash32 C ARTICLE_A) expiry SPEC_TIME = Some (tx, tw_random W i)"
    and stages: "tx \<noteq> []" "decode C tx = Ok
      \<lparr>inv_currency = cur, inv_amount_msat = Some amount, inv_payment_hash = sha256 C (tw_random W i),
       inv_description_hash = Some (hash32 C ARTICLE_A), inv_payee = tw_public_key W key, inv_created = SPEC_TIME,
       inv_expiry = expiry\<rparr>"
    "check_core C (requirements C t tx) t = Ok ()" "check_extra C (pr_extra (requirements C t tx)) t = Ok ()"
  have "rejected C (test_payload (requirements C t tx) (hex_encode C (tw_random W i))) t SPEC_TIME = Some e"
    using stages assms(4) by (intro rejected_check [of _ _ _ tx]) (simp_all add: test_payload_def)
  then show ?thesis by (simp add: s)
qed

lemma signed_verified:
  assumes "documented C W" "t = (spec_terms C W ARTICLE_A)\<lparr>t_network := n\<rparr>"
  obtains tx where
    "sign_invoice C W i secret_key (network_currency n) 25000 (hash32 C ARTICLE_A) 300 SPEC_TIME = Some (tx, tw_random W i)"
    "verify C (test_payload (requirements C t tx) (hex_encode C (tw_random W i))) t SPEC_TIME =
       Ok \<lparr>pf_payment_hash = sha256 C (tw_random W i), pf_retain_until = 1700003960\<rparr>"
proof -
  let ?iv = "\<lparr>inv_currency = network_currency n, inv_amount_msat = Some 25000,
     inv_payment_hash = sha256 C (tw_random W i),
     inv_description_hash = Some (hash32 C ARTICLE_A), inv_payee = tw_public_key W secret_key,
     inv_created = SPEC_TIME, inv_expiry = 300\<rparr>"
  have "signable secret_key 25000 (hash32 C ARTICLE_A) 300 SPEC_TIME"
    using hash32_length [OF assms(1)] by (simp add: signable_def SPEC_TIME_def)
  from signed_stages [OF assms this, of i "network_currency n"] obtain tx where
    s: "sign_invoice C W i secret_key (network_currency n) 25000 (hash32 C ARTICLE_A) 300 SPEC_TIME = Some (tx, tw_random W i)"
    and stages: "tx \<noteq> []" "decode C tx = Ok ?iv"
    "check_core C (requirements C t tx) t = Ok ()" "check_extra C (pr_extra (requirements C t tx)) t = Ok ()"
    "check_preimage C [(''preimage'', JStr (hex_encode C (tw_random W i)))] (sha256 C (tw_random W i)) = Ok ()" .
  have "check ?iv t SPEC_TIME = Ok ()"
    by (simp add: check_Ok assms(2) saturating_add_ge)
  moreover have "last_valid ?iv t = 1700000360"
    by (simp add: last_valid_def invoice_end_def SPEC_TIME_def saturating_add_def assms(2))
  ultimately have "verify C (test_payload (requirements C t tx) (hex_encode C (tw_random W i))) t SPEC_TIME =
       Ok \<lparr>pf_payment_hash = sha256 C (tw_random W i), pf_retain_until = 1700003960\<rparr>"
    using stages by (simp add: verify_Ok test_payload_def SPEC_TIME_def saturating_add_def REPLAY_RETENTION_SECS_def)
  with that s show thesis by blast
qed

lemma signet_invoice_settles_only_on_signet:
  assumes doc: "documented C W"
  shows "test_signet_invoice_settles_only_on_signet C W"
proof -
  let ?t = "(spec_terms C W ARTICLE_A)\<lparr>t_network := Signet\<rparr>"
  obtain tx where s: "sign_invoice C W 0 secret_key SignetCurrency 25000 (hash32 C ARTICLE_A) 300 SPEC_TIME
      = Some (tx, tw_random W 0)"
    "verify C (test_payload (requirements C ?t tx) (hex_encode C (tw_random W 0))) ?t SPEC_TIME =
       Ok \<lparr>pf_payment_hash = sha256 C (tw_random W 0), pf_retain_until = 1700003960\<rparr>"
    by (rule signed_verified [OF doc refl, of 0 Signet]) (simp only: network_currency.simps)
  have settled: "fst (settle C None (test_payload (requirements C ?t tx) (hex_encode C (tw_random W 0))) ?t SPEC_TIME [])
      = Ok \<lparr>transaction = hex_encode C (sha256 C (tw_random W 0))\<rparr>"
    using s(2) by (simp add: settle_def consume_def sql_insert_or_ignore_def Let_def)
  have "signable secret_key 25000 (hash32 C ARTICLE_A) 300 SPEC_TIME"
    using hash32_length [OF doc] by (simp add: signable_def SPEC_TIME_def)
  from signed_rejected [OF doc refl this, of BitcoinTestnet 1 Signet InvoiceCurrencyMismatch] settled
  show ?thesis
    by (auto simp: test_signet_invoice_settles_only_on_signet_def Let_def s(1) check_def simp del: One_nat_def split: option.splits)
qed

lemma invoice_mismatches_are_rejected:
  assumes doc: "documented C W"
  shows "test_invoice_mismatches_are_rejected C W"
proof -
  let ?t = "spec_terms C W ARTICLE_A"
  have t: "?t = (spec_terms C W ARTICLE_A)\<lparr>t_network := Mainnet\<rparr>" by (simp add: spec_terms_def)
  have "tw_public_key W other_key \<noteq> tw_public_key W secret_key" using doc by (auto simp: documented_def)
  then have "list_all (\<lambda>(signed, reason). case signed of None \<Rightarrow> False | Some s \<Rightarrow> rejected C
      (case s of (tx, preimage) \<Rightarrow> test_payload (requirements C ?t tx) (hex_encode C preimage)) ?t SPEC_TIME = Some reason)
    [(sign_invoice C W 0 other_key Bitcoin 25000 (hash32 C ARTICLE_A) 300 SPEC_TIME, InvoicePayeeMismatch),
     (sign_invoice C W 1 secret_key BitcoinTestnet 25000 (hash32 C ARTICLE_A) 300 SPEC_TIME, InvoiceCurrencyMismatch),
     (sign_invoice C W 2 secret_key Bitcoin 24000 (hash32 C ARTICLE_A) 300 SPEC_TIME, InvoiceAmountMismatch),
     (sign_invoice C W 3 secret_key Bitcoin 25000 (hash32 C ARTICLE_A) 600 SPEC_TIME, InvoiceExpiryMismatch)]"
    unfolding list.pred_inject prod.case
    by (intro conjI signed_rejected [OF doc t] TrueI)
       (simp_all add: check_def signable_def SPEC_TIME_def hash32_length [OF doc])
  moreover obtain tx where "sign_invoice C W 4 secret_key Bitcoin 25000 (hash32 C ARTICLE_A) 300 SPEC_TIME
      = Some (tx, tw_random W 4)"
    "verify C (test_payload (requirements C ?t tx) (hex_encode C (tw_random W 4))) ?t SPEC_TIME =
       Ok \<lparr>pf_payment_hash = sha256 C (tw_random W 4), pf_retain_until = 1700003960\<rparr>"
    by (rule signed_verified [OF doc t, of 4]) (simp only: network_currency.simps)
  ultimately show ?thesis by (simp add: test_invoice_mismatches_are_rejected_def Let_def)
qed

lemma inline_description_is_rejected:
  assumes doc: "documented C W"
  shows "test_inline_description_is_rejected C W"
proof -
  let ?t = "spec_terms C W ARTICLE_A"
  let ?q = "\<lparr>ir_currency = Bitcoin, ir_description = Inl ''article A'', ir_payment_hash = sha256 C (tw_random W 0),
     ir_created = SPEC_TIME, ir_amount_msat = 25000, ir_expiry = 300\<rparr>"
  let ?iv = "\<lparr>inv_currency = Bitcoin, inv_amount_msat = Some 25000, inv_payment_hash = sha256 C (tw_random W 0),
     inv_description_hash = None, inv_payee = tw_public_key W secret_key, inv_created = SPEC_TIME, inv_expiry = 300\<rparr>"
  have q: "secret_key \<in> {secret_key, other_key}" "buildable ?q"
    using doc by (simp_all add: buildable_def documented_def sha256_length_def SPEC_TIME_def)
  obtain tx where built: "tw_build_signed W secret_key ?q = Some tx" "tx \<noteq> []" "decode C tx = Ok ?iv"
    by (rule decode_signed [OF doc q]) simp
  have "check ?iv ?t SPEC_TIME = Err InvoiceDescription" by (simp add: check_def)
  then have "rejected C (test_payload (requirements C ?t tx) (hex_encode C (tw_random W 0)))
      ?t SPEC_TIME = Some InvoiceDescription"
    using spec_stages(1,2) [OF doc] built
    by (intro rejected_check [of _ _ _ tx ?iv]) (simp_all add: test_payload_def)
  then show ?thesis by (simp add: test_inline_description_is_rejected_def Let_def built(1))
qed

end
