(* ===== verification/Handler_Tests.thy ===== *)
theory Handler_Tests
  imports Lnbtc_Tests X402_Handler
begin

text \<open>
  The tests of \<^verbatim>\<open>src/x402/handler.rs\<close>, as predicates on the model: a client that talks to the route over the
  header encoding, with an issuer that signs its own invoices and remembers their preimages, in the
  place of the node and of the payer's wallet. A request has its own clock readings and random numbers. The
  tests pass for every library that behaves as documented and when a test takes at most a minute.
\<close>

definition TEST_PUBLIC_URL :: string where
  "TEST_PUBLIC_URL = ''https://fortune.test''"

section \<open>The fake issuer\<close>

text \<open>
  The preimages by invoice, and how many were drawn from the random generator. Where the invoice builder
  refuses, the issuer panics; here it fails, which fails a test in the same way.
\<close>

record fake_issuer =
  preimages :: "string \<Rightarrow> bytes option"
  drawn :: nat

definition fake_issue :: "crates \<Rightarrow> test_world \<Rightarrow> u64 \<Rightarrow> fake_issuer issuer" where
  "fake_issue C W now amount_msat description_hash expiry_secs w =
     (case sign_invoice C W (drawn w) secret_key Bitcoin amount_msat description_hash expiry_secs now of
        None \<Rightarrow> (Err (Internal ''called `Result::unwrap()` on an `Err` value''), w)
      | Some (invoice, p) \<Rightarrow>
          (Ok invoice, w\<lparr>preimages := (preimages w)(invoice \<mapsto> p), drawn := Suc (drawn w)\<rparr>))"

definition test_state :: "test_world \<Rightarrow> x402_state" where
  "test_state W =
     \<lparr>x_network = Mainnet, x_pay_to = tw_public_key W secret_key, x_amount_msat = 1000,
      x_max_timeout_secs = 300, x_clock_skew_secs = 60, x_public_url = TEST_PUBLIC_URL\<rparr>"

definition test_app :: "fake_issuer \<times> table" where
  "test_app = (\<lparr>preimages = Map.empty, drawn = 0\<rparr>, projr (replay_open None None None '':memory:'' None))"

section \<open>The client\<close>

text \<open>The environment of a request: what the issuer's clock reads, and the handler's environment.\<close>

type_synonym test_env = "u64 \<times> x402_env"

definition get_request :: "string \<Rightarrow> string option \<Rightarrow> request" where
  "get_request uri sig =
     \<lparr>rq_method = ''GET'', rq_path = takeWhile (\<lambda>c. c \<noteq> CHR ''?'') uri, rq_path_and_query = Some uri,
      rq_headers = (case sig of None \<Rightarrow> [] | Some s \<Rightarrow> [(PAYMENT_SIGNATURE, as_bytes s)]), rq_body = []\<rparr>"

definition get_response ::
  "crates \<Rightarrow> test_world \<Rightarrow> test_env \<Rightarrow> string \<Rightarrow> string option \<Rightarrow> fake_issuer \<times> table
     \<Rightarrow> response option \<times> fake_issuer \<times> table" where
  "get_response C W e uri sig st =
     (case x402_get_fortune C (fake_issue C W (fst e)) (test_state W) (snd e) (get_request uri sig) st of
        (out, st') \<Rightarrow> (deliver out, st'))"

definition header_json :: "crates \<Rightarrow> response \<Rightarrow> string \<Rightarrow> json option" where
  "header_json C r name =
     Option.bind (map_of (resp_headers r) name) (\<lambda>v.
     case b64_decode C v of
       Inl _ \<Rightarrow> None
     | Inr bs \<Rightarrow> (case json_parse C bs of Inl _ \<Rightarrow> None | Inr j \<Rightarrow> Some (to_value j)))"

text \<open>Indexing a \<^verbatim>\<open>serde_json::Value\<close>: null where there is no such member.\<close>

definition json_get :: "json \<Rightarrow> string \<Rightarrow> json" where
  "json_get j k = (case j of JObj ms \<Rightarrow> (case map_of ms k of Some v \<Rightarrow> v | None \<Rightarrow> JNull) | _ \<Rightarrow> JNull)"

definition json_first :: "json \<Rightarrow> json" where
  "json_first j = (case j of JArr (v # _) \<Rightarrow> v | _ \<Rightarrow> JNull)"

text \<open>\<^verbatim>\<open>BASE64_STANDARD.encode(payload.to_string())\<close>.\<close>

definition encode_text :: "crates \<Rightarrow> json \<Rightarrow> string option" where
  "encode_text C doc = (case json_to_vec C doc of Inl _ \<Rightarrow> None | Inr bs \<Rightarrow> Some (b64_encode C bs))"

definition pay ::
  "crates \<Rightarrow> test_world \<Rightarrow> test_env \<Rightarrow> string \<Rightarrow> fake_issuer \<times> table
     \<Rightarrow> string option \<times> fake_issuer \<times> table" where
  "pay C W e uri st =
     (case get_response C W e uri None st of
        (None, st') \<Rightarrow> (None, st')
      | (Some r, st') \<Rightarrow>
          (if status r \<noteq> PAYMENT_REQUIRED_STATUS then None
           else Option.bind (header_json C r PAYMENT_REQUIRED) (\<lambda>required.
             let accepted = json_first (json_get required ''accepts'') in
             Option.bind (as_string (json_get (json_get accepted ''extra'') ''invoice'')) (\<lambda>invoice.
             Option.bind (preimages (fst st') invoice) (\<lambda>p.
             encode_text C (json_obj
               [(''x402Version'', JInt 2), (''resource'', json_get required ''resource''),
                (''accepted'', accepted),
                (''payload'', json_obj [(''preimage'', JStr (hex_encode C p))])])))), st'))"

section \<open>The tests\<close>

definition test_challenge_describes_request :: "crates \<Rightarrow> test_world \<Rightarrow> test_env \<Rightarrow> bool" where
  "test_challenge_describes_request C W e =
     (case fst (get_response C W e ''/x402?lang=en'' None test_app) of
        None \<Rightarrow> False
      | Some r \<Rightarrow>
          status r = PAYMENT_REQUIRED_STATUS
          \<and> (case header_json C r PAYMENT_REQUIRED of
               None \<Rightarrow> False
             | Some required \<Rightarrow>
                 let accepted = json_first (json_get required ''accepts'');
                     extra = json_get accepted ''extra'' in
                 json_get required ''x402Version'' = JInt 2
                 \<and> json_get (json_get required ''resource'') ''url'' = JStr ''https://fortune.test/x402?lang=en''
                 \<and> json_get accepted ''network'' = JStr (caip2 Mainnet)
                 \<and> json_get accepted ''amount'' = JStr ''1000''
                 \<and> json_get accepted ''asset'' = JStr ''BTC''
                 \<and> json_get accepted ''maxTimeoutSeconds'' = JInt 300
                 \<and> json_get extra ''paymentFlow'' = JStr ''upfront''
                 \<and> json_get extra ''requestBindingProfile'' = JStr ''http:1''
                 \<and> json_get extra ''requestBindingParams'' = json_obj [(''headers'', JArr [])]
                 \<and> (case http_request_hash C ''GET'' ''https://fortune.test/x402?lang=en'' [] [] [] of
                      Inl _ \<Rightarrow> False
                    | Inr expected \<Rightarrow> json_get extra ''requestHash'' = JStr (hex_encode C expected))))"

text \<open>The settlement that an answer reports, and whether its body is a fortune.\<close>

definition settles :: "crates \<Rightarrow> response \<Rightarrow> bool" where
  "settles C r =
     (case header_json C r PAYMENT_RESPONSE of
        None \<Rightarrow> False
      | Some settlement \<Rightarrow>
          json_get settlement ''success'' = JBool True
          \<and> json_get settlement ''network'' = JStr (caip2 Mainnet)
          \<and> map_option (length :: string \<Rightarrow> nat) (as_string (json_get settlement ''transaction'')) = Some 64
          \<and> (case settlement of JObj ms \<Rightarrow> map_of ms ''payer'' = None | _ \<Rightarrow> True))"

definition has_fortune :: "response \<Rightarrow> bool" where
  "has_fortune r = (case resp_body r of JsonBody j \<Rightarrow> as_string (json_get j ''fortune'') \<noteq> None | _ \<Rightarrow> False)"

definition refused_as :: "crates \<Rightarrow> response \<Rightarrow> string \<Rightarrow> bool" where
  "refused_as C r reason =
     (case header_json C r PAYMENT_RESPONSE of
        None \<Rightarrow> False
      | Some settlement \<Rightarrow>
          json_get settlement ''success'' = JBool False \<and> json_get settlement ''errorReason'' = JStr reason)"

definition test_paid_request_gets_fortune_once ::
  "crates \<Rightarrow> test_world \<Rightarrow> test_env \<Rightarrow> test_env \<Rightarrow> test_env \<Rightarrow> bool" where
  "test_paid_request_gets_fortune_once C W e e' e'' =
     (case pay C W e ''/x402'' test_app of
        (None, _) \<Rightarrow> False
      | (Some sig, st) \<Rightarrow>
          (case get_response C W e' ''/x402'' (Some sig) st of
             (None, _) \<Rightarrow> False
           | (Some r, st') \<Rightarrow>
               status r = OK_STATUS \<and> settles C r \<and> has_fortune r
               \<and> (case get_response C W e'' ''/x402'' (Some sig) st' of
                    (None, _) \<Rightarrow> False
                  | (Some r', _) \<Rightarrow>
                      status r' = PAYMENT_REQUIRED_STATUS \<and> refused_as C r' ''duplicate_settlement''
                      \<and> map_of (resp_headers r') PAYMENT_REQUIRED \<noteq> None)))"

definition test_proof_is_bound_to_its_request ::
  "crates \<Rightarrow> test_world \<Rightarrow> test_env \<Rightarrow> test_env \<Rightarrow> test_env \<Rightarrow> bool" where
  "test_proof_is_bound_to_its_request C W e e' e'' =
     (case pay C W e ''/x402?lang=en'' test_app of
        (None, _) \<Rightarrow> False
      | (Some sig, st) \<Rightarrow>
          (case get_response C W e' ''/x402?lang=fr'' (Some sig) st of
             (None, _) \<Rightarrow> False
           | (Some r, st') \<Rightarrow>
               status r = PAYMENT_REQUIRED_STATUS \<and> refused_as C r ''invalid_exact_lnbtc_request_mismatch''
               \<and> (case fst (get_response C W e'' ''/x402?lang=en'' (Some sig) st') of
                    None \<Rightarrow> False
                  | Some r' \<Rightarrow> status r' = OK_STATUS)))"

definition wrong_version_document :: json where
  "wrong_version_document =
     json_obj
       [(''x402Version'', JInt 1),
        (''accepted'', json_obj
          [(''scheme'', JStr ''exact''), (''network'', JStr ''''), (''amount'', JStr ''''), (''asset'', JStr ''''),
           (''payTo'', JStr ''''), (''maxTimeoutSeconds'', JInt 1)]),
        (''payload'', json_obj [])]"

definition test_malformed_payment_is_bad_request :: "crates \<Rightarrow> test_world \<Rightarrow> test_env \<Rightarrow> test_env \<Rightarrow> bool" where
  "test_malformed_payment_is_bad_request C W e e' =
     (case get_response C W e ''/x402'' (Some ''not base64!'') test_app of
        (None, _) \<Rightarrow> False
      | (Some r, st) \<Rightarrow>
          status r = BAD_REQUEST
          \<and> (case encode_text C wrong_version_document of
               None \<Rightarrow> False
             | Some wrong_version \<Rightarrow>
                 (case fst (get_response C W e' ''/x402'' (Some wrong_version) st) of
                    None \<Rightarrow> False
                  | Some r' \<Rightarrow> status r' = BAD_REQUEST)))"

section \<open>What the tests ask of the libraries\<close>

text \<open>
  Documents whose text is read back as it was written: ASCII texts, integers in the range of \<^verbatim>\<open>i64\<close> or
  \<^verbatim>\<open>u64\<close>, no object with a member twice, and no more than \<open>d\<close> levels of nesting. \<^verbatim>\<open>serde_json\<close> reads at most
  127 levels.
\<close>

fun json_plain :: "nat \<Rightarrow> json \<Rightarrow> bool" where
  "json_plain d (JInt i) = (- (2 ^ 63) \<le> i \<and> i < 2 ^ 64)"
| "json_plain d (JFloat _) = False"
| "json_plain d (JStr s) = is_ascii s"
| "json_plain d (JArr js) = (0 < d \<and> list_all (json_plain (d - 1)) js)"
| "json_plain d (JObj ms) =
     (0 < d \<and> distinct (map fst ms) \<and> list_all (\<lambda>m. is_ascii (fst m) \<and> json_plain (d - 1) (snd m)) ms)"
| "json_plain d _ = True"

definition JSON_DEPTH :: nat where
  "JSON_DEPTH = 127"

definition json_texts :: "crates \<Rightarrow> bool" where
  "json_texts C \<longleftrightarrow>
     (\<forall>j. json_plain JSON_DEPTH j \<longrightarrow> (\<exists>bs. json_to_vec C j = Ok bs \<and> json_parse C bs = Ok j))"

definition documented_route :: "crates \<Rightarrow> test_world \<Rightarrow> bool" where
  "documented_route C W \<longleftrightarrow>
     documented C W \<and> b64_roundtrip C \<and> b64_alphabet C \<and> ascii_headers C \<and> json_texts C
     \<and> (\<forall>j. json_plain JSON_DEPTH j \<longrightarrow> \<not> isl (jcs_to_vec C j))
     \<and> is_ascii (pubkey_to_string C (tw_public_key W secret_key))"

lemma hex_ascii: "hex_lower C \<Longrightarrow> is_ascii (hex_encode C bs)"
  by (fastforce simp: hex_lower_def is_ascii_def is_hex_lower_def list_all_iff)

lemma dec_string_ascii: "is_ascii (dec_string n)"
proof -
  have "of_char (digit_char d) < (128 :: nat)" if "d < 10" for d
    using that by (simp add: digit_char_def)
  then show ?thesis using dec_string_digits by (fastforce simp: is_ascii_def list_all_iff)
qed

lemma names_ascii: "is_ascii (caip2 n)" "is_ascii (reason_as_str e)"
  by (cases n; simp) (cases e; simp)

lemma documented_ascii:
  assumes "documented_route C W"
  shows "is_ascii (hex_encode C bs)" "is_ascii (pubkey_to_string C (tw_public_key W secret_key))"
  using assms hex_ascii by (simp_all add: documented_route_def documented_def)

text \<open>
  The clocks of a request read times in the minute after \<open>start\<close>, which an invoice's timestamp can hold, and
  nothing else fails.
\<close>

definition in_minute :: "nat \<Rightarrow> (app_error, u64) outcome \<Rightarrow> bool" where
  "in_minute start reading =
     (case reading of Return now \<Rightarrow> start \<le> unat now \<and> unat now \<le> start + 60 | _ \<Rightarrow> False)"

definition runs_in_minute :: "nat \<Rightarrow> test_env \<Rightarrow> bool" where
  "runs_in_minute start e \<longleftrightarrow>
     start < 2 ^ 34 \<and> in_minute start (Return (fst e)) \<and> in_minute start (unix_now (e_settle_clock (snd e)))
     \<and> in_minute start (unix_now (e_challenge_clock (snd e))) \<and> e_db_fault (snd e) = None
     \<and> in_range (e_random (snd e))"

lemma in_minute_cases:
  assumes "in_minute start reading"
  obtains now where "reading = Return now" "start \<le> unat now" "unat now \<le> start + 60"
  using assms by (cases reading) (auto simp: in_minute_def)

section \<open>The tests pass\<close>

text \<open>The request hash of a test's request.\<close>

definition test_hash :: "crates \<Rightarrow> test_world \<Rightarrow> string \<Rightarrow> bytes" where
  "test_hash C W uri = projr (request_digest C (test_state W) (get_request uri None))"

lemma get_request_headers: "get_request uri sig = (get_request uri None)\<lparr>rq_headers := rq_headers (get_request uri sig)\<rparr>"
  by (simp add: get_request_def)

lemma test_digest:
  assumes "documented_route C W" "is_ascii uri"
  shows "request_digest C (test_state W) (get_request uri sig) = Ok (test_hash C W uri)"
    "length (test_hash C W uri) = 32"
proof -
  have "is_ascii (request_url (test_state W) (get_request uri None))"
    using assms(2) by (simp add: request_url_def get_request_def test_state_def TEST_PUBLIC_URL_def)
  then have "json_plain JSON_DEPTH (request_document C ''GET'' (request_url (test_state W) (get_request uri None)) [] [])"
    using documented_ascii(1) [OF assms(1)] by (simp add: request_document_members JSON_DEPTH_def)
  then have "\<exists>d. jcs_to_vec C (request_document C ''GET'' (request_url (test_state W) (get_request uri None)) [] []) = Ok d"
    using assms(1) by (metis documented_route_def isl_def sum.exhaust)
  then have "\<exists>h. request_digest C (test_state W) (get_request uri None) = Ok h"
    unfolding request_digest_def http_request_hash_unbound BOUND_HEADERS_def by (auto simp: get_request_def)
  then have none: "request_digest C (test_state W) (get_request uri None) = Ok (test_hash C W uri)"
    by (auto simp: test_hash_def)
  then show "request_digest C (test_state W) (get_request uri sig) = Ok (test_hash C W uri)"
    by (subst get_request_headers) (simp only: request_digest_headers)
  from none show "length (test_hash C W uri) = 32"
    using assms request_digest_length by (auto simp: documented_route_def documented_def)
qed

lemma test_url: "request_url (test_state W) (get_request uri sig) = TEST_PUBLIC_URL @ uri"
  by (simp add: request_url_def get_request_def test_state_def)

abbreviation (input) test_terms :: "crates \<Rightarrow> test_world \<Rightarrow> string \<Rightarrow> terms" where
  "test_terms C W uri \<equiv> x402_terms (test_state W) (test_hash C W uri)"

lemma test_state_simps [simp]:
  "x_network (test_state W) = Mainnet" "x_pay_to (test_state W) = tw_public_key W secret_key"
  "x_amount_msat (test_state W) = 1000" "x_max_timeout_secs (test_state W) = 300"
  "x_clock_skew_secs (test_state W) = 60"
  by (simp_all add: test_state_def)

text \<open>What the issuer makes for a request, and the invoice in it.\<close>

definition test_preimage :: "test_world \<Rightarrow> nat \<Rightarrow> bytes" where
  "test_preimage W n = tw_random W n"

definition test_invoice :: "crates \<Rightarrow> test_world \<Rightarrow> nat \<Rightarrow> u64 \<Rightarrow> string \<Rightarrow> string" where
  "test_invoice C W n now uri =
     fst (the (sign_invoice C W n secret_key Bitcoin 1000 (test_hash C W uri) 300 now))"

definition test_decoded :: "crates \<Rightarrow> test_world \<Rightarrow> nat \<Rightarrow> u64 \<Rightarrow> string \<Rightarrow> invoice" where
  "test_decoded C W n now uri =
     \<lparr>inv_currency = Bitcoin, inv_amount_msat = Some 1000, inv_payment_hash = sha256 C (test_preimage W n),
      inv_description_hash = Some (test_hash C W uri), inv_payee = tw_public_key W secret_key,
      inv_created = now, inv_expiry = 300\<rparr>"

lemma test_signed:
  assumes "documented_route C W" "is_ascii uri" "unat now < 2 ^ 35"
  shows "sign_invoice C W n secret_key Bitcoin 1000 (test_hash C W uri) 300 now
      = Some (test_invoice C W n now uri, test_preimage W n)"
    "test_invoice C W n now uri \<noteq> []" "is_ascii (test_invoice C W n now uri)"
    "decode C (test_invoice C W n now uri) = Ok (test_decoded C W n now uri)"
proof -
  have doc: "documented C W" using assms(1) by (simp add: documented_route_def)
  have "signable secret_key 1000 (test_hash C W uri) 300 now"
    using test_digest(2) [OF assms(1,2)] assms(3) by (simp add: signable_def)
  from sign_invoice_decodes [OF doc this, of n Bitcoin]
  obtain tx where tx: "sign_invoice C W n secret_key Bitcoin 1000 (test_hash C W uri) 300 now = Some (tx, tw_random W n)"
    "tx \<noteq> []" "is_ascii tx" "decode C tx = Ok
      \<lparr>inv_currency = Bitcoin, inv_amount_msat = Some 1000, inv_payment_hash = sha256 C (tw_random W n),
       inv_description_hash = Some (test_hash C W uri), inv_payee = tw_public_key W secret_key, inv_created = now,
       inv_expiry = 300\<rparr>" .
  then show "sign_invoice C W n secret_key Bitcoin 1000 (test_hash C W uri) 300 now
      = Some (test_invoice C W n now uri, test_preimage W n)"
    "test_invoice C W n now uri \<noteq> []" "is_ascii (test_invoice C W n now uri)"
    "decode C (test_invoice C W n now uri) = Ok (test_decoded C W n now uri)"
    by (simp_all add: test_invoice_def test_preimage_def test_decoded_def)
qed

lemma test_preimage_length: "documented_route C W \<Longrightarrow> length (test_preimage W n) = 32"
  by (simp add: documented_route_def documented_def test_preimage_def)

lemma test_issue:
  assumes "documented_route C W" "is_ascii uri" "unat now < 2 ^ 35"
  shows "fake_issue C W now 1000 (test_hash C W uri) 300 w =
     (Ok (test_invoice C W (drawn w) now uri),
      w\<lparr>preimages := (preimages w)(test_invoice C W (drawn w) now uri \<mapsto> test_preimage W (drawn w)),
        drawn := Suc (drawn w)\<rparr>)"
  by (simp add: fake_issue_def test_signed(1) [OF assms])

lemma test_invoice_checks:
  assumes "start < 2 ^ 34" "start \<le> unat created" "unat created \<le> start + 60" "start \<le> unat now" "unat now \<le> start + 60"
  shows "check (test_decoded C W n created uri) (test_terms C W uri) now = Ok ()"
    "now \<le> last_valid (test_decoded C W n created uri) (test_terms C W uri)"
    "now \<le> invoice_end (test_decoded C W n created uri)"
proof -
  show "check (test_decoded C W n created uri) (test_terms C W uri) now = Ok ()"
    using assms by (simp add: check_Ok test_decoded_def word_le_nat_alt unat_saturating_add)
  show "now \<le> last_valid (test_decoded C W n created uri) (test_terms C W uri)"
    "now \<le> invoice_end (test_decoded C W n created uri)"
    using assms by (simp_all add: last_valid_def invoice_end_def test_decoded_def word_le_nat_alt unat_saturating_add)
qed

text \<open>A header that encodes a document is read back as the document.\<close>

lemma encode_plain:
  assumes "documented_route C W" "json_plain JSON_DEPTH doc"
  shows "\<exists>h. encode_header C doc = Return h \<and> header_from_str C h \<noteq> None
    \<and> (\<forall>r name. map_of (resp_headers r) name = Some h \<longrightarrow> header_json C r name = Some (to_value doc))"
proof -
  obtain bs where bs: "json_to_vec C doc = Ok bs" "json_parse C bs = Ok doc"
    using assms unfolding documented_route_def json_texts_def by blast
  then have "encode_header C doc = Return (b64_encode C bs)" by (simp add: encode_header_def)
  moreover have "header_json C r name = Some (to_value doc)"
    if "map_of (resp_headers r) name = Some (b64_encode C bs)" for r name
    using that bs assms(1) by (simp add: header_json_def documented_route_def b64_roundtrip_def)
  moreover have "header_from_str C (b64_encode C bs) \<noteq> None"
    using assms(1) b64_header_value by (simp add: documented_route_def)
  ultimately show ?thesis by blast
qed

definition test_challenge :: "crates \<Rightarrow> test_world \<Rightarrow> string \<Rightarrow> string \<Rightarrow> string \<Rightarrow> payment_required" where
  "test_challenge C W uri msg invoice = challenge_body C (test_terms C W uri) (TEST_PUBLIC_URL @ uri) msg invoice"

lemma uint_u64_plain: "uint (x :: u64) < 18446744073709551616"
  using uint_lt2p [of x] by simp

lemma challenge_plain:
  assumes "documented_route C W" "is_ascii uri" "is_ascii msg" "is_ascii invoice"
  shows "json_plain JSON_DEPTH (payment_required_to_json (test_challenge C W uri msg invoice))"
  using assms(2-4) documented_ascii [OF assms(1)] names_ascii(1) dec_string_ascii
  by (simp add: JSON_DEPTH_def TEST_PUBLIC_URL_def SCHEME_def ASSET_def ASSET_TRANSFER_METHOD_def PAYMENT_FLOW_def
      HTTP_PROFILE_def payment_required_to_json_def test_challenge_def challenge_body_def resource_info_to_json_def
      requirements_to_json_def requirements_extra http_params_object uint_u64_plain X402_VERSION_def
      requirements_def Let_def)

text \<open>A challenge of the route under test, after a request without or with a refused payment.\<close>

lemma test_challenged:
  assumes doc: "documented_route C W" and minute: "runs_in_minute start e" and ascii: "is_ascii uri" "is_ascii msg"
  shows "\<exists>h. challenge C (fake_issue C W (fst e)) (e_challenge_clock (snd e)) (test_terms C W uri)
      (TEST_PUBLIC_URL @ uri) msg None w =
    (Return \<lparr>status = PAYMENT_REQUIRED_STATUS, resp_headers = [(PAYMENT_REQUIRED, h)],
        resp_body = JsonBody (payment_required_to_json
          (test_challenge C W uri msg (test_invoice C W (drawn w) (fst e) uri)))\<rparr>,
     w\<lparr>preimages := (preimages w)(test_invoice C W (drawn w) (fst e) uri \<mapsto> test_preimage W (drawn w)),
       drawn := Suc (drawn w)\<rparr>)
    \<and> (\<forall>r name. map_of (resp_headers r) name = Some h \<longrightarrow> header_json C r name =
         Some (to_value (payment_required_to_json
           (test_challenge C W uri msg (test_invoice C W (drawn w) (fst e) uri)))))"
    (is ?unpaid)
    and "json_plain JSON_DEPTH (settlement_to_json f) \<Longrightarrow> \<exists>r. challenge C (fake_issue C W (fst e)) (e_challenge_clock (snd e)) (test_terms C W uri)
      (TEST_PUBLIC_URL @ uri) msg (Some f) w =
    (Return r, w\<lparr>preimages := (preimages w)(test_invoice C W (drawn w) (fst e) uri \<mapsto> test_preimage W (drawn w)),
       drawn := Suc (drawn w)\<rparr>)
    \<and> status r = PAYMENT_REQUIRED_STATUS \<and> map_of (resp_headers r) PAYMENT_REQUIRED \<noteq> None
    \<and> header_json C r PAYMENT_RESPONSE = Some (to_value (settlement_to_json f))"
    (is "_ \<Longrightarrow> ?refused")
proof -
  let ?t = "test_terms C W uri" and ?inv = "test_invoice C W (drawn w) (fst e) uri"
  from minute have m: "start < 2 ^ 34" "in_minute start (Return (fst e))"
    "in_minute start (unix_now (e_challenge_clock (snd e)))" by (simp_all add: runs_in_minute_def)
  from m(3) obtain now where now: "unix_now (e_challenge_clock (snd e)) = Return now" "start \<le> unat now"
    "unat now \<le> start + 60" by (rule in_minute_cases)
  have created: "start \<le> unat (fst e)" "unat (fst e) \<le> start + 60" using m(2) by (simp_all add: in_minute_def)
  have stamp: "unat (fst e) < 2 ^ 35" using m(1) created(2) by simp
  note signed = test_signed [OF doc ascii(1) stamp]
    and checks = test_invoice_checks [OF m(1) created now(2,3), of C W "drawn w" uri]
  have issued: "check_issued_invoice C ?inv ?t now = Ok ()"
    using checks(1,3) signed(4) by (simp add: check_issued_invoice_Ok)
  have run: "challenge C (fake_issue C W (fst e)) (e_challenge_clock (snd e)) ?t (TEST_PUBLIC_URL @ uri) msg failure w =
    (challenge_response C ?t (TEST_PUBLIC_URL @ uri) msg failure ?inv,
     w\<lparr>preimages := (preimages w)(?inv \<mapsto> test_preimage W (drawn w)), drawn := Suc (drawn w)\<rparr>)" for failure
    by (simp add: challenge_def test_issue [OF doc ascii(1) stamp] now(1) issued)
  obtain h where h: "encode_header C (payment_required_to_json (test_challenge C W uri msg ?inv)) = Return h"
    "header_from_str C h \<noteq> None"
    "\<forall>r name. map_of (resp_headers r) name = Some h \<longrightarrow>
       header_json C r name = Some (to_value (payment_required_to_json (test_challenge C W uri msg ?inv)))"
    using encode_plain [OF doc challenge_plain [OF doc ascii signed(3)]] by blast
  note body = h(1) [unfolded test_challenge_def] h(2)
  have "challenge_response C ?t (TEST_PUBLIC_URL @ uri) msg None ?inv =
      Return \<lparr>status = PAYMENT_REQUIRED_STATUS, resp_headers = [(PAYMENT_REQUIRED, h)],
        resp_body = JsonBody (payment_required_to_json (test_challenge C W uri msg ?inv))\<rparr>"
    using body by (auto simp: challenge_response_def Let_def with_header_def test_challenge_def)
  with h(3) show ?unpaid unfolding run by blast
  assume "json_plain JSON_DEPTH (settlement_to_json f)"
  then obtain v where v: "encode_header C (settlement_to_json f) = Return v" "header_from_str C v \<noteq> None"
    "\<forall>r name. map_of (resp_headers r) name = Some v \<longrightarrow>
       header_json C r name = Some (to_value (settlement_to_json f))"
    using encode_plain [OF doc] by blast
  have "challenge_response C ?t (TEST_PUBLIC_URL @ uri) msg (Some f) ?inv =
      Return \<lparr>status = PAYMENT_REQUIRED_STATUS, resp_headers = [(PAYMENT_REQUIRED, h), (PAYMENT_RESPONSE, v)],
        resp_body = JsonBody (payment_required_to_json (test_challenge C W uri msg ?inv))\<rparr>"
    using body v(1,2) by (auto simp: challenge_response_def Let_def with_header_def test_challenge_def
        insert_header_def PAYMENT_REQUIRED_def PAYMENT_RESPONSE_def)
  with v(3) show ?refused unfolding run by (simp add: PAYMENT_REQUIRED_def PAYMENT_RESPONSE_def)
qed

text \<open>A request without a payment, and what its challenge holds.\<close>

lemma get_unpaid:
  assumes "documented_route C W" "runs_in_minute start e" "is_ascii uri"
  shows "\<exists>r. get_response C W e uri None (w, store) =
      (Some r, w\<lparr>preimages := (preimages w)(test_invoice C W (drawn w) (fst e) uri \<mapsto> test_preimage W (drawn w)),
         drawn := Suc (drawn w)\<rparr>, store)
    \<and> status r = PAYMENT_REQUIRED_STATUS
    \<and> header_json C r PAYMENT_REQUIRED = Some (to_value (payment_required_to_json
        (test_challenge C W uri ''PAYMENT-SIGNATURE header is required'' (test_invoice C W (drawn w) (fst e) uri))))"
proof -
  have none: "header_get (rq_headers (get_request uri None)) PAYMENT_SIGNATURE = None"
    by (simp add: get_request_def header_get_def)
  have "is_ascii ''PAYMENT-SIGNATURE header is required''" by simp
  from test_challenged(1) [OF assms this, of w]
  show ?thesis
    by (auto simp: get_response_def deliver_def x402_unpaid_branch [OF test_digest(1) [OF assms(1,3)] none] test_url)
qed

lemma challenge_value:
  fixes C W uri msg invoice
  defines "v \<equiv> to_value (payment_required_to_json (test_challenge C W uri msg invoice))"
    and "req \<equiv> requirements C (test_terms C W uri) invoice"
  shows "json_get v ''x402Version'' = JInt 2" "json_get (json_get v ''resource'') ''url'' = JStr (TEST_PUBLIC_URL @ uri)"
    "is_ascii uri \<Longrightarrow> json_plain (JSON_DEPTH - 1) (json_get v ''resource'')" "json_first (json_get v ''accepts'') = to_value (requirements_to_json req)"
  by (simp_all add: v_def req_def json_get_def json_first_def payment_required_to_json_def test_challenge_def
      challenge_body_def resource_info_to_json_def X402_VERSION_def JSON_DEPTH_def TEST_PUBLIC_URL_def)

lemma requirements_value:
  assumes "map_wf (pr_extra r)"
  shows "requirements_of_json (to_value (requirements_to_json r)) = Some r"
    "json_get (to_value (requirements_to_json r)) ''extra'' = JObj (pr_extra r)"
    "json_get (to_value (requirements_to_json r)) ''network'' = JStr (pr_network r)"
    "json_get (to_value (requirements_to_json r)) ''amount'' = JStr (pr_amount r)"
    "json_get (to_value (requirements_to_json r)) ''asset'' = JStr (pr_asset r)"
    "json_get (to_value (requirements_to_json r)) ''maxTimeoutSeconds'' = JInt (uint (pr_max_timeout_seconds r))"
    "json_plain d (JObj (pr_extra r)) \<Longrightarrow> list_all is_ascii [pr_scheme r, pr_network r, pr_amount r, pr_asset r, pr_pay_to r]
       \<Longrightarrow> json_plain (Suc d) (to_value (requirements_to_json r))"
proof -
  have extra: "to_value (JObj (pr_extra r)) = JObj (pr_extra r)"
    using as_map_wf [OF assms] by (auto simp: as_map_def split: json.split_asm)
  have fields: "to_value (requirements_to_json r) =
    JObj [(''amount'', JStr (pr_amount r)), (''asset'', JStr (pr_asset r)), (''extra'', JObj (pr_extra r)),
          (''maxTimeoutSeconds'', JInt (uint (pr_max_timeout_seconds r))), (''network'', JStr (pr_network r)),
          (''payTo'', JStr (pr_pay_to r)), (''scheme'', JStr (pr_scheme r))]"
    using extra by (simp add: requirements_to_json_def)
  show "requirements_of_json (to_value (requirements_to_json r)) = Some r"
    unfolding fields using assms
    by (simp add: requirements_of_json_def requirements_of_fields_def member_def member_or_default_def)
  show "json_plain (Suc d) (to_value (requirements_to_json r))" if "json_plain d (JObj (pr_extra r))"
    "list_all is_ascii [pr_scheme r, pr_network r, pr_amount r, pr_asset r, pr_pay_to r]"
    unfolding fields using that by (simp add: uint_u64_plain order.trans [OF _ uint_ge_0])
  show "json_get (to_value (requirements_to_json r)) ''extra'' = JObj (pr_extra r)"
    "json_get (to_value (requirements_to_json r)) ''network'' = JStr (pr_network r)"
    "json_get (to_value (requirements_to_json r)) ''amount'' = JStr (pr_amount r)"
    "json_get (to_value (requirements_to_json r)) ''asset'' = JStr (pr_asset r)"
    "json_get (to_value (requirements_to_json r)) ''maxTimeoutSeconds'' = JInt (uint (pr_max_timeout_seconds r))"
    by (simp_all add: json_get_def fields)
qed

lemma test_terms_wf:
  "map_wf (pr_extra (requirements C (test_terms C W uri) invoice))"
  "documented_route C W \<Longrightarrow> is_ascii invoice \<Longrightarrow> json_plain 125 (JObj (pr_extra (requirements C (test_terms C W uri) invoice)))"
  "documented_route C W \<Longrightarrow> list_all is_ascii (case requirements C (test_terms C W uri) invoice of r \<Rightarrow>
     [pr_scheme r, pr_network r, pr_amount r, pr_asset r, pr_pay_to r])"
  by (rule requirements_wf [of _ "[]"], simp)
     (simp_all add: documented_ascii names_ascii dec_string_ascii requirements_extra http_params_object
        requirements_def Let_def SCHEME_def ASSET_def ASSET_TRANSFER_METHOD_def PAYMENT_FLOW_def HTTP_PROFILE_def)

text \<open>The client's payload reads back as the payload of a client that paid.\<close>

lemma signature_reads_back:
  assumes doc: "documented_route C W" and resource: "json_plain (JSON_DEPTH - 1) resource" and ascii: "is_ascii invoice"
  shows "\<exists>sig. encode_text C (json_obj
       [(''x402Version'', JInt 2), (''resource'', resource),
        (''accepted'', to_value (requirements_to_json (requirements C (test_terms C W uri) invoice))),
        (''payload'', json_obj [(''preimage'', JStr (hex_encode C p))])]) = Some sig
    \<and> parse_signature C (as_bytes sig) = Ok (paid_payload C (test_terms C W uri) invoice p)"
proof -
  let ?req = "requirements C (test_terms C W uri) invoice"
  let ?doc = "json_obj [(''x402Version'', JInt 2), (''resource'', resource),
    (''accepted'', to_value (requirements_to_json ?req)),
    (''payload'', json_obj [(''preimage'', JStr (hex_encode C p))])]"
  have "json_plain 126 (to_value (requirements_to_json ?req))"
    using requirements_value(7) [OF test_terms_wf(1) test_terms_wf(2) [OF doc ascii] test_terms_wf(3) [OF doc]] by simp
  then have "json_plain JSON_DEPTH ?doc"
    using resource documented_ascii(1) [OF doc] by (simp add: JSON_DEPTH_def)
  then obtain bs where bs: "json_to_vec C ?doc = Ok bs" "json_parse C bs = Ok ?doc"
    using doc unfolding documented_route_def json_texts_def by blast
  have "payload_of_json ?doc = Some (paid_payload C (test_terms C W uri) invoice p)"
    using requirements_value(1) [OF test_terms_wf(1) [of C W uri invoice]]
    by (simp add: payload_of_json_def payload_of_fields_def member_def paid_payload_def)
  then have "decode_header C payload_of_json (b64_encode C bs) = Ok (paid_payload C (test_terms C W uri) invoice p)"
    using doc bs(2) by (simp add: decode_header_Ok documented_route_def b64_roundtrip_def)
  moreover have "header_to_str C (as_bytes (b64_encode C bs)) = Some (b64_encode C bs)"
    using doc ascii_header_value(2) b64_encode_visible by (simp add: documented_route_def)
  ultimately have "parse_signature C (as_bytes (b64_encode C bs)) = Ok (paid_payload C (test_terms C W uri) invoice p)"
    by (simp add: parse_signature_def X402_VERSION_def paid_payload_def)
  moreover have "encode_text C ?doc = Some (b64_encode C bs)" by (simp only: encode_text_def bs(1) sum.case)
  ultimately show ?thesis by blast
qed

lemma pay_ok:
  assumes doc: "documented_route C W" and minute: "runs_in_minute start e" and ascii: "is_ascii uri"
  shows "\<exists>sig w'. pay C W e uri (w, store) = (Some sig, w', store)
    \<and> parse_signature C (as_bytes sig) =
        Ok (paid_payload C (test_terms C W uri) (test_invoice C W (drawn w) (fst e) uri) (test_preimage W (drawn w)))"
proof -
  let ?inv = "test_invoice C W (drawn w) (fst e) uri"
  let ?w = "w\<lparr>preimages := (preimages w)(?inv \<mapsto> test_preimage W (drawn w)), drawn := Suc (drawn w)\<rparr>"
  let ?v = "to_value (payment_required_to_json
    (test_challenge C W uri ''PAYMENT-SIGNATURE header is required'' ?inv))"
  obtain r where r: "get_response C W e uri None (w, store) = (Some r, ?w, store)"
    "status r = PAYMENT_REQUIRED_STATUS" "header_json C r PAYMENT_REQUIRED = Some ?v"
    using get_unpaid [OF assms] by blast
  have stamp: "unat (fst e) < 2 ^ 35" using minute by (simp add: runs_in_minute_def in_minute_def)
  note val = challenge_value [where C = C and W = W and uri = uri and invoice = ?inv
      and msg = "''PAYMENT-SIGNATURE header is required''"]
  obtain sig where sig: "encode_text C (json_obj
       [(''x402Version'', JInt 2), (''resource'', json_get ?v ''resource''),
        (''accepted'', to_value (requirements_to_json (requirements C (test_terms C W uri) ?inv))),
        (''payload'', json_obj [(''preimage'', JStr (hex_encode C (test_preimage W (drawn w))))])]) = Some sig"
    and parsed: "parse_signature C (as_bytes sig) =
       Ok (paid_payload C (test_terms C W uri) ?inv (test_preimage W (drawn w)))"
    using signature_reads_back [OF doc val(3) [OF ascii] test_signed(3) [OF doc ascii stamp]] by blast
  have invoice: "as_string (json_get (json_get (to_value (requirements_to_json
      (requirements C (test_terms C W uri) ?inv))) ''extra'') ''invoice'') = Some ?inv"
    using requirements_value(2) [OF test_terms_wf(1) [of C W uri ?inv]]
    by (simp add: requirements_extra json_get_def)
  have "pay C W e uri (w, store) = (Some sig, ?w, store)"
    unfolding pay_def r(1) prod.case option.case r(3) Let_def val(4) Option.bind.simps invoice
    using r(2) sig by simp
  with parsed show ?thesis by blast
qed

text \<open>A payment of the tests is verified for its own request, and refused for another.\<close>

lemma test_verified:
  assumes doc: "documented_route C W" and start: "start < 2 ^ 34" and ascii: "is_ascii uri"
    and created: "start \<le> unat created" "unat created \<le> start + 60"
    and now: "start \<le> unat now" "unat now \<le> start + 60"
  shows "\<exists>retain. verify C (paid_payload C (test_terms C W uri) (test_invoice C W n created uri) (test_preimage W n))
    (test_terms C W uri) now = Ok \<lparr>pf_payment_hash = sha256 C (test_preimage W n), pf_retain_until = retain\<rparr>"
proof -
  have "unat created < 2 ^ 35" using start created(2) by simp
  note signed = test_signed [OF doc ascii this]
    and checks = test_invoice_checks [OF start created now, of C W n uri]
  have "verify C (paid_payload C (test_terms C W uri) (test_invoice C W n created uri) (test_preimage W n))
      (test_terms C W uri) now = Ok \<lparr>pf_payment_hash = inv_payment_hash (test_decoded C W n created uri),
        pf_retain_until = saturating_add (last_valid (test_decoded C W n created uri) (test_terms C W uri))
          REPLAY_RETENTION_SECS\<rparr>"
    using doc test_digest(2) [OF doc ascii] checks(1,2) signed(2,4) test_preimage_length [OF doc]
    by (intro verify_paid) (simp_all add: documented_route_def documented_def test_decoded_def)
  then show ?thesis by (simp add: test_decoded_def)
qed

lemma other_request_refused:
  assumes "documented_route C W" "test_hash C W uri \<noteq> test_hash C W uri'" "is_ascii uri" "is_ascii uri'"
  shows "verify C (paid_payload C (test_terms C W uri) tx p) (test_terms C W uri') now = Err RequestMismatch"
proof -
  have hex: "hex_roundtrip C" "hex_lower C" using assms(1) by (simp_all add: documented_route_def documented_def)
  have core: "check_core C (requirements C (test_terms C W uri) tx) (test_terms C W uri') = Ok ()"
    by (simp add: check_core_Ok requirements_def Let_def)
  have "check_extra C (pr_extra (requirements C (test_terms C W uri) tx)) (test_terms C W uri') = Err RequestMismatch"
    using hex_encode_digits [OF hex(2)] test_digest(2) [OF assms(1,3)] test_digest(2) [OF assms(1,4)] assms(2) hex_encode_inj [OF hex(1)]
    by (simp add: check_extra_def requirements_extra HTTP_PROFILE_def)
  with core show ?thesis by (simp add: verify_def paid_payload_def)
qed

lemma get_with_signature:
  assumes doc: "documented_route C W" and ascii: "is_ascii uri" and parsed: "parse_signature C (as_bytes sig) = Ok p"
    and now: "unix_now (e_settle_clock (snd e)) = Return now"
  shows "x402_get_fortune C (fake_issue C W (fst e)) (test_state W) (snd e) (get_request uri (Some sig)) (w, store) =
    (case settle C (e_db_fault (snd e)) p (test_terms C W uri) now store of
       (Inr s, store') \<Rightarrow> (settled_response C (test_state W) (e_random (snd e)) s, w, store')
     | (Inl (Rejected reason), store') \<Rightarrow>
         (case challenge C (fake_issue C W (fst e)) (e_challenge_clock (snd e)) (test_terms C W uri)
                 (TEST_PUBLIC_URL @ uri) (reason_as_str reason)
                 (Some \<lparr>sr_success = False, sr_error_reason = Some (reason_as_str reason),
                        sr_transaction = '''', sr_network = caip2 Mainnet\<rparr>) w of
            (out, w') \<Rightarrow> (out, w', store'))
     | (Inl (Store err), store') \<Rightarrow> (Fail (Internal err), w, store'))"
proof -
  have "header_get (rq_headers (get_request uri (Some sig))) PAYMENT_SIGNATURE = Some (as_bytes sig)"
    by (simp add: get_request_def header_get_def)
  from x402_paid_branch [OF test_digest(1) [OF doc ascii] this parsed now, of "fake_issue C W (fst e)" w store]
  show ?thesis unfolding test_url test_state_simps(1) .
qed

lemma get_settled:
  assumes doc: "documented_route C W" and ascii: "is_ascii uri" and minute: "runs_in_minute start e"
    and parsed: "parse_signature C (as_bytes sig) = Ok p"
    and now: "unix_now (e_settle_clock (snd e)) = Return now"
    and verified: "verify C p (test_terms C W uri) now = Ok \<lparr>pf_payment_hash = h, pf_retain_until = retain\<rparr>"
      "length h = 32" "replay_key C Mainnet h \<notin> fst ` set store"
  shows "\<exists>r. get_response C W e uri (Some sig) (w, store) =
      (Some r, w, store @ [(replay_key C Mainnet h, to_sql_time retain)])
    \<and> status r = OK_STATUS \<and> settles C r \<and> has_fortune r"
proof -
  let ?s = "\<lparr>sr_success = True, sr_error_reason = None, sr_transaction = hex_encode C h, sr_network = caip2 Mainnet\<rparr>"
  have env: "e_db_fault (snd e) = None" "in_range (e_random (snd e))" using minute by (simp_all add: runs_in_minute_def)
  have settled: "settle C None p (test_terms C W uri) now store =
      (Ok \<lparr>transaction = hex_encode C h\<rparr>, store @ [(replay_key C Mainnet h, to_sql_time retain)])"
    using verified by (simp add: settle_Ok consume_def sql_insert_or_ignore_def)
  have "json_plain JSON_DEPTH (settlement_to_json ?s)"
    using documented_ascii(1) [OF doc] by (simp add: settlement_to_json_def JSON_DEPTH_def)
  then obtain v where v: "encode_header C (settlement_to_json ?s) = Return v" "header_from_str C v \<noteq> None"
    "\<forall>r name. map_of (resp_headers r) name = Some v \<longrightarrow> header_json C r name = Some (to_value (settlement_to_json ?s))"
    using encode_plain [OF doc] by blast
  let ?r = "\<lparr>status = OK_STATUS, resp_headers = [(PAYMENT_RESPONSE, v)],
    resp_body = JsonBody (json_obj [(''fortune'', JStr (FORTUNES ! e_random (snd e) 50))])\<rparr>"
  have "settled_response C (test_state W) (e_random (snd e)) \<lparr>transaction = hex_encode C h\<rparr> = Return ?r"
    using random_fortune_in_range(1) [OF env(2)] v(1,2) by (auto simp: settled_response_def with_header_def)
  then have "get_response C W e uri (Some sig) (w, store) =
      (Some ?r, w, store @ [(replay_key C Mainnet h, to_sql_time retain)])"
    by (simp only: get_response_def deliver_def get_with_signature [OF doc ascii parsed now] env(1) settled prod.case sum.case outcome.case)
  moreover have "header_json C ?r PAYMENT_RESPONSE = Some (to_value (settlement_to_json ?s))" using v(3) by simp
  then have "settles C ?r"
    using doc verified(2)
    by (simp add: settles_def settlement_to_json_def json_get_def documented_route_def documented_def hex_lower_def)
  moreover have "has_fortune ?r" by (simp add: has_fortune_def json_get_def)
  ultimately show ?thesis by auto
qed

lemma get_refused:
  assumes doc: "documented_route C W" and ascii: "is_ascii uri" and minute: "runs_in_minute start e"
    and parsed: "parse_signature C (as_bytes sig) = Ok p"
    and now: "unix_now (e_settle_clock (snd e)) = Return now"
    and refused: "settle C None p (test_terms C W uri) now store = (Err (Rejected reason), store)"
  shows "\<exists>r w'. get_response C W e uri (Some sig) (w, store) = (Some r, w', store)
    \<and> status r = PAYMENT_REQUIRED_STATUS \<and> refused_as C r (reason_as_str reason)
    \<and> map_of (resp_headers r) PAYMENT_REQUIRED \<noteq> None"
proof -
  let ?f = "\<lparr>sr_success = False, sr_error_reason = Some (reason_as_str reason), sr_transaction = '''',
    sr_network = caip2 Mainnet\<rparr>"
  have fault: "e_db_fault (snd e) = None" using minute by (simp add: runs_in_minute_def)
  have "json_plain JSON_DEPTH (settlement_to_json ?f)"
    by (simp add: settlement_to_json_def JSON_DEPTH_def names_ascii)
  from test_challenged(2) [OF doc minute ascii names_ascii(2) this, of reason w]
  obtain r w' where r: "challenge C (fake_issue C W (fst e)) (e_challenge_clock (snd e)) (test_terms C W uri)
      (TEST_PUBLIC_URL @ uri) (reason_as_str reason) (Some ?f) w = (Return r, w')"
    "status r = PAYMENT_REQUIRED_STATUS" "map_of (resp_headers r) PAYMENT_REQUIRED \<noteq> None"
    "header_json C r PAYMENT_RESPONSE = Some (to_value (settlement_to_json ?f))"
    by blast
  have "get_response C W e uri (Some sig) (w, store) = (Some r, w', store)"
    by (simp only: get_response_def deliver_def get_with_signature [OF doc ascii parsed now] fault refused r(1) prod.case sum.case
        settle_error.case outcome.case)
  moreover have "refused_as C r (reason_as_str reason)"
    using r(4) by (simp add: refused_as_def settlement_to_json_def json_get_def)
  ultimately show ?thesis using r(2,3) by blast
qed

lemma minute_settle_clock:
  assumes "runs_in_minute start e"
  obtains now where "unix_now (e_settle_clock (snd e)) = Return now" "start \<le> unat now" "unat now \<le> start + 60"
  using assms by (auto simp: runs_in_minute_def elim: in_minute_cases)

lemma minute_issue_clock:
  "runs_in_minute start e \<Longrightarrow> start < 2 ^ 34 \<and> start \<le> unat (fst e) \<and> unat (fst e) \<le> start + 60"
  by (simp add: runs_in_minute_def in_minute_def)

lemma dec_string_1000: "dec_string 1000 = ''1000''"
  by (simp add: dec_string.simps digit_char_def char_of_def bit_0)

lemma challenge_describes_request:
  assumes "documented_route C W" "runs_in_minute start e"
  shows "test_challenge_describes_request C W e"
proof -
  let ?uri = "''/x402?lang=en''" and ?msg = "''PAYMENT-SIGNATURE header is required''"
  let ?w = "\<lparr>preimages = Map.empty, drawn = 0\<rparr>"
  let ?inv = "test_invoice C W 0 (fst e) ?uri"
  let ?v = "to_value (payment_required_to_json (test_challenge C W ?uri ?msg ?inv))"
  let ?req = "requirements C (test_terms C W ?uri) ?inv"
  obtain r st where r: "get_response C W e ?uri None test_app = (Some r, st)" "status r = PAYMENT_REQUIRED_STATUS"
    "header_json C r PAYMENT_REQUIRED = Some ?v"
    using get_unpaid [OF assms, of ?uri ?w "projr (replay_open None None None '':memory:'' None)"]
    by (auto simp: test_app_def)
  have "request_digest C (test_state W) (get_request ?uri None) = Ok (test_hash C W ?uri)"
    by (rule test_digest(1) [OF assms(1)]) simp
  then have hash: "http_request_hash C ''GET'' ''https://fortune.test/x402?lang=en'' [] [] [] = Ok (test_hash C W ?uri)"
    unfolding request_digest_def test_url by (simp add: BOUND_HEADERS_def TEST_PUBLIC_URL_def get_request_def)
  have extra: "json_get (to_value (requirements_to_json ?req)) ''extra'' = JObj (pr_extra ?req)"
    by (rule requirements_value(2) [OF test_terms_wf(1)])
  have core: "pr_network ?req = caip2 Mainnet" "pr_amount ?req = ''1000''" "pr_asset ?req = ''BTC''"
    "pr_max_timeout_seconds ?req = 300"
    by (simp_all add: requirements_def Let_def dec_string_1000 ASSET_def)
  have members: "json_get (JObj (pr_extra ?req)) ''paymentFlow'' = JStr ''upfront''"
    "json_get (JObj (pr_extra ?req)) ''requestBindingProfile'' = JStr ''http:1''"
    "json_get (JObj (pr_extra ?req)) ''requestBindingParams'' = json_obj [(''headers'', JArr [])]"
    "json_get (JObj (pr_extra ?req)) ''requestHash'' = JStr (hex_encode C (test_hash C W ?uri))"
    by (simp_all add: requirements_extra json_get_def PAYMENT_FLOW_def HTTP_PROFILE_def http_params_object)
  note val = challenge_value [where C = C and W = W and uri = ?uri and msg = ?msg and invoice = ?inv]
  have url: "TEST_PUBLIC_URL @ ?uri = ''https://fortune.test/x402?lang=en''" by (simp add: TEST_PUBLIC_URL_def)
  show ?thesis
    unfolding test_challenge_describes_request_def r(1) fst_conv option.case r(3) Let_def val(1,2,4) extra url
      requirements_value(3-6) [OF test_terms_wf(1)] core members hash sum.case
    using r(2) by simp
qed

lemma paid_request_gets_fortune_once:
  assumes doc: "documented_route C W" and minute: "runs_in_minute start e" "runs_in_minute start e'" "runs_in_minute start e''"
  shows "test_paid_request_gets_fortune_once C W e e' e''"
proof -
  let ?uri = "''/x402''" and ?w = "\<lparr>preimages = Map.empty, drawn = 0\<rparr>"
  let ?h = "sha256 C (test_preimage W 0)"
  have ascii: "is_ascii ?uri" by simp
  let ?p = "paid_payload C (test_terms C W ?uri) (test_invoice C W 0 (fst e) ?uri) (test_preimage W 0)"
  obtain sig w where sig: "pay C W e ?uri test_app = (Some sig, w, [])" "parse_signature C (as_bytes sig) = Ok ?p"
    using pay_ok [OF doc minute(1) ascii, of ?w "[]"] by (auto simp: test_app_def replay_open_def)
  obtain now' where now': "unix_now (e_settle_clock (snd e')) = Return now'" "start \<le> unat now'" "unat now' \<le> start + 60"
    using minute(2) by (rule minute_settle_clock)
  obtain now'' where now'': "unix_now (e_settle_clock (snd e'')) = Return now''" "start \<le> unat now''" "unat now'' \<le> start + 60"
    using minute(3) by (rule minute_settle_clock)
  note issued = minute_issue_clock [OF minute(1)]
  obtain retain where v': "verify C ?p (test_terms C W ?uri) now' = Ok \<lparr>pf_payment_hash = ?h, pf_retain_until = retain\<rparr>"
    using test_verified [OF doc _ ascii _ _ now'(2,3)] issued by blast
  obtain retain' where v'': "verify C ?p (test_terms C W ?uri) now'' = Ok \<lparr>pf_payment_hash = ?h, pf_retain_until = retain'\<rparr>"
    using test_verified [OF doc _ ascii _ _ now''(2,3)] issued by blast
  have len: "length ?h = 32" using doc by (simp add: documented_route_def documented_def sha256_length_def)
  let ?store = "[(replay_key C Mainnet ?h, to_sql_time retain)]"
  obtain r where r: "get_response C W e' ?uri (Some sig) (w, []) = (Some r, w, ?store)"
    "status r = OK_STATUS" "settles C r" "has_fortune r"
    using get_settled [OF doc ascii minute(2) sig(2) now'(1) v' len, of "[]" w] by auto
  have "settle C None ?p (test_terms C W ?uri) now'' ?store = (Err (Rejected DuplicateSettlement), ?store)"
    using v'' by (simp add: settle_def Let_def consume_def sql_insert_or_ignore_def replay_key_def)
  from get_refused [OF doc ascii minute(3) sig(2) now''(1) this, of w]
  obtain r' w' where r': "get_response C W e'' ?uri (Some sig) (w, ?store) = (Some r', w', ?store)"
    "status r' = PAYMENT_REQUIRED_STATUS" "refused_as C r' (reason_as_str DuplicateSettlement)"
    "map_of (resp_headers r') PAYMENT_REQUIRED \<noteq> None"
    by blast
  show ?thesis
    unfolding test_paid_request_gets_fortune_once_def sig(1) r(1) r'(1) prod.case option.case
    using r(2-4) r'(2-4) by simp
qed

lemma proof_is_bound_to_its_request:
  assumes doc: "documented_route C W" and minute: "runs_in_minute start e" "runs_in_minute start e'" "runs_in_minute start e''"
    and differ: "test_hash C W ''/x402?lang=en'' \<noteq> test_hash C W ''/x402?lang=fr''"
  shows "test_proof_is_bound_to_its_request C W e e' e''"
proof -
  let ?en = "''/x402?lang=en''" and ?fr = "''/x402?lang=fr''" and ?w = "\<lparr>preimages = Map.empty, drawn = 0\<rparr>"
  have ascii: "is_ascii ?en" "is_ascii ?fr" by simp_all
  let ?p = "paid_payload C (test_terms C W ?en) (test_invoice C W 0 (fst e) ?en) (test_preimage W 0)"
  obtain sig w where sig: "pay C W e ?en test_app = (Some sig, w, [])" "parse_signature C (as_bytes sig) = Ok ?p"
    using pay_ok [OF doc minute(1) ascii(1), of ?w "[]"] by (auto simp: test_app_def replay_open_def)
  obtain now' where now': "unix_now (e_settle_clock (snd e')) = Return now'"
    using minute(2) by (rule minute_settle_clock)
  obtain now'' where now'': "unix_now (e_settle_clock (snd e'')) = Return now''" "start \<le> unat now''" "unat now'' \<le> start + 60"
    using minute(3) by (rule minute_settle_clock)
  have "settle C None ?p (test_terms C W ?fr) now' [] = (Err (Rejected RequestMismatch), [])"
    using other_request_refused [OF doc differ ascii] by (simp add: settle_def)
  from get_refused [OF doc ascii(2) minute(2) sig(2) now' this, of w]
  obtain r w' where r: "get_response C W e' ?fr (Some sig) (w, []) = (Some r, w', [])"
    "status r = PAYMENT_REQUIRED_STATUS" "refused_as C r (reason_as_str RequestMismatch)"
    by blast
  obtain retain where v: "verify C ?p (test_terms C W ?en) now'' =
      Ok \<lparr>pf_payment_hash = sha256 C (test_preimage W 0), pf_retain_until = retain\<rparr>"
    using test_verified [OF doc _ ascii(1) _ _ now''(2,3)] minute_issue_clock [OF minute(1)] by blast
  have len: "length (sha256 C (test_preimage W 0)) = 32" using doc by (simp add: documented_route_def documented_def sha256_length_def)
  obtain r' st where r': "get_response C W e'' ?en (Some sig) (w', []) = (Some r', st)" "status r' = OK_STATUS"
    using get_settled [OF doc ascii(1) minute(3) sig(2) now''(1) v len, of "[]" w'] by auto
  show ?thesis
    unfolding test_proof_is_bound_to_its_request_def sig(1) r(1) r'(1) prod.case option.case fst_conv
    using r(2,3) r'(2) by simp
qed

lemma get_malformed:
  assumes "documented_route C W" "parse_signature C (as_bytes sig) = Err (X402 m)" "is_ascii uri"
  shows "\<exists>r. get_response C W e uri (Some sig) st = (Some r, st) \<and> status r = BAD_REQUEST"
proof (cases st)
  case (Pair w store)
  have "header_get (rq_headers (get_request uri (Some sig))) PAYMENT_SIGNATURE = Some (as_bytes sig)"
    by (simp add: get_request_def header_get_def)
  then have "x402_get_fortune C (fake_issue C W (fst e)) (test_state W) (snd e) (get_request uri (Some sig)) st
      = (Fail (X402 m), st)"
    using test_digest(1) [OF assms(1,3), of "Some sig"] assms(2) Pair by (simp add: x402_get_fortune_def Let_def)
  moreover have "status (into_response (X402 m)) = BAD_REQUEST" by (simp add: into_response_def error_status_def)
  ultimately show ?thesis by (simp add: get_response_def deliver_def)
qed

lemma malformed_payment_is_bad_request:
  assumes doc: "documented_route C W" and bad: "isl (b64_decode C ''not base64!'')"
  shows "test_malformed_payment_is_bad_request C W e e'"
proof -
  have uri: "is_ascii ''/x402''" by simp
  have ascii: "ascii_headers C" "b64_alphabet C" using doc by (simp_all add: documented_route_def)
  have "header_to_str C (as_bytes ''not base64!'') = Some ''not base64!''"
    by (rule ascii_header_value(2) [OF ascii(1)]) (simp add: visible_ascii_def)
  then have "\<exists>m. parse_signature C (as_bytes ''not base64!'') = Err (X402 m)"
    using bad by (cases "b64_decode C ''not base64!''") (simp_all add: parse_signature_def decode_header_def)
  then obtain r st where r: "get_response C W e ''/x402'' (Some ''not base64!'') test_app = (Some r, st)" "status r = BAD_REQUEST"
    using get_malformed [OF doc _ uri] by blast
  have "json_plain JSON_DEPTH wrong_version_document" by (simp add: wrong_version_document_def JSON_DEPTH_def)
  then obtain bs where bs: "json_to_vec C wrong_version_document = Ok bs" "json_parse C bs = Ok wrong_version_document"
    using doc unfolding documented_route_def json_texts_def by blast
  have "payload_of_json wrong_version_document = Some \<lparr>pp_x402_version = 1, pp_accepted =
      \<lparr>pr_scheme = ''exact'', pr_network = '''', pr_amount = '''', pr_asset = '''', pr_pay_to = '''',
       pr_max_timeout_seconds = 1, pr_extra = []\<rparr>, pp_payload = []\<rparr>"
    by (simp add: wrong_version_document_def payload_of_json_def payload_of_fields_def member_def
        requirements_of_json_def requirements_of_fields_def member_or_default_def as_map_def as_unsigned_def)
  then have "decode_header C payload_of_json (b64_encode C bs) = Ok \<lparr>pp_x402_version = 1, pp_accepted =
      \<lparr>pr_scheme = ''exact'', pr_network = '''', pr_amount = '''', pr_asset = '''', pr_pay_to = '''',
       pr_max_timeout_seconds = 1, pr_extra = []\<rparr>, pp_payload = []\<rparr>"
    using bs(2) doc by (simp add: decode_header_Ok documented_route_def b64_roundtrip_def)
  moreover have "header_to_str C (as_bytes (b64_encode C bs)) = Some (b64_encode C bs)"
    using ascii_header_value(2) [OF ascii(1) b64_encode_visible [OF ascii(2)]] .
  ultimately have "\<exists>m. parse_signature C (as_bytes (b64_encode C bs)) = Err (X402 m)"
    by (simp add: parse_signature_def X402_VERSION_def)
  then obtain r' st' where r': "get_response C W e' ''/x402'' (Some (b64_encode C bs)) st = (Some r', st')"
    "status r' = BAD_REQUEST"
    using get_malformed [OF doc _ uri] by blast
  have wrong: "encode_text C wrong_version_document = Some (b64_encode C bs)" by (simp add: encode_text_def bs(1))
  show ?thesis
    unfolding test_malformed_payment_is_bad_request_def r(1) prod.case option.case wrong r'(1) fst_conv
    using r(2) r'(2) by simp
qed

end
