(* ===== verification/Test_World.thy ===== *)
theory Test_World
  imports Handler_Tests
begin

text \<open>
  A concrete library and a concrete world on which the tests of the settlement and of the route run: the
  reference library, with the specification's digest and invoice added, an invoice builder that writes its
  request as text, and a codec of JSON documents. It shows that the behaviour \<open>documented\<close> and
  \<open>documented_route\<close> ask for can be had.
\<close>

section \<open>A codec of JSON documents\<close>

definition put_number :: "nat \<Rightarrow> bytes" where
  "put_number n = replicate n 1 @ [0]"

fun get_number :: "bytes \<Rightarrow> (nat \<times> bytes) option" where
  "get_number [] = None"
| "get_number (b # bs) = (if b = 0 then Some (0, bs) else map_option (\<lambda>(n, r). (Suc n, r)) (get_number bs))"

definition put_text :: "string \<Rightarrow> bytes" where
  "put_text s = put_number (length s) @ as_bytes s"

definition get_text :: "bytes \<Rightarrow> (string \<times> bytes) option" where
  "get_text bs = map_option (\<lambda>(n, r). (map char_of_byte (take n r), drop n r)) (get_number bs)"

fun put_json :: "json \<Rightarrow> bytes" where
  "put_json JNull = [0]"
| "put_json (JBool b) = [1, if b then 1 else 0]"
| "put_json (JInt i) = 2 # (if i < 0 then 1 else 0) # put_number (nat \<bar>i\<bar>)"
| "put_json (JFloat w) = 3 # put_number (unat w)"
| "put_json (JStr s) = 4 # put_text s"
| "put_json (JArr js) = 5 # put_number (length js) @ concat (map put_json js)"
| "put_json (JObj ms) =
     6 # put_number (length ms) @ concat (map (\<lambda>m. put_text (fst m) @ put_json (snd m)) ms)"

primrec get_items :: "(bytes \<Rightarrow> ('a \<times> bytes) option) \<Rightarrow> nat \<Rightarrow> bytes \<Rightarrow> ('a list \<times> bytes) option" where
  "get_items p 0 bs = Some ([], bs)"
| "get_items p (Suc n) bs =
     Option.bind (p bs) (\<lambda>(x, r). map_option (\<lambda>(xs, r'). (x # xs, r')) (get_items p n r))"

definition get_member :: "(bytes \<Rightarrow> (json \<times> bytes) option) \<Rightarrow> bytes \<Rightarrow> ((string \<times> json) \<times> bytes) option" where
  "get_member p bs = Option.bind (get_text bs) (\<lambda>(k, r). map_option (\<lambda>(j, r'). ((k, j), r')) (p r))"

text \<open>The fuel bounds the depth; the length of the text is enough.\<close>

primrec get_json :: "nat \<Rightarrow> bytes \<Rightarrow> (json \<times> bytes) option" where
  "get_json 0 = (\<lambda>_. None)"
| "get_json (Suc fuel) = (\<lambda>bs.
     case bs of
       [] \<Rightarrow> None
     | b # r \<Rightarrow>
         if b = 0 then Some (JNull, r)
         else if b = 1 then (case r of [] \<Rightarrow> None | c # r' \<Rightarrow> Some (JBool (c = 1), r'))
         else if b = 2 then
           (case r of
              [] \<Rightarrow> None
            | c # r' \<Rightarrow> map_option (\<lambda>(n, r''). (JInt (if c = 1 then - int n else int n), r'')) (get_number r'))
         else if b = 3 then map_option (\<lambda>(n, r'). (JFloat (word_of_nat n), r')) (get_number r)
         else if b = 4 then map_option (\<lambda>(s, r'). (JStr s, r')) (get_text r)
         else if b = 5 then
           Option.bind (get_number r) (\<lambda>(n, r').
             map_option (\<lambda>(js, r''). (JArr js, r'')) (get_items (get_json fuel) n r'))
         else
           Option.bind (get_number r) (\<lambda>(n, r').
             map_option (\<lambda>(ms, r''). (JObj ms, r'')) (get_items (get_member (get_json fuel)) n r')))"

lemma get_put_number [simp]: "get_number (put_number n @ r) = Some (n, r)"
  by (induction n) (simp_all add: put_number_def)

lemma get_put_text [simp]: "get_text (put_text s @ r) = Some (s, r)"
  by (simp add: get_text_def put_text_def) (simp add: as_bytes_def o_def)

lemma get_put_items:
  "\<forall>x \<in> set xs. \<forall>r. p (q x @ r) = Some (x, r) \<Longrightarrow> get_items p (length xs) (concat (map q xs) @ r) = Some (xs, r)"
  by (induction xs) simp_all

lemma length_concat_ge: "x \<in> set xs \<Longrightarrow> length (q x) \<le> length (concat (map q xs))"
  by (induction xs) auto

lemma get_put_json: "length (put_json j) \<le> fuel \<Longrightarrow> get_json fuel (put_json j @ r) = Some (j, r)"
proof (induction j arbitrary: fuel r)
  case (JArr js)
  then obtain k where k: "fuel = Suc k" by (cases fuel) simp_all
  have "\<forall>x \<in> set js. \<forall>r. get_json k (put_json x @ r) = Some (x, r)"
    using JArr.IH JArr.prems k length_concat_ge [of _ js put_json] by (fastforce intro: order.trans)
  from get_put_items [OF this] show ?case by (simp add: k)
next
  case (JObj ms)
  then obtain k where k: "fuel = Suc k" by (cases fuel) simp_all
  let ?put = "\<lambda>m. put_text (fst m) @ put_json (snd m)"
  have "get_json k (put_json (snd m) @ r) = Some (snd m, r)" if "m \<in> set ms" for m r
    using JObj.IH [of m "snd m" k r] JObj.prems k length_concat_ge [OF that, of ?put] that by (simp add: snds.simps)
  then have "\<forall>m \<in> set ms. \<forall>r. get_member (get_json k) (?put m @ r) = Some (m, r)"
    by (simp add: get_member_def)
  from get_put_items [OF this] show ?case by (simp add: k)
qed (case_tac fuel; simp)+

definition parse_json :: "bytes \<Rightarrow> string + json" where
  "parse_json bs = (case get_json (length bs) bs of Some (j, []) \<Rightarrow> Ok j | _ \<Rightarrow> Err ''expected value'')"

lemma parse_put_json: "parse_json (put_json j) = Ok j"
  using get_put_json [of j "length (put_json j)" "[]"] by (simp add: parse_json_def)

interpretation document: codec put_json parse_json "\<lambda>_. True"
  by unfold_locales (rule parse_put_json)

section \<open>A text form of invoices\<close>

fun split_on :: "char \<Rightarrow> string \<Rightarrow> string list" where
  "split_on d [] = [[]]"
| "split_on d (c # s) =
     (if c = d then [] # split_on d s
      else case split_on d s of [] \<Rightarrow> [[c]] | f # fs \<Rightarrow> (c # f) # fs)"

lemma split_on_field: "d \<notin> set f \<Longrightarrow> split_on d f = [f]"
  by (induction f) auto

lemma split_on_append: "d \<notin> set f \<Longrightarrow> split_on d (f @ d # s) = f # split_on d s"
  by (induction f) auto

lemma split_on_join:
  "fs \<noteq> [] \<Longrightarrow> list_all (\<lambda>f. d \<notin> set f) fs \<Longrightarrow> split_on d (join fs [d]) = fs"
  by (induction fs "[d]" rule: join.induct) (simp_all add: split_on_field split_on_append)

definition currency_code :: "currency \<Rightarrow> string" where
  "currency_code cur =
     (case cur of Bitcoin \<Rightarrow> ''bc'' | BitcoinTestnet \<Rightarrow> ''tb'' | Regtest \<Rightarrow> ''bcrt'' | Simnet \<Rightarrow> ''sb''
      | SignetCurrency \<Rightarrow> ''tbs'')"

definition read_currency :: "string \<Rightarrow> currency" where
  "read_currency s =
     (if s = ''tb'' then BitcoinTestnet else if s = ''bcrt'' then Regtest else if s = ''sb'' then Simnet
      else if s = ''tbs'' then SignetCurrency else Bitcoin)"

definition read_u64_text :: "string \<Rightarrow> u64" where
  "read_u64_text s = (case parse_u64 s of Some n \<Rightarrow> n | None \<Rightarrow> 0)"

definition read_hex :: "string \<Rightarrow> bytes" where
  "read_hex s = (case ref_hex_decode s of Inr bs \<Rightarrow> bs | Inl _ \<Rightarrow> [])"

definition text_fields :: "pubkey \<Rightarrow> invoice_request \<Rightarrow> string list" where
  "text_fields key q =
     [''test'', currency_code (ir_currency q), (case ir_description q of Inl _ \<Rightarrow> ''d'' | Inr _ \<Rightarrow> ''h''),
      ref_hex_encode (case ir_description q of Inl d \<Rightarrow> as_bytes d | Inr h \<Rightarrow> h),
      ref_hex_encode (ir_payment_hash q), dec_string (unat (ir_created q)),
      dec_string (unat (ir_amount_msat q)), dec_string (unat (ir_expiry q)), ref_hex_encode key]"

definition text_invoice :: "pubkey \<Rightarrow> invoice_request \<Rightarrow> string" where
  "text_invoice key q = join (text_fields key q) '':''"

definition raw_invoice :: "pubkey \<Rightarrow> invoice_request \<Rightarrow> signed_invoice" where
  "raw_invoice key q =
     \<lparr>check_signature = True,
      known_tagged_fields = [PaymentHash (ir_payment_hash q),
        (case ir_description q of Inl d \<Rightarrow> Description d | Inr h \<Rightarrow> DescriptionHash h), OtherField],
      raw_amount = Some (ir_amount_msat q), amount_pico_btc = Some (10 * ir_amount_msat q),
      payee_pub_key = None, recover_payee_pub_key = Some key, invoice_currency = ir_currency q,
      invoice_timestamp = ir_created q, expiry_time = Some (ir_expiry q)\<rparr>"

definition read_request :: "string \<Rightarrow> (pubkey \<times> invoice_request) option" where
  "read_request s =
     (case split_on CHR '':'' s of
        [tag, cur, kind, d, h, created, amount, expiry, key] \<Rightarrow>
          if tag = ''test'' then
            Some (read_hex key,
              \<lparr>ir_currency = read_currency cur,
               ir_description = (if kind = ''d'' then Inl (map char_of_byte (read_hex d)) else Inr (read_hex d)),
               ir_payment_hash = read_hex h, ir_created = read_u64_text created,
               ir_amount_msat = read_u64_text amount, ir_expiry = read_u64_text expiry\<rparr>)
          else None
      | _ \<Rightarrow> None)"

lemma read_u64_dec [simp]: "read_u64_text (dec_string (unat n)) = n"
proof -
  have "parse_unsigned (2 ^ 64) (dec_string (unat n)) = Some (unat n)"
    using unat_u64_bound [of n] by (rule parse_unsigned_dec_string)
  then show ?thesis unfolding read_u64_text_def parse_u64_def by simp
qed

lemma read_codes [simp]:
  "read_currency (currency_code cur) = cur" "read_hex (ref_hex_encode bs) = bs"
  "map char_of_byte (as_bytes s) = s"
  by (cases cur) (simp_all add: read_currency_def currency_code_def read_hex_def ref_hex_roundtrip as_bytes_def o_def)

lemma text_fields_plain: "list_all (\<lambda>f. CHR '':'' \<notin> set f) (text_fields key q)"
proof -
  have colon: "\<not> is_hex_lower CHR '':''" by (simp add: is_hex_lower_def)
  have hex: "CHR '':'' \<notin> set (ref_hex_encode bs)" for bs
    using ref_hex_lower [of bs] colon unfolding list_all_iff by blast
  have dec: "CHR '':'' \<notin> set (dec_string n)" for n
  proof
    assume "CHR '':'' \<in> set (dec_string n)"
    then obtain d where "d < 10" "CHR '':'' = digit_char d" using dec_string_digits by blast
    then have "digit_value CHR '':'' = Some d" by simp
    then show False by (simp add: digit_value_def split: if_splits)
  qed
  show ?thesis
    by (auto simp: text_fields_def hex dec currency_code_def split: currency.split sum.split)
qed

lemma read_text_invoice: "read_request (text_invoice key q) = Some (key, q)"
proof -
  have "split_on CHR '':'' (text_invoice key q) = text_fields key q"
    using text_fields_plain [of key q] unfolding text_invoice_def
    by (intro split_on_join) (simp_all add: text_fields_def)
  then show ?thesis
    by (cases q) (auto simp: read_request_def text_fields_def split: sum.split)
qed

section \<open>The library and the world\<close>

definition test_public_key :: "bytes \<Rightarrow> pubkey" where
  "test_public_key key = 2 # key"

text \<open>The digest keeps the last 32 bytes, but for the preimage of the specification.\<close>

definition tail_digest :: "bytes \<Rightarrow> bytes" where
  "tail_digest m = take 32 (rev m @ replicate 32 0)"

definition spec_digest :: "bytes \<Rightarrow> bytes" where
  "spec_digest m = (if m = read_hex SPEC_PREIMAGE then read_hex SPEC_PAYMENT_HASH else tail_digest m)"

definition test_bolt11 :: "string \<Rightarrow> signed_invoice option" where
  "test_bolt11 s =
     (if s = SPEC_INVOICE then Some (raw_invoice (test_public_key secret_key)
        \<lparr>ir_currency = Bitcoin, ir_description = Inr (read_hex ARTICLE_A),
         ir_payment_hash = read_hex SPEC_PAYMENT_HASH, ir_created = SPEC_TIME, ir_amount_msat = 25000,
         ir_expiry = 300\<rparr>)
      else map_option (\<lambda>(key, q). raw_invoice key q) (read_request s))"

definition test_crates :: crates where
  "test_crates =
     (ref_crates [] [])\<lparr>sha256 := spec_digest, bolt11_from_str := test_bolt11,
       json_to_vec := (\<lambda>j. Ok (put_json j)), json_parse := parse_json\<rparr>"

definition ex_test_world :: test_world where
  "ex_test_world =
     \<lparr>tw_public_key = test_public_key,
      tw_build_signed = (\<lambda>key q. if buildable q then Some (text_invoice (test_public_key key) q) else None),
      tw_random = (\<lambda>n. replicate 31 7 @ [word_of_nat n]), tw_genesis = genesis_block\<rparr>"

lemma test_crates_simps [simp]:
  "sha256 test_crates = spec_digest" "bolt11_from_str test_crates = test_bolt11"
  "hex_encode test_crates = ref_hex_encode" "hex_decode test_crates = ref_hex_decode"
  "b64_decode test_crates = ref_b64_decode" "pubkey_to_string test_crates = ref_hex_encode"
  "jcs_to_vec test_crates j = Ok (as_bytes (print_json j))"
  by (simp_all add: test_crates_def)

lemma hash32_test [simp]: "hash32 test_crates s = read_hex s"
  by (simp add: hash32_def read_hex_def split: sum.split)

lemma test_laws [simp]:
  "hex_roundtrip test_crates" "hex_lower test_crates" "hex_canonical test_crates"
  "b64_roundtrip test_crates" "b64_alphabet test_crates" "ascii_headers test_crates" "json_texts test_crates"
  using ref_laws(1-5,8) [of "[]" "[]"]
  by (simp_all add: test_crates_def hex_roundtrip_def hex_lower_def hex_canonical_def b64_roundtrip_def
      b64_alphabet_def ascii_headers_def json_texts_def document.dec_enc)

lemma raw_invoice_signed: "signed_as key q (raw_invoice key q)"
  by (cases "ir_description q")
     (simp_all add: signed_as_def raw_invoice_def payment_hashes_def inline_descriptions_def description_hashes_def)

lemma text_invoice_texts: "text_invoice key q \<noteq> []" "text_invoice key q \<noteq> SPEC_INVOICE"
  by (simp_all add: text_invoice_def text_fields_def SPEC_INVOICE_def)

lemma text_invoice_ascii: "is_ascii (text_invoice key q)"
proof -
  have join: "list_all is_ascii fs \<Longrightarrow> is_ascii (join fs '':'')" for fs
    by (induction fs "'':''" rule: join.induct) simp_all
  have "is_ascii (ref_hex_encode bs)" for bs
    using ref_hex_lower [of bs] by (fastforce simp: is_ascii_def is_hex_lower_def list_all_iff)
  then show ?thesis
    unfolding text_invoice_def
    by (intro join) (simp add: text_fields_def dec_string_ascii currency_code_def split: currency.split sum.split)
qed

lemma test_builds: "builds test_crates ex_test_world"
  unfolding builds_def
  by (simp add: ex_test_world_def text_invoice_texts text_invoice_ascii test_bolt11_def read_text_invoice raw_invoice_signed)

lemma read_hex_encode: "even (length s) \<Longrightarrow> list_all is_hex_lower s \<Longrightarrow> ref_hex_encode (read_hex s) = s"
  using ref_hex_canonical [of s] by (auto simp: read_hex_def)

lemma read_hex_inject:
  assumes "read_hex s = read_hex t" "even (length s)" "even (length t)" "list_all is_hex_lower s" "list_all is_hex_lower t"
  shows "s = t"
proof -
  have "s = ref_hex_encode (read_hex s)" using read_hex_encode [OF assms(2,4)] by (rule sym)
  also have "\<dots> = ref_hex_encode (read_hex t)" by (rule arg_cong [OF assms(1)])
  also have "\<dots> = t" by (rule read_hex_encode [OF assms(3,5)])
  finally show ?thesis .
qed

lemma test_keys:
  "test_public_key secret_key \<noteq> test_public_key other_key"
  "ref_hex_encode (test_public_key secret_key) \<noteq> repeat ''02'' 33"
proof -
  have key: "secret_key = 0 # replicate 30 0 @ [1]"
    using replicate_Suc [of 30 "0 :: u8"] by (simp add: secret_key_def)
  have other: "other_key = 2 # replicate 31 2"
    using replicate_Suc [of 31 "2 :: u8"] by (simp add: other_key_def)
  show "test_public_key secret_key \<noteq> test_public_key other_key"
    unfolding key other test_public_key_def by simp
  have "repeat ''02'' 33 = ''0202'' @ repeat ''02'' 31"
    using replicate_Suc [of 32 "''02''"] replicate_Suc [of 31 "''02''"] by (simp add: repeat_def)
  then show "ref_hex_encode (test_public_key secret_key) \<noteq> repeat ''02'' 33"
    by (simp add: key test_public_key_def hex_digit_def)
qed

lemma length_read_hex: "even (length s) \<Longrightarrow> list_all is_hex_lower s \<Longrightarrow> 2 * length (read_hex s) = length s"
  using read_hex_encode [of s] ref_hex_lower [of "read_hex s"] by simp

lemma read_hex_zeros: "read_hex (repeat ''00'' n) = replicate n 0"
proof -
  have "ref_hex_decode (repeat ''00'' n) = Ok (replicate n 0)"
    by (induction n) (simp_all add: repeat_def hex_value_def)
  then show ?thesis by (simp add: read_hex_def)
qed

lemma length_spec_digest [simp]: "length (spec_digest m) = 32"
  using length_read_hex [of SPEC_PAYMENT_HASH] hex_texts(4,8) by (simp add: spec_digest_def tail_digest_def min_def)

lemma spec_digest_tail:
  "length pre \<noteq> 29 \<Longrightarrow> spec_digest (pre @ [a, b, c]) ! 2 = a"
proof -
  assume len: "length pre \<noteq> 29"
  have "length (read_hex SPEC_PREIMAGE) = 32" using length_read_hex [of SPEC_PREIMAGE] hex_texts(3,7) by simp
  moreover have "length (pre @ [a, b, c]) \<noteq> 32" using len by simp
  ultimately have "pre @ [a, b, c] \<noteq> read_hex SPEC_PREIMAGE" by metis
  then show ?thesis by (simp add: spec_digest_def tail_digest_def)
qed

text \<open>The tampered text is no invoice: it holds no colon.\<close>

lemma tampered_not_read: "test_bolt11 tampered_invoice = None"
proof -
  have "CHR '':'' \<notin> set tampered_invoice" by (simp add: tampered_invoice_def SPEC_INVOICE_def)
  then have "read_request tampered_invoice = None"
    by (simp add: read_request_def split_on_field)
  moreover have "tampered_invoice \<noteq> SPEC_INVOICE" by (simp add: tampered_invoice_def SPEC_INVOICE_def)
  ultimately show ?thesis by (simp add: test_bolt11_def)
qed

lemma ex_documented: "documented test_crates ex_test_world"
proof -
  have "repeat ''00'' 32 \<noteq> SPEC_PREIMAGE" "repeat ''00'' 32 \<noteq> SPEC_PAYMENT_HASH"
    by (simp_all add: repeat_def numeral_eq_Suc SPEC_PREIMAGE_def SPEC_PAYMENT_HASH_def)
  moreover have "list_all is_hex_lower (repeat ''00'' 32)"
    using repeat_texts(2) by (simp add: is_lower_hex_digit_eq [abs_def])
  ultimately have zeros: "read_hex (repeat ''00'' 32) \<noteq> read_hex SPEC_PREIMAGE"
    "read_hex (repeat ''00'' 32) \<noteq> read_hex SPEC_PAYMENT_HASH"
    using hex_texts(3,4,7,8) read_hex_inject [of "repeat ''00'' 32"] by auto
  have "tail_digest (read_hex (repeat ''00'' 32)) = read_hex (repeat ''00'' 32)"
    unfolding read_hex_zeros tail_digest_def by simp
  then have hash: "spec_digest (read_hex (repeat ''00'' 32)) \<noteq> read_hex SPEC_PAYMENT_HASH"
    using zeros by (simp add: spec_digest_def)
  have spec: "\<exists>raw. test_bolt11 SPEC_INVOICE = Some raw
      \<and> signed_as (test_public_key secret_key) (spec_request test_crates) raw"
    by (simp add: test_bolt11_def spec_request_def raw_invoice_signed)
  have preimage: "spec_digest (read_hex SPEC_PREIMAGE) = read_hex SPEC_PAYMENT_HASH" by (simp add: spec_digest_def)
  show ?thesis
    unfolding documented_def sha256_length_def
    using test_builds hash test_keys spec preimage tampered_not_read by (simp add: ex_test_world_def)
qed

lemma ex_documented_route: "documented_route test_crates ex_test_world"
proof -
  have "is_ascii (ref_hex_encode bs)" for bs
    using hex_ascii [OF test_laws(2), of bs] by simp
  then show ?thesis using ex_documented by (simp add: documented_route_def)
qed

text \<open>The two requests of the binding test differ in the third byte from the end of their documents.\<close>

lemma ex_hash_language:
  "test_hash test_crates ex_test_world (''/x402?lang='' @ l @ [c]) ! 2 = byte_of_char c"
proof -
  let ?doc = "request_document test_crates ''GET'' (TEST_PUBLIC_URL @ ''/x402?lang='' @ l @ [c]) [] []"
  obtain pre where pre: "print_json ?doc = pre @ ''https://fortune.test/x402?lang='' @ l @ [c, CHR 0x22, CHR ''}'']"
    by (simp add: request_document_members TEST_PUBLIC_URL_def)
  have "test_hash test_crates ex_test_world (''/x402?lang='' @ l @ [c]) = spec_digest (as_bytes (print_json ?doc))"
    unfolding test_hash_def request_digest_def http_request_hash_unbound BOUND_HEADERS_def test_url
    by (simp add: get_request_def)
  also have "\<dots> = spec_digest (as_bytes (pre @ ''https://fortune.test/x402?lang='' @ l)
      @ [byte_of_char c, byte_of_char CHR 0x22, byte_of_char CHR ''}''])"
    unfolding pre by (simp add: as_bytes_def)
  also have "\<dots> ! 2 = byte_of_char c" by (rule spec_digest_tail) simp
  finally show ?thesis .
qed

lemma ex_hashes_differ:
  "test_hash test_crates ex_test_world ''/x402?lang=en'' \<noteq> test_hash test_crates ex_test_world ''/x402?lang=fr''"
proof
  assume eq: "test_hash test_crates ex_test_world ''/x402?lang=en'' = test_hash test_crates ex_test_world ''/x402?lang=fr''"
  have "byte_of_char CHR ''n'' = test_hash test_crates ex_test_world ''/x402?lang=en'' ! 2"
    using ex_hash_language [of "''e''" "CHR ''n''"] by simp
  also have "\<dots> = byte_of_char CHR ''r''"
    unfolding eq using ex_hash_language [of "''f''" "CHR ''r''"] by simp
  finally have "char_of_byte (byte_of_char CHR ''n'') = char_of_byte (byte_of_char CHR ''r'')" by (rule arg_cong)
  then show False by simp
qed

lemma ex_not_base64: "isl (b64_decode test_crates ''not base64!'')"
  by (simp add: ref_b64_decode_def b64_value_def)

section \<open>The test suites\<close>

text \<open>
  C34. The unit tests of the settlement pass: for every library that behaves as documented on their
  inputs, and every world in which two keys have different public keys and the invoice builder, which may
  refuse other requests, signs those within the limits of BOLT11 (hashes of 32 bytes, a timestamp of 35 bits,
  an amount whose picobitcoins fit 64 bits), each of the fifteen tests of \<^verbatim>\<open>lnbtc.rs\<close> holds of the model. So the model agrees with the
  repository's own reading of the rules: the specification's vector settles, once; another request, edited
  fields, a wrong preimage, a wrong invoice and a time outside its window are refused, each with its reason.
\<close>

theorem settlement_tests_pass:
  assumes "documented C W"
  shows "test_network_ids_follow_bip122 W
    \<and> test_signet_invoice_settles_only_on_signet C W \<and> test_spec_vector_settles C W
    \<and> test_spec_vector_passes_issue_checks C W \<and> test_proof_settles_only_once C W
    \<and> test_proof_for_other_request_is_rejected C W \<and> test_missing_or_malformed_binding_is_rejected C W
    \<and> test_core_field_mismatches_are_rejected C W \<and> test_transfer_method_and_flow_are_checked C W
    \<and> test_preimage_is_checked C W \<and> test_expiry_grace_window C W
    \<and> test_invoice_created_in_future_is_rejected C W \<and> test_invoice_mismatches_are_rejected C W
    \<and> test_inline_description_is_rejected C W \<and> test_undecodable_invoice_is_rejected C W"
  using assms
  by (intro conjI network_ids_follow_bip122 signet_invoice_settles_only_on_signet spec_vector_settles spec_vector_passes_issue_checks
      proof_settles_only_once proof_for_other_request_is_rejected missing_or_malformed_binding_is_rejected
      core_field_mismatches_are_rejected transfer_method_and_flow_are_checked preimage_is_checked
      expiry_grace_window invoice_created_in_future_is_rejected invoice_mismatches_are_rejected
      inline_description_is_rejected undecodable_invoice_is_rejected)

theorem settlement_tests_pass_witness:
  "test_proof_settles_only_once test_crates ex_test_world
   \<and> test_invoice_mismatches_are_rejected test_crates ex_test_world"
  using settlement_tests_pass [OF ex_documented] by blast

text \<open>
  C33. The tests of the route pass, each a conversation of a client with \<^verbatim>\<open>/x402\<close> over the header
  encoding: for every library that behaves as documented on ASCII documents of at most 127 levels and
  invoices within the limits of BOLT11, and clocks that stay within a minute, the
  challenge describes the request; a client that pays it is served a fortune and its proof is then refused as a
  duplicate; a proof for one URL is refused for another, unless the two have the same request hash, and is
  not used up by that; and a header that is no base64 or of another version gets 400.
\<close>

theorem route_tests_pass:
  assumes "documented_route C W" "isl (b64_decode C ''not base64!'')"
    and "test_hash C W ''/x402?lang=en'' \<noteq> test_hash C W ''/x402?lang=fr''"
    and "runs_in_minute start e" "runs_in_minute start e'" "runs_in_minute start e''"
  shows "test_challenge_describes_request C W e \<and> test_paid_request_gets_fortune_once C W e e' e''
    \<and> test_proof_is_bound_to_its_request C W e e' e'' \<and> test_malformed_payment_is_bad_request C W e e'"
  using challenge_describes_request [OF assms(1,4)] paid_request_gets_fortune_once [OF assms(1,4-6)]
    proof_is_bound_to_its_request [OF assms(1,4-6,3)] malformed_payment_is_bad_request [OF assms(1,2)]
  by blast

theorem route_tests_pass_witness:
  "test_paid_request_gets_fortune_once test_crates ex_test_world (1000, ex_env 1000000000000)
     (1010, ex_env 1010000000000) (1020, ex_env 1020000000000)"
proof -
  have "runs_in_minute 1000 (1000, ex_env 1000000000000)" "runs_in_minute 1000 (1010, ex_env 1010000000000)"
    "runs_in_minute 1000 (1020, ex_env 1020000000000)"
    by (simp_all add: runs_in_minute_def in_minute_def ex_env_def unix_now_def in_range_def)
  from route_tests_pass [OF ex_documented_route ex_not_base64 ex_hashes_differ this] show ?thesis by blast
qed

end
