(* ===== verification/Spec2Isabelle.thy ===== *)
theory Spec2Isabelle
  imports Lnbtc_Order Server_Runs Module_Tests Test_World
begin

text \<open>
  fortune-402: a server that sells fortune cookies for Lightning payments, by the L402 protocol on
  \<^verbatim>\<open>/fortune\<close> and by x402 with the Lightning \<^verbatim>\<open>exact\<close> scheme on \<^verbatim>\<open>/x402\<close>. This development is a
  shallow embedding of its Rust sources (paths below are under \<^verbatim>\<open>src/src/\<close>) with the theorems that
  make it correct.

  The program and its parts. \<^verbatim>\<open>main.rs\<close> reads the configuration from the environment
  (\<^verbatim>\<open>config.rs\<close>), connects to the node (\<^verbatim>\<open>lnd.rs\<close>), sets up \<^verbatim>\<open>/x402\<close> when it is configured, binds the
  listener, tells the service manager (\<^verbatim>\<open>systemd.rs\<close>) and serves until Ctrl+C or SIGTERM; its subcommand
  \<^verbatim>\<open>health-check\<close> probes a running server. \<^verbatim>\<open>handlers.rs\<close> serves \<^verbatim>\<open>/fortune\<close>: without credentials it asks the node for an
  invoice and answers 402 with a token (\<^verbatim>\<open>token.rs\<close>) for its payment hash; with them it checks the token's
  signature and the preimage (\<^verbatim>\<open>l402.rs\<close>). \<^verbatim>\<open>x402/handler.rs\<close> serves \<^verbatim>\<open>/x402\<close>: it hashes the request
  (\<^verbatim>\<open>x402/binding.rs\<close>), and either challenges with an invoice bound to the hash, or settles the payment of
  the request (\<^verbatim>\<open>x402/lnbtc.rs\<close>) by verifying it and consuming its key in the replay store
  (\<^verbatim>\<open>replay.rs\<close>), which a background task prunes.

  The theories, in the order of the code.
  \<^item> \<open>Prelude\<close>: machine integers, byte strings, results, and the parts of the standard library.
  \<^item> \<open>Crates\<close>: JSON documents, headers, parsed invoices, and the record \<open>crates\<close> of the library
    functions whose source is not in the repository, with the documented laws that theorems name;
    the locale \<open>codec\<close>. \<open>Reference_Crates\<close> has concrete functions that satisfy all these laws
    together, and the invoice of the examples.
  \<^item> \<open>App_Error\<close> (\<^verbatim>\<open>error.rs\<close>), \<open>Token\<close> (\<^verbatim>\<open>token.rs\<close>), \<open>L402_Auth\<close> (\<^verbatim>\<open>l402.rs\<close>), \<open>Net_Addr\<close> (the socket
    addresses of the standard library), \<open>Config\<close> (\<^verbatim>\<open>config.rs\<close>), \<open>Fortunes\<close> (\<^verbatim>\<open>fortunes.rs\<close>), \<open>Lnd_Client\<close>
    (\<^verbatim>\<open>lnd.rs\<close>), \<open>Handlers\<close> (\<^verbatim>\<open>handlers.rs\<close>).
  \<^item> \<open>Replay_Log\<close>: the locale \<open>replay_log\<close>, the contract of the replay store; \<open>Replay\<close> (\<^verbatim>\<open>replay.rs\<close>): the
    SQLite table as the list of its rows, which is proved to satisfy the contract.
  \<^item> \<open>Binding\<close> (\<^verbatim>\<open>x402/binding.rs\<close>), \<open>X402_Types\<close> (\<^verbatim>\<open>x402/types.rs\<close>, with the derived serialisers written
    out), \<open>Lnbtc_Types\<close>, \<open>Invoice\<close>, \<open>Lnbtc\<close> (\<^verbatim>\<open>x402/lnbtc.rs\<close>), \<open>X402_Handler\<close> (\<^verbatim>\<open>x402/handler.rs\<close>).
  \<^item> \<open>Paywall\<close>: the locale \<open>paywall\<close>, the contract of a paid route, which both routes are proved to
    satisfy.
  \<^item> \<open>Systemd\<close> (\<^verbatim>\<open>systemd.rs\<close>), \<open>Std_Text\<close> (the text functions of the standard library that the probe
    uses), \<open>Health_Probe\<close> (\<^verbatim>\<open>health_probe\<close> of \<^verbatim>\<open>main.rs\<close>: calls that take time or hang, and the deadline),
    \<open>Main_App\<close> (the rest of \<^verbatim>\<open>main.rs\<close>: arguments, startup, routes, the shutdown signals, and \<open>run_main\<close>, which
    gives the end of the process and what its main task did to the outside; the pings of the watchdog
    task, which go on beside it, are in \<open>Systemd\<close>).
  \<^item> \<open>Lnbtc_Order\<close>: the specification of the settlement checks as an ordered table, and \<open>verify\<close> as
    its refinement. \<open>Settlement\<close>: the concurrent server as a step relation, its invariant, and the
    handler as its refinement. \<open>Server_Runs\<close>: runs of the whole process over requests, ticks of the pruner
    and restarts with other settings, and their simulation by \<open>Settlement\<close>.
    A restart opens the same database file.
  \<^item> \<open>Module_Tests\<close>, \<open>Lnbtc_Tests\<close>, \<open>Handler_Tests\<close>: the unit tests of the repository, each a predicate on the
    model and proved to hold for every library that behaves as documented on its inputs (\<open>documented\<close>,
    \<open>documented_route\<close>); \<open>Test_World\<close>: such a library, with a codec of JSON documents and of invoices, and
    the two suites as properties. They tie the definitions to what the authors expect of the code.
  \<^item> This theory: runs of the whole server, and the properties that span both routes.

  How the model corresponds to the code. A struct is a record, an enum a datatype, a \<^verbatim>\<open>u64\<close> or
  \<^verbatim>\<open>i64\<close> a 64-bit word (signed where it is read with \<^term>\<open>sint\<close>), a \<^verbatim>\<open>String\<close> the list of its UTF-8
  bytes, a \<^verbatim>\<open>Result\<close> a sum, and the body of a handler an outcome that returns, fails or panics. The
  state of the node is a type variable that its calls transform; the state of the store is its table; the
  mutexes around both make each call one step. Clock readings, random numbers and faults of the
  database are arguments. A function of the code is a definition of the same name, except where the
  name is taken: \<open>l402_get_fortune\<close> and \<open>x402_get_fortune\<close> are the two \<^verbatim>\<open>get_fortune\<close>, \<open>token_verify\<close> is
  \<^verbatim>\<open>Token::verify\<close>, \<open>invoice_end\<close> is \<^verbatim>\<open>Invoice::end\<close>, \<open>x402_terms\<close> is \<^verbatim>\<open>X402State::terms\<close>. Long functions are
  split at their numbered steps (\<open>check_core\<close> and \<open>check_preimage\<close> of \<open>verify\<close>; \<open>parse_signature\<close>,
  \<open>settled_response\<close> and \<open>challenge_response\<close> of the handler).

  What the lemmas show. The \<open>_Ok\<close> lemmas of a theory characterise when an operation succeeds and
  are collected in \<open>result_simps\<close>; the \<open>_Return\<close> lemmas do so for handlers. The laws of the store
  (\<open>replay\<close>), of the routes (\<open>l402_route\<close>, \<open>x402_route\<close>) and of the codecs (\<open>decimal\<close>, \<open>token_wire\<close>,
  \<open>requirements_wire\<close>) come from the interpretations. Each property is a theorem after a text that
  names it, followed by a witness: the property at a concrete input where its hypotheses hold.

  Bounds. No definition of the program uses fuel: all loops of the code run over finite data, and
  \<open>split_whitespace\<close> ends because each word it takes is not empty (\<open>get_json\<close> of the test world has the
  length of its input as fuel, which its round trip shows to be enough). Times saturate at the largest
  \<^verbatim>\<open>u64\<close>, and the replay store clamps them to the largest \<^verbatim>\<open>i64\<close>, as in the code. The deadline of the
  probe is 5000 milliseconds. \<open>Settlement\<close> and \<open>Server_Runs\<close> take the pruner's clock to be ahead of the
  clock of any request by at most the retention time of an hour less the spread of the clock skews that
  the settings of the restarts allow (\<open>within_retention\<close>); \<open>skew_increase_reopens\<close> shows that some such
  bound is needed. The tests of the route take each to last at most a minute, and ask of the JSON library
  only documents of at most 127 levels, and of the invoice builder only requests within the limits of BOLT11
  (\<open>buildable\<close>). \<^verbatim>\<open>/x402\<close> takes bodies of at most two megabytes, the default of the framework.

  What is not modelled: logging and tracing; the TCP, TLS and HTTP exchange and the async runtime, whose
  calls are arguments that end after some time or never; the cross-origin middleware (but for its
  configuration); the reading of a \<^verbatim>\<open>.env\<close> file, whose result is an argument; the insides of the
  cryptography, of the encoders, of the JSON text and of the BOLT11 parser, which are fields of
  \<open>crates\<close>; the gRPC node; the SQLite engine below its two statements; the lock of the store (\<^verbatim>\<open>fn lock\<close>), which
  is what makes a statement one step, and its poisoning; the variants for systems other than unix; and of the
  tests the temporary files, the sockets and the helpers around them. Of the async runtime, \<^verbatim>\<open>select!\<close>, the
  ticker and \<^verbatim>\<open>axum::serve\<close> are arguments with their documented behaviour as named hypotheses
  (\<open>selects_first\<close>, \<open>ticks_on_time\<close>, \<open>serves_gracefully\<close>); the deadline of the probe (\<open>timeout\<close>) is a
  definition of the documented behaviour on calls that take time.

  Left for later: the order of invoices that concurrent challenges ask the node for, and the values of
  the environment in other encodings.
\<close>

section \<open>Runs of the server\<close>

text \<open>The state after one request of a run, where the router may answer by itself.\<close>

definition serve_state :: "crates \<Rightarrow> 'w app \<Rightarrow> x402_env \<times> request \<Rightarrow> 'w \<times> table \<Rightarrow> 'w \<times> table" where
  "serve_state C app q st =
     (case serve C app (fst q) (snd q) st of None \<Rightarrow> st | Some (_, st') \<Rightarrow> st')"

lemma serve_cases:
  assumes "serve C app env rq st = Some (out, st')"
  obtains (static) "rq_path rq \<in> {''/'', ''/health''}" "out \<in> {Return index_page, Return health}" "st' = st"
  | (fortune) "rq_path rq = ''/fortune''"
      "l402_get_fortune C (app_rpc app) (app_config app) (e_random env) (rq_headers rq) (fst st) = (out, fst st')"
      "snd st' = snd st"
  | (x402) x where "rq_path rq = ''/x402''" "app_x402 app = Some x"
      "x402_get_fortune C (app_issue (app_rpc app)) x env rq st = (out, st')"
  using assms
  by (auto simp: serve_def app_routes_def x402_router_def split: if_split_asm prod.split_asm option.split_asm)

lemma serve_keeps_wf:
  assumes "table_wf (snd st)"
  shows "table_wf (snd (serve_state C app q st))"
proof (cases "serve C app (fst q) (snd q) st")
  case None
  then show ?thesis using assms by (simp add: serve_state_def)
next
  case (Some a)
  then obtain out st' where run: "serve C app (fst q) (snd q) st = Some (out, st')" by (cases a) auto
  then show ?thesis
  proof (cases rule: serve_cases)
    case (x402 x)
    then show ?thesis
      using run x402_route.keeps [where C = C and issue = "app_issue (app_rpc app)" and x = x and s = st and q = q] assms by (simp add: serve_state_def)
  qed (use run assms in \<open>simp_all add: serve_state_def\<close>)
qed

lemma run_keeps_wf: "table_wf (snd st) \<Longrightarrow> table_wf (snd (fold (serve_state C app) qs st))"
  by (induction qs arbitrary: st) (simp_all add: serve_keeps_wf)

section \<open>Properties\<close>

text \<open>
  C5. No fortune without payment, over whole runs: after any sequence of requests to a server whose
  store started well-formed, a request to one of the two paid routes is answered 200 only when it
  pays in the sense of that route: \<^verbatim>\<open>/fortune\<close> with an L402 proof under the server's key, and it
  changes nothing in the replay store; \<^verbatim>\<open>/x402\<close>, where it is enabled, with a payment that is verified
  for this request and not yet in the store.
\<close>

theorem no_fortune_unpaid:
  assumes "table_wf (snd st0)" and "st = fold (serve_state C app) qs st0"
    and "serve C app env rq st = Some (out, st')" "deliver out = Some r" "status r = 200"
    and "rq_path rq \<in> {''/fortune'', ''/x402''}"
  shows "(rq_path rq = ''/fortune'' \<and> l402_paid C (root_key (app_config app)) (rq_headers rq)
       \<and> snd st' = snd st)
    \<or> (\<exists>x. rq_path rq = ''/x402'' \<and> app_x402 app = Some x \<and> x402_paid C x env rq (snd st))"
proof -
  have ok: "status r = OK_STATUS" using assms(5) by (simp add: OK_STATUS_def)
  have wf: "table_wf (snd st)" using assms(1,2) run_keeps_wf by blast
  from assms(3) show ?thesis
  proof (cases rule: serve_cases)
    case static
    then show ?thesis using assms(6) by auto
  next
    case fortune
    then show ?thesis
      using l402_route.answer_paid [where C = C and rpc = "app_rpc app" and cfg = "app_config app"
          and q = "(e_random env, rq_headers rq)" and s = "fst st" and s' = "fst st'", OF TrueI _ assms(4) ok]
      by simp
  next
    case (x402 x)
    then show ?thesis
      using x402_route.answer_paid [where C = C and issue = "app_issue (app_rpc app)" and x = x
          and q = "(env, rq)" and s' = st', OF wf _ assms(4) ok]
      by simp
  qed
qed

theorem no_fortune_unpaid_witness:
  "\<exists>x. app_x402 ex_app = Some x
     \<and> x402_paid ex_world x (ex_env 1100000000000) (ex_request [(''payment-signature'', ex_signature)]) []"
proof -
  obtain r where run: "serve ex_world ex_app (ex_env 1100000000000)
       (ex_request [(''payment-signature'', ex_signature)]) (0, []) = Some (Return r, 0, [(ex_key, to_sql_time 4960)])"
    "status r = OK_STATUS"
    using serve_ex_paid by blast
  from no_fortune_unpaid [where qs = "[]" and st0 = "(0, [])", OF _ _ run(1)] run(2) show ?thesis
    by (auto simp: deliver_def table_wf_def OK_STATUS_def ex_request_def)
qed

text \<open>
  C22. The two payment schemes are separate: a request to \<^verbatim>\<open>/x402\<close> without a payment header is never
  answered 200, whatever L402 credentials it carries; a request to \<^verbatim>\<open>/fortune\<close> without an
  \<^verbatim>\<open>authorization\<close> header is never answered 200, whatever x402 payment it carries, and no request
  to \<^verbatim>\<open>/fortune\<close> touches the replay store.
\<close>

theorem routes_are_separate:
  assumes "serve C app env rq st = Some (out, st')" "table_wf (snd st)"
  shows "(rq_path rq = ''/x402'' \<and> header_get (rq_headers rq) ''payment-signature'' = None \<longrightarrow>
       map_option status (deliver out) \<noteq> Some 200)
    \<and> (rq_path rq = ''/fortune'' \<longrightarrow> snd st' = snd st
       \<and> (header_get (rq_headers rq) ''authorization'' = None \<longrightarrow> map_option status (deliver out) \<noteq> Some 200))"
  using assms(1)
proof (cases rule: serve_cases)
  case static
  then show ?thesis by auto
next
  case fortune
  have "\<not> l402_paid C (root_key (app_config app)) (rq_headers rq)"
    if "header_get (rq_headers rq) ''authorization'' = None"
    using that by (simp add: l402_paid_def)
  then show ?thesis
    using fortune l402_route.answer_paid [where C = C and rpc = "app_rpc app" and cfg = "app_config app"
          and q = "(e_random env, rq_headers rq)" and s = "fst st" and s' = "fst st'" and out = out]
    by (auto simp: OK_STATUS_def)
next
  case (x402 x)
  have "\<not> x402_paid C x env rq (snd st)" if "header_get (rq_headers rq) ''payment-signature'' = None"
    using that by (simp add: x402_paid_def PAYMENT_SIGNATURE_def)
  then show ?thesis
    using x402 x402_route.answer_paid [where C = C and issue = "app_issue (app_rpc app)" and x = x
          and q = "(env, rq)" and s = st and s' = st' and out = out] assms(2)
    by (auto simp: OK_STATUS_def)
qed

theorem routes_are_separate_witness:
  "map_option status (deliver (fst (the (serve ex_world ex_app (ex_env 0)
      (ex_request [(''authorization'', as_bytes ''L402 abc:00'')]) (0, []))))) \<noteq> Some 200"
proof -
  let ?rq = "ex_request [(''authorization'', as_bytes ''L402 abc:00'')]"
  obtain out st' where run: "serve ex_world ex_app (ex_env 0) ?rq (0, []) = Some (out, st')"
    by (cases "x402_get_fortune ex_world (app_issue ex_rpc) ex_x402 (ex_env 0) ?rq (0, [])")
       (simp add: serve_ex_x402)
  from routes_are_separate [OF run] run show ?thesis
    by (simp add: table_wf_def ex_request_def header_get_def)
qed

text \<open>
  The vocabulary of the server: whatever a request is, the status of the answer of a handler is one
  of 200, 400, 401, 402 and 500; and when the handler drops the connection, it is by one of the
  panics of the model.
\<close>

lemma answers_have_known_status:
  assumes "serve C app env rq st = Some (out, st')"
  shows "case deliver out of
      Some r \<Rightarrow> status r \<in> {200, 400, 401, 402, 500}
    | None \<Rightarrow> \<exists>msg. out = Panic msg"
  using assms
proof (cases rule: serve_cases)
  case static
  then show ?thesis by (auto simp: deliver_def index_page_def health_def OK_STATUS_def)
next
  case fortune
  then show ?thesis
    using l402_route.answer_status [where C = C and rpc = "app_rpc app" and cfg = "app_config app"
          and q = "(e_random env, rq_headers rq)" and s = "fst st" and s' = "fst st'" and out = out]
    by (cases out) (auto simp: deliver_def)
next
  case (x402 x)
  then show ?thesis
    using x402_route.answer_status [where C = C and issue = "app_issue (app_rpc app)" and x = x
          and q = "(env, rq)" and s = st and s' = st' and out = out]
    by (cases out) (auto simp: deliver_def)
qed

lemma answers_have_known_status_example:
  "\<exists>r. deliver (fst (the (serve ex_world ex_app (ex_env 0)
      ((ex_request [])\<lparr>rq_path := ''/health''\<rparr>) (0, [])))) = Some r \<and> status r \<in> {200, 400, 401, 402, 500}"
proof -
  have run: "serve ex_world ex_app (ex_env 0) ((ex_request [])\<lparr>rq_path := ''/health''\<rparr>) (0, []) = Some (Return health, 0, [])"
    by (simp add: serve_def app_routes_def ex_request_def)
  from answers_have_known_status [OF run] run show ?thesis by (simp add: deliver_def)
qed

text \<open>
  C39. When \<^verbatim>\<open>/x402\<close> is there: a server that started has the route iff \<^verbatim>\<open>PUBLIC_URL\<close> was set and the
  node is on one of the three supported networks; it then asks for the node's own key, and binds
  payments to the configured public URL.
\<close>

theorem x402_enabled_iff:
  assumes "startup C key dial open_store env = Ok (app, w, store)"
  shows "(map_of (app_routes (app_x402 app \<noteq> None)) ''/x402'' \<noteq> None) = (app_x402 app \<noteq> None)
    \<and> (app_x402 app \<noteq> None) =
        (env ''PUBLIC_URL'' \<noteq> None
         \<and> (\<exists>w0 info n. fst (get_info (app_rpc app) w0) = Ok info \<and> network_from_lnd (ni_network info) = Some n
              \<and> dial (lnd_address (app_config app)) (lnd_cert_path (app_config app))
                    (lnd_macaroon_path (app_config app)) = Ok (app_rpc app, w0)))
    \<and> (case app_x402 app of None \<Rightarrow> True
       | Some x \<Rightarrow> \<exists>url. env ''PUBLIC_URL'' = Some url \<and> parse_public_url C url = Ok (x_public_url x))"
proof -
  from assms obtain w0 where c: "from_env C key env = Ok (app_config app)"
    "connect dial (app_config app) = Ok (app_rpc app, w0)"
    and x: "x402_from_app C (app_rpc app) (app_config app) open_store w0 =
       (Ok (map_option (\<lambda>x. (x, store)) (app_x402 app)), w)"
    by (rule startup_Ok)
  have dial: "dial (lnd_address (app_config app)) (lnd_cert_path (app_config app))
      (lnd_macaroon_path (app_config app)) = Ok (app_rpc app, w0)"
    using c(2) by (simp add: connect_Ok)
  have env: "x402_from_env C env = Ok (x402 (app_config app))" using c(1) by (simp add: from_env_Ok)
  show ?thesis
  proof (cases "app_x402 app")
    case None
    then have "x402 (app_config app) = None \<or>
        (\<exists>info. fst (get_info (app_rpc app) w0) = Ok info \<and> network_from_lnd (ni_network info) = None)"
      using x by (auto simp: x402_from_app_def result_simps split: option.split_asm prod.split_asm sum.split_asm)
    then show ?thesis
      using None dial env by (auto simp: app_routes_def x402_from_env_None)
  next
    case (Some xs)
    with x have "x402_from_app C (app_rpc app) (app_config app) open_store w0 = (Ok (Some (xs, store)), w)"
      by simp
    then obtain xc info where "x402 (app_config app) = Some xc" "get_info (app_rpc app) w0 = (Ok info, w)"
      "network_from_lnd (ni_network info) = Some (x_network xs)" "x_public_url xs = public_url xc"
      by (rule x402_from_app_Some)
    moreover have "\<exists>url. env ''PUBLIC_URL'' = Some url \<and> parse_public_url C url = Ok (public_url xc)"
      using x402_from_env_Some env calculation(1) by simp
    ultimately show ?thesis
      using Some dial by (auto simp: app_routes_def x402_router_def)
  qed
qed

theorem x402_enabled_iff_witness:
  "\<exists>app. startup (ref_crates [] []) (replicate 32 1) (\<lambda>_ _ _. Ok (ex_rpc, 0)) (\<lambda>_. Ok [])
      [''LND_CERT_PATH'' \<mapsto> ''c'', ''LND_MACAROON_PATH'' \<mapsto> ''m''] = Ok (app, 0, [])
    \<and> map_of (app_routes (app_x402 app \<noteq> None)) ''/x402'' = None"
proof -
  let ?env = "[''LND_CERT_PATH'' \<mapsto> ''c'', ''LND_MACAROON_PATH'' \<mapsto> ''m'']"
  have "startup (ref_crates [] []) (replicate 32 1) (\<lambda>_ _ _. Ok (ex_rpc, 0)) (\<lambda>_. Ok []) ?env =
      Ok (\<lparr>app_config = default_settings ''c'' ''m'' (replicate 32 1), app_rpc = ex_rpc, app_x402 = None\<rparr>, 0, [])"
    by (simp add: startup_def from_env_default connect_def x402_from_app_def default_settings_def)
  with x402_enabled_iff [OF this] show ?thesis by auto
qed

end
